(* ===== verification/Muninn_Prelude.thy ===== *)
theory Muninn_Prelude
  imports Main "HOL-Library.Word" "HOL-Library.Multiset"
begin

text \<open>
  Shared ground of the development: the machine types of the Go program, the clock and
  the duration arithmetic of package \<^verbatim>\<open>time\<close>, the error-or-value result of a Go call
  that returns \<^verbatim>\<open>(T, error)\<close>, and the generic list and map lemmas the components use.

  Go's \<^verbatim>\<open>int\<close> and \<^verbatim>\<open>int64\<close> (both 64 bits wide on the platforms the program is built
  for) are \<open>64 word\<close>: addition and multiplication wrap around, comparisons are the signed
  ones (\<open><s\<close>, \<open>\<le>s\<close>). Go strings and byte slices are byte sequences; a \<open>char\<close> of HOL is
  one byte, so both are \<open>string\<close>.
\<close>

named_theorems inv_intros \<open>preservation lemmas of the store invariants\<close>
named_theorems handler_defs \<open>definitions of the HTTP handlers that make one store call\<close>

declare Let_def [simp]

type_synonym int64 = "64 word"
type_synonym bytes = "char list"

text \<open>
  A \<^verbatim>\<open>time.Time\<close> in UTC is its distance to the Unix epoch in nanoseconds; a
  \<^verbatim>\<open>time.Duration\<close> is an \<^verbatim>\<open>int64\<close> count of nanoseconds.
\<close>

type_synonym time = int
type_synonym duration = int64

definition time_Second :: duration where
  "time_Second = 1000000000"

text \<open>\<^verbatim>\<open>Time.Sub\<close> saturates at the ends of the \<^verbatim>\<open>Duration\<close> range; \<^verbatim>\<open>Time.Unix\<close> is the floor in
  seconds; \<^verbatim>\<open>time.Unix(sec, 0)\<close> is its converse.\<close>

definition time_Sub :: "time \<Rightarrow> time \<Rightarrow> duration" where
  "time_Sub t u = word_of_int (max (- (2 ^ 63)) (min (2 ^ 63 - 1) (t - u)))"

definition time_Unix :: "time \<Rightarrow> int64" where
  "time_Unix t = word_of_int (t div 1000000000)"

definition unix_time :: "int64 \<Rightarrow> time" where
  "unix_time s = sint s * 1000000000"

text \<open>A call that returns \<^verbatim>\<open>(T, error)\<close> and may change the state it is invoked on.\<close>

type_synonym ('e, 's, 'a) call = "'s \<Rightarrow> ('e + 'a) \<times> 's"

subsection \<open>Words\<close>

lemma sint64_range: "- (2 ^ 63) \<le> sint (x :: int64)" "sint (x :: int64) < 2 ^ 63"
  using sint_ge [of x] sint_lt [of x] by simp_all

lemma sint64_of_int:
  "- (2 ^ 63) \<le> n \<Longrightarrow> n < 2 ^ 63 \<Longrightarrow> sint (word_of_int n :: int64) = n"
  by (simp add: signed_of_int signed_take_bit_int_eq_self)

lemma sint_time_Sub: "sint (time_Sub t u) = max (- (2 ^ 63)) (min (2 ^ 63 - 1) (t - u))"
  unfolding time_Sub_def by (rule sint64_of_int) auto

lemma unat_nat_sint:
  assumes "0 <s (n :: int64)"
  shows "unat n = nat (sint n)"
proof -
  have "0 \<le> sint n" using assms by (simp add: word_sless_alt)
  then have "take_bit 64 (sint n) = sint n"
    using sint64_range [of n] by (simp add: take_bit_int_eq_self)
  then have "uint n = sint n" by (simp add: uint_sint)
  then show ?thesis by (simp add: unat_eq_nat_uint)
qed

lemma sint64_add:
  "- (2 ^ 63) \<le> sint x + sint y \<Longrightarrow> sint x + sint y < 2 ^ 63 \<Longrightarrow> sint (x + y :: int64) = sint x + sint y"
  by (simp add: sint_word_ariths signed_take_bit_int_eq_self)

lemma sint64_add_wraps:
  assumes "2 ^ 63 \<le> sint x + sint (y :: int64)"
  shows "sint (x + y) = sint x + sint y - 2 ^ 64"
proof -
  have "x + y = word_of_int (sint x + sint y - 2 ^ 64)" by simp
  then show ?thesis
    using assms sint64_range [of x] sint64_range [of y] by (simp only:) (rule sint64_of_int; simp)
qed

subsection \<open>Lists and maps\<close>

lemma remove1_split:
  "remove1 x (ys @ x # zs) = ys @ zs" if "x \<notin> set ys"
  using that by (simp add: remove1_append)

lemma find_Some_iff_mem: "List.find P xs = Some x \<Longrightarrow> x \<in> set xs \<and> P x"
  by (induction xs) (auto split: if_splits)

lemma find_None_set: "List.find P xs = None \<longleftrightarrow> (\<forall>x \<in> set xs. \<not> P x)"
  by (induction xs) auto

lemma map_filter_fun_upd_notin:
  "k \<notin> set ks \<Longrightarrow> List.map_filter (m(k \<mapsto> v)) ks = List.map_filter m ks"
  by (induction ks) (auto simp: List.map_filter_simps split: option.splits)

lemma list_all2_update:
  assumes "\<And>x. P x x" and "P (xs ! i) y"
  shows "list_all2 P xs (xs[i := y])"
  using assms by (cases "i < length xs") (auto simp: list_all2_conv_all_nth nth_list_update)

lemma find_append: "List.find P (xs @ ys) = (case List.find P xs of None \<Rightarrow> List.find P ys | Some x \<Rightarrow> Some x)"
  by (induction xs) auto

text \<open>At most one element of a list with distinct keys has a given key.\<close>

lemma length_filter_key:
  assumes "distinct (map f xs)"
  shows "length (filter (\<lambda>x. f x = k) xs) \<le> 1"
  using assms
proof (induction xs)
  case (Cons x xs)
  then show ?case by (cases "f x = k") (auto simp: filter_empty_conv image_iff)
qed simp

lemma update_unique:
  assumes "length (filter P xs) \<le> 1" and "i < length xs" and "P (xs ! i)"
  shows "map (\<lambda>x. if P x then f x else x) xs = xs[i := f (xs ! i)]"
  using assms
proof (induction xs arbitrary: i)
  case (Cons x xs)
  show ?case
  proof (cases i)
    case 0
    then have "\<forall>y \<in> set xs. \<not> P y" using Cons.prems by (simp add: filter_empty_conv)
    then have "map (\<lambda>x. if P x then f x else x) xs = xs" by (intro map_idI) simp
    then show ?thesis using 0 Cons.prems by simp
  next
    case (Suc j)
    then have "xs ! j \<in> set (filter P xs)" using Cons.prems by simp
    then have "\<not> P x" using Cons.prems(1) by (auto simp: le_Suc_eq filter_empty_conv)
    then show ?thesis using Cons Suc by simp
  qed
qed simp

lemma insort_map: "insort_key f (g x) (map g xs) = map g (insort_key (\<lambda>x. f (g x)) x xs)"
  by (induction xs) auto

lemma sort_key_map: "sort_key f (map g xs) = map g (sort_key (\<lambda>x. f (g x)) xs)"
  by (induction xs) (simp_all add: insort_map)

end
