(* ===== verification/Go_Strings.thy ===== *)
theory Go_Strings
  imports Muninn_Prelude
begin

text \<open>
  The parts of Go's \<^verbatim>\<open>strings\<close> and \<^verbatim>\<open>strconv\<close> packages that the program calls, on byte
  strings: \<^verbatim>\<open>strings.TrimSpace\<close>, \<^verbatim>\<open>strings.ToLower\<close>, \<^verbatim>\<open>strings.SplitN(s, sep, 2)\<close>,
  \<^verbatim>\<open>strconv.Itoa\<close> and \<^verbatim>\<open>strconv.Atoi\<close> (with the values it returns beside an error).
\<close>

subsection \<open>strings.TrimSpace\<close>

text \<open>
  The UTF-8 encodings of the runes for which \<^verbatim>\<open>unicode.IsSpace\<close> holds. A space rune stands
  at the front (at the back) of a Go string exactly if one of these byte sequences is a
  prefix (a suffix) of it: an ill-formed sequence decodes to U+FFFD, which is no space.
\<close>

definition space_encodings :: "bytes list" where
  "space_encodings =
     map (\<lambda>c. [c]) [CHR 0x09, CHR 0x0A, CHR 0x0B, CHR 0x0C, CHR 0x0D, CHR 0x20] @
     [[CHR 0xC2, CHR 0x85], [CHR 0xC2, CHR 0xA0], [CHR 0xE1, CHR 0x9A, CHR 0x80]] @
     map (\<lambda>c. [CHR 0xE2, CHR 0x80, c])
       [CHR 0x80, CHR 0x81, CHR 0x82, CHR 0x83, CHR 0x84, CHR 0x85, CHR 0x86, CHR 0x87,
        CHR 0x88, CHR 0x89, CHR 0x8A, CHR 0xA8, CHR 0xA9, CHR 0xAF] @
     [[CHR 0xE2, CHR 0x81, CHR 0x9F], [CHR 0xE3, CHR 0x80, CHR 0x80]]"

fun strip_prefix :: "'a list \<Rightarrow> 'a list \<Rightarrow> 'a list option" where
  "strip_prefix [] s = Some s"
| "strip_prefix (p # ps) [] = None"
| "strip_prefix (p # ps) (c # cs) = (if p = c then strip_prefix ps cs else None)"

fun strip_any :: "'a list list \<Rightarrow> 'a list \<Rightarrow> 'a list option" where
  "strip_any [] s = None"
| "strip_any (e # es) s =
     (case strip_prefix e s of Some r \<Rightarrow> Some r | None \<Rightarrow> strip_any es s)"

function trim_start :: "'a list list \<Rightarrow> 'a list \<Rightarrow> 'a list" where
  "trim_start es s =
     (case strip_any es s of
        None \<Rightarrow> s
      | Some r \<Rightarrow> if length r < length s then trim_start es r else s)"
  by pat_completeness auto
termination
  by (relation "measure (\<lambda>(es, s). length s)") auto

declare trim_start.simps [simp del]

definition trim_end :: "'a list list \<Rightarrow> 'a list \<Rightarrow> 'a list" where
  "trim_end es s = rev (trim_start (map rev es) (rev s))"

definition TrimSpace :: "string \<Rightarrow> string" where
  "TrimSpace s = trim_end space_encodings (trim_start space_encodings s)"

subsection \<open>strings.ToLower\<close>

text \<open>
  On a string of ASCII bytes \<^verbatim>\<open>ToLower\<close> maps the letters A to Z. On any other string it maps
  every rune through the Unicode tables, which is the parameter \<open>U\<close>.
\<close>

definition isASCII :: "string \<Rightarrow> bool" where
  "isASCII s = list_all (\<lambda>c. of_char c < (128 :: nat)) s"

definition ascii_lower :: "char \<Rightarrow> char" where
  "ascii_lower c =
     (let n = of_char c :: nat in if 65 \<le> n \<and> n \<le> 90 then char_of (n + 32) else c)"

definition ToLower :: "(string \<Rightarrow> string) \<Rightarrow> string \<Rightarrow> string" where
  "ToLower U s = (if isASCII s then map ascii_lower s else U s)"

subsection \<open>strings.SplitN with a one-byte separator and the limit 2\<close>

definition SplitN2 :: "string \<Rightarrow> char \<Rightarrow> string list" where
  "SplitN2 s c =
     (if c \<in> set s then [takeWhile (\<lambda>x. x \<noteq> c) s, tl (dropWhile (\<lambda>x. x \<noteq> c) s)] else [s])"

subsection \<open>strconv.Itoa and strconv.Atoi\<close>

definition digit_char :: "nat \<Rightarrow> char" where
  "digit_char d = char_of (48 + d)"

definition digit_val :: "char \<Rightarrow> nat" where
  "digit_val c = of_char c - 48"

definition is_digit :: "char \<Rightarrow> bool" where
  "is_digit c = (48 \<le> (of_char c :: nat) \<and> (of_char c :: nat) \<le> 57)"

fun nat_dec :: "nat \<Rightarrow> string" where
  "nat_dec n = (if n < 10 then [digit_char n] else nat_dec (n div 10) @ [digit_char (n mod 10)])"

declare nat_dec.simps [simp del]

definition Itoa :: "int64 \<Rightarrow> string" where
  "Itoa x =
     (if sint x < 0 then CHR ''-'' # nat_dec (nat (- sint x)) else nat_dec (nat (sint x)))"

datatype num_error = ErrSyntax | ErrRange

text \<open>\<^verbatim>\<open>ParseUint\<close> in base 10: the digits are read left to right and the first byte that is no
  digit, or the first digit that leaves the 64-bit range, ends the loop.\<close>

fun parse_uint :: "nat \<Rightarrow> string \<Rightarrow> num_error + nat" where
  "parse_uint n [] = Inr n"
| "parse_uint n (c # cs) =
     (if \<not> is_digit c then Inl ErrSyntax
      else let n' = n * 10 + digit_val c in
        if n' \<ge> 2 ^ 64 then Inl ErrRange else parse_uint n' cs)"

definition Atoi :: "string \<Rightarrow> int64 \<times> num_error option" where
  "Atoi s =
     (let neg = (s \<noteq> [] \<and> hd s = CHR ''-'');
          ds = (if s \<noteq> [] \<and> (hd s = CHR ''-'' \<or> hd s = CHR ''+'') then tl s else s)
      in if ds = [] then (0, Some ErrSyntax)
         else case parse_uint 0 ds of
           Inl ErrSyntax \<Rightarrow> (0, Some ErrSyntax)
         | Inl ErrRange \<Rightarrow> (if neg then - (2 ^ 63) else 2 ^ 63 - 1, Some ErrRange)
         | Inr n \<Rightarrow>
             if \<not> neg \<and> n \<ge> 2 ^ 63 then (2 ^ 63 - 1, Some ErrRange)
             else if neg \<and> n > 2 ^ 63 then (- (2 ^ 63), Some ErrRange)
             else (if neg then - of_nat n else of_nat n, None))"

subsection \<open>Trimming\<close>

lemma strip_prefix_Some: "strip_prefix p s = Some r \<longleftrightarrow> s = p @ r"
  by (induction p s rule: strip_prefix.induct) auto

lemma strip_any_Some: "strip_any es s = Some r \<Longrightarrow> \<exists>e \<in> set es. s = e @ r"
  by (induction es) (auto split: option.splits simp: strip_prefix_Some)

lemma strip_any_None: "strip_any es s = None \<longleftrightarrow> (\<forall>e \<in> set es. \<nexists>r. s = e @ r)"
proof (induction es)
  case (Cons e es)
  have "strip_prefix e s = None \<longleftrightarrow> (\<nexists>r. s = e @ r)"
    using strip_prefix_Some [of e s] by (metis option.distinct(1) option.exhaust)
  with Cons show ?case by (auto split: option.splits)
qed simp

lemma strip_any_shorter:
  "[] \<notin> set es \<Longrightarrow> strip_any es s = Some r \<Longrightarrow> length r < length s"
  by (auto dest!: strip_any_Some)

lemma trim_start_fixed:
  assumes "[] \<notin> set es"
  shows "strip_any es (trim_start es s) = None"
  using assms
proof (induction es s rule: trim_start.induct)
  case (1 es s)
  show ?case
  proof (cases "strip_any es s")
    case None
    then show ?thesis by (simp add: trim_start.simps [of es s])
  next
    case (Some r)
    then have "length r < length s" using "1.prems" by (rule strip_any_shorter [rotated])
    then show ?thesis using 1 Some by (simp add: trim_start.simps [of es s])
  qed
qed

lemma trim_start_id: "strip_any es s = None \<Longrightarrow> trim_start es s = s"
  by (simp add: trim_start.simps [of es s])

lemma trim_start_suffix: "\<exists>p. s = p @ trim_start es s"
proof (induction es s rule: trim_start.induct)
  case (1 es s)
  show ?case
  proof (cases "\<exists>r. strip_any es s = Some r \<and> length r < length s")
    case True
    then obtain r p where r: "strip_any es s = Some r" "length r < length s" "r = p @ trim_start es r"
      using "1.IH" by auto
    then obtain e where "s = e @ r" using strip_any_Some by blast
    moreover have "trim_start es s = trim_start es r"
      using r by (simp add: trim_start.simps [of es s])
    ultimately have "s = (e @ p) @ trim_start es s" using r by simp
    then show ?thesis ..
  next
    case False
    then have "trim_start es s = s"
      by (auto simp: trim_start.simps [of es s] split: option.splits)
    then show ?thesis by simp
  qed
qed

lemma trim_end_prefix: "\<exists>q. s = trim_end es s @ q"
proof -
  obtain p where "rev s = p @ trim_start (map rev es) (rev s)"
    using trim_start_suffix by blast
  then have "s = rev (trim_start (map rev es) (rev s)) @ rev p"
    by (metis rev_append rev_rev_ident)
  then show ?thesis unfolding trim_end_def by blast
qed

lemma trim_end_idem: "[] \<notin> set es \<Longrightarrow> trim_end es (trim_end es s) = trim_end es s"
  by (simp add: trim_end_def trim_start_id trim_start_fixed image_iff)

lemma strip_any_prefix_None: "strip_any es (t @ q) = None \<Longrightarrow> strip_any es t = None"
  by (force simp: strip_any_None)

lemma space_encodings_nonempty: "[] \<notin> set space_encodings"
  by (simp add: space_encodings_def)

lemma TrimSpace_idem [simp]: "TrimSpace (TrimSpace s) = TrimSpace s"
proof -
  let ?u = "trim_start space_encodings s"
  obtain q where q: "?u = trim_end space_encodings ?u @ q"
    using trim_end_prefix by blast
  have "strip_any space_encodings ?u = None"
    by (rule trim_start_fixed [OF space_encodings_nonempty])
  then have "strip_any space_encodings (trim_end space_encodings ?u) = None"
    using q strip_any_prefix_None by metis
  then show ?thesis
    by (simp add: TrimSpace_def trim_start_id trim_end_idem [OF space_encodings_nonempty])
qed

lemma TrimSpace_Nil [simp]: "TrimSpace [] = []"
  by code_simp

lemma set_TrimSpace: "set (TrimSpace s) \<subseteq> set s"
proof -
  obtain p where p: "s = p @ trim_start space_encodings s" using trim_start_suffix by blast
  obtain q where "trim_start space_encodings s = TrimSpace s @ q"
    using trim_end_prefix unfolding TrimSpace_def by blast
  with p have "s = p @ TrimSpace s @ q" by simp
  then have "set s = set p \<union> set (TrimSpace s) \<union> set q" by (metis set_append sup_assoc)
  then show ?thesis by blast
qed

text \<open>A string of printable ASCII bytes other than the blank is its own trim.\<close>

definition graphic :: "char \<Rightarrow> bool" where
  "graphic c = (32 < (of_char c :: nat) \<and> (of_char c :: nat) < 128)"

lemma space_bytes_not_graphic: "e \<in> set space_encodings \<Longrightarrow> c \<in> set e \<Longrightarrow> \<not> graphic c"
  by (auto simp: space_encodings_def graphic_def)

lemma trim_start_graphic:
  assumes "list_all graphic s" and "\<And>e c. e \<in> set es \<Longrightarrow> c \<in> set e \<Longrightarrow> \<not> graphic c" and "[] \<notin> set es"
  shows "trim_start es s = s"
proof (rule trim_start_id, unfold strip_any_None, intro ballI notI, elim exE)
  fix e r assume e: "e \<in> set es" and s: "s = e @ r"
  from e assms(3) have "e \<noteq> []" by auto
  then obtain c where "c \<in> set e" by (meson list.set_sel(1))
  then show False using assms(1,2) e s by (auto simp: list_all_iff)
qed

lemma TrimSpace_graphic:
  assumes "list_all graphic s"
  shows "TrimSpace s = s"
proof -
  have "trim_start space_encodings s = s"
    using assms space_bytes_not_graphic space_encodings_nonempty by (rule trim_start_graphic)
  moreover have "trim_start (map rev space_encodings) (rev s) = rev s"
    using assms space_bytes_not_graphic space_encodings_nonempty
    by (intro trim_start_graphic) (auto simp: list_all_iff image_iff)
  ultimately show ?thesis by (simp add: TrimSpace_def trim_end_def)
qed

subsection \<open>Splitting\<close>

lemma takeWhile_sep: "c \<notin> set a \<Longrightarrow> takeWhile (\<lambda>x. x \<noteq> c) (a @ c # b) = a"
  by (induction a) auto

lemma dropWhile_sep: "c \<notin> set a \<Longrightarrow> dropWhile (\<lambda>x. x \<noteq> c) (a @ c # b) = c # b"
  by (induction a) auto

lemma SplitN2_append: "c \<notin> set a \<Longrightarrow> SplitN2 (a @ c # b) c = [a, b]"
  by (simp add: SplitN2_def takeWhile_sep dropWhile_sep)

lemma SplitN2_length: "length (SplitN2 s c) = (if c \<in> set s then 2 else 1)"
  by (simp add: SplitN2_def)

lemma sep_join_inject:
  assumes "a @ c # b = a' @ c # b'" and "c \<notin> set a" and "c \<notin> set a'"
  shows "a = a' \<and> b = b'"
  using takeWhile_sep [OF assms(2), of b] takeWhile_sep [OF assms(3), of b'] assms(1) by simp

lemma sep_join_inject_last:
  assumes "a @ c # b = a' @ c # b'" and "c \<notin> set b" and "c \<notin> set b'"
  shows "a = a' \<and> b = b'"
proof -
  have "rev b @ c # rev a = rev b' @ c # rev a'"
    using arg_cong [OF assms(1), of rev] by simp
  then show ?thesis using sep_join_inject [of "rev b" c "rev a" "rev b'" "rev a'"] assms(2,3) by simp
qed

subsection \<open>Decimal numbers\<close>

lemma of_char_digit_char: "d < 10 \<Longrightarrow> of_char (digit_char d) = 48 + d"
  by (simp add: digit_char_def)

lemma digit_char_is_digit: "d < 10 \<Longrightarrow> is_digit (digit_char d)"
  by (simp add: is_digit_def of_char_digit_char)

lemma digit_val_digit_char: "d < 10 \<Longrightarrow> digit_val (digit_char d) = d"
  by (simp add: digit_val_def of_char_digit_char)

lemma nat_dec_digits: "c \<in> set (nat_dec n) \<Longrightarrow> is_digit c"
proof (induction n rule: nat_dec.induct)
  case (1 n)
  then show ?case
    by (cases "n < 10") (auto simp: nat_dec.simps [of n] digit_char_is_digit)
qed

lemma nat_dec_nonempty [simp]: "nat_dec n \<noteq> []"
  by (simp add: nat_dec.simps [of n])

lemma parse_uint_append:
  "parse_uint n (xs @ ys) = (case parse_uint n xs of Inl e \<Rightarrow> Inl e | Inr m \<Rightarrow> parse_uint m ys)"
  by (induction n xs rule: parse_uint.induct) (auto simp: Let_def)

lemma parse_uint_nat_dec: "n < 2 ^ 64 \<Longrightarrow> parse_uint 0 (nat_dec n) = Inr n"
proof (induction n rule: nat_dec.induct)
  case (1 n)
  show ?case
  proof (cases "n < 10")
    case True
    then show ?thesis
      by (simp add: nat_dec.simps [of n] digit_char_is_digit digit_val_digit_char)
  next
    case False
    then have "parse_uint 0 (nat_dec (n div 10)) = Inr (n div 10)"
      using 1 by auto
    then show ?thesis using "1.prems" False
      by (simp add: nat_dec.simps [of n] parse_uint_append digit_char_is_digit digit_val_digit_char)
  qed
qed

lemma is_digit_not_sign: "is_digit c \<Longrightarrow> c \<noteq> CHR ''-'' \<and> c \<noteq> CHR ''+''"
  by (auto simp: is_digit_def)

lemma Itoa_chars: "c \<in> set (Itoa x) \<Longrightarrow> is_digit c \<or> c = CHR ''-''"
  by (auto simp: Itoa_def split: if_splits dest: nat_dec_digits)

lemma hd_nat_dec: "is_digit (hd (nat_dec n))"
  by (rule nat_dec_digits [of _ n]) simp

theorem Atoi_Itoa [simp]: "Atoi (Itoa x) = (x, None)"
proof (cases "sint x < 0")
  case True
  have b: "nat (- sint x) \<le> 2 ^ 63" using sint64_range [of x] by simp
  then have "parse_uint 0 (nat_dec (nat (- sint x))) = Inr (nat (- sint x))"
    by (intro parse_uint_nat_dec) simp
  moreover have "- of_nat (nat (- sint x)) = x"
    using True by (simp add: of_nat_nat)
  ultimately show ?thesis using True b
    by (simp add: Atoi_def Itoa_def Let_def)
next
  case False
  have b: "nat (sint x) < 2 ^ 63" using sint64_range [of x] False by (simp add: nat_less_iff)
  then have "parse_uint 0 (nat_dec (nat (sint x))) = Inr (nat (sint x))"
    by (intro parse_uint_nat_dec) simp
  moreover have "of_nat (nat (sint x)) = x"
    using False by (simp add: of_nat_nat)
  ultimately show ?thesis using False b is_digit_not_sign [OF hd_nat_dec [of "nat (sint x)"]]
    by (simp add: Atoi_def Itoa_def Let_def)
qed

lemma Itoa_inject [simp]: "Itoa x = Itoa y \<longleftrightarrow> x = y"
  by (metis Atoi_Itoa fst_conv)

lemma Itoa_no_sep: "CHR ''#'' \<notin> set (Itoa x)" "CHR 0x0A \<notin> set (Itoa x)"
  by (auto dest!: Itoa_chars simp: is_digit_def)

end
