(* ===== verification/Model.thy ===== *)
theory Model
  imports Go_Strings
begin

text \<open>
  Package \<^verbatim>\<open>internal/model\<close>: the phone-book entry, the request bodies and the results. A Go
  struct is a record with the struct's fields in its order. Where two structs share a field
  name, the record's field carries a prefix for the struct (\<open>reg_\<close>, \<open>ref_\<close>, \<open>rc_\<close>, \<open>rb_\<close>,
  \<open>cr_\<close>, \<open>rep_\<close>, \<open>crr_\<close>, \<open>cc_\<close>, \<open>rd_\<close>, \<open>cb_\<close>, \<open>ccr_\<close>, \<open>sig_\<close>).
\<close>

subsection \<open>internal/model/quality.go: the counters\<close>

record QualityStats =
  ValidReports :: int64
  InvalidReports :: int64

subsection \<open>internal/model/peer.go\<close>

text \<open>\<^verbatim>\<open>PeerFlag\<close> is a string type: any string may arrive in a request.\<close>

type_synonym PeerFlag = string

definition PeerFlagThin :: PeerFlag where "PeerFlagThin = ''thin''"
definition PeerFlagThick :: PeerFlag where "PeerFlagThick = ''thick''"
definition PeerFlagVeryThick :: PeerFlag where "PeerFlagVeryThick = ''very_thick''"

record Peer =
  ID :: string
  Login :: string
  EncryptionKey :: string
  SignatureKey :: string
  LastSeen :: time
  TTLSeconds :: int64
  QualityScore :: int64
  Quality :: QualityStats
  Flag :: PeerFlag
  Fake :: bool

text \<open>\<^verbatim>\<open>func (p Peer) Key() string\<close>.\<close>

definition Key :: "Peer \<Rightarrow> string" where
  "Key p = Login p @ '':'' @ SignatureKey p"

record RegisterRequest =
  reg_ID :: string
  reg_Login :: string
  reg_EncryptionKey :: string
  reg_SignatureKey :: string
  reg_TTLSeconds :: int64
  reg_PeerFlag :: PeerFlag
  reg_Fake :: "bool option"

record RefreshRequest =
  ref_ID :: string
  ref_Login :: string
  ref_SignatureKey :: string

subsection \<open>internal/model/quality.go: chunks and signals\<close>

record RegisterChunkRequest =
  rc_SenderID :: string
  rc_RecipientID :: string
  rc_Hash :: string
  rc_Signature :: string
  rc_PeerID :: string
  rc_Persist :: bool
  rc_TTL :: int64

record RegisterChunkBatchEntry =
  rb_ChunkIndex :: int64
  rb_SenderID :: string
  rb_RecipientID :: string
  rb_Hash :: string
  rb_Signature :: string
  rb_PeerID :: string
  rb_Persist :: bool
  rb_TTL :: int64

record RegisterChunkBatchRequest =
  rb_Chunks :: "RegisterChunkBatchEntry list"

record ChunkRecord =
  cr_FileID :: string
  cr_ChunkIndex :: int64
  cr_SenderID :: string
  cr_RecipientID :: string
  cr_Hash :: string
  cr_PeerID :: string
  cr_Persist :: bool
  cr_Confirmed :: bool
  cr_Readed :: bool
  cr_CreatedAt :: int64
  cr_UpdatedAt :: int64
  cr_TTL :: int64

record ChunkReportRequest =
  rep_ReporterID :: string
  rep_FileID :: string
  rep_ChunkIndex :: int64
  rep_Hash :: string
  rep_Signature :: string

record ChunkReportResult =
  crr_Valid :: bool
  crr_ExpectedHash :: string
  crr_ReportedHash :: string
  crr_Delta :: int64
  crr_Peer :: Peer

record ConfirmChunkRequest =
  cc_RecipientID :: string
  cc_FileID :: string
  cc_ChunkIndex :: int64
  cc_Hash :: string
  cc_Signature :: string

record ReadChunkRequest =
  rd_RecipientID :: string
  rd_FileID :: string
  rd_Signature :: string

record ConfirmChunkBatchEntry =
  cb_FileID :: string
  cb_ChunkIndex :: int64
  cb_Hash :: string
  cb_Signature :: string

record ConfirmChunkBatchRequest =
  cb_RecipientID :: string
  cb_Chunks :: "ConfirmChunkBatchEntry list"

record ConfirmChunkResult =
  ccr_Valid :: bool
  ccr_ExpectedHash :: string
  ccr_ConfirmedHash :: string
  ccr_Delta :: int64
  ccr_Peer :: Peer

record ReadChunkResult =
  rdr_Valid :: bool

record Signal =
  sig_From :: string
  sig_Type :: string
  sig_Data :: string

subsection \<open>The key of a peer\<close>

text \<open>
  The key joins login and signature key with a colon. It determines both parts as soon as
  the logins, or the signature keys, hold no colon; the general statement fails
  (\<open>Key_ambiguous\<close>).
\<close>

lemma Key_inject_login:
  assumes "Key p = Key q" and "CHR '':'' \<notin> set (Login p)" and "CHR '':'' \<notin> set (Login q)"
  shows "Login p = Login q \<and> SignatureKey p = SignatureKey q"
  using assms sep_join_inject [of "Login p" "CHR '':''" "SignatureKey p"] by (simp add: Key_def)

lemma Key_inject_sig:
  assumes "Key p = Key q" and "CHR '':'' \<notin> set (SignatureKey p)" and "CHR '':'' \<notin> set (SignatureKey q)"
  shows "Login p = Login q \<and> SignatureKey p = SignatureKey q"
  using assms sep_join_inject_last [of "Login p" "CHR '':''" "SignatureKey p"] by (simp add: Key_def)

lemma Key_ambiguous:
  "Key (p\<lparr>Login := ''a:b'', SignatureKey := ''c''\<rparr>) = Key (p\<lparr>Login := ''a'', SignatureKey := ''b:c''\<rparr>)"
  by (simp add: Key_def)

lemma Key_cong [simp]:
  "Key (p\<lparr>LastSeen := t\<rparr>) = Key p" "Key (p\<lparr>TTLSeconds := n\<rparr>) = Key p"
  "Key (p\<lparr>QualityScore := n\<rparr>) = Key p" "Key (p\<lparr>Quality := q\<rparr>) = Key p"
  by (simp_all add: Key_def)

end
