(* ===== verification/Go_Base64.thy ===== *)
theory Go_Base64
  imports Go_Strings
begin

text \<open>
  Go's \<^verbatim>\<open>base64.StdEncoding\<close>: \<open>EncodeToString\<close> (padded) and \<open>DecodeString\<close>. The decoder
  skips carriage returns and newlines wherever they stand, wants the padding of the last
  quantum and nothing after it, and, not being strict, ignores the unused low bits of a
  padded quantum. \<open>None\<close> is its \<^verbatim>\<open>CorruptInputError\<close>.
\<close>

definition b64_char :: "nat \<Rightarrow> char" where
  "b64_char n =
     char_of (if n < 26 then 65 + n else if n < 52 then 71 + n else if n < 62 then n - 4
              else if n = 62 then 43 else 47)"

definition b64_val :: "char \<Rightarrow> nat option" where
  "b64_val c =
     (let n = of_char c :: nat in
      if 65 \<le> n \<and> n \<le> 90 then Some (n - 65)
      else if 97 \<le> n \<and> n \<le> 122 then Some (n - 71)
      else if 48 \<le> n \<and> n \<le> 57 then Some (n + 4)
      else if n = 43 then Some 62
      else if n = 47 then Some 63
      else None)"

definition b64_pad :: char where
  "b64_pad = CHR ''=''"

text \<open>The 24-bit value of a quantum, as the code's shifts build it, and its bytes.\<close>

definition quantum :: "nat \<Rightarrow> nat \<Rightarrow> nat \<Rightarrow> nat \<Rightarrow> nat" where
  "quantum a b c d = ((a * 64 + b) * 64 + c) * 64 + d"

definition quantum_bytes :: "nat \<Rightarrow> nat \<Rightarrow> bytes" where
  "quantum_bytes k v =
     take k [char_of (v div 256 div 256 mod 256), char_of (v div 256 mod 256), char_of (v mod 256)]"

fun EncodeToString :: "bytes \<Rightarrow> string" where
  "EncodeToString [] = []"
| "EncodeToString [x] =
     (let v = (of_char x * 256 + 0) * 256 + 0 in
      [b64_char (v div 64 div 64 div 64), b64_char (v div 64 div 64 mod 64), b64_pad, b64_pad])"
| "EncodeToString [x, y] =
     (let v = (of_char x * 256 + of_char y) * 256 + 0 in
      [b64_char (v div 64 div 64 div 64), b64_char (v div 64 div 64 mod 64),
       b64_char (v div 64 mod 64), b64_pad])"
| "EncodeToString (x # y # z # r) =
     (let v = (of_char x * 256 + of_char y) * 256 + of_char z in
      [b64_char (v div 64 div 64 div 64), b64_char (v div 64 div 64 mod 64),
       b64_char (v div 64 mod 64), b64_char (v mod 64)] @ EncodeToString r)"

fun decode_quanta :: "string \<Rightarrow> bytes option" where
  "decode_quanta [] = Some []"
| "decode_quanta (a # b # c # d # r) =
     (case (b64_val a, b64_val b) of
        (Some va, Some vb) \<Rightarrow>
          if c = b64_pad then
            (if d = b64_pad \<and> r = [] then Some (quantum_bytes 1 (quantum va vb 0 0)) else None)
          else (case b64_val c of
            None \<Rightarrow> None
          | Some vc \<Rightarrow>
              if d = b64_pad then
                (if r = [] then Some (quantum_bytes 2 (quantum va vb vc 0)) else None)
              else (case b64_val d of
                None \<Rightarrow> None
              | Some vd \<Rightarrow>
                  map_option (\<lambda>t. quantum_bytes 3 (quantum va vb vc vd) @ t) (decode_quanta r)))
      | _ \<Rightarrow> None)"
| "decode_quanta _ = None"

definition DecodeString :: "string \<Rightarrow> bytes option" where
  "DecodeString s = decode_quanta (filter (\<lambda>c. c \<noteq> CHR 0x0A \<and> c \<noteq> CHR 0x0D) s)"

subsection \<open>Decoding inverts encoding\<close>

lemma b64_val_char: "b64_val (b64_char n) = Some (min n 63)"
  by (auto simp: b64_char_def b64_val_def Let_def)

lemma b64_val_outside: "b64_val b64_pad = None" "b64_val (CHR 0x0A) = None" "b64_val (CHR 0x0D) = None"
  by (simp_all add: b64_val_def b64_pad_def)

lemma b64_char_neq: "b64_char n \<noteq> b64_pad" "b64_char n \<noteq> CHR 0x0A" "b64_char n \<noteq> CHR 0x0D"
  using b64_val_char [of n] b64_val_outside by auto

lemma b64_char_props: "n < 64 \<Longrightarrow> b64_val (b64_char n) = Some n" "b64_char n \<noteq> b64_pad"
  by (auto simp: b64_val_char b64_char_neq)

lemma b64_pad_no_newline: "b64_pad \<noteq> CHR 0x0A" "b64_pad \<noteq> CHR 0x0D"
  by (simp_all add: b64_pad_def)

lemma quantum_digits:
  "quantum (v div 64 div 64 div 64) (v div 64 div 64 mod 64) (v div 64 mod 64) (v mod 64) = v"
  by (simp add: quantum_def)

lemma of_char_less: "of_char c < (256 :: nat)"
  using of_char_of [of "of_char c"] by (metis mod_less_divisor char_of_char zero_less_numeral)

lemma quantum_join_less: "(x :: nat) < 256 \<Longrightarrow> y < 256 \<Longrightarrow> z < 256 \<Longrightarrow> (x * 256 + y) * 256 + z < 16777216"
  by simp

lemma quantum_bytes_join:
  assumes v: "v = (of_char x * 256 + of_char y) * 256 + of_char z"
  shows "v div 64 div 64 div 64 < 64"
    and "quantum_bytes 3 v = [x, y, z]" and "quantum_bytes 2 v = [x, y]" and "quantum_bytes 1 v = [x]"
proof -
  note b = of_char_less [of x] of_char_less [of y] of_char_less [of z]
  have "v < 16777216" unfolding v by (rule quantum_join_less [OF b])
  then show "v div 64 div 64 div 64 < 64" by (simp add: div_mult2_eq [symmetric] less_mult_imp_div_less)
  have "v mod 256 = of_char z" "v div 256 = of_char x * 256 + of_char y"
    using b unfolding v by (simp_all only: mod_mult_self3 mod_less div_mult_self3)
  then have "v mod 256 = of_char z" "v div 256 mod 256 = of_char y" "v div 256 div 256 mod 256 = of_char x"
    using b by simp_all
  then show "quantum_bytes 3 v = [x, y, z]" "quantum_bytes 2 v = [x, y]" "quantum_bytes 1 v = [x]"
    by (simp_all add: quantum_bytes_def)
qed

lemma decode_quanta_1:
  assumes "va < 64" "vb < 64"
  shows "decode_quanta [b64_char va, b64_char vb, b64_pad, b64_pad] = Some (quantum_bytes 1 (quantum va vb 0 0))"
  using assms by (simp add: b64_char_props)

lemma decode_quanta_2:
  assumes "va < 64" "vb < 64" "vc < 64"
  shows "decode_quanta [b64_char va, b64_char vb, b64_char vc, b64_pad] = Some (quantum_bytes 2 (quantum va vb vc 0))"
  using assms by (simp add: b64_char_props)

lemma decode_quanta_3:
  assumes "va < 64" "vb < 64" "vc < 64" "vd < 64"
  shows "decode_quanta ([b64_char va, b64_char vb, b64_char vc, b64_char vd] @ r) =
    map_option (\<lambda>t. quantum_bytes 3 (quantum va vb vc vd) @ t) (decode_quanta r)"
  using assms by (simp add: b64_char_props)

lemma decode_quanta_EncodeToString: "decode_quanta (EncodeToString bs) = Some bs"
proof (induction bs rule: EncodeToString.induct)
  case 1
  show ?case by simp
next
  case (2 x)
  define v :: nat where "v = (of_char x * 256 + 0) * 256 + 0"
  then have v: "v = (of_char x * 256 + of_char (CHR 0x00)) * 256 + of_char (CHR 0x00)" by simp
  have "v div 64 mod 64 = 0" "v mod 64 = 0" unfolding v_def by simp_all
  then have "quantum (v div 64 div 64 div 64) (v div 64 div 64 mod 64) 0 0 = v"
    using quantum_digits [of v] by simp
  then show ?case
    using decode_quanta_1 [OF quantum_bytes_join(1) [OF v], of "v div 64 div 64 mod 64"] quantum_bytes_join(4) [OF v]
    by (simp only: EncodeToString.simps Let_def v_def [symmetric] mod_less_divisor zero_less_numeral simp_thms)
next
  case (3 x y)
  define v :: nat where "v = (of_char x * 256 + of_char y) * 256 + 0"
  then have v: "v = (of_char x * 256 + of_char y) * 256 + of_char (CHR 0x00)" by simp
  have "v mod 64 = 0" unfolding v_def by simp
  then have "quantum (v div 64 div 64 div 64) (v div 64 div 64 mod 64) (v div 64 mod 64) 0 = v"
    using quantum_digits [of v] by simp
  then show ?case
    using decode_quanta_2 [OF quantum_bytes_join(1) [OF v], of "v div 64 div 64 mod 64" "v div 64 mod 64"]
      quantum_bytes_join(3) [OF v]
    by (simp only: EncodeToString.simps Let_def v_def [symmetric]) simp
next
  case (4 x y z r)
  define v :: nat where v: "v = (of_char x * 256 + of_char y) * 256 + of_char z"
  have "decode_quanta r = decode_quanta r" ..
  show ?case
    using 4 [OF v] decode_quanta_3 [OF quantum_bytes_join(1) [OF v], of "v div 64 div 64 mod 64" "v div 64 mod 64" "v mod 64"]
      quantum_bytes_join(2) [OF v] quantum_digits [of v]
    by (simp only: EncodeToString.simps Let_def v [symmetric]) simp
qed

lemma EncodeToString_no_newline:
  "c \<in> set (EncodeToString bs) \<Longrightarrow> c \<noteq> CHR 0x0A \<and> c \<noteq> CHR 0x0D"
  by (induction bs rule: EncodeToString.induct)
    (auto simp: Let_def b64_char_neq b64_pad_no_newline simp del: One_nat_def add_0_right)

theorem DecodeString_EncodeToString [simp]: "DecodeString (EncodeToString bs) = Some bs"
proof -
  have "filter (\<lambda>c. c \<noteq> CHR 0x0A \<and> c \<noteq> CHR 0x0D) (EncodeToString bs) = EncodeToString bs"
    by (simp add: filter_id_conv EncodeToString_no_newline)
  then show ?thesis by (simp add: DecodeString_def decode_quanta_EncodeToString)
qed

lemma EncodeToString_chars: "c \<in> set (EncodeToString bs) \<Longrightarrow> c = b64_pad \<or> (\<exists>n. c = b64_char n)"
  by (induction bs rule: EncodeToString.induct) (auto simp: Let_def)

lemma list_all_graphic_EncodeToString: "list_all graphic (EncodeToString bs)"
proof -
  have "graphic b64_pad" by (simp add: graphic_def b64_pad_def)
  moreover have "graphic (b64_char n)" for n
    by (auto simp: graphic_def b64_char_def)
  ultimately show ?thesis
    by (auto simp: list_all_iff dest!: EncodeToString_chars)
qed

lemma TrimSpace_EncodeToString [simp]: "TrimSpace (EncodeToString bs) = EncodeToString bs"
  by (rule TrimSpace_graphic [OF list_all_graphic_EncodeToString])

lemma EncodeToString_Nil_iff [simp]: "EncodeToString bs = [] \<longleftrightarrow> bs = []"
  by (cases bs rule: EncodeToString.cases) (auto simp: Let_def)

end
