(* ===== verification/Sign.thy ===== *)
theory Sign
  imports Go_Base64
begin

text \<open>
  Package \<^verbatim>\<open>internal/sign\<close>: the messages peers sign and the check of a signature. The
  primitive \<^verbatim>\<open>ed25519.Verify\<close> (public key, message, signature) and the signer
  \<^verbatim>\<open>ed25519.Sign\<close> are parameters.
\<close>

datatype sign_error = SignErrInvalidKey | SignErrInvalidSignature

abbreviation newline :: char where "newline \<equiv> CHR 0x0A"

definition ExpectedPayload :: "string \<Rightarrow> int64 \<Rightarrow> string \<Rightarrow> bytes" where
  "ExpectedPayload fileID chunkIndex hash =
     ''muninn/expected/v1'' @ newline # fileID @ newline # Itoa chunkIndex @ newline # hash"

definition ReportedPayload :: "string \<Rightarrow> int64 \<Rightarrow> string \<Rightarrow> string \<Rightarrow> bytes" where
  "ReportedPayload fileID chunkIndex hash sourcePeerID =
     ''muninn/reported/v1'' @ newline # fileID @ newline # Itoa chunkIndex @ newline # hash @
     newline # sourcePeerID"

definition ConfirmedPayload :: "string \<Rightarrow> int64 \<Rightarrow> string \<Rightarrow> bytes" where
  "ConfirmedPayload fileID chunkIndex hash =
     ''muninn/confirmed/v1'' @ newline # fileID @ newline # Itoa chunkIndex @ newline # hash"

definition ReadPayload :: "string \<Rightarrow> bytes" where
  "ReadPayload fileID = ''muninn/read/v1'' @ newline # fileID"

definition PublicKeySize :: nat where "PublicKeySize = 32"
definition SignatureSize :: nat where "SignatureSize = 64"

definition decodePublicKey :: "string \<Rightarrow> sign_error + bytes" where
  "decodePublicKey b64 =
     (case DecodeString (TrimSpace b64) of
        None \<Rightarrow> Inl SignErrInvalidKey
      | Some raw \<Rightarrow> if length raw \<noteq> PublicKeySize then Inl SignErrInvalidKey else Inr raw)"

definition Verify ::
  "(bytes \<Rightarrow> bytes \<Rightarrow> bytes \<Rightarrow> bool) \<Rightarrow> string \<Rightarrow> string \<Rightarrow> bytes \<Rightarrow> sign_error + unit" where
  "Verify ed25519_Verify publicKeyB64 signatureB64 message =
     (case decodePublicKey publicKeyB64 of
        Inl err \<Rightarrow> Inl err
      | Inr pub \<Rightarrow>
          (case DecodeString (TrimSpace signatureB64) of
             None \<Rightarrow> Inl SignErrInvalidSignature
           | Some sig \<Rightarrow>
               if length sig \<noteq> SignatureSize then Inl SignErrInvalidSignature
               else if \<not> ed25519_Verify pub message sig then Inl SignErrInvalidSignature
               else Inr ()))"

definition Sign :: "('priv \<Rightarrow> bytes \<Rightarrow> bytes) \<Rightarrow> 'priv \<Rightarrow> bytes \<Rightarrow> string" where
  "Sign ed25519_Sign privateKey message = EncodeToString (ed25519_Sign privateKey message)"

definition PublicKeyBase64 :: "bytes \<Rightarrow> string" where
  "PublicKeyBase64 pub = EncodeToString pub"

subsection \<open>What a successful check means\<close>

lemma decodePublicKey_Inr:
  "decodePublicKey s = Inr k \<longleftrightarrow> DecodeString (TrimSpace s) = Some k \<and> length k = 32"
  by (auto simp: decodePublicKey_def PublicKeySize_def split: option.splits if_splits)

lemma Verify_Inr:
  "Verify V k s m = Inr u \<longleftrightarrow>
     (\<exists>pub sig. decodePublicKey k = Inr pub \<and>
        DecodeString (TrimSpace s) = Some sig \<and> length sig = 64 \<and> V pub m sig)"
  by (auto simp: Verify_def SignatureSize_def split: sum.splits option.splits if_splits)

text \<open>
  A signature made with the private half of a registered key verifies, as soon as the scheme
  has Ed25519's sizes and accepts its own signatures.
\<close>

lemma verify_signed:
  assumes "length (public_of k) = 32" and "length (ed25519_Sign k m) = 64"
    and "ed25519_Verify (public_of k) m (ed25519_Sign k m)"
  shows "Verify ed25519_Verify (PublicKeyBase64 (public_of k)) (Sign ed25519_Sign k m) m = Inr ()"
  using assms by (simp add: Verify_Inr decodePublicKey_Inr PublicKeyBase64_def Sign_def)

subsection \<open>Payloads\<close>

lemma Itoa_no_newline: "newline \<notin> set (Itoa x)"
  by (rule Itoa_no_sep)

text \<open>
  The three last fields of a payload are read off from its end: a hash and a decimal number
  hold no newline, so the file id may.
\<close>

lemma payload_tail_inject:
  assumes "f @ newline # Itoa i @ newline # h = f' @ newline # Itoa i' @ newline # h'"
    and "newline \<notin> set h" and "newline \<notin> set h'"
  shows "f = f' \<and> i = i' \<and> h = h'"
proof -
  have "(f @ newline # Itoa i) @ newline # h = (f' @ newline # Itoa i') @ newline # h'"
    using assms(1) by simp
  note step1 = sep_join_inject_last [OF this assms(2,3)]
  have "f = f' \<and> Itoa i = Itoa i'"
    using step1 by (intro sep_join_inject_last [OF _ Itoa_no_newline Itoa_no_newline]) simp
  then show ?thesis using step1 by simp
qed

end
