(* ===== verification/Store_Base.thy ===== *)
theory Store_Base
  imports Model Sign
begin

text \<open>
  What both stores share: the errors and the quality arithmetic of
  \<^verbatim>\<open>internal/store/store.go\<close>, the chunk keys and the hash format of
  \<^verbatim>\<open>internal/store/hash.go\<close>, \<^verbatim>\<open>verifyPeerSignature\<close> and the expiry test, and the record
  of everything a call reads from outside the program.
\<close>

subsection \<open>Errors\<close>

text \<open>
  The sentinel errors of \<^verbatim>\<open>store.go\<close>; \<open>ErrWrap msg e\<close> is \<^verbatim>\<open>fmt.Errorf("msg: %w", e)\<close>;
  \<open>ErrDriver\<close> is an error value made by the database driver; \<open>Panic\<close> is a run-time panic,
  which leaves the handler and not through its error return.
\<close>

datatype error =
    ErrNotFound | ErrInvalidPeer | ErrInvalidKey | ErrKeyTaken | ErrInvalidChunk
  | ErrChunkNotFound | ErrInvalidSignature | ErrNoSigningKey | ErrNoPendingMessages
  | ErrDriver string | ErrWrap string error | Panic string

type_synonym 'a result = "error + 'a"

subsection \<open>The outside of a call\<close>

text \<open>
  \<open>clock i\<close> is the i-th reading of the clock in the straight-line code of the call.
  \<open>scan j\<close> is the j-th iteration over a Go map of peers: the ids in the order in which the
  runtime visits them, each with the clock reading taken at that visit. \<open>fault what\<close> is
  the message with which the database statement of that name fails, if it does. \<open>ed25519\<close> is \<^verbatim>\<open>ed25519.Verify\<close> and
  \<open>unicode_lower\<close> is \<^verbatim>\<open>strings.Map(unicode.ToLower, s)\<close>.
\<close>

record env =
  clock :: "nat \<Rightarrow> time"
  scan :: "nat \<Rightarrow> (string \<times> time) list"
  fault :: "string \<Rightarrow> string option"
  ed25519 :: "bytes \<Rightarrow> bytes \<Rightarrow> bytes \<Rightarrow> bool"
  unicode_lower :: "string \<Rightarrow> string"

subsection \<open>store.go: quality\<close>

definition InitialQualityScore :: int64 where "InitialQualityScore = 1000"
definition QualityPointsValid :: int64 where "QualityPointsValid = 1"
definition QualityPointsInvalid :: int64 where "QualityPointsInvalid = -1"

definition peerFlagExponent :: "PeerFlag \<Rightarrow> int64" where
  "peerFlagExponent flag =
     (if flag = PeerFlagThin then 1
      else if flag = PeerFlagThick then 2
      else if flag = PeerFlagVeryThick then 3
      else 1)"

text \<open>The loop \<^verbatim>\<open>for i := 0; i < exp; i++ { result *= score }\<close>, with its 64-bit product.\<close>

function pow_loop :: "int64 \<Rightarrow> int64 \<Rightarrow> int64 \<Rightarrow> int64 \<Rightarrow> int64" where
  "pow_loop i ex score r = (if i <s ex then pow_loop (i + 1) ex score (r * score) else r)"
  by pat_completeness auto
termination
proof (relation "measure (\<lambda>(i, ex, score, r). nat (sint ex - sint i))")
  fix i ex score r :: int64
  assume "i <s ex"
  then have lt: "sint i < sint ex" by (simp add: word_sless_alt)
  then have "sint (i + 1) = sint i + 1"
    using sint64_range [of i] sint64_range [of ex] by (simp add: sint_word_ariths signed_take_bit_int_eq_self)
  then show "((i + 1, ex, score, r * score), (i, ex, score, r)) \<in>
      measure (\<lambda>(i, ex, score, r). nat (sint ex - sint i))"
    using lt by simp
qed simp

declare pow_loop.simps [simp del]

definition EffectiveScore :: "Peer \<Rightarrow> int64" where
  "EffectiveScore peer =
     (let ex = peerFlagExponent (Flag peer);
          score = QualityScore peer;
          result = pow_loop 0 ex score 1
      in if sint ex mod 2 = 0 \<and> score <s 0 \<and> 0 <s result then - result else result)"

subsection \<open>hash.go\<close>

definition normalizeHash :: "env \<Rightarrow> string \<Rightarrow> string" where
  "normalizeHash E h = ToLower (unicode_lower E) (TrimSpace h)"

definition is_lower_hex :: "char \<Rightarrow> bool" where
  "is_lower_hex c = (let n = of_char c :: nat in 48 \<le> n \<and> n \<le> 57 \<or> 97 \<le> n \<and> n \<le> 102)"

definition validHashFormat :: "string \<Rightarrow> bool" where
  "validHashFormat h = (length h = 16 \<and> list_all is_lower_hex h)"

definition chunkKey :: "string \<Rightarrow> int64 \<Rightarrow> string" where
  "chunkKey fileID index = fileID @ ''#'' @ Itoa index"

definition parseChunkKey :: "string \<Rightarrow> string \<times> int64" where
  "parseChunkKey key =
     (case SplitN2 key (CHR ''#'') of
        [a, b] \<Rightarrow> (a, fst (Atoi b))
      | _ \<Rightarrow> ([], -1))"

subsection \<open>verifyPeerSignature and isExpired\<close>

definition verifyPeerSignature :: "env \<Rightarrow> Peer \<Rightarrow> string \<Rightarrow> bytes \<Rightarrow> error option" where
  "verifyPeerSignature E peer signatureB64 message =
     (if SignatureKey peer = [] then Some ErrNoSigningKey
      else case Verify (ed25519 E) (SignatureKey peer) signatureB64 message of
        Inl SignErrInvalidKey \<Rightarrow> Some ErrInvalidSignature
      | Inl SignErrInvalidSignature \<Rightarrow> Some ErrInvalidSignature
      | Inr _ \<Rightarrow> None)"

definition defaultTTL :: int64 where "defaultTTL = 300"
definition defaultChunkTTL :: int64 where "defaultChunkTTL = 86400"

definition isExpired :: "Peer \<Rightarrow> time \<Rightarrow> bool" where
  "isExpired peer now =
     (let ttl = (if TTLSeconds peer \<le>s 0 then defaultTTL else TTLSeconds peer)
      in ttl * time_Second <s time_Sub now (LastSeen peer))"

subsection \<open>Scores\<close>

lemma pow_loop_small:
  "pow_loop 0 1 x 1 = x" "pow_loop 0 2 x 1 = x * x" "pow_loop 0 3 x 1 = x * x * x"
  by (simp_all add: pow_loop.simps word_sless_alt)

lemma peerFlagExponent_cases:
  obtains "peerFlagExponent f = 1" | "peerFlagExponent f = 2" | "peerFlagExponent f = 3"
proof -
  have "peerFlagExponent f = 1 \<or> peerFlagExponent f = 2 \<or> peerFlagExponent f = 3"
    by (simp add: peerFlagExponent_def)
  then show thesis using that by blast
qed

lemma sint64_mult:
  "\<bar>sint x * sint y\<bar> < 2 ^ 63 \<Longrightarrow> sint (x * y :: int64) = sint x * sint y"
  by (simp add: sint_word_ariths signed_take_bit_int_eq_self)

text \<open>The signed power the comment of \<^verbatim>\<open>EffectiveScore\<close> asks for: an even power keeps the sign.\<close>

definition signed_power :: "int \<Rightarrow> nat \<Rightarrow> int" where
  "signed_power s e = sgn s * \<bar>s\<bar> ^ e"

lemma signed_power_strict_mono: "0 < e \<Longrightarrow> s < t \<Longrightarrow> signed_power s e < signed_power t e"
proof -
  assume e: "0 < e" and st: "s < t"
  consider "0 \<le> s" | "s < 0" "0 \<le> t" | "t < 0" using st by linarith
  then show ?thesis
  proof cases
    case 1
    then show ?thesis using e st
      by (cases "s = 0") (simp_all add: signed_power_def power_strict_mono power_0_left)
  next
    case 2
    then have "signed_power s e < 0" "0 \<le> signed_power t e" by (simp_all add: signed_power_def sgn_if)
    then show ?thesis by simp
  next
    case 3
    then have "(- t) ^ e < (- s) ^ e" using e st by (intro power_strict_mono) auto
    then show ?thesis using 3 st by (simp add: signed_power_def)
  qed
qed

lemma sint64_uminus: "sint x \<noteq> - (2 ^ 63) \<Longrightarrow> sint (- x :: int64) = - sint x"
  using sint64_range [of x] by (simp add: sint_word_ariths signed_take_bit_int_eq_self)

lemma abs_self_le_cube: "\<bar>s * s\<bar> \<le> \<bar>s * s * (s :: int)\<bar>"
proof (cases "s = 0")
  case False
  then have "1 \<le> \<bar>s\<bar>" by simp
  then have "\<bar>s * s\<bar> * 1 \<le> \<bar>s * s\<bar> * \<bar>s\<bar>" by (intro mult_left_mono) auto
  then show ?thesis by (simp add: abs_mult)
qed simp

lemma EffectiveScore_eq:
  assumes "\<bar>sint (QualityScore p)\<bar> ^ unat (peerFlagExponent (Flag p)) < 2 ^ 63"
  shows "sint (EffectiveScore p) =
    signed_power (sint (QualityScore p)) (unat (peerFlagExponent (Flag p)))"
proof -
  let ?x = "QualityScore p"
  let ?s = "sint ?x"
  show ?thesis
  proof (rule peerFlagExponent_cases [of "Flag p"])
    assume e: "peerFlagExponent (Flag p) = 1"
    then show ?thesis
      by (simp add: EffectiveScore_def pow_loop_small signed_power_def sgn_if)
  next
    assume e: "peerFlagExponent (Flag p) = 2"
    then have b: "?s * ?s < 2 ^ 63" using assms by (simp add: power2_eq_square)
    then have m: "sint (?x * ?x) = ?s * ?s" by (intro sint64_mult) simp
    moreover have "0 \<le> sint (?x * ?x)" using m by simp
    then have "sint (?x * ?x) \<noteq> - (2 ^ 63)" by auto
    then have "sint (- (?x * ?x)) = - (?s * ?s)" using sint64_uminus m by simp
    ultimately show ?thesis using e
      by (auto simp: EffectiveScore_def Let_def pow_loop_small signed_power_def word_sless_alt power2_eq_square
          sgn_if zero_less_mult_iff)
  next
    assume e: "peerFlagExponent (Flag p) = 3"
    then have b: "\<bar>?s * ?s * ?s\<bar> < 2 ^ 63" using assms by (simp add: power3_eq_cube abs_mult)
    then have "\<bar>?s * ?s\<bar> < 2 ^ 63" using abs_self_le_cube [of ?s] by linarith
    then have "sint (?x * ?x) = ?s * ?s" by (rule sint64_mult)
    then have "sint (?x * ?x * ?x) = ?s * ?s * ?s" using b by (subst sint64_mult) simp_all
    then show ?thesis using e
      by (simp add: EffectiveScore_def Let_def pow_loop_small signed_power_def power3_eq_cube sgn_if)
  qed
qed

subsection \<open>Hashes and chunk keys\<close>

lemma validHashFormat_chars: "validHashFormat h \<Longrightarrow> c \<in> set h \<Longrightarrow> is_lower_hex c"
  by (simp add: validHashFormat_def list_all_iff)

lemma validHashFormat_no_newline: "validHashFormat h \<Longrightarrow> newline \<notin> set h"
  by (auto dest!: validHashFormat_chars simp: is_lower_hex_def)

lemma is_lower_hex_graphic: "is_lower_hex c \<Longrightarrow> graphic c"
  by (auto simp: is_lower_hex_def graphic_def Let_def)

lemma ascii_lower_hex: "is_lower_hex c \<Longrightarrow> ascii_lower c = c"
  by (auto simp: is_lower_hex_def ascii_lower_def Let_def)

lemma normalizeHash_valid:
  assumes "validHashFormat h"
  shows "normalizeHash E h = h"
proof -
  have hex: "list_all is_lower_hex h" using assms by (simp add: validHashFormat_def)
  then have g: "list_all graphic h" by (simp add: list_all_iff is_lower_hex_graphic)
  then have "isASCII h" by (simp add: isASCII_def list_all_iff graphic_def)
  moreover have "map ascii_lower h = h" using hex by (simp add: list_all_iff ascii_lower_hex map_idI)
  ultimately show ?thesis by (simp add: normalizeHash_def ToLower_def TrimSpace_graphic [OF g])
qed

lemma chunkKey_inject: "chunkKey f i = chunkKey g j \<longleftrightarrow> f = g \<and> i = j"
proof
  assume "chunkKey f i = chunkKey g j"
  then have "f = g \<and> Itoa i = Itoa j"
    by (intro sep_join_inject_last [OF _ Itoa_no_sep(1) Itoa_no_sep(1)]) (simp add: chunkKey_def)
  then show "f = g \<and> i = j" by simp
qed simp

lemma parseChunkKey_chunkKey: "CHR ''#'' \<notin> set f \<Longrightarrow> parseChunkKey (chunkKey f i) = (f, i)"
  using SplitN2_append [of "CHR ''#''" f "Itoa i"] by (simp add: parseChunkKey_def chunkKey_def)

lemma parseChunkKey_file: "CHR ''#'' \<notin> set (fst (parseChunkKey k))"
  by (auto simp: parseChunkKey_def SplitN2_def dest: set_takeWhileD)

subsection \<open>Signatures and expiry\<close>

lemma verifyPeerSignature_None:
  "verifyPeerSignature E p s m = None \<longleftrightarrow>
     SignatureKey p \<noteq> [] \<and> Verify (ed25519 E) (SignatureKey p) s m = Inr ()"
  by (cases "Verify (ed25519 E) (SignatureKey p) s m")
    (simp_all add: verifyPeerSignature_def split: sign_error.split)

lemma verifyPeerSignature_Some:
  "verifyPeerSignature E p s m = Some e \<Longrightarrow> e = ErrNoSigningKey \<or> e = ErrInvalidSignature"
  by (cases "Verify (ed25519 E) (SignatureKey p) s m")
    (auto simp: verifyPeerSignature_def split: if_splits sign_error.splits)

text \<open>The signature is the peer's: it has a signing key and the signature verifies under it.\<close>

definition authentic :: "env \<Rightarrow> Peer \<Rightarrow> string \<Rightarrow> bytes \<Rightarrow> bool" where
  "authentic E p sig message \<longleftrightarrow>
     SignatureKey p \<noteq> [] \<and> Verify (ed25519 E) (SignatureKey p) sig message = Inr ()"

lemma verify_authentic:
  "verifyPeerSignature E p sig m =
     (if authentic E p sig m then None
      else Some (if SignatureKey p = [] then ErrNoSigningKey else ErrInvalidSignature))"
  by (cases "Verify (ed25519 E) (SignatureKey p) sig m")
    (simp_all add: verifyPeerSignature_def authentic_def split: sign_error.split)

text \<open>The lifetime a peer asked for, and when it is over, as long as it fits a \<^verbatim>\<open>Duration\<close>.\<close>

definition ttl_of :: "Peer \<Rightarrow> int" where
  "ttl_of p = (if sint (TTLSeconds p) \<le> 0 then 300 else sint (TTLSeconds p))"

lemma isExpired_iff:
  assumes "sint (TTLSeconds p) \<le> 9223372036"
  shows "isExpired p now \<longleftrightarrow> LastSeen p + ttl_of p * 1000000000 < now"
proof -
  let ?ttl = "if TTLSeconds p \<le>s 0 then defaultTTL else TTLSeconds p"
  have t: "sint ?ttl = ttl_of p" by (simp add: ttl_of_def word_sle_eq defaultTTL_def)
  have b: "0 < ttl_of p" "ttl_of p \<le> 9223372036" using assms by (simp_all add: ttl_of_def)
  then have "sint (?ttl * time_Second) = ttl_of p * 1000000000"
    by (subst sint64_mult) (simp_all only: t time_Second_def, simp_all)
  then show ?thesis using b
    by (simp add: isExpired_def word_sless_alt sint_time_Sub) linarith
qed

end
