(* ===== verification/Memory_Store.thy ===== *)
theory Memory_Store
  imports Store_Base
begin

text \<open>
  \<^verbatim>\<open>internal/store/memory.go\<close>: the in-memory store, operation by operation. Every operation
  holds the store's lock from its first to its last access to the maps, so it is one atomic
  function of the state; \<^verbatim>\<open>Refresh\<close>, which takes no lock, is modelled as if it ran alone.
  The values a call reads from outside (clock, map iteration order, signature check) come
  from its \<open>env\<close>.
\<close>

record chunkRecordEntry =
  ce_key :: string
  ce_Hash :: string
  ce_SenderID :: string
  ce_RecipientID :: string
  ce_PeerID :: string
  ce_Persist :: bool
  ce_Confirmed :: bool
  ce_Readed :: bool
  ce_CreatedAt :: int64
  ce_UpdatedAt :: int64
  ce_TTL :: int64

record MemoryStore =
  peers :: "string \<rightharpoonup> Peer"
  logins :: "string \<rightharpoonup> string list"
  chunks :: "chunkRecordEntry list"
  signals :: "string \<rightharpoonup> Signal list"

definition NewMemory :: MemoryStore where
  "NewMemory = \<lparr>peers = Map.empty, logins = Map.empty, chunks = [], signals = Map.empty\<rparr>"

text \<open>Indexing a Go map of slices: a missing key reads as the nil slice.\<close>

definition at :: "('k \<rightharpoonup> 'v list) \<Rightarrow> 'k \<Rightarrow> 'v list" where
  "at m k = (case m k of None \<Rightarrow> [] | Some v \<Rightarrow> v)"

subsection \<open>The login index\<close>

text \<open>\<^verbatim>\<open>removeID\<close> scans from the front and splices out the first occurrence.\<close>

function removeID_loop :: "nat \<Rightarrow> string list \<Rightarrow> string \<Rightarrow> string list" where
  "removeID_loop i ids pid =
     (if i < length ids then
        if ids ! i = pid then take i ids @ drop (Suc i) ids
        else removeID_loop (Suc i) ids pid
      else ids)"
  by pat_completeness auto
termination
  by (relation "measure (\<lambda>(i, ids, pid). length ids - i)") auto

declare removeID_loop.simps [simp del]

definition removeID :: "string list \<Rightarrow> string \<Rightarrow> string list" where
  "removeID ids pid = removeID_loop 0 ids pid"

definition index_remove :: "string \<Rightarrow> string \<Rightarrow> (string \<rightharpoonup> string list) \<Rightarrow> (string \<rightharpoonup> string list)" where
  "index_remove k pid ls = ls(k \<mapsto> removeID (at ls k) pid)"

definition index_add :: "string \<Rightarrow> string \<Rightarrow> (string \<rightharpoonup> string list) \<Rightarrow> (string \<rightharpoonup> string list)" where
  "index_add k pid ls = ls(k \<mapsto> at ls k @ [pid])"

subsection \<open>Peers\<close>

definition MemoryStore_Upsert :: "env \<Rightarrow> RegisterRequest \<Rightarrow> (error, MemoryStore, unit) call" where
  "MemoryStore_Upsert E req s =
     (let pid = TrimSpace (reg_ID req) in
      if pid = [] then (Inl ErrInvalidPeer, s)
      else
        let ttl = (if reg_TTLSeconds req \<le>s 0 then defaultTTL else reg_TTLSeconds req);
            peer = \<lparr>ID = pid, Login = TrimSpace (reg_Login req),
                    EncryptionKey = TrimSpace (reg_EncryptionKey req),
                    SignatureKey = TrimSpace (reg_SignatureKey req),
                    LastSeen = clock E 0, TTLSeconds = ttl, QualityScore = 0,
                    Quality = \<lparr>ValidReports = 0, InvalidReports = 0\<rparr>, Flag = [], Fake = False\<rparr>
        in case peers s pid of
          Some existing \<Rightarrow>
            let peer = peer\<lparr>QualityScore := QualityScore existing, Quality := Quality existing,
                  Flag := (if reg_PeerFlag req \<noteq> [] then reg_PeerFlag req else Flag existing),
                  Fake := Fake existing, EncryptionKey := EncryptionKey existing,
                  SignatureKey := SignatureKey existing\<rparr>
            in (Inr (), s\<lparr>logins := index_add (Key peer) pid (index_remove (Key existing) pid (logins s)),
                          peers := (peers s)(pid \<mapsto> peer)\<rparr>)
        | None \<Rightarrow>
            let peer = peer\<lparr>QualityScore := InitialQualityScore, Flag := reg_PeerFlag req,
                  Fake := (case reg_Fake req of Some b \<Rightarrow> b | None \<Rightarrow> False)\<rparr>
            in (Inr (), s\<lparr>logins := index_add (Key peer) pid (logins s),
                          peers := (peers s)(pid \<mapsto> peer)\<rparr>))"

definition MemoryStore_Refresh :: "env \<Rightarrow> RefreshRequest \<Rightarrow> (error, MemoryStore, unit) call" where
  "MemoryStore_Refresh E req s =
     (let pid = TrimSpace (ref_ID req) in
      if pid = [] then (Inl ErrInvalidPeer, s)
      else
        let key = ref_Login req @ '':'' @ ref_SignatureKey req
        in case peers s pid of
          Some existing \<Rightarrow>
            (Inr (), s\<lparr>logins := index_add key pid (logins s),
                       peers := (peers s)(pid \<mapsto> existing\<lparr>LastSeen := clock E 0\<rparr>)\<rparr>)
        | None \<Rightarrow> (Inr (), s))"

definition MemoryStore_Get :: "env \<Rightarrow> string \<Rightarrow> MemoryStore \<Rightarrow> Peer result" where
  "MemoryStore_Get E pid s =
     (case peers s pid of
        None \<Rightarrow> Inl ErrNotFound
      | Some peer \<Rightarrow> if isExpired peer (clock E 0) then Inl ErrNotFound else Inr peer)"

text \<open>The loop over ids that keeps the registered peers passing a test, in the order of the ids.\<close>

fun collect_peers :: "(string \<rightharpoonup> Peer) \<Rightarrow> (Peer \<Rightarrow> bool) \<Rightarrow> string list \<Rightarrow> Peer list" where
  "collect_peers m keep [] = []"
| "collect_peers m keep (pid # ids) =
     (case m pid of
        None \<Rightarrow> collect_peers m keep ids
      | Some peer \<Rightarrow>
          if keep peer then peer # collect_peers m keep ids else collect_peers m keep ids)"

definition MemoryStore_GetByKey :: "env \<Rightarrow> string \<Rightarrow> string \<Rightarrow> MemoryStore \<Rightarrow> Peer list result" where
  "MemoryStore_GetByKey E login0 signature0 s =
     (let login = TrimSpace login0; signature = TrimSpace signature0 in
      if login = [] \<or> signature = [] then Inl ErrInvalidKey
      else case logins s (login @ '':'' @ signature) of
        None \<Rightarrow> Inl ErrNotFound
      | Some ids \<Rightarrow>
          let out = collect_peers (peers s) (\<lambda>p. \<not> isExpired p (clock E 0)) ids
          in if out = [] then Inl ErrNotFound else Inr out)"

definition MemoryStore_Delete :: "string \<Rightarrow> (error, MemoryStore, unit) call" where
  "MemoryStore_Delete pid s =
     (case peers s pid of
        None \<Rightarrow> (Inl ErrNotFound, s)
      | Some peer \<Rightarrow>
          (Inr (), s\<lparr>logins := index_remove (Key peer) pid (logins s), peers := (peers s)(pid := None)\<rparr>))"

definition MemoryStore_List :: "env \<Rightarrow> MemoryStore \<Rightarrow> Peer list result" where
  "MemoryStore_List E s =
     Inr (collect_peers (peers s) (\<lambda>p. \<not> isExpired p (clock E 0) \<and> \<not> Fake p) (map fst (scan E 0)))"

definition MemoryStore_Heartbeat :: "env \<Rightarrow> string \<Rightarrow> int64 \<Rightarrow> (error, MemoryStore, Peer) call" where
  "MemoryStore_Heartbeat E pid ttlSeconds s =
     (case peers s pid of
        None \<Rightarrow> (Inl ErrNotFound, s)
      | Some peer \<Rightarrow>
          let peer = (if 0 <s ttlSeconds then peer\<lparr>TTLSeconds := ttlSeconds\<rparr> else peer);
              peer = peer\<lparr>LastSeen := clock E 0\<rparr>
          in (Inr peer, s\<lparr>peers := (peers s)(pid \<mapsto> peer)\<rparr>))"

text \<open>
  \<^verbatim>\<open>sort.Slice\<close> puts the larger effective score first and leaves the order of equal scores
  open. The model sorts stably: the input comes in the arbitrary order of a map iteration,
  so every order of the ties is among its results.
\<close>

definition sort_by_score :: "Peer list \<Rightarrow> Peer list" where
  "sort_by_score = sort_key (\<lambda>p. - sint (EffectiveScore p))"

definition first_n :: "int64 \<Rightarrow> 'a list \<Rightarrow> 'a list" where
  "first_n n xs = (let m = (if int (length xs) < sint n then int (length xs) else sint n) in take (nat m) xs)"

definition MemoryStore_GetBestPeers :: "env \<Rightarrow> int64 \<Rightarrow> MemoryStore \<Rightarrow> Peer list result" where
  "MemoryStore_GetBestPeers E n s =
     (if n \<le>s 0 then Inr []
      else
        let active = collect_peers (peers s) (\<lambda>p. \<not> isExpired p (clock E 0) \<and> \<not> Fake p) (map fst (scan E 0))
        in Inr (first_n n (sort_by_score active)))"

definition MemoryStore_GetBestThickPeers :: "env \<Rightarrow> int64 \<Rightarrow> MemoryStore \<Rightarrow> Peer list result" where
  "MemoryStore_GetBestThickPeers E n s =
     (if n \<le>s 0 then Inr []
      else
        let active = collect_peers (peers s)
              (\<lambda>p. \<not> (isExpired p (clock E 0) \<or> Fake p) \<and>
                (Flag p = PeerFlagThick \<or> Flag p = PeerFlagVeryThick)) (map fst (scan E 0))
        in Inr (first_n n (sort_by_score active)))"

definition MemoryStore_SetPeerScore :: "string \<Rightarrow> int64 \<Rightarrow> (error, MemoryStore, unit) call" where
  "MemoryStore_SetPeerScore pid score s =
     (case peers s pid of
        None \<Rightarrow> (Inl ErrNotFound, s)
      | Some p \<Rightarrow> (Inr (), s\<lparr>peers := (peers s)(pid \<mapsto> p\<lparr>QualityScore := score\<rparr>)\<rparr>))"

text \<open>\<^verbatim>\<open>peerByKey\<close> returns the first match of an iteration over the map.\<close>

fun peerByKey :: "(string \<rightharpoonup> Peer) \<Rightarrow> (string \<times> time) list \<Rightarrow> string \<Rightarrow> Peer option" where
  "peerByKey m [] key = None"
| "peerByKey m ((pid, now) # visits) key =
     (case m pid of
        None \<Rightarrow> peerByKey m visits key
      | Some peer \<Rightarrow>
          if Key peer = key \<and> \<not> isExpired peer now then Some peer else peerByKey m visits key)"

text \<open>\<^verbatim>\<open>copyStrings\<close> trims and drops the empty strings; no operation calls it.\<close>

definition copyStrings :: "string list \<Rightarrow> string list" where
  "copyStrings xs = filter (\<lambda>a. a \<noteq> []) (map TrimSpace xs)"

subsection \<open>Chunks\<close>

definition MemoryStore_SetChunkHash ::
  "env \<Rightarrow> string \<Rightarrow> int64 \<Rightarrow> RegisterChunkRequest \<Rightarrow> (error, MemoryStore, unit) call" where
  "MemoryStore_SetChunkHash E fileID0 chunkIndex req s =
     (let fileID = TrimSpace fileID0;
          senderKey = TrimSpace (rc_SenderID req);
          recipientKey = TrimSpace (rc_RecipientID req);
          peerID = TrimSpace (rc_PeerID req);
          hash = normalizeHash E (rc_Hash req)
      in
      if fileID = [] \<or> senderKey = [] \<or> recipientKey = [] \<or> peerID = [] \<or> hash = [] \<or>
         \<not> validHashFormat hash \<or> chunkIndex <s 0 \<or> TrimSpace (rc_Signature req) = []
      then (Inl ErrInvalidChunk, s)
      else case peerByKey (peers s) (scan E 0) senderKey of
        None \<Rightarrow> (Inl ErrNotFound, s)
      | Some sender \<Rightarrow>
          (case verifyPeerSignature E sender (rc_Signature req) (ExpectedPayload fileID chunkIndex hash) of
             Some err \<Rightarrow> (Inl err, s)
           | None \<Rightarrow>
               let chunkTTL = (if rc_TTL req \<le>s 0 then defaultChunkTTL else rc_TTL req);
                   now = time_Unix (clock E 0)
               in (Inr (), s\<lparr>chunks := chunks s @
                     [\<lparr>ce_key = chunkKey fileID chunkIndex, ce_Hash = hash, ce_SenderID = senderKey,
                       ce_RecipientID = recipientKey, ce_PeerID = peerID, ce_Persist = rc_Persist req,
                       ce_Confirmed = False, ce_Readed = False, ce_CreatedAt = now, ce_UpdatedAt = now,
                       ce_TTL = chunkTTL\<rparr>]\<rparr>)))"

text \<open>One report on a peer: the score moves by one point and one counter goes up.\<close>

definition score_report :: "bool \<Rightarrow> Peer \<Rightarrow> Peer" where
  "score_report valid peer =
     (let delta = (if valid then QualityPointsValid else QualityPointsInvalid);
          q = Quality peer;
          q' = (if valid then q\<lparr>ValidReports := ValidReports q + 1\<rparr>
                else q\<lparr>InvalidReports := InvalidReports q + 1\<rparr>)
      in peer\<lparr>Quality := q', QualityScore := QualityScore peer + delta\<rparr>)"

definition MemoryStore_ReportChunk ::
  "env \<Rightarrow> string \<Rightarrow> ChunkReportRequest \<Rightarrow> (error, MemoryStore, ChunkReportResult) call" where
  "MemoryStore_ReportChunk E sourcePeerID0 req s =
     (let sourcePeerID = TrimSpace sourcePeerID0;
          reporterID = TrimSpace (rep_ReporterID req);
          fileID = TrimSpace (rep_FileID req);
          reported = normalizeHash E (rep_Hash req)
      in
      if sourcePeerID = [] \<or> reporterID = [] \<or> fileID = [] \<or> reported = [] \<or>
         \<not> validHashFormat reported \<or> rep_ChunkIndex req <s 0 \<or> TrimSpace (rep_Signature req) = []
      then (Inl ErrInvalidChunk, s)
      else
        let key = chunkKey fileID (rep_ChunkIndex req) in
        case peers s reporterID of
          None \<Rightarrow> (Inl ErrNotFound, s)
        | Some reporter \<Rightarrow>
            (case verifyPeerSignature E reporter (rep_Signature req)
                    (ReportedPayload fileID (rep_ChunkIndex req) reported sourcePeerID) of
               Some err \<Rightarrow> (Inl err, s)
             | None \<Rightarrow>
                 let expected = (case List.find (\<lambda>entry. ce_key entry = key) (chunks s) of
                                   None \<Rightarrow> [] | Some entry \<Rightarrow> ce_Hash entry)
                 in
                 if expected = [] then (Inl ErrChunkNotFound, s)
                 else case peers s sourcePeerID of
                   None \<Rightarrow> (Inl ErrNotFound, s)
                 | Some peer \<Rightarrow>
                     let valid = (reported = expected);
                         delta = (if valid then QualityPointsValid else QualityPointsInvalid);
                         peer = score_report valid peer
                     in (Inr \<lparr>crr_Valid = valid, crr_ExpectedHash = expected, crr_ReportedHash = reported,
                              crr_Delta = delta, crr_Peer = peer\<rparr>,
                         s\<lparr>peers := (peers s)(sourcePeerID \<mapsto> peer)\<rparr>)))"

text \<open>The index of the first entry that passes a test: \<^verbatim>\<open>ConfirmChunk\<close> keeps a pointer to it.\<close>

fun first_index :: "('a \<Rightarrow> bool) \<Rightarrow> 'a list \<Rightarrow> nat option" where
  "first_index P [] = None"
| "first_index P (x # xs) = (if P x then Some 0 else map_option Suc (first_index P xs))"

definition MemoryStore_ConfirmChunk ::
  "env \<Rightarrow> ConfirmChunkRequest \<Rightarrow> (error, MemoryStore, ConfirmChunkResult) call" where
  "MemoryStore_ConfirmChunk E req s =
     (let recipientKey = TrimSpace (cc_RecipientID req);
          fileID = TrimSpace (cc_FileID req);
          confirmed = normalizeHash E (cc_Hash req)
      in
      if recipientKey = [] \<or> fileID = [] \<or> confirmed = [] \<or> \<not> validHashFormat confirmed \<or>
         cc_ChunkIndex req <s 0 \<or> TrimSpace (cc_Signature req) = []
      then (Inl ErrInvalidChunk, s)
      else
        let key = chunkKey fileID (cc_ChunkIndex req) in
        case peerByKey (peers s) (scan E 0) recipientKey of
          None \<Rightarrow> (Inl ErrNotFound, s)
        | Some recipient \<Rightarrow>
            (case verifyPeerSignature E recipient (cc_Signature req)
                    (ConfirmedPayload fileID (cc_ChunkIndex req) confirmed) of
               Some err \<Rightarrow> (Inl err, s)
             | None \<Rightarrow>
                 (case first_index (\<lambda>e. ce_key e = key \<and> ce_RecipientID e = recipientKey) (chunks s) of
                    None \<Rightarrow> (Inl ErrChunkNotFound, s)
                  | Some i \<Rightarrow>
                      let entry = chunks s ! i in
                      (case peerByKey (peers s) (scan E 1) (ce_SenderID entry) of
                         None \<Rightarrow> (Inl ErrNotFound, s)
                       | Some senderPeer \<Rightarrow>
                           let valid = (confirmed = ce_Hash entry);
                               delta = (if valid then QualityPointsValid else QualityPointsInvalid);
                               senderPeer = score_report valid senderPeer;
                               entry' = (if valid then entry\<lparr>ce_Confirmed := True, ce_UpdatedAt := time_Unix (clock E 0)\<rparr>
                                         else entry)
                           in (Inr \<lparr>ccr_Valid = valid, ccr_ExpectedHash = ce_Hash entry',
                                    ccr_ConfirmedHash = confirmed, ccr_Delta = delta, ccr_Peer = senderPeer\<rparr>,
                               s\<lparr>chunks := (chunks s)[i := entry'],
                                 peers := (peers s)(ID senderPeer \<mapsto> senderPeer)\<rparr>)))))"

definition read_entry :: "string \<Rightarrow> string \<Rightarrow> chunkRecordEntry \<Rightarrow> bool" where
  "read_entry recipientKey fileID e =
     (ce_RecipientID e = recipientKey \<and> fst (parseChunkKey (ce_key e)) = fileID)"

definition MemoryStore_ReadChunk ::
  "env \<Rightarrow> ReadChunkRequest \<Rightarrow> (error, MemoryStore, ReadChunkResult) call" where
  "MemoryStore_ReadChunk E req s =
     (let recipientKey = TrimSpace (rd_RecipientID req);
          fileID = TrimSpace (rd_FileID req)
      in
      if fileID = [] \<or> TrimSpace (rd_Signature req) = [] then (Inl ErrInvalidChunk, s)
      else case peerByKey (peers s) (scan E 0) recipientKey of
        None \<Rightarrow> (Inl ErrNotFound, s)
      | Some recipient \<Rightarrow>
          (case verifyPeerSignature E recipient (rd_Signature req) (ReadPayload fileID) of
             Some err \<Rightarrow> (Inl err, s)
           | None \<Rightarrow>
               let now = time_Unix (clock E 0);
                   marked = list_ex (read_entry recipientKey fileID) (chunks s);
                   s' = s\<lparr>chunks := map (\<lambda>e. if read_entry recipientKey fileID e
                            then e\<lparr>ce_Readed := True, ce_UpdatedAt := now\<rparr> else e) (chunks s)\<rparr>
               in if \<not> marked then (Inl ErrChunkNotFound, s') else (Inr \<lparr>rdr_Valid = True\<rparr>, s')))"

definition chunk_record :: "string \<Rightarrow> int64 \<Rightarrow> chunkRecordEntry \<Rightarrow> ChunkRecord" where
  "chunk_record fileID idx e =
     \<lparr>cr_FileID = fileID, cr_ChunkIndex = idx, cr_SenderID = ce_SenderID e,
      cr_RecipientID = ce_RecipientID e, cr_Hash = ce_Hash e, cr_PeerID = ce_PeerID e,
      cr_Persist = ce_Persist e, cr_Confirmed = ce_Confirmed e, cr_Readed = ce_Readed e,
      cr_CreatedAt = ce_CreatedAt e, cr_UpdatedAt = ce_UpdatedAt e, cr_TTL = ce_TTL e\<rparr>"

definition MemoryStore_GetChunksByRecipient ::
  "string \<Rightarrow> int64 \<Rightarrow> MemoryStore \<Rightarrow> ChunkRecord list result" where
  "MemoryStore_GetChunksByRecipient recipientID0 dateFrom s =
     (let recipientID = TrimSpace recipientID0 in
      if recipientID = [] then Inl ErrInvalidChunk
      else Inr (map (\<lambda>e. chunk_record (fst (parseChunkKey (ce_key e))) (snd (parseChunkKey (ce_key e))) e)
        (filter (\<lambda>e. \<not> (ce_RecipientID e \<noteq> recipientID \<or> ce_UpdatedAt e <s dateFrom)) (chunks s))))"

definition MemoryStore_GetChunksByFileID :: "string \<Rightarrow> MemoryStore \<Rightarrow> ChunkRecord list result" where
  "MemoryStore_GetChunksByFileID fileID0 s =
     (let fileID = TrimSpace fileID0 in
      if fileID = [] then Inl ErrInvalidChunk
      else Inr (map (\<lambda>e. chunk_record fileID (snd (parseChunkKey (ce_key e))) e)
        (filter (\<lambda>e. fst (parseChunkKey (ce_key e)) = fileID) (chunks s))))"

text \<open>
  \<^verbatim>\<open>DeleteExpiredChunks\<close> compacts the slice in place: \<open>arr\<close> is the backing array that the
  loop reads at \<open>i\<close> and writes at \<open>k\<close>.
\<close>

definition chunk_expired :: "int64 \<Rightarrow> chunkRecordEntry \<Rightarrow> bool" where
  "chunk_expired now e = (\<not> ce_Persist e \<and> ce_CreatedAt e + ce_TTL e <s now)"

function purge_loop ::
  "int64 \<Rightarrow> nat \<Rightarrow> nat \<Rightarrow> nat \<Rightarrow> int64 \<Rightarrow> chunkRecordEntry list \<Rightarrow> chunkRecordEntry list \<times> int64" where
  "purge_loop now n i k deleted arr =
     (if i < n then
        let entry = arr ! i in
        if chunk_expired now entry then purge_loop now n (Suc i) k (deleted + 1) arr
        else purge_loop now n (Suc i) (Suc k) deleted (arr[k := entry])
      else (take k arr, deleted))"
  by pat_completeness auto
termination
  by (relation "measure (\<lambda>(now, n, i, k, deleted, arr). n - i)") auto

declare purge_loop.simps [simp del]

definition MemoryStore_DeleteExpiredChunks :: "env \<Rightarrow> (error, MemoryStore, int64) call" where
  "MemoryStore_DeleteExpiredChunks E s =
     (let (kept, deleted) = purge_loop (time_Unix (clock E 0)) (length (chunks s)) 0 0 0 (chunks s)
      in (Inr deleted, s\<lparr>chunks := kept\<rparr>))"

subsection \<open>Signals\<close>

definition MemoryStore_SetSignal :: "string \<Rightarrow> Signal \<Rightarrow> (error, MemoryStore, unit) call" where
  "MemoryStore_SetSignal peerID0 sig s =
     (let peerID = TrimSpace peerID0 in
      if peerID = [] \<or> sig_From sig = [] \<or> sig_Type sig = [] then (Inl ErrInvalidChunk, s)
      else case peers s peerID of
        None \<Rightarrow> (Inl ErrNotFound, s)
      | Some _ \<Rightarrow> (Inr (), s\<lparr>signals := (signals s)(peerID \<mapsto> at (signals s) peerID @ [sig])\<rparr>))"

definition MemoryStore_PollSignals :: "string \<Rightarrow> (error, MemoryStore, Signal list) call" where
  "MemoryStore_PollSignals peerID0 s =
     (let peerID = TrimSpace peerID0 in
      if peerID = [] then (Inl ErrInvalidChunk, s)
      else (Inr (at (signals s) peerID), s\<lparr>signals := (signals s)(peerID := None)\<rparr>))"

end
