(* ===== verification/Phonebook.thy ===== *)
theory Phonebook
  imports Memory_Store
begin

text \<open>
  \<^verbatim>\<open>internal/store/store.go\<close>, the \<^verbatim>\<open>Store\<close> interface, as a record of operations over a state
  type, and \<^verbatim>\<open>internal/handler/phonebook.go\<close>, the HTTP handlers, over any such store. The
  in-memory store is one instance.

  A request gives its path values, its query values and its body. Decoding the JSON body into
  a struct is a parameter (\<open>codec\<close>): each decoder returns the struct as far as it was filled
  and whether decoding succeeded. A response is the status code and the value that is encoded
  into its body. \<open>E i\<close> is the outside of the i-th store call a handler makes. Log lines are
  left out. A panic in a store call unwinds the handler and \<^verbatim>\<open>net/http\<close> drops the connection.
\<close>

subsection \<open>The Store interface\<close>

record 's Store =
  Upsert :: "env \<Rightarrow> RegisterRequest \<Rightarrow> (error, 's, unit) call"
  Refresh :: "env \<Rightarrow> RefreshRequest \<Rightarrow> (error, 's, unit) call"
  Get :: "env \<Rightarrow> string \<Rightarrow> (error, 's, Peer) call"
  GetByKey :: "env \<Rightarrow> string \<Rightarrow> string \<Rightarrow> (error, 's, Peer list) call"
  Delete :: "env \<Rightarrow> string \<Rightarrow> (error, 's, unit) call"
  List :: "env \<Rightarrow> (error, 's, Peer list) call"
  Heartbeat :: "env \<Rightarrow> string \<Rightarrow> int64 \<Rightarrow> (error, 's, Peer) call"
  SetChunkHash :: "env \<Rightarrow> string \<Rightarrow> int64 \<Rightarrow> RegisterChunkRequest \<Rightarrow> (error, 's, unit) call"
  GetBestPeers :: "env \<Rightarrow> int64 \<Rightarrow> (error, 's, Peer list) call"
  ReportChunk :: "env \<Rightarrow> string \<Rightarrow> ChunkReportRequest \<Rightarrow> (error, 's, ChunkReportResult) call"
  ConfirmChunk :: "env \<Rightarrow> ConfirmChunkRequest \<Rightarrow> (error, 's, ConfirmChunkResult) call"
  ReadChunk :: "env \<Rightarrow> ReadChunkRequest \<Rightarrow> (error, 's, ReadChunkResult) call"
  GetChunksByRecipient :: "env \<Rightarrow> string \<Rightarrow> int64 \<Rightarrow> (error, 's, ChunkRecord list) call"
  GetChunksByFileID :: "env \<Rightarrow> string \<Rightarrow> (error, 's, ChunkRecord list) call"
  GetBestThickPeers :: "env \<Rightarrow> int64 \<Rightarrow> (error, 's, Peer list) call"
  SetSignal :: "env \<Rightarrow> string \<Rightarrow> Signal \<Rightarrow> (error, 's, unit) call"
  PollSignals :: "env \<Rightarrow> string \<Rightarrow> (error, 's, Signal list) call"
  DeleteExpiredChunks :: "env \<Rightarrow> (error, 's, int64) call"

definition memory_store :: "MemoryStore Store" where
  "memory_store =
     \<lparr>Upsert = MemoryStore_Upsert, Refresh = MemoryStore_Refresh,
      Get = (\<lambda>E pid s. (MemoryStore_Get E pid s, s)),
      GetByKey = (\<lambda>E login signature s. (MemoryStore_GetByKey E login signature s, s)),
      Delete = (\<lambda>E. MemoryStore_Delete), List = (\<lambda>E s. (MemoryStore_List E s, s)),
      Heartbeat = MemoryStore_Heartbeat, SetChunkHash = MemoryStore_SetChunkHash,
      GetBestPeers = (\<lambda>E n s. (MemoryStore_GetBestPeers E n s, s)),
      ReportChunk = MemoryStore_ReportChunk, ConfirmChunk = MemoryStore_ConfirmChunk,
      ReadChunk = MemoryStore_ReadChunk,
      GetChunksByRecipient = (\<lambda>E r d s. (MemoryStore_GetChunksByRecipient r d s, s)),
      GetChunksByFileID = (\<lambda>E f s. (MemoryStore_GetChunksByFileID f s, s)),
      GetBestThickPeers = (\<lambda>E n s. (MemoryStore_GetBestThickPeers E n s, s)),
      SetSignal = (\<lambda>E. MemoryStore_SetSignal), PollSignals = (\<lambda>E. MemoryStore_PollSignals),
      DeleteExpiredChunks = MemoryStore_DeleteExpiredChunks\<rparr>"

subsection \<open>Requests and responses\<close>

record request =
  path_value :: "string \<Rightarrow> string"
  query :: "string \<Rightarrow> string"
  body :: bytes

record codec =
  dec_register :: "bytes \<Rightarrow> RegisterRequest \<times> bool"
  dec_refresh :: "bytes \<Rightarrow> RefreshRequest \<times> bool"
  dec_ttl :: "bytes \<Rightarrow> int64 \<times> bool"
  dec_chunk :: "bytes \<Rightarrow> RegisterChunkRequest \<times> bool"
  dec_chunk_batch :: "bytes \<Rightarrow> RegisterChunkBatchRequest \<times> bool"
  dec_report :: "bytes \<Rightarrow> ChunkReportRequest \<times> bool"
  dec_confirm :: "bytes \<Rightarrow> ConfirmChunkRequest \<times> bool"
  dec_confirm_batch :: "bytes \<Rightarrow> ConfirmChunkBatchRequest \<times> bool"
  dec_read :: "bytes \<Rightarrow> ReadChunkRequest \<times> bool"
  dec_signal :: "bytes \<Rightarrow> Signal \<times> bool"

datatype payload =
    PString string | PError string | PStatus string | PPeer Peer | PPeers "Peer list"
  | PReport ChunkReportResult | PConfirm ConfirmChunkResult | PRead ReadChunkResult
  | PChunks "ChunkRecord list" | PSignals "Signal list"

datatype response = Response (code: nat) (content: "payload option") | Aborted

definition writeJSON :: "nat \<Rightarrow> payload \<Rightarrow> response" where
  "writeJSON n v = Response n (Some v)"

definition writeError :: "nat \<Rightarrow> string \<Rightarrow> response" where
  "writeError n msg = writeJSON n (PError msg)"

definition NoContent :: response where
  "NoContent = Response 204 None"

subsection \<open>writeStoreError\<close>

text \<open>\<^verbatim>\<open>errors.Is\<close> follows the chain of wrapped errors; \<^verbatim>\<open>err.Error()\<close> prints it.\<close>

fun errors_Is :: "error \<Rightarrow> error \<Rightarrow> bool" where
  "errors_Is (ErrWrap msg e) target = (ErrWrap msg e = target \<or> errors_Is e target)"
| "errors_Is e target = (e = target)"

fun error_text :: "error \<Rightarrow> string" where
  "error_text ErrNotFound = ''peer not found''"
| "error_text ErrInvalidPeer = ''invalid peer data''"
| "error_text ErrInvalidKey = ''invalid key''"
| "error_text ErrKeyTaken = ''login+signature pair already belongs to another peer''"
| "error_text ErrInvalidChunk = ''invalid chunk data''"
| "error_text ErrChunkNotFound = ''chunk hash not registered''"
| "error_text ErrInvalidSignature = ''invalid signature''"
| "error_text ErrNoSigningKey = ''peer has no signature key''"
| "error_text ErrNoPendingMessages = ''no pending messages for recipient''"
| "error_text (ErrWrap msg e) = msg @ '': '' @ error_text e"
| "error_text (ErrDriver msg) = msg"
| "error_text (Panic msg) = msg"

definition writeStoreError :: "error \<Rightarrow> response" where
  "writeStoreError err =
     (if errors_Is err ErrNotFound then writeError 404 (error_text err)
      else if errors_Is err ErrInvalidPeer \<or> errors_Is err ErrInvalidKey \<or> errors_Is err ErrKeyTaken \<or>
        errors_Is err ErrInvalidChunk \<or> errors_Is err ErrNoSigningKey then writeError 400 (error_text err)
      else if errors_Is err ErrInvalidSignature then writeError 401 (error_text err)
      else if errors_Is err ErrChunkNotFound then writeError 404 (error_text err)
      else writeError 500 ''internal error'')"

definition store_failure :: "error \<Rightarrow> response" where
  "store_failure err = (case err of Panic msg \<Rightarrow> Aborted | _ \<Rightarrow> writeStoreError err)"

text \<open>The end of a handler: on an error \<open>store_failure\<close>, otherwise the reply to the result.\<close>

definition reply :: "('a \<Rightarrow> response) \<Rightarrow> 'a result \<times> 's \<Rightarrow> response \<times> 's" where
  "reply ok r = ((case fst r of Inl err \<Rightarrow> store_failure err | Inr v \<Rightarrow> ok v), snd r)"

type_synonym 's handler = "'s Store \<Rightarrow> codec \<Rightarrow> (nat \<Rightarrow> env) \<Rightarrow> request \<Rightarrow> 's \<Rightarrow> response \<times> 's"

subsection \<open>Peers\<close>

definition Phonebook_Register :: "'s handler" where
  [handler_defs]: "Phonebook_Register st J E r s =
     (let (req, ok) = dec_register J (body r) in
      if \<not> ok then (writeError 400 ''invalid json body'', s)
      else reply (\<lambda>_. writeJSON 200 (PString [])) (Upsert st (E 0) req s))"

definition Phonebook_Refresh :: "'s handler" where
  [handler_defs]: "Phonebook_Refresh st J E r s =
     (let (req, ok) = dec_refresh J (body r) in
      if \<not> ok then (writeError 400 ''invalid json body'', s)
      else reply (\<lambda>_. writeJSON 200 (PString [])) (Refresh st (E 0) req s))"

definition Phonebook_Get :: "'s handler" where
  [handler_defs]: "Phonebook_Get st J E r s =
     (let pid = path_value r ''id'' in
      if pid = [] then (writeError 400 ''peer id required'', s)
      else reply (\<lambda>p. writeJSON 200 (PPeer p)) (Get st (E 0) pid s))"

definition Phonebook_GetByKey :: "'s handler" where
  [handler_defs]: "Phonebook_GetByKey st J E r s =
     (let login = path_value r ''login''; signature = query r ''signature'' in
      if login = [] then (writeError 400 ''login required'', s)
      else if signature = [] then (writeError 400 ''signature required'', s)
      else reply (\<lambda>ps. writeJSON 200 (PPeers ps)) (GetByKey st (E 0) login signature s))"

definition Phonebook_Delete :: "'s handler" where
  [handler_defs]: "Phonebook_Delete st J E r s =
     (let pid = path_value r ''id'' in
      if pid = [] then (writeError 400 ''peer id required'', s)
      else reply (\<lambda>_. NoContent) (Delete st (E 0) pid s))"

definition Phonebook_List :: "'s handler" where
  [handler_defs]: "Phonebook_List st J E r s = reply (\<lambda>ps. writeJSON 200 (PPeers ps)) (List st (E 0) s)"

text \<open>The optional query value \<^verbatim>\<open>n\<close> of the two ranking handlers: 10 when absent, refused unless
  it is a positive decimal number.\<close>

definition query_n :: "request \<Rightarrow> int64 option" where
  "query_n r =
     (let nStr = query r ''n'' in
      if nStr \<noteq> [] then
        let (parsed, err) = Atoi nStr in
        if err \<noteq> None \<or> parsed \<le>s 0 then None else Some parsed
      else Some 10)"

definition Phonebook_GetBestPeers :: "'s handler" where
  [handler_defs]: "Phonebook_GetBestPeers st J E r s =
     (case query_n r of
        None \<Rightarrow> (writeError 400 ''invalid n'', s)
      | Some n \<Rightarrow> reply (\<lambda>ps. writeJSON 200 (PPeers ps)) (GetBestPeers st (E 0) n s))"

definition Phonebook_GetBestThickPeers :: "'s handler" where
  [handler_defs]: "Phonebook_GetBestThickPeers st J E r s =
     (case query_n r of
        None \<Rightarrow> (writeError 400 ''invalid n'', s)
      | Some n \<Rightarrow> reply (\<lambda>ps. writeJSON 200 (PPeers ps)) (GetBestThickPeers st (E 0) n s))"

text \<open>The error of decoding a heartbeat's body is dropped: the lifetime is whatever was read.\<close>

definition Phonebook_Heartbeat :: "'s handler" where
  [handler_defs]: "Phonebook_Heartbeat st J E r s =
     (let pid = path_value r ''id'' in
      if pid = [] then (writeError 400 ''peer id required'', s)
      else
        let (ttl, ok) = dec_ttl J (body r)
        in reply (\<lambda>p. writeJSON 200 (PPeer p)) (Heartbeat st (E 0) pid ttl s))"

definition Phonebook_Health :: "'s handler" where
  [handler_defs]: "Phonebook_Health st J E r s = (writeJSON 200 (PStatus ''ok''), s)"

subsection \<open>Chunks\<close>

definition Phonebook_RegisterChunk :: "'s handler" where
  [handler_defs]: "Phonebook_RegisterChunk st J E r s =
     (let fileID = path_value r ''file_id''; (index, err) = Atoi (path_value r ''index'') in
      if err \<noteq> None \<or> index <s 0 then (writeError 400 ''invalid chunk index'', s)
      else
        let (req, ok) = dec_chunk J (body r) in
        if \<not> ok then (writeError 400 ''invalid json body'', s)
        else reply (\<lambda>_. NoContent) (SetChunkHash st (E 0) fileID index req s))"

text \<open>The request a batch entry becomes: its lifetime is not copied.\<close>

definition batch_chunk :: "RegisterChunkBatchEntry \<Rightarrow> RegisterChunkRequest" where
  "batch_chunk entry =
     \<lparr>rc_SenderID = rb_SenderID entry, rc_RecipientID = rb_RecipientID entry, rc_Hash = rb_Hash entry,
      rc_Signature = rb_Signature entry, rc_PeerID = rb_PeerID entry, rc_Persist = rb_Persist entry,
      rc_TTL = 0\<rparr>"

text \<open>The loop of both batch handlers: one store call per entry, up to the first error.\<close>

fun batch_loop :: "(env \<Rightarrow> 'e \<Rightarrow> (error, 's, 'a) call) \<Rightarrow> (nat \<Rightarrow> env) \<Rightarrow> nat \<Rightarrow> 'e list \<Rightarrow> 's \<Rightarrow> error option \<times> 's" where
  "batch_loop f E i [] s = (None, s)"
| "batch_loop f E i (entry # entries) s =
     (case f (E i) entry s of
        (Inl err, s') \<Rightarrow> (Some err, s')
      | (Inr v, s') \<Rightarrow> batch_loop f E (Suc i) entries s')"

definition batch_reply :: "error option \<times> 's \<Rightarrow> response \<times> 's" where
  "batch_reply r = ((case fst r of Some err \<Rightarrow> store_failure err | None \<Rightarrow> NoContent), snd r)"

definition Phonebook_RegisterChunkBatch :: "'s handler" where
  "Phonebook_RegisterChunkBatch st J E r s =
     (let fileID = path_value r ''file_id''; (req, ok) = dec_chunk_batch J (body r) in
      if \<not> ok then (writeError 400 ''invalid json body'', s)
      else batch_reply
        (batch_loop (\<lambda>e entry. SetChunkHash st e fileID (rb_ChunkIndex entry) (batch_chunk entry))
          E 0 (rb_Chunks req) s))"

definition Phonebook_ReportChunk :: "'s handler" where
  [handler_defs]: "Phonebook_ReportChunk st J E r s =
     (let sourceID = path_value r ''id'' in
      if sourceID = [] then (writeError 400 ''peer id required'', s)
      else
        let (req, ok) = dec_report J (body r) in
        if \<not> ok then (writeError 400 ''invalid json body'', s)
        else reply (\<lambda>v. writeJSON 200 (PReport v)) (ReportChunk st (E 0) sourceID req s))"

definition Phonebook_ConfirmChunk :: "'s handler" where
  [handler_defs]: "Phonebook_ConfirmChunk st J E r s =
     (let (req, ok) = dec_confirm J (body r) in
      if \<not> ok then (writeError 400 ''invalid json body'', s)
      else reply (\<lambda>v. writeJSON 200 (PConfirm v)) (ConfirmChunk st (E 0) req s))"

definition batch_confirm :: "string \<Rightarrow> ConfirmChunkBatchEntry \<Rightarrow> ConfirmChunkRequest" where
  "batch_confirm recipientID entry =
     \<lparr>cc_RecipientID = recipientID, cc_FileID = cb_FileID entry, cc_ChunkIndex = cb_ChunkIndex entry,
      cc_Hash = cb_Hash entry, cc_Signature = cb_Signature entry\<rparr>"

definition Phonebook_ConfirmChunkBatch :: "'s handler" where
  "Phonebook_ConfirmChunkBatch st J E r s =
     (let (req, ok) = dec_confirm_batch J (body r) in
      if \<not> ok then (writeError 400 ''invalid json body'', s)
      else batch_reply
        (batch_loop (\<lambda>e entry. ConfirmChunk st e (batch_confirm (cb_RecipientID req) entry))
          E 0 (cb_Chunks req) s))"

text \<open>A date that is no decimal number reads as 0. (On 64 bits, \<^verbatim>\<open>ParseInt(s, 10, 64)\<close> and
  \<^verbatim>\<open>Atoi\<close> agree.)\<close>

definition Phonebook_GetChunksByRecipient :: "'s handler" where
  [handler_defs]: "Phonebook_GetChunksByRecipient st J E r s =
     (let recipientID = query r ''recipient_id'' in
      if recipientID = [] then (writeError 400 ''recipient_id required'', s)
      else
        let df = query r ''date_from'';
            dateFrom = (if df \<noteq> [] then (let (parsed, err) = Atoi df in if err = None then parsed else 0) else 0)
        in reply (\<lambda>cs. writeJSON 200 (PChunks cs)) (GetChunksByRecipient st (E 0) recipientID dateFrom s))"

definition Phonebook_GetChunksByFileID :: "'s handler" where
  [handler_defs]: "Phonebook_GetChunksByFileID st J E r s =
     (let fileID = path_value r ''file_id'' in
      if fileID = [] then (writeError 400 ''file_id required'', s)
      else reply (\<lambda>cs. writeJSON 200 (PChunks cs)) (GetChunksByFileID st (E 0) fileID s))"

definition Phonebook_ReadChunk :: "'s handler" where
  [handler_defs]: "Phonebook_ReadChunk st J E r s =
     (let (req, ok) = dec_read J (body r) in
      if \<not> ok then (writeError 400 ''invalid json body'', s)
      else reply (\<lambda>v. writeJSON 200 (PRead v)) (ReadChunk st (E 0) req s))"

subsection \<open>Signals\<close>

definition Phonebook_SetSignal :: "'s handler" where
  [handler_defs]: "Phonebook_SetSignal st J E r s =
     (let peerID = path_value r ''id'' in
      if peerID = [] then (writeError 400 ''peer id required'', s)
      else
        let (sig, ok) = dec_signal J (body r) in
        if \<not> ok then (writeError 400 ''invalid json body'', s)
        else reply (\<lambda>_. NoContent) (SetSignal st (E 0) peerID sig s))"

definition Phonebook_PollSignals :: "'s handler" where
  [handler_defs]: "Phonebook_PollSignals st J E r s =
     (let peerID = path_value r ''id'' in
      if peerID = [] then (writeError 400 ''peer id required'', s)
      else reply (\<lambda>sigs. writeJSON 200 (PSignals sigs)) (PollSignals st (E 0) peerID s))"

end
