(* ===== verification/DB_Store.thy ===== *)
theory DB_Store
  imports Phonebook
begin

text \<open>
  \<^verbatim>\<open>internal/store/peer_store.go\<close> and \<^verbatim>\<open>internal/store/db.go\<close>: the SQL store. The tables are
  lists of rows with the columns of the migrations (the unused \<^verbatim>\<open>metadata\<close> is left out), and
  every statement is its effect on them. A query without an order returns the rows in the order of
  insertion and an update keeps the place of a row, as SQLite does; \<^verbatim>\<open>sort.Slice\<close> leaves the order
  of equal scores open, and the stable sort stands for it.

  A statement of a call may fail: \<open>fault E name\<close> is then the text of the driver's error and the
  tables stay as they were; a value that does not fit a narrower column of PostgreSQL is such a
  failure. A transaction that fails before or at its commit leaves the tables unchanged. A call is
  modelled as if its statements ran without another call in between, and a result set as if it
  never broke off. Integer columns are 64-bit words, so counters wrap around after \<open>2 ^ 63\<close> reports;
  the purge compares exact sums, because SQLite does not wrap around.
\<close>

record peer_row =
  r_id :: string
  r_key :: string
  r_encryption_key :: string
  r_signature_key :: string
  r_last_seen :: int64
  r_ttl_seconds :: int64
  r_quality_score :: int64
  r_quality_valid :: int64
  r_quality_invalid :: int64
  r_peer_flag :: string
  r_is_fake :: int64
  r_login :: string

record chunk_row =
  c_file_id :: string
  c_chunk_index :: int64
  c_expected_hash :: string
  c_sender_id :: string
  c_recipient_id :: string
  c_holder_peer_id :: string
  c_persist :: int64
  c_confirmed :: int64
  c_readed :: int64
  c_created_at :: int64
  c_updated_at :: int64
  c_ttl :: int64

record signal_row =
  g_peer_id :: string
  g_signal :: Signal
  g_created_at :: int64

record dbStore =
  t_peers :: "peer_row list"
  t_chunks :: "chunk_row list"
  t_signals :: "signal_row list"
  driver :: string

text \<open>An error is wrapped by \<^verbatim>\<open>fmt.Errorf\<close> or replaced; a panic is neither.\<close>

definition wrap :: "string \<Rightarrow> error \<Rightarrow> error" where
  "wrap msg e = (case e of Panic m \<Rightarrow> Panic m | _ \<Rightarrow> ErrWrap msg e)"

definition as_not_found :: "error \<Rightarrow> error" where
  "as_not_found e = (case e of Panic m \<Rightarrow> Panic m | _ \<Rightarrow> ErrNotFound)"

text \<open>A statement: a driver error, or its effect.\<close>

definition stmt :: "env \<Rightarrow> string \<Rightarrow> 'a \<Rightarrow> 'a result" where
  "stmt E name v = (case fault E name of Some msg \<Rightarrow> Inl (ErrDriver msg) | None \<Rightarrow> Inr v)"

text \<open>The text of the error of a statement that the database cannot even parse.\<close>

definition syntax_error :: "env \<Rightarrow> string \<Rightarrow> error" where
  "syntax_error E name = ErrDriver (case fault E name of Some msg \<Rightarrow> msg | None \<Rightarrow> ''syntax error'')"

subsection \<open>Reading peers\<close>

text \<open>
  Scanning a row of \<^verbatim>\<open>SELECT\<close>: its second column is \<^verbatim>\<open>key\<close>, which lands in the field
  \<^verbatim>\<open>Login\<close>. The flag \<^verbatim>\<open>is_fake\<close> converts to a boolean only when it is 0 or 1.
\<close>

definition scan_peer :: "peer_row \<Rightarrow> Peer result" where
  "scan_peer r =
     (if r_is_fake r \<noteq> 0 \<and> r_is_fake r \<noteq> 1 then Inl (ErrDriver ''couldn't convert into type bool'')
      else Inr \<lparr>ID = r_id r, Login = r_key r, EncryptionKey = r_encryption_key r,
        SignatureKey = r_signature_key r, LastSeen = unix_time (r_last_seen r),
        TTLSeconds = r_ttl_seconds r, QualityScore = r_quality_score r,
        Quality = \<lparr>ValidReports = r_quality_valid r, InvalidReports = r_quality_invalid r\<rparr>,
        Flag = r_peer_flag r, Fake = (r_is_fake r = 1)\<rparr>)"

definition dbStore_isExpired :: "Peer \<Rightarrow> time \<Rightarrow> bool" where
  "dbStore_isExpired peer now =
     (let ttl = (if TTLSeconds peer \<le>s 0 then defaultTTL else TTLSeconds peer)
      in ttl * time_Second <s time_Sub now (LastSeen peer))"

definition getPeerByID :: "env \<Rightarrow> string \<Rightarrow> time \<Rightarrow> string \<Rightarrow> dbStore \<Rightarrow> Peer result" where
  "getPeerByID E tag now pid s =
     (if pid = [] then Inl ErrInvalidPeer
      else case stmt E (tag @ pid) (find (\<lambda>r. r_id r = pid) (t_peers s)) of
        Inl e \<Rightarrow> Inl (wrap ''scan peer'' e)
      | Inr None \<Rightarrow> Inl ErrNotFound
      | Inr (Some row) \<Rightarrow>
          (case scan_peer row of
             Inl e \<Rightarrow> Inl (wrap ''scan peer'' e)
           | Inr peer \<Rightarrow> if dbStore_isExpired peer now then Inl ErrNotFound else Inr peer))"

definition dbStore_Get :: "env \<Rightarrow> string \<Rightarrow> dbStore \<Rightarrow> Peer result" where
  "dbStore_Get E pid s = getPeerByID E ''get '' (clock E 0) (TrimSpace pid) s"

text \<open>The loop over the rows of a query by login and key; each row is tested against its own
  reading of the clock.\<close>

fun scan_active :: "env \<Rightarrow> nat \<Rightarrow> peer_row list \<Rightarrow> Peer list result" where
  "scan_active E k [] = Inr []"
| "scan_active E k (r # rs) =
     (case scan_peer r of
        Inl e \<Rightarrow> Inl (wrap ''scan peer'' e)
      | Inr peer \<Rightarrow>
          (case scan_active E (Suc k) rs of
             Inl e \<Rightarrow> Inl e
           | Inr ps \<Rightarrow> Inr (if dbStore_isExpired peer (clock E k) then ps else peer # ps)))"

definition peers_of_key :: "env \<Rightarrow> string \<Rightarrow> nat \<Rightarrow> string \<Rightarrow> string \<Rightarrow> string \<Rightarrow> dbStore \<Rightarrow> Peer list result" where
  "peers_of_key E tag k msg login signature s =
     (case stmt E tag (filter (\<lambda>r. r_login r = login \<and> r_signature_key r = signature) (t_peers s)) of
        Inl e \<Rightarrow> Inl (wrap msg e)
      | Inr rows \<Rightarrow>
          (case scan_active E k rows of
             Inl e \<Rightarrow> Inl e
           | Inr out \<Rightarrow> if out = [] then Inl ErrNotFound else Inr out))"

text \<open>A key without a colon makes the split shorter than two parts and the access panics.\<close>

definition getPeerByKey :: "env \<Rightarrow> string \<Rightarrow> nat \<Rightarrow> string \<Rightarrow> dbStore \<Rightarrow> Peer list result" where
  "getPeerByKey E tag k key0 s =
     (let key = TrimSpace key0 in
      if key = [] then Inl ErrInvalidKey
      else case SplitN2 key (CHR '':'') of
        [login, signature] \<Rightarrow> peers_of_key E tag k ''query peers by key'' login signature s
      | _ \<Rightarrow> Inl (Panic ''index out of range [1] with length 1''))"

definition dbStore_GetByKey :: "env \<Rightarrow> string \<Rightarrow> string \<Rightarrow> dbStore \<Rightarrow> Peer list result" where
  "dbStore_GetByKey E login0 signature0 s =
     (let login = TrimSpace login0; signature = TrimSpace signature0 in
      if login = [] \<or> signature = [] then Inl ErrInvalidKey
      else peers_of_key E ''by key'' 0 (''query peers by key '' @ login @ '':'' @ signature) login signature s)"

text \<open>The loops that fetch the peers of the ids a query returned; an id whose peer cannot be
  read is skipped. The first reading of the clock was taken before the loop.\<close>

fun fetch_active :: "env \<Rightarrow> nat \<Rightarrow> peer_row list \<Rightarrow> dbStore \<Rightarrow> Peer list" where
  "fetch_active E k [] s = []"
| "fetch_active E k (r # rs) s =
     (case getPeerByID E ''fetch '' (clock E (Suc k)) (r_id r) s of
        Inl e \<Rightarrow> fetch_active E (Suc k) rs s
      | Inr peer \<Rightarrow>
          if dbStore_isExpired peer (clock E 0) then fetch_active E (Suc k) rs s
          else peer # fetch_active E (Suc k) rs s)"

definition dbStore_List :: "env \<Rightarrow> dbStore \<Rightarrow> Peer list result" where
  "dbStore_List E s =
     (case stmt E ''list'' (filter (\<lambda>r. r_is_fake r = 0) (t_peers s)) of
        Inl e \<Rightarrow> Inl (wrap ''list peers'' e)
      | Inr rows \<Rightarrow> Inr (fetch_active E 0 rows s))"

text \<open>The loop of \<^verbatim>\<open>GetBestPeers\<close> sets the flag of each peer from the first query.\<close>

fun fetch_scored :: "env \<Rightarrow> nat \<Rightarrow> peer_row list \<Rightarrow> dbStore \<Rightarrow> (Peer \<times> int64) list" where
  "fetch_scored E k [] s = []"
| "fetch_scored E k (r # rs) s =
     (case getPeerByID E ''fetch '' (clock E (Suc k)) (r_id r) s of
        Inl e \<Rightarrow> fetch_scored E (Suc k) rs s
      | Inr peer0 \<Rightarrow>
          if dbStore_isExpired peer0 (clock E 0) then fetch_scored E (Suc k) rs s
          else
            let peer = peer0\<lparr>Flag := r_peer_flag r\<rparr>
            in (peer, EffectiveScore peer) # fetch_scored E (Suc k) rs s)"

definition dbStore_GetBestPeers :: "env \<Rightarrow> int64 \<Rightarrow> dbStore \<Rightarrow> Peer list result" where
  "dbStore_GetBestPeers E n s =
     (if n \<le>s 0 then Inr []
      else case stmt E ''best'' (filter (\<lambda>r. r_is_fake r = 0) (t_peers s)) of
        Inl e \<Rightarrow> Inl (wrap ''get best peers'' e)
      | Inr rows \<Rightarrow>
          let candidates = sort_key (\<lambda>c. - sint (snd c)) (fetch_scored E 0 rows s)
          in Inr (map fst (first_n n candidates)))"

definition dbStore_GetBestThickPeers :: "env \<Rightarrow> int64 \<Rightarrow> dbStore \<Rightarrow> Peer list result" where
  "dbStore_GetBestThickPeers E n s =
     (if n \<le>s 0 then Inr []
      else case stmt E ''thick''
          (filter (\<lambda>r. r_peer_flag r \<in> {''thick'', ''very_thick''} \<and> r_is_fake r = 0) (t_peers s)) of
        Inl e \<Rightarrow> Inl (wrap ''get best thick peers'' e)
      | Inr rows \<Rightarrow> Inr (first_n n (sort_by_score (fetch_active E 0 rows s))))"

subsection \<open>Writing peers\<close>

text \<open>\<^verbatim>\<open>UPDATE peers SET ... WHERE ...\<close>, and the number of rows it affects.\<close>

definition update_peers :: "(peer_row \<Rightarrow> bool) \<Rightarrow> (peer_row \<Rightarrow> peer_row) \<Rightarrow> dbStore \<Rightarrow> dbStore" where
  "update_peers P f s = s\<lparr>t_peers := map (\<lambda>r. if P r then f r else r) (t_peers s)\<rparr>"

definition affected :: "('a \<Rightarrow> bool) \<Rightarrow> 'a list \<Rightarrow> int64" where
  "affected P rows = of_nat (length (filter P rows))"

definition dbStore_Upsert :: "env \<Rightarrow> RegisterRequest \<Rightarrow> (error, dbStore, unit) call" where
  "dbStore_Upsert E req s =
     (let pid = TrimSpace (reg_ID req);
          encKey = TrimSpace (reg_EncryptionKey req);
          sigKey = TrimSpace (reg_SignatureKey req);
          login = TrimSpace (reg_Login req);
          key = login @ '':'' @ sigKey
      in
      if pid = [] then (Inl ErrInvalidPeer, s)
      else
        let ttl = (if reg_TTLSeconds req \<le>s 0 then defaultTTL else reg_TTLSeconds req);
            nowUnix = time_Unix (clock E 0)
        in case stmt E ''begin'' () of
          Inl e \<Rightarrow> (Inl (wrap ''begin tx'' e), s)
        | Inr _ \<Rightarrow>
            (case stmt E ''select peer'' (find (\<lambda>r. r_id r = pid) (t_peers s)) of
               Inl e \<Rightarrow> (Inl (wrap ''select peer'' e), s)
             | Inr existing \<Rightarrow>
                 let encKey = (if encKey = [] then (case existing of None \<Rightarrow> [] | Some r \<Rightarrow> r_encryption_key r) else encKey);
                     sigKey = (if sigKey = [] then (case existing of None \<Rightarrow> [] | Some r \<Rightarrow> r_signature_key r) else sigKey);
                     s' = (case existing of
                        None \<Rightarrow> s\<lparr>t_peers := t_peers s @
                          [\<lparr>r_id = pid, r_key = key, r_encryption_key = encKey, r_signature_key = sigKey,
                            r_last_seen = nowUnix, r_ttl_seconds = ttl, r_quality_score = InitialQualityScore,
                            r_quality_valid = 0, r_quality_invalid = 0, r_peer_flag = reg_PeerFlag req,
                            r_is_fake = (case reg_Fake req of None \<Rightarrow> 0 | Some b \<Rightarrow> if b then 1 else 0),
                            r_login = login\<rparr>]\<rparr>
                      | Some _ \<Rightarrow> update_peers (\<lambda>r. r_id r = pid)
                          (\<lambda>r. r\<lparr>r_last_seen := nowUnix, r_ttl_seconds := ttl,
                             r_peer_flag := (if reg_PeerFlag req = [] then r_peer_flag r else reg_PeerFlag req)\<rparr>) s)
                 in case stmt E ''upsert'' () of
                   Inl e \<Rightarrow> (Inl (wrap ''upsert peer'' e), s)
                 | Inr _ \<Rightarrow>
                     (case stmt E ''commit'' () of
                        Inl e \<Rightarrow> (Inl (wrap ''commit'' e), s)
                      | Inr _ \<Rightarrow> (Inr (), s'))))"

text \<open>The \<^verbatim>\<open>UPDATE\<close> of \<^verbatim>\<open>Refresh\<close> has a comma before \<^verbatim>\<open>WHERE\<close>: no database parses it.\<close>

definition dbStore_Refresh :: "env \<Rightarrow> RefreshRequest \<Rightarrow> (error, dbStore, unit) call" where
  "dbStore_Refresh E req s =
     (if TrimSpace (ref_ID req) = [] then (Inl ErrInvalidPeer, s)
      else case stmt E ''begin'' () of
        Inl e \<Rightarrow> (Inl (wrap ''begin tx'' e), s)
      | Inr _ \<Rightarrow> (Inl (wrap ''refresh peer'' (syntax_error E ''refresh'')), s))"

definition dbStore_Delete :: "env \<Rightarrow> string \<Rightarrow> (error, dbStore, unit) call" where
  "dbStore_Delete E pid0 s =
     (let pid = TrimSpace pid0 in
      if pid = [] then (Inl ErrInvalidPeer, s)
      else case stmt E ''begin'' () of
        Inl e \<Rightarrow> (Inl (wrap ''begin tx'' e), s)
      | Inr _ \<Rightarrow>
          (case stmt E ''delete'' (affected (\<lambda>r. r_id r = pid) (t_peers s)) of
             Inl e \<Rightarrow> (Inl (wrap ''delete peer'' e), s)
           | Inr n \<Rightarrow>
               if n = 0 then (Inl ErrNotFound, s)
               else case stmt E ''commit'' () of
                 Inl e \<Rightarrow> (Inl e, s)
               | Inr _ \<Rightarrow> (Inr (), s\<lparr>t_peers := filter (\<lambda>r. r_id r \<noteq> pid) (t_peers s)\<rparr>)))"

definition dbStore_Heartbeat :: "env \<Rightarrow> string \<Rightarrow> int64 \<Rightarrow> (error, dbStore, Peer) call" where
  "dbStore_Heartbeat E pid0 ttlSeconds s =
     (let pid = TrimSpace pid0 in
      if pid = [] then (Inl ErrInvalidPeer, s)
      else
        let nowUnix = time_Unix (clock E 0) in
        case stmt E ''heartbeat'' (affected (\<lambda>r. r_id r = pid) (t_peers s)) of
          Inl e \<Rightarrow> (Inl (wrap ''heartbeat'' e), s)
        | Inr n \<Rightarrow>
            let s' = update_peers (\<lambda>r. r_id r = pid)
                  (\<lambda>r. r\<lparr>r_last_seen := nowUnix,
                     r_ttl_seconds := (if 0 <s ttlSeconds then ttlSeconds else r_ttl_seconds r)\<rparr>) s
            in if n = 0 then (Inl ErrNotFound, s') else (getPeerByID E ''get '' (clock E 1) pid s', s'))"

definition dbStore_SetPeerScore :: "env \<Rightarrow> string \<Rightarrow> int64 \<Rightarrow> (error, dbStore, unit) call" where
  "dbStore_SetPeerScore E pid0 score s =
     (let pid = TrimSpace pid0 in
      if pid = [] then (Inl ErrInvalidPeer, s)
      else case stmt E ''set score'' (affected (\<lambda>r. r_id r = pid) (t_peers s)) of
        Inl e \<Rightarrow> (Inl (wrap ''set peer score'' e), s)
      | Inr n \<Rightarrow>
          let s' = update_peers (\<lambda>r. r_id r = pid) (\<lambda>r. r\<lparr>r_quality_score := score\<rparr>) s
          in if n = 0 then (Inl ErrNotFound, s') else (Inr (), s'))"

subsection \<open>Chunks\<close>

definition sql_bool :: "bool \<Rightarrow> int64" where
  "sql_bool b = (if b then 1 else 0)"

definition dbStore_SetChunkHash ::
  "env \<Rightarrow> string \<Rightarrow> int64 \<Rightarrow> RegisterChunkRequest \<Rightarrow> (error, dbStore, unit) call" where
  "dbStore_SetChunkHash E fileID0 chunkIndex req s =
     (let fileID = TrimSpace fileID0;
          senderKey = TrimSpace (rc_SenderID req);
          recipientKey = TrimSpace (rc_RecipientID req);
          peerID = TrimSpace (rc_PeerID req);
          hash = normalizeHash E (rc_Hash req)
      in
      if fileID = [] \<or> senderKey = [] \<or> peerID = [] \<or> hash = [] \<or> \<not> validHashFormat hash \<or>
         chunkIndex <s 0 \<or> TrimSpace (rc_Signature req) = []
      then (Inl ErrInvalidChunk, s)
      else case getPeerByKey E ''sender'' 1 senderKey s of
        Inl e \<Rightarrow> (Inl (as_not_found e), s)
      | Inr senders \<Rightarrow>
          (case verifyPeerSignature E (hd senders) (rc_Signature req) (ExpectedPayload fileID chunkIndex hash) of
             Some err \<Rightarrow> (Inl err, s)
           | None \<Rightarrow>
               let persist = sql_bool (rc_Persist req);
                   chunkTTL = (if rc_TTL req \<le>s 0 then defaultChunkTTL else rc_TTL req);
                   now = time_Unix (clock E 0)
               in case stmt E ''insert chunk'' () of
                 Inl e \<Rightarrow> (Inl (wrap ''set chunk hash'' e), s)
               | Inr _ \<Rightarrow>
                   (Inr (), s\<lparr>t_chunks := t_chunks s @
                     [\<lparr>c_file_id = fileID, c_chunk_index = chunkIndex, c_expected_hash = hash,
                       c_sender_id = senderKey, c_recipient_id = recipientKey, c_holder_peer_id = peerID,
                       c_persist = persist, c_confirmed = 0, c_readed = 0, c_created_at = now,
                       c_updated_at = now, c_ttl = chunkTTL\<rparr>]\<rparr>)))"

definition row_record :: "chunk_row \<Rightarrow> ChunkRecord" where
  "row_record r =
     \<lparr>cr_FileID = c_file_id r, cr_ChunkIndex = c_chunk_index r, cr_SenderID = c_sender_id r,
      cr_RecipientID = c_recipient_id r, cr_Hash = c_expected_hash r, cr_PeerID = c_holder_peer_id r,
      cr_Persist = (c_persist r \<noteq> 0), cr_Confirmed = (c_confirmed r \<noteq> 0), cr_Readed = (c_readed r \<noteq> 0),
      cr_CreatedAt = c_created_at r, cr_UpdatedAt = c_updated_at r, cr_TTL = c_ttl r\<rparr>"

definition dbStore_GetChunksByRecipient ::
  "env \<Rightarrow> string \<Rightarrow> int64 \<Rightarrow> dbStore \<Rightarrow> ChunkRecord list result" where
  "dbStore_GetChunksByRecipient E recipientID0 dateFrom s =
     (let recipientID = TrimSpace recipientID0 in
      if recipientID = [] then Inl ErrInvalidChunk
      else case stmt E ''by recipient''
          (filter (\<lambda>r. c_recipient_id r = recipientID \<and> dateFrom \<le>s c_updated_at r) (t_chunks s)) of
        Inl e \<Rightarrow> Inl (wrap ''get chunks by recipient'' e)
      | Inr rows \<Rightarrow> Inr (map row_record rows))"

definition dbStore_GetChunksByFileID :: "env \<Rightarrow> string \<Rightarrow> dbStore \<Rightarrow> ChunkRecord list result" where
  "dbStore_GetChunksByFileID E fileID0 s =
     (let fileID = TrimSpace fileID0 in
      if fileID = [] then Inl ErrInvalidChunk
      else case stmt E ''by file'' (filter (\<lambda>r. c_file_id r = fileID) (t_chunks s)) of
        Inl e \<Rightarrow> Inl (wrap ''get chunks by recipient'' e)
      | Inr rows \<Rightarrow> Inr (map row_record rows))"

text \<open>One report on a row: \<^verbatim>\<open>quality_score + $1\<close> and the two counters.\<close>

definition score_row :: "bool \<Rightarrow> peer_row \<Rightarrow> peer_row" where
  "score_row valid r =
     (let delta = (if valid then QualityPointsValid else QualityPointsInvalid);
          qValidInc = (if valid then 1 else 0);
          qInvalidInc = (if valid then 0 else 1)
      in r\<lparr>r_quality_score := r_quality_score r + delta, r_quality_valid := r_quality_valid r + qValidInc,
           r_quality_invalid := r_quality_invalid r + qInvalidInc\<rparr>)"

definition dbStore_ReportChunk ::
  "env \<Rightarrow> string \<Rightarrow> ChunkReportRequest \<Rightarrow> (error, dbStore, ChunkReportResult) call" where
  "dbStore_ReportChunk E sourcePeerID0 req s =
     (let sourcePeerID = TrimSpace sourcePeerID0;
          reporterID = TrimSpace (rep_ReporterID req);
          fileID = TrimSpace (rep_FileID req);
          reported = normalizeHash E (rep_Hash req)
      in
      if sourcePeerID = [] \<or> reporterID = [] \<or> fileID = [] \<or> reported = [] \<or>
         \<not> validHashFormat reported \<or> rep_ChunkIndex req <s 0 \<or> TrimSpace (rep_Signature req) = []
      then (Inl ErrInvalidChunk, s)
      else case getPeerByID E ''reporter '' (clock E 0) reporterID s of
        Inl e \<Rightarrow> (Inl (as_not_found e), s)
      | Inr reporter \<Rightarrow>
          (case verifyPeerSignature E reporter (rep_Signature req)
                  (ReportedPayload fileID (rep_ChunkIndex req) reported sourcePeerID) of
             Some err \<Rightarrow> (Inl err, s)
           | None \<Rightarrow>
               (case stmt E ''get chunk''
                    (find (\<lambda>c. c_file_id c = fileID \<and> c_chunk_index c = rep_ChunkIndex req) (t_chunks s)) of
                  Inl e \<Rightarrow> (Inl (wrap ''get chunk'' e), s)
                | Inr None \<Rightarrow> (Inl ErrChunkNotFound, s)
                | Inr (Some row) \<Rightarrow>
                    let expected = c_expected_hash row;
                        valid = (reported = expected);
                        delta = (if valid then QualityPointsValid else QualityPointsInvalid)
                    in case stmt E ''update quality'' () of
                      Inl e \<Rightarrow> (Inl (wrap ''update quality'' e), s)
                    | Inr _ \<Rightarrow>
                        let s' = update_peers (\<lambda>r. r_id r = sourcePeerID) (score_row valid) s in
                        (case getPeerByID E ''source '' (clock E 1) sourcePeerID s' of
                           Inl e \<Rightarrow> (Inl (wrap ''get updated peer'' e), s')
                         | Inr peer \<Rightarrow>
                             (Inr \<lparr>crr_Valid = valid, crr_ExpectedHash = expected, crr_ReportedHash = reported,
                                   crr_Delta = delta, crr_Peer = peer\<rparr>, s')))))"

text \<open>
  \<^verbatim>\<open>ConfirmChunk\<close>, \<^verbatim>\<open>ReadChunk\<close> and \<^verbatim>\<open>DeleteExpiredChunks\<close> choose the text of a statement by
  the driver name. For a name that is neither \<^verbatim>\<open>pgx\<close> nor \<^verbatim>\<open>sqlite\<close> the text stays empty; an
  empty statement has no effect, and whether it is an error is up to the driver. The database's
  own clock, \<^verbatim>\<open>unixepoch()\<close>, is the third reading.
\<close>

definition by_driver :: "env \<Rightarrow> string \<Rightarrow> string \<Rightarrow> 'a \<Rightarrow> 'a \<Rightarrow> 'a result" where
  "by_driver E drv name effect same =
     (if drv = ''pgx'' \<or> drv = ''sqlite'' then stmt E name effect else stmt E (''empty '' @ name) same)"

definition update_chunks :: "(chunk_row \<Rightarrow> bool) \<Rightarrow> (chunk_row \<Rightarrow> chunk_row) \<Rightarrow> dbStore \<Rightarrow> dbStore" where
  "update_chunks P f s = s\<lparr>t_chunks := map (\<lambda>r. if P r then f r else r) (t_chunks s)\<rparr>"

definition confirm_row :: "ConfirmChunkRequest \<Rightarrow> chunk_row \<Rightarrow> bool" where
  "confirm_row req c \<longleftrightarrow>
     c_file_id c = TrimSpace (cc_FileID req) \<and> c_chunk_index c = cc_ChunkIndex req \<and>
     c_recipient_id c = TrimSpace (cc_RecipientID req)"

text \<open>\<^verbatim>\<open>ConfirmChunk\<close> from the comparison of the hashes on: \<open>row\<close> is the chunk that was found. Each
  statement takes effect at once; an error after it does not take it back.\<close>

definition confirm_update ::
  "env \<Rightarrow> ConfirmChunkRequest \<Rightarrow> chunk_row \<Rightarrow> (error, dbStore, ConfirmChunkResult) call" where
  "confirm_update E req row s =
     (let confirmed = normalizeHash E (cc_Hash req);
          expectedHash = c_expected_hash row;
          senderKey = c_sender_id row;
          valid = (confirmed = expectedHash);
          delta = (if valid then QualityPointsValid else QualityPointsInvalid)
      in case stmt E ''update quality'' () of
        Inl e \<Rightarrow> (Inl (wrap ''update quality'' e), s)
      | Inr _ \<Rightarrow>
          let s1 = update_peers (\<lambda>r. r_key r = senderKey) (score_row valid) s in
          (case (if valid then by_driver E (driver s) ''update confirmed''
                   (update_chunks (confirm_row req) (\<lambda>c. c\<lparr>c_confirmed := 1, c_updated_at := time_Unix (clock E 2)\<rparr>) s1) s1
                 else Inr s1) of
             Inl e \<Rightarrow> (Inl (wrap ''update confirmed'' e), s1)
           | Inr s2 \<Rightarrow>
               (case getPeerByKey E ''sender'' (3 + length (t_peers s)) senderKey s2 of
                  Inl e \<Rightarrow> (Inl (wrap ''get updated peer'' e), s2)
                | Inr senders \<Rightarrow>
                    (Inr \<lparr>ccr_Valid = valid, ccr_ExpectedHash = expectedHash,
                          ccr_ConfirmedHash = confirmed, ccr_Delta = delta, ccr_Peer = hd senders\<rparr>, s2))))"

definition dbStore_ConfirmChunk ::
  "env \<Rightarrow> ConfirmChunkRequest \<Rightarrow> (error, dbStore, ConfirmChunkResult) call" where
  "dbStore_ConfirmChunk E req s =
     (let recipientKey = TrimSpace (cc_RecipientID req);
          fileID = TrimSpace (cc_FileID req);
          confirmed = normalizeHash E (cc_Hash req)
      in
      if fileID = [] \<or> confirmed = [] \<or> \<not> validHashFormat confirmed \<or> cc_ChunkIndex req <s 0 \<or>
         TrimSpace (cc_Signature req) = []
      then (Inl ErrInvalidChunk, s)
      else case getPeerByKey E ''recipient'' 3 recipientKey s of
        Inl e \<Rightarrow> (Inl (as_not_found e), s)
      | Inr recipients \<Rightarrow>
          (case verifyPeerSignature E (hd recipients) (cc_Signature req)
                  (ConfirmedPayload fileID (cc_ChunkIndex req) confirmed) of
             Some err \<Rightarrow> (Inl err, s)
           | None \<Rightarrow>
               (case stmt E ''get chunk'' (find (confirm_row req) (t_chunks s)) of
                  Inl e \<Rightarrow> (Inl (wrap ''get chunk'' e), s)
                | Inr None \<Rightarrow> (Inl ErrChunkNotFound, s)
                | Inr (Some row) \<Rightarrow> confirm_update E req row s)))"

definition dbStore_ReadChunk :: "env \<Rightarrow> ReadChunkRequest \<Rightarrow> (error, dbStore, ReadChunkResult) call" where
  "dbStore_ReadChunk E req s =
     (let recipientKey = TrimSpace (rd_RecipientID req);
          fileID = TrimSpace (rd_FileID req)
      in
      if fileID = [] \<or> TrimSpace (rd_Signature req) = [] then (Inl ErrInvalidChunk, s)
      else case getPeerByKey E ''recipient'' 3 recipientKey s of
        Inl e \<Rightarrow> (Inl (as_not_found e), s)
      | Inr recipients \<Rightarrow>
          (case verifyPeerSignature E (hd recipients) (rd_Signature req) (ReadPayload fileID) of
             Some err \<Rightarrow> (Inl err, s)
           | None \<Rightarrow>
               (case by_driver E (driver s) ''update readed''
                    (update_chunks (\<lambda>c. c_file_id c = fileID \<and> c_recipient_id c = recipientKey)
                      (\<lambda>c. c\<lparr>c_readed := 1, c_updated_at := time_Unix (clock E 2)\<rparr>) s) s of
                  Inl e \<Rightarrow> (Inl (wrap ''update readed'' e), s)
                | Inr s' \<Rightarrow> (Inr \<lparr>rdr_Valid = True\<rparr>, s'))))"

definition row_expired :: "int64 \<Rightarrow> chunk_row \<Rightarrow> bool" where
  "row_expired now c \<longleftrightarrow> c_persist c = 0 \<and> sint (c_created_at c) + sint (c_ttl c) < sint now"

text \<open>The second statement of the purge names a column \<^verbatim>\<open>persist\<close> of \<^verbatim>\<open>signals\<close>, which no
  migration creates: it always fails, and its error is dropped.\<close>

definition dbStore_DeleteExpiredChunks :: "env \<Rightarrow> (error, dbStore, int64) call" where
  "dbStore_DeleteExpiredChunks E s =
     (let now = time_Unix (clock E 2) in
      case by_driver E (driver s) ''purge''
          (affected (row_expired now) (t_chunks s), s\<lparr>t_chunks := filter (\<lambda>c. \<not> row_expired now c) (t_chunks s)\<rparr>)
          (0, s) of
        Inl e \<Rightarrow> (Inl (wrap ''delete expired chunks'' e), s)
      | Inr (n, s') \<Rightarrow> (Inr n, s'))"

subsection \<open>Signals\<close>

definition dbStore_SetSignal :: "env \<Rightarrow> string \<Rightarrow> Signal \<Rightarrow> (error, dbStore, unit) call" where
  "dbStore_SetSignal E peerID0 sig s =
     (let peerID = TrimSpace peerID0 in
      if peerID = [] \<or> sig_From sig = [] \<or> sig_Type sig = [] then (Inl ErrInvalidChunk, s)
      else case getPeerByID E ''get '' (clock E 0) peerID s of
        Inl e \<Rightarrow> (Inl (as_not_found e), s)
      | Inr _ \<Rightarrow>
          let now = time_Unix (clock E 1) in
          (case stmt E ''insert signal'' () of
             Inl e \<Rightarrow> (Inl e, s)
           | Inr _ \<Rightarrow>
               (Inr (), s\<lparr>t_signals := t_signals s @
                  [\<lparr>g_peer_id = peerID, g_signal = sig, g_created_at = now\<rparr>]\<rparr>)))"

text \<open>The error of the \<^verbatim>\<open>DELETE\<close> is dropped: the signals then stay and are polled again.\<close>

definition dbStore_PollSignals :: "env \<Rightarrow> string \<Rightarrow> (error, dbStore, Signal list) call" where
  "dbStore_PollSignals E peerID0 s =
     (let peerID = TrimSpace peerID0 in
      if peerID = [] then (Inl ErrInvalidChunk, s)
      else case stmt E ''query signals'' (filter (\<lambda>g. g_peer_id g = peerID) (t_signals s)) of
        Inl e \<Rightarrow> (Inl (wrap ''query signals'' e), s)
      | Inr rows \<Rightarrow>
          let s' = (case stmt E ''delete signals'' () of
                      Inl e \<Rightarrow> s
                    | Inr _ \<Rightarrow> s\<lparr>t_signals := filter (\<lambda>g. g_peer_id g \<noteq> peerID) (t_signals s)\<rparr>)
          in (Inr (map g_signal rows), s'))"

subsection \<open>The SQL store as a Store\<close>

definition db_store :: "dbStore Store" where
  "db_store =
     \<lparr>Upsert = dbStore_Upsert, Refresh = dbStore_Refresh,
      Get = (\<lambda>E pid s. (dbStore_Get E pid s, s)),
      GetByKey = (\<lambda>E login signature s. (dbStore_GetByKey E login signature s, s)),
      Delete = dbStore_Delete, List = (\<lambda>E s. (dbStore_List E s, s)),
      Heartbeat = dbStore_Heartbeat, SetChunkHash = dbStore_SetChunkHash,
      GetBestPeers = (\<lambda>E n s. (dbStore_GetBestPeers E n s, s)),
      ReportChunk = dbStore_ReportChunk, ConfirmChunk = dbStore_ConfirmChunk,
      ReadChunk = dbStore_ReadChunk,
      GetChunksByRecipient = (\<lambda>E r d s. (dbStore_GetChunksByRecipient E r d s, s)),
      GetChunksByFileID = (\<lambda>E f s. (dbStore_GetChunksByFileID E f s, s)),
      GetBestThickPeers = (\<lambda>E n s. (dbStore_GetBestThickPeers E n s, s)),
      SetSignal = dbStore_SetSignal, PollSignals = dbStore_PollSignals,
      DeleteExpiredChunks = dbStore_DeleteExpiredChunks\<rparr>"

end
