(* ===== verification/Signaling.thy ===== *)
theory Signaling
  imports Phonebook
begin

text \<open>
  \<^verbatim>\<open>internal/webrtc/handler.go\<close>: the websocket handler that relays signals between peers.

  A connection is a number; \<open>wsConns\<close> is the map of the code and \<open>written\<close> the messages that
  were written so far, in order, each with its connection. Whether a write succeeds is
  decided outside: \<open>w k\<close> for the k-th write of a call. Messages are kept as the values that
  are marshalled; unmarshalling what a peer sent is a parameter (\<open>rpc_codec\<close>).
\<close>

definition rpcMethodSignalRelay :: string where "rpcMethodSignalRelay = ''signal_relay''"
definition rpcMethodConnectToPeer :: string where "rpcMethodConnectToPeer = ''connect_to_peer''"
definition rpcNotifyIncomingSignal :: string where "rpcNotifyIncomingSignal = ''incoming_signal''"

record rpcRequest =
  rq_ID :: string
  rq_Method :: string
  rq_Params :: bytes

record SignalRelayRequest =
  sr_TargetID :: string
  sr_From :: string
  sr_Type :: string
  sr_Data :: string

record ConnectToPeerRequest =
  cp_TargetID :: string
  cp_Offer :: string

record IncomingSignal =
  in_From :: string
  in_Type :: string
  in_Data :: string

record rpcResponse =
  rs_ID :: string
  rs_Result :: string
  rs_Error :: string

record rpcNotification =
  nt_Method :: string
  nt_Params :: IncomingSignal

datatype ws_message = MResponse rpcResponse | MNotification rpcNotification

record 's Handler =
  wsConns :: "string \<rightharpoonup> nat"
  written :: "(nat \<times> ws_message) list"
  hstore :: 's

record rpc_codec =
  dec_rpc :: "bytes \<Rightarrow> rpcRequest \<times> bool"
  dec_relay :: "bytes \<Rightarrow> SignalRelayRequest \<times> bool"
  dec_connect :: "bytes \<Rightarrow> ConnectToPeerRequest \<times> bool"

definition NewHandler :: "'s \<Rightarrow> 's Handler" where
  "NewHandler s = \<lparr>wsConns = Map.empty, written = [], hstore = s\<rparr>"

subsection \<open>Writing\<close>

definition WriteMessage :: "bool \<Rightarrow> nat \<Rightarrow> ws_message \<Rightarrow> 's Handler \<Rightarrow> 's Handler" where
  "WriteMessage ok c msg h = (if ok then h\<lparr>written := written h @ [(c, msg)]\<rparr> else h)"

definition sendNotification ::
  "bool \<Rightarrow> string \<Rightarrow> string \<Rightarrow> IncomingSignal \<Rightarrow> 's Handler \<Rightarrow> bool \<times> 's Handler" where
  "sendNotification ok peerID method params h =
     (case wsConns h peerID of
        None \<Rightarrow> (False, h)
      | Some p \<Rightarrow> (ok, WriteMessage ok p (MNotification \<lparr>nt_Method = method, nt_Params = params\<rparr>) h))"

definition sendResult :: "bool \<Rightarrow> string \<Rightarrow> string \<Rightarrow> 's Handler \<Rightarrow> 's Handler" where
  "sendResult ok peerID reqID h =
     (case wsConns h peerID of
        None \<Rightarrow> h
      | Some p \<Rightarrow> WriteMessage ok p (MResponse \<lparr>rs_ID = reqID, rs_Result = ''{}'', rs_Error = []\<rparr>) h)"

definition sendError :: "bool \<Rightarrow> string \<Rightarrow> string \<Rightarrow> string \<Rightarrow> 's Handler \<Rightarrow> 's Handler" where
  "sendError ok peerID reqID errMsg h =
     (case wsConns h peerID of
        None \<Rightarrow> h
      | Some p \<Rightarrow> WriteMessage ok p (MResponse \<lparr>rs_ID = reqID, rs_Result = [], rs_Error = errMsg\<rparr>) h)"

subsection \<open>Relaying\<close>

text \<open>
  Both request handlers end alike: write the signal to the target's connection; if that does
  not work, store it for the target; answer the caller. The two steps are separate critical
  sections, so other calls may run between \<^verbatim>\<open>sendNotification\<close> and \<open>store_signal\<close>.
\<close>

definition store_signal ::
  "'s Store \<Rightarrow> env \<Rightarrow> bool \<Rightarrow> string \<Rightarrow> string \<Rightarrow> string \<Rightarrow> Signal \<Rightarrow> 's Handler \<Rightarrow> 's Handler" where
  "store_signal st E ok fromPeerID reqID targetID sig h =
     (let (r, s') = SetSignal st E targetID sig (hstore h); h' = h\<lparr>hstore := s'\<rparr> in
      case r of
        Inl err \<Rightarrow> sendError ok fromPeerID reqID (''store signal: '' @ error_text err) h'
      | Inr _ \<Rightarrow> sendResult ok fromPeerID reqID h')"

definition deliver ::
  "'s Store \<Rightarrow> env \<Rightarrow> (nat \<Rightarrow> bool) \<Rightarrow> string \<Rightarrow> string \<Rightarrow> string \<Rightarrow> Signal \<Rightarrow> 's Handler \<Rightarrow> 's Handler" where
  "deliver st E w fromPeerID reqID targetID sig h =
     (let (sent, h') = sendNotification (w 0) targetID rpcNotifyIncomingSignal
            \<lparr>in_From = sig_From sig, in_Type = sig_Type sig, in_Data = sig_Data sig\<rparr> h
      in if sent then sendResult (w 1) fromPeerID reqID h'
         else store_signal st E (w 1) fromPeerID reqID targetID sig h')"

definition handleSignalRelay ::
  "'s Store \<Rightarrow> rpc_codec \<Rightarrow> env \<Rightarrow> (nat \<Rightarrow> bool) \<Rightarrow> string \<Rightarrow> rpcRequest \<Rightarrow> 's Handler \<Rightarrow> 's Handler" where
  "handleSignalRelay st J E w fromPeerID req h =
     (let (params, ok) = dec_relay J (rq_Params req) in
      if \<not> ok then sendError (w 1) fromPeerID (rq_ID req) ''invalid signal_relay params'' h
      else deliver st E w fromPeerID (rq_ID req) (sr_TargetID params)
        \<lparr>sig_From = sr_From params, sig_Type = sr_Type params, sig_Data = sr_Data params\<rparr> h)"

definition handleConnectToPeer ::
  "'s Store \<Rightarrow> rpc_codec \<Rightarrow> env \<Rightarrow> (nat \<Rightarrow> bool) \<Rightarrow> string \<Rightarrow> rpcRequest \<Rightarrow> 's Handler \<Rightarrow> 's Handler" where
  "handleConnectToPeer st J E w fromPeerID req h =
     (let (params, ok) = dec_connect J (rq_Params req) in
      if \<not> ok then sendError (w 1) fromPeerID (rq_ID req) ''invalid connect_to_peer params'' h
      else deliver st E w fromPeerID (rq_ID req) (cp_TargetID params)
        \<lparr>sig_From = fromPeerID, sig_Type = ''offer'', sig_Data = cp_Offer params\<rparr> h)"

definition handleMessage ::
  "'s Store \<Rightarrow> rpc_codec \<Rightarrow> env \<Rightarrow> (nat \<Rightarrow> bool) \<Rightarrow> string \<Rightarrow> bytes \<Rightarrow> 's Handler \<Rightarrow> 's Handler" where
  "handleMessage st J E w peerID data h =
     (let (req, ok) = dec_rpc J data in
      if \<not> ok \<or> rq_ID req = [] \<or> rq_Method req = [] then h
      else if rq_Method req = rpcMethodSignalRelay then handleSignalRelay st J E w peerID req h
      else if rq_Method req = rpcMethodConnectToPeer then handleConnectToPeer st J E w peerID req h
      else sendError (w 1) peerID (rq_ID req) (''unknown method: '' @ rq_Method req) h)"

subsection \<open>Connections\<close>

text \<open>
  \<^verbatim>\<open>HandleWebSocket\<close> after a successful upgrade: enter the connection into the map, poll the
  waiting signals and write them, serve messages until a read fails, and at the end delete
  the map entry of the peer id. Entering, flushing, each message and closing are separate
  steps, between which other connections run.
\<close>

definition ws_register :: "string \<Rightarrow> nat \<Rightarrow> 's Handler \<Rightarrow> 's Handler" where
  "ws_register peerID conn h = h\<lparr>wsConns := (wsConns h)(peerID \<mapsto> conn)\<rparr>"

fun write_signals :: "(nat \<Rightarrow> bool) \<Rightarrow> nat \<Rightarrow> nat \<Rightarrow> Signal list \<Rightarrow> 's Handler \<Rightarrow> 's Handler" where
  "write_signals w k conn [] h = h"
| "write_signals w k conn (sig # sigs) h =
     write_signals w (Suc k) conn sigs
       (WriteMessage (w k) conn (MNotification \<lparr>nt_Method = ''incoming_signal'',
          nt_Params = \<lparr>in_From = sig_From sig, in_Type = sig_Type sig, in_Data = sig_Data sig\<rparr>\<rparr>) h)"

definition ws_flush :: "'s Store \<Rightarrow> env \<Rightarrow> (nat \<Rightarrow> bool) \<Rightarrow> string \<Rightarrow> nat \<Rightarrow> 's Handler \<Rightarrow> 's Handler" where
  "ws_flush st E w peerID conn h =
     (let (r, s') = PollSignals st E peerID (hstore h); h' = h\<lparr>hstore := s'\<rparr> in
      case r of Inl err \<Rightarrow> h' | Inr sigs \<Rightarrow> write_signals w 0 conn sigs h')"

definition ws_close :: "string \<Rightarrow> 's Handler \<Rightarrow> 's Handler" where
  "ws_close peerID h = h\<lparr>wsConns := (wsConns h)(peerID := None)\<rparr>"

text \<open>A whole session of one connection that no other call interrupts: \<open>msgs\<close> are the messages
  read before the read error, each with the outside of its handling.\<close>

definition HandleWebSocket ::
  "'s Store \<Rightarrow> rpc_codec \<Rightarrow> env \<Rightarrow> (nat \<Rightarrow> bool) \<Rightarrow> string \<Rightarrow> nat \<Rightarrow> (bytes \<times> env \<times> (nat \<Rightarrow> bool)) list \<Rightarrow>
     's Handler \<Rightarrow> 's Handler" where
  "HandleWebSocket st J E w peerID conn msgs h =
     ws_close peerID
       (fold (\<lambda>(data, E', w'). handleMessage st J E' w' peerID data) msgs
         (ws_flush st E w peerID conn (ws_register peerID conn h)))"

definition CloseAll :: "'s Handler \<Rightarrow> 's Handler" where
  "CloseAll h = h\<lparr>wsConns := Map.empty\<rparr>"

end
