(* ===== verification/Server.thy ===== *)
theory Server
  imports Signaling
begin

text \<open>
  \<^verbatim>\<open>internal/api/server.go\<close> and \<^verbatim>\<open>main.go\<close>: the routes and how \<^verbatim>\<open>http.ServeMux\<close> picks one,
  the dispatch to the handlers, the chunk cleaner, and the choice of store and settings from
  the environment.
\<close>

subsection \<open>Configuration\<close>

record Config =
  Addr :: string
  ReadTimeout :: duration
  WriteTimeout :: duration
  ShutdownTimeout :: duration
  PurgeInterval :: duration

definition DefaultConfig :: Config where
  "DefaultConfig =
     \<lparr>Addr = '':8080'', ReadTimeout = 10 * time_Second, WriteTimeout = 10 * time_Second,
      ShutdownTimeout = 15 * time_Second, PurgeInterval = 3600 * time_Second\<rparr>"

text \<open>\<open>getenv\<close> is \<^verbatim>\<open>os.Getenv\<close>, which reads an unset variable as the empty string;
  \<open>ParseDuration\<close> is \<^verbatim>\<open>time.ParseDuration\<close>.\<close>

definition main_config :: "(string \<Rightarrow> duration option) \<Rightarrow> (string \<Rightarrow> string) \<Rightarrow> Config" where
  "main_config ParseDuration getenv =
     (let cfg = DefaultConfig;
          v = getenv ''MUNINN_ADDR'';
          cfg = (if v \<noteq> [] then cfg\<lparr>Addr := v\<rparr> else cfg);
          v = getenv ''MUNINN_PURGE_INTERVAL''
      in if v \<noteq> [] then (case ParseDuration v of Some d \<Rightarrow> cfg\<lparr>PurgeInterval := d\<rparr> | None \<Rightarrow> cfg) else cfg)"

datatype store_choice = UseDB string string | UseMemory

definition main_store :: "(string \<Rightarrow> string) \<Rightarrow> store_choice" where
  "main_store getenv =
     (let driver = getenv ''MUNINN_STORE_DRIVER'';
          dsn = getenv ''MUNINN_STORE_DSN'';
          driver = (if driver \<noteq> ''postgres'' \<and> driver \<noteq> ''internal'' then ''sqlite'' else driver)
      in if driver = ''sqlite'' \<or> driver = ''postgres'' then UseDB driver dsn else UseMemory)"

subsection \<open>Routes\<close>

datatype segment = Lit string | Wild string

datatype endpoint =
    EHealth | EList | ERegister | ERefresh | EGet | EGetByKey | EGetBestThickPeers | EGetBestPeers
  | EDelete | EHeartbeat | EReportChunk | EConfirmChunk | EConfirmChunkBatch | ERegisterChunk
  | ERegisterChunkBatch | EGetChunksByFileID | EGetChunksByRecipient | ESetSignal | EPollSignals
  | EReadChunk | EWebSocket

text \<open>The registrations of \<^verbatim>\<open>NewServer\<close>: method (none: any), path pattern and handler.\<close>

definition routes :: "(string option \<times> segment list \<times> endpoint) list" where
  "routes =
     [(Some ''GET'', [Lit ''health''], EHealth),
      (Some ''GET'', [Lit ''api'', Lit ''v1'', Lit ''peers''], EList),
      (Some ''POST'', [Lit ''api'', Lit ''v1'', Lit ''peers''], ERegister),
      (Some ''PUT'', [Lit ''api'', Lit ''v1'', Lit ''peers''], ERefresh),
      (Some ''GET'', [Lit ''api'', Lit ''v1'', Lit ''peers'', Wild ''id''], EGet),
      (Some ''GET'', [Lit ''api'', Lit ''v1'', Lit ''keys'', Wild ''login''], EGetByKey),
      (Some ''GET'', [Lit ''api'', Lit ''v1'', Lit ''peers'', Lit ''best'', Lit ''thick''], EGetBestThickPeers),
      (Some ''GET'', [Lit ''api'', Lit ''v1'', Lit ''peers'', Lit ''best''], EGetBestPeers),
      (Some ''DELETE'', [Lit ''api'', Lit ''v1'', Lit ''peers'', Wild ''id''], EDelete),
      (Some ''POST'', [Lit ''api'', Lit ''v1'', Lit ''peers'', Wild ''id'', Lit ''heartbeat''], EHeartbeat),
      (Some ''POST'', [Lit ''api'', Lit ''v1'', Lit ''peers'', Wild ''id'', Lit ''chunk-reports''], EReportChunk),
      (Some ''POST'', [Lit ''api'', Lit ''v1'', Lit ''chunks'', Lit ''confirm''], EConfirmChunk),
      (Some ''POST'', [Lit ''api'', Lit ''v1'', Lit ''chunks'', Lit ''confirm-batch''], EConfirmChunkBatch),
      (Some ''PUT'', [Lit ''api'', Lit ''v1'', Lit ''files'', Wild ''file_id'', Lit ''chunks'', Wild ''index''], ERegisterChunk),
      (Some ''POST'', [Lit ''api'', Lit ''v1'', Lit ''files'', Wild ''file_id'', Lit ''chunks''], ERegisterChunkBatch),
      (Some ''GET'', [Lit ''api'', Lit ''v1'', Lit ''files'', Wild ''file_id'', Lit ''chunks''], EGetChunksByFileID),
      (Some ''GET'', [Lit ''api'', Lit ''v1'', Lit ''recipient'', Lit ''chunks''], EGetChunksByRecipient),
      (Some ''POST'', [Lit ''api'', Lit ''v1'', Lit ''peers'', Wild ''id'', Lit ''signals''], ESetSignal),
      (Some ''GET'', [Lit ''api'', Lit ''v1'', Lit ''peers'', Wild ''id'', Lit ''signals''], EPollSignals),
      (Some ''POST'', [Lit ''api'', Lit ''v1'', Lit ''chunks'', Lit ''read''], EReadChunk),
      (None, [Lit ''api'', Lit ''v1'', Lit ''ws''], EWebSocket)]"

text \<open>
  \<^verbatim>\<open>http.ServeMux\<close> on a clean path, split into unescaped segments: among the patterns of the
  method it follows a literal segment first and, if that leads nowhere, a wildcard, which
  matches one non-empty segment; a \<^verbatim>\<open>HEAD\<close> request falls back to the \<^verbatim>\<open>GET\<close> patterns, any
  request to the patterns without a method. When only other methods match the path, the
  answer is 405, otherwise 404.
\<close>

type_synonym candidate = "segment list \<times> (string \<times> string) list \<times> endpoint"

definition lit_step :: "string \<Rightarrow> candidate list \<Rightarrow> candidate list" where
  "lit_step x cs = List.map_filter (\<lambda>(p, b, e). case p of Lit y # p' \<Rightarrow> if y = x then Some (p', b, e) else None | _ \<Rightarrow> None) cs"

definition wild_step :: "string \<Rightarrow> candidate list \<Rightarrow> candidate list" where
  "wild_step x cs = List.map_filter (\<lambda>(p, b, e). case p of Wild n # p' \<Rightarrow> Some (p', b @ [(n, x)], e) | _ \<Rightarrow> None) cs"

fun match_path :: "candidate list \<Rightarrow> string list \<Rightarrow> (endpoint \<times> (string \<times> string) list) option" where
  "match_path cs [] = (case filter (\<lambda>(p, b, e). p = []) cs of [] \<Rightarrow> None | (p, b, e) # _ \<Rightarrow> Some (e, b))"
| "match_path cs (x # xs) =
     (case match_path (lit_step x cs) xs of
        Some r \<Rightarrow> Some r
      | None \<Rightarrow> if x = [] then None else match_path (wild_step x cs) xs)"

definition candidates :: "string option \<Rightarrow> candidate list" where
  "candidates m = List.map_filter (\<lambda>(m', p, e). if m' = m then Some (p, [], e) else None) routes"

datatype routed = Handled endpoint "(string \<times> string) list" | NotFound | MethodNotAllowed

definition find_route :: "string \<Rightarrow> string list \<Rightarrow> (endpoint \<times> (string \<times> string) list) option" where
  "find_route m path =
     (case match_path (candidates (Some m)) path of
        Some r \<Rightarrow> Some r
      | None \<Rightarrow>
          (case (if m = ''HEAD'' then match_path (candidates (Some ''GET'')) path else None) of
             Some r \<Rightarrow> Some r
           | None \<Rightarrow> match_path (candidates None) path))"

definition route :: "string \<Rightarrow> string list \<Rightarrow> routed" where
  "route m path =
     (case find_route m path of
        Some (e, b) \<Rightarrow> Handled e b
      | None \<Rightarrow>
          if list_ex (\<lambda>m'. match_path (candidates (Some m')) path \<noteq> None) [''GET'', ''POST'', ''PUT'', ''DELETE'']
          then MethodNotAllowed else NotFound)"

definition PathValue :: "(string \<times> string) list \<Rightarrow> string \<Rightarrow> string" where
  "PathValue b n = (case map_of b n of Some v \<Rightarrow> v | None \<Rightarrow> [])"

text \<open>The handler of an endpoint; the websocket endpoint leaves HTTP (theory \<open>Signaling\<close>).\<close>

fun dispatch :: "endpoint \<Rightarrow> 's handler" where
  "dispatch EHealth = Phonebook_Health"
| "dispatch EList = Phonebook_List"
| "dispatch ERegister = Phonebook_Register"
| "dispatch ERefresh = Phonebook_Refresh"
| "dispatch EGet = Phonebook_Get"
| "dispatch EGetByKey = Phonebook_GetByKey"
| "dispatch EGetBestThickPeers = Phonebook_GetBestThickPeers"
| "dispatch EGetBestPeers = Phonebook_GetBestPeers"
| "dispatch EDelete = Phonebook_Delete"
| "dispatch EHeartbeat = Phonebook_Heartbeat"
| "dispatch EReportChunk = Phonebook_ReportChunk"
| "dispatch EConfirmChunk = Phonebook_ConfirmChunk"
| "dispatch EConfirmChunkBatch = Phonebook_ConfirmChunkBatch"
| "dispatch ERegisterChunk = Phonebook_RegisterChunk"
| "dispatch ERegisterChunkBatch = Phonebook_RegisterChunkBatch"
| "dispatch EGetChunksByFileID = Phonebook_GetChunksByFileID"
| "dispatch EGetChunksByRecipient = Phonebook_GetChunksByRecipient"
| "dispatch ESetSignal = Phonebook_SetSignal"
| "dispatch EPollSignals = Phonebook_PollSignals"
| "dispatch EReadChunk = Phonebook_ReadChunk"
| "dispatch EWebSocket = (\<lambda>st J E r s. (Aborted, s))"

definition serve ::
  "'s Store \<Rightarrow> codec \<Rightarrow> (nat \<Rightarrow> env) \<Rightarrow> string \<Rightarrow> string list \<Rightarrow> (string \<Rightarrow> string) \<Rightarrow> bytes \<Rightarrow> 's \<Rightarrow> response \<times> 's" where
  "serve st J E m path q b s =
     (case route m path of
        Handled e vs \<Rightarrow> dispatch e st J E \<lparr>path_value = PathValue vs, query = q, body = b\<rparr> s
      | NotFound \<Rightarrow> (Response 404 None, s)
      | MethodNotAllowed \<Rightarrow> (Response 405 None, s))"

subsection \<open>The chunk cleaner\<close>

text \<open>A cleaner runs only for a positive interval; each tick purges and ignores the outcome.\<close>

definition cleaner_runs :: "duration \<Rightarrow> bool" where
  "cleaner_runs interval \<longleftrightarrow> \<not> interval \<le>s 0"

definition cleaner_tick :: "'s Store \<Rightarrow> env \<Rightarrow> 's \<Rightarrow> 's" where
  "cleaner_tick st E s = snd (DeleteExpiredChunks st E s)"

end
