(* ===== verification/Memory_Index.thy ===== *)
theory Memory_Index
  imports Memory_Store
begin

text \<open>
  The login index of the in-memory store as an interface: what the peer operations rely on
  when they move ids between keys, proved once from the laws of adding and removing an id,
  and the interpretation on \<^verbatim>\<open>logins\<close> with \<^verbatim>\<open>removeID\<close> and \<^verbatim>\<open>append\<close>.
\<close>

text \<open>
  \<open>owner\<close> maps an id to the key it is registered under. An index is complete when every id
  is listed under its key, and exact when it lists each id once, under its key and nowhere
  else.
\<close>

definition index_complete :: "('i \<rightharpoonup> 'k) \<Rightarrow> ('k \<Rightarrow> 'i list) \<Rightarrow> bool" where
  "index_complete owner ls \<longleftrightarrow> (\<forall>i k. owner i = Some k \<longrightarrow> i \<in> set (ls k))"

definition index_exact :: "('i \<rightharpoonup> 'k) \<Rightarrow> ('k \<Rightarrow> 'i list) \<Rightarrow> bool" where
  "index_exact owner ls \<longleftrightarrow> (\<forall>k. distinct (ls k) \<and> set (ls k) = {i. owner i = Some k})"

lemma index_exact_complete: "index_exact owner ls \<Longrightarrow> index_complete owner ls"
  by (simp add: index_exact_def index_complete_def)

locale id_index =
  fixes add :: "'k \<Rightarrow> 'i \<Rightarrow> 'x \<Rightarrow> 'x"
    and remove :: "'k \<Rightarrow> 'i \<Rightarrow> 'x \<Rightarrow> 'x"
    and ids :: "'x \<Rightarrow> 'k \<Rightarrow> 'i list"
  assumes ids_add: "ids (add k i x) k' = (if k' = k then ids x k @ [i] else ids x k')"
    and ids_remove: "ids (remove k i x) k' = (if k' = k then remove1 i (ids x k) else ids x k')"
begin

lemma mem_add: "j \<in> set (ids (add k i x) k') \<longleftrightarrow> j \<in> set (ids x k') \<or> j = i \<and> k' = k"
  by (auto simp: ids_add)

lemma mem_remove_other: "j \<noteq> i \<Longrightarrow> j \<in> set (ids (remove k i x) k') \<longleftrightarrow> j \<in> set (ids x k')"
  by (auto simp: ids_remove)

lemma complete_add:
  "index_complete owner (ids x) \<Longrightarrow> index_complete (owner(i \<mapsto> k)) (ids (add k i x))"
  by (auto simp: index_complete_def mem_add)

lemma complete_touch:
  "index_complete owner (ids x) \<Longrightarrow> index_complete owner (ids (add k i x))"
  by (auto simp: index_complete_def mem_add)

lemma complete_move:
  "index_complete owner (ids x) \<Longrightarrow>
     index_complete (owner(i \<mapsto> k)) (ids (add k i (remove k0 i x)))"
  by (auto simp: index_complete_def mem_add mem_remove_other)

lemma complete_remove:
  "index_complete owner (ids x) \<Longrightarrow> index_complete (owner(i := None)) (ids (remove k0 i x))"
  by (auto simp: index_complete_def mem_remove_other)

lemma exact_add:
  assumes "index_exact owner (ids x)" and "owner i = None"
  shows "index_exact (owner(i \<mapsto> k)) (ids (add k i x))"
  using assms by (auto simp: index_exact_def ids_add)

lemma exact_remove:
  assumes "index_exact owner (ids x)" and "owner i = Some k0"
  shows "index_exact (owner(i := None)) (ids (remove k0 i x))"
  using assms by (auto simp: index_exact_def ids_remove)

lemma exact_move:
  assumes "index_exact owner (ids x)" and "owner i = Some k0"
  shows "index_exact (owner(i \<mapsto> k)) (ids (add k i (remove k0 i x)))"
  using exact_add [OF exact_remove [OF assms], of i k] by simp

lemmas complete_rules = complete_add complete_touch complete_move complete_remove
lemmas exact_rules = exact_add exact_remove exact_move

end

subsection \<open>The laws hold for the program's index\<close>

lemma removeID_loop_eq: "i \<le> length xs \<Longrightarrow> removeID_loop i xs x = take i xs @ remove1 x (drop i xs)"
proof (induction i xs x rule: removeID_loop.induct)
  case (1 i xs x)
  show ?case
  proof (cases "i < length xs")
    case True
    have d: "drop i xs = xs ! i # drop (Suc i) xs" by (simp add: Cons_nth_drop_Suc True)
    show ?thesis
    proof (cases "xs ! i = x")
      case True
      with \<open>i < length xs\<close> d show ?thesis by (simp add: removeID_loop.simps [of i])
    next
      case False
      with 1 True have "removeID_loop i xs x = take (Suc i) xs @ remove1 x (drop (Suc i) xs)"
        by (simp add: removeID_loop.simps [of i])
      with False True d show ?thesis by (simp add: take_Suc_conv_app_nth)
    qed
  next
    case False
    with "1.prems" show ?thesis by (simp add: removeID_loop.simps [of "length xs"])
  qed
qed

lemma removeID_remove1: "removeID ids i = remove1 i ids"
  by (simp add: removeID_def removeID_loop_eq)

lemma at_upd: "at (m(k \<mapsto> v)) k' = (if k' = k then v else at m k')"
  by (simp add: at_def)

lemma at_del: "at (m(k := None)) k' = (if k' = k then [] else at m k')"
  by (simp add: at_def)

interpretation login_index: id_index index_add index_remove at
  by unfold_locales (auto simp: index_add_def index_remove_def at_upd removeID_remove1)

end
