(* ===== verification/Memory_Invariants.thy ===== *)
theory Memory_Invariants
  imports Memory_Index
begin

text \<open>
  The well-formedness invariant of the in-memory store, one preservation lemma per
  operation, and the reachable states of any sequence of operations.
\<close>

subsection \<open>The invariant\<close>

text \<open>The score of a peer is its initial value plus its valid minus its invalid reports.\<close>

definition balanced :: "Peer \<Rightarrow> bool" where
  "balanced p \<longleftrightarrow>
     QualityScore p = InitialQualityScore + ValidReports (Quality p) - InvalidReports (Quality p)"

definition peer_ok :: "string \<Rightarrow> Peer \<Rightarrow> bool" where
  "peer_ok i p \<longleftrightarrow>
     ID p = i \<and> i \<noteq> [] \<and> TrimSpace i = i \<and> 0 <s TTLSeconds p \<and> balanced p \<and>
     TrimSpace (Login p) = Login p \<and> TrimSpace (SignatureKey p) = SignatureKey p"

definition chunk_ok :: "chunkRecordEntry \<Rightarrow> bool" where
  "chunk_ok e \<longleftrightarrow>
     validHashFormat (ce_Hash e) \<and> 0 <s ce_TTL e \<and> ce_SenderID e \<noteq> [] \<and> ce_RecipientID e \<noteq> [] \<and>
     (\<exists>f i. ce_key e = chunkKey f i \<and> f \<noteq> [] \<and> TrimSpace f = f \<and> 0 \<le>s i)"

definition signal_ok :: "Signal \<Rightarrow> bool" where
  "signal_ok x \<longleftrightarrow> sig_From x \<noteq> [] \<and> sig_Type x \<noteq> []"

definition owner_key :: "(string \<rightharpoonup> Peer) \<Rightarrow> string \<rightharpoonup> string" where
  "owner_key m i = map_option Key (m i)"

definition mem_inv :: "MemoryStore \<Rightarrow> bool" where
  "mem_inv s \<longleftrightarrow>
     (\<forall>i p. peers s i = Some p \<longrightarrow> peer_ok i p) \<and>
     index_complete (owner_key (peers s)) (at (logins s)) \<and>
     (\<forall>e \<in> set (chunks s). chunk_ok e) \<and>
     (\<forall>i. list_all signal_ok (at (signals s) i))"

text \<open>The iterations of a call visit every registered peer exactly once.\<close>

definition scan_ok :: "env \<Rightarrow> MemoryStore \<Rightarrow> bool" where
  "scan_ok E s \<longleftrightarrow> (\<forall>j. distinct (map fst (scan E j)) \<and> set (map fst (scan E j)) = dom (peers s))"

lemma mem_invI:
  assumes "\<And>i p. peers s i = Some p \<Longrightarrow> peer_ok i p" and "index_complete (owner_key (peers s)) (at (logins s))"
    and "\<And>e. e \<in> set (chunks s) \<Longrightarrow> chunk_ok e" and "\<And>i. list_all signal_ok (at (signals s) i)"
  shows "mem_inv s"
  using assms by (auto simp: mem_inv_def)

lemma mem_invD:
  assumes "mem_inv s"
  shows "peers s i = Some p \<Longrightarrow> peer_ok i p" "index_complete (owner_key (peers s)) (at (logins s))"
    "e \<in> set (chunks s) \<Longrightarrow> chunk_ok e" "list_all signal_ok (at (signals s) i)"
  using assms by (auto simp: mem_inv_def)

lemma mem_inv_NewMemory: "mem_inv NewMemory"
  by (auto simp: mem_inv_def NewMemory_def index_complete_def owner_key_def at_def)

subsection \<open>What the operations do to the state\<close>

lemma owner_key_upd [simp]:
  "owner_key (m(i \<mapsto> p)) = (owner_key m)(i \<mapsto> Key p)"
  "owner_key (m(i := None)) = (owner_key m)(i := None)"
  by (auto simp: owner_key_def)

lemma owner_key_same: "m i = Some p \<Longrightarrow> (owner_key m)(i \<mapsto> Key p) = owner_key m"
  by (auto simp: owner_key_def)

lemma balanced_score_report: "balanced p \<Longrightarrow> balanced (score_report v p)"
  by (simp add: balanced_def score_report_def QualityPointsValid_def QualityPointsInvalid_def)

lemma score_report_frame [simp]:
  "ID (score_report v p) = ID p" "Login (score_report v p) = Login p"
  "SignatureKey (score_report v p) = SignatureKey p" "LastSeen (score_report v p) = LastSeen p"
  "TTLSeconds (score_report v p) = TTLSeconds p" "Flag (score_report v p) = Flag p"
  "Fake (score_report v p) = Fake p" "Key (score_report v p) = Key p"
  "EncryptionKey (score_report v p) = EncryptionKey p"
  by (simp_all add: score_report_def Key_def)

lemma peer_ok_score_report: "peer_ok i p \<Longrightarrow> peer_ok i (score_report v p)"
  by (simp add: peer_ok_def balanced_score_report)

lemma peerByKey_Some:
  "peerByKey m visits key = Some p \<Longrightarrow>
     \<exists>i now. (i, now) \<in> set visits \<and> m i = Some p \<and> Key p = key \<and> \<not> isExpired p now"
  by (induction m visits key rule: peerByKey.induct) (auto split: option.splits if_splits)

lemma peerByKey_None:
  "peerByKey m visits key = None \<longleftrightarrow>
     (\<forall>(i, now) \<in> set visits. \<forall>p. m i = Some p \<longrightarrow> Key p = key \<longrightarrow> isExpired p now)"
  by (induction m visits key rule: peerByKey.induct) (auto split: option.splits)

text \<open>A peer keeps its place in the store when only its counters, clock or lifetime change.\<close>

lemma mem_inv_peer_upd:
  assumes "mem_inv s" and "peers s i = Some p" and "peer_ok i p'" and "Key p' = Key p"
  shows "mem_inv (s\<lparr>peers := (peers s)(i \<mapsto> p')\<rparr>)"
  using assms by (auto simp: mem_inv_def owner_key_same split: if_splits)

lemma mem_inv_chunks:
  "mem_inv s \<Longrightarrow> \<forall>e \<in> set cs. chunk_ok e \<Longrightarrow> mem_inv (s\<lparr>chunks := cs\<rparr>)"
  by (simp add: mem_inv_def)

lemma first_index_Some: "first_index P xs = Some i \<Longrightarrow> i < length xs \<and> P (xs ! i) \<and> (\<forall>j < i. \<not> P (xs ! j))"
  by (induction P xs arbitrary: i rule: first_index.induct)
    (auto split: if_splits simp: less_Suc_eq_0_disj)

lemma first_index_None: "first_index P xs = None \<longleftrightarrow> (\<forall>x \<in> set xs. \<not> P x)"
  by (induction P xs rule: first_index.induct) auto

subsection \<open>Preservation\<close>

lemma Upsert_inv [inv_intros]:
  assumes "mem_inv s"
  shows "mem_inv (snd (MemoryStore_Upsert E req s))"
proof (cases "TrimSpace (reg_ID req) = []")
  case True
  then show ?thesis using assms by (simp add: MemoryStore_Upsert_def)
next
  case False
  then have ttl: "0 <s (if reg_TTLSeconds req \<le>s 0 then defaultTTL else reg_TTLSeconds req)"
    by (auto simp: word_sless_alt word_sle_eq defaultTTL_def)
  show ?thesis
  proof (cases "peers s (TrimSpace (reg_ID req))")
    case None
    then show ?thesis using assms False ttl
      by (intro mem_invI)
        (auto simp: MemoryStore_Upsert_def Let_def peer_ok_def balanced_def login_index.complete_add
          dest: mem_invD split: if_splits)
  next
    case (Some ex)
    then show ?thesis using assms False ttl mem_invD(1) [OF assms Some]
      by (intro mem_invI)
        (auto simp: MemoryStore_Upsert_def Let_def peer_ok_def balanced_def login_index.complete_move
          dest: mem_invD split: if_splits)
  qed
qed

lemma Refresh_inv [inv_intros]:
  assumes "mem_inv s"
  shows "mem_inv (snd (MemoryStore_Refresh E req s))"
proof (cases "peers s (TrimSpace (ref_ID req))")
  case (Some p)
  let ?i = "TrimSpace (ref_ID req)"
  let ?p = "p\<lparr>LastSeen := clock E 0\<rparr>"
  have "peer_ok ?i ?p"
    using mem_invD(1) [OF assms Some] by (simp add: peer_ok_def balanced_def)
  then have "mem_inv (s\<lparr>peers := (peers s)(?i \<mapsto> ?p)\<rparr>)"
    by (intro mem_inv_peer_upd [OF assms Some]) simp_all
  then show ?thesis
    using assms Some
    by (auto simp: MemoryStore_Refresh_def Let_def mem_inv_def login_index.complete_touch)
qed (use assms in \<open>simp add: MemoryStore_Refresh_def Let_def\<close>)

lemma Delete_inv [inv_intros]:
  assumes "mem_inv s"
  shows "mem_inv (snd (MemoryStore_Delete i s))"
  using assms
  by (auto simp: MemoryStore_Delete_def mem_inv_def login_index.complete_remove split: option.splits if_splits)

lemma Heartbeat_inv [inv_intros]:
  assumes "mem_inv s"
  shows "mem_inv (snd (MemoryStore_Heartbeat E i ttl s))"
proof (cases "peers s i")
  case (Some p)
  let ?p = "(if 0 <s ttl then p\<lparr>TTLSeconds := ttl\<rparr> else p)\<lparr>LastSeen := clock E 0\<rparr>"
  have "peer_ok i ?p" using mem_invD(1) [OF assms Some] by (simp add: peer_ok_def balanced_def)
  then have "mem_inv (s\<lparr>peers := (peers s)(i \<mapsto> ?p)\<rparr>)"
    by (intro mem_inv_peer_upd [OF assms Some]) simp_all
  then show ?thesis using Some by (simp add: MemoryStore_Heartbeat_def Let_def)
qed (use assms in \<open>simp add: MemoryStore_Heartbeat_def\<close>)

text \<open>The entry \<^verbatim>\<open>SetChunkHash\<close> appends, and what the request must satisfy for it to do so.\<close>

definition new_chunk :: "env \<Rightarrow> string \<Rightarrow> int64 \<Rightarrow> RegisterChunkRequest \<Rightarrow> chunkRecordEntry" where
  "new_chunk E f i req =
     \<lparr>ce_key = chunkKey (TrimSpace f) i, ce_Hash = normalizeHash E (rc_Hash req),
      ce_SenderID = TrimSpace (rc_SenderID req), ce_RecipientID = TrimSpace (rc_RecipientID req),
      ce_PeerID = TrimSpace (rc_PeerID req), ce_Persist = rc_Persist req, ce_Confirmed = False,
      ce_Readed = False, ce_CreatedAt = time_Unix (clock E 0), ce_UpdatedAt = time_Unix (clock E 0),
      ce_TTL = (if rc_TTL req \<le>s 0 then defaultChunkTTL else rc_TTL req)\<rparr>"

definition chunk_request_ok :: "env \<Rightarrow> string \<Rightarrow> int64 \<Rightarrow> RegisterChunkRequest \<Rightarrow> bool" where
  "chunk_request_ok E f i req \<longleftrightarrow>
     TrimSpace f \<noteq> [] \<and> TrimSpace (rc_SenderID req) \<noteq> [] \<and> TrimSpace (rc_RecipientID req) \<noteq> [] \<and>
     TrimSpace (rc_PeerID req) \<noteq> [] \<and> validHashFormat (normalizeHash E (rc_Hash req)) \<and> 0 \<le>s i \<and>
     TrimSpace (rc_Signature req) \<noteq> []"

lemma not_sless_0: "\<not> i <s 0 \<longleftrightarrow> 0 \<le>s (i :: int64)"
  by (auto simp: word_sless_alt word_sle_eq)

lemma valid_hash_nonempty: "validHashFormat h \<Longrightarrow> h \<noteq> []"
  by (auto simp: validHashFormat_def)

lemma chunk_ok_new_chunk: "chunk_request_ok E f i req \<Longrightarrow> chunk_ok (new_chunk E f i req)"
  by (auto simp: chunk_ok_def new_chunk_def chunk_request_ok_def word_sless_alt word_sle_eq
      defaultChunkTTL_def chunkKey_inject)

lemma SetChunkHash_unfold:
  "MemoryStore_SetChunkHash E f i req s =
     (if \<not> chunk_request_ok E f i req then (Inl ErrInvalidChunk, s)
      else case peerByKey (peers s) (scan E 0) (TrimSpace (rc_SenderID req)) of
        None \<Rightarrow> (Inl ErrNotFound, s)
      | Some sender \<Rightarrow>
          (case verifyPeerSignature E sender (rc_Signature req)
                  (ExpectedPayload (TrimSpace f) i (normalizeHash E (rc_Hash req))) of
             Some err \<Rightarrow> (Inl err, s)
           | None \<Rightarrow> (Inr (), s\<lparr>chunks := chunks s @ [new_chunk E f i req]\<rparr>)))"
  by (auto simp: MemoryStore_SetChunkHash_def chunk_request_ok_def new_chunk_def not_sless_0
      valid_hash_nonempty split: option.splits)

lemma SetChunkHash_inv [inv_intros]:
  assumes "mem_inv s"
  shows "mem_inv (snd (MemoryStore_SetChunkHash E f i req s))"
  using assms mem_invD(3) [OF assms]
  by (auto simp: SetChunkHash_unfold chunk_ok_new_chunk intro!: mem_inv_chunks split: option.splits)

lemma ReportChunk_effect:
  obtains (same) "snd (MemoryStore_ReportChunk E src req s) = s"
  | (scored) p v where "peers s (TrimSpace src) = Some p"
      "snd (MemoryStore_ReportChunk E src req s) = s\<lparr>peers := (peers s)(TrimSpace src \<mapsto> score_report v p)\<rparr>"
proof -
  have "snd (MemoryStore_ReportChunk E src req s) = s \<or>
    (\<exists>p v. peers s (TrimSpace src) = Some p \<and>
      snd (MemoryStore_ReportChunk E src req s) = s\<lparr>peers := (peers s)(TrimSpace src \<mapsto> score_report v p)\<rparr>)"
    by (auto simp: MemoryStore_ReportChunk_def split: option.splits)
  then show thesis using that by blast
qed

lemma ReportChunk_inv [inv_intros]:
  assumes "mem_inv s"
  shows "mem_inv (snd (MemoryStore_ReportChunk E src req s))"
proof (cases rule: ReportChunk_effect [of E src req s])
  case same
  then show ?thesis using assms by simp
next
  case (scored p v)
  then show ?thesis
    using mem_inv_peer_upd [OF assms scored(1) peer_ok_score_report [OF mem_invD(1) [OF assms scored(1)]]]
    by simp
qed

text \<open>The guards of \<^verbatim>\<open>ConfirmChunk\<close>, and its last step, on the entry it found and its sender.\<close>

definition confirm_request_ok :: "env \<Rightarrow> ConfirmChunkRequest \<Rightarrow> bool" where
  "confirm_request_ok E req \<longleftrightarrow>
     TrimSpace (cc_RecipientID req) \<noteq> [] \<and> TrimSpace (cc_FileID req) \<noteq> [] \<and>
     validHashFormat (normalizeHash E (cc_Hash req)) \<and> 0 \<le>s cc_ChunkIndex req \<and>
     TrimSpace (cc_Signature req) \<noteq> []"

definition confirmed_entry :: "env \<Rightarrow> string \<Rightarrow> chunkRecordEntry \<Rightarrow> chunkRecordEntry" where
  "confirmed_entry E h e =
     (if h = ce_Hash e then e\<lparr>ce_Confirmed := True, ce_UpdatedAt := time_Unix (clock E 0)\<rparr> else e)"

definition confirm_match :: "ConfirmChunkRequest \<Rightarrow> chunkRecordEntry \<Rightarrow> bool" where
  "confirm_match req e \<longleftrightarrow>
     ce_key e = chunkKey (TrimSpace (cc_FileID req)) (cc_ChunkIndex req) \<and>
     ce_RecipientID e = TrimSpace (cc_RecipientID req)"

definition confirm_final ::
  "env \<Rightarrow> ConfirmChunkRequest \<Rightarrow> MemoryStore \<Rightarrow> nat \<Rightarrow> Peer \<Rightarrow> ConfirmChunkResult result \<times> MemoryStore" where
  "confirm_final E req s i p =
     (let h = normalizeHash E (cc_Hash req); e = chunks s ! i; v = (h = ce_Hash e) in
      (Inr \<lparr>ccr_Valid = v, ccr_ExpectedHash = ce_Hash e, ccr_ConfirmedHash = h,
            ccr_Delta = (if v then 1 else -1), ccr_Peer = score_report v p\<rparr>,
       s\<lparr>chunks := (chunks s)[i := confirmed_entry E h e], peers := (peers s)(ID p \<mapsto> score_report v p)\<rparr>))"

lemma ConfirmChunk_unfold:
  "MemoryStore_ConfirmChunk E req s =
     (if \<not> confirm_request_ok E req then (Inl ErrInvalidChunk, s)
      else case peerByKey (peers s) (scan E 0) (TrimSpace (cc_RecipientID req)) of
        None \<Rightarrow> (Inl ErrNotFound, s)
      | Some recipient \<Rightarrow>
          (case verifyPeerSignature E recipient (cc_Signature req)
                  (ConfirmedPayload (TrimSpace (cc_FileID req)) (cc_ChunkIndex req) (normalizeHash E (cc_Hash req))) of
             Some err \<Rightarrow> (Inl err, s)
           | None \<Rightarrow>
               (case first_index (confirm_match req) (chunks s) of
                  None \<Rightarrow> (Inl ErrChunkNotFound, s)
                | Some i \<Rightarrow>
                    (case peerByKey (peers s) (scan E 1) (ce_SenderID (chunks s ! i)) of
                       None \<Rightarrow> (Inl ErrNotFound, s)
                     | Some p \<Rightarrow> confirm_final E req s i p))))"
proof -
  have m: "(\<lambda>e. ce_key e = chunkKey (TrimSpace (cc_FileID req)) (cc_ChunkIndex req) \<and>
      ce_RecipientID e = TrimSpace (cc_RecipientID req)) = confirm_match req"
    by (simp add: confirm_match_def fun_eq_iff)
  have g: "(TrimSpace (cc_RecipientID req) = [] \<or> TrimSpace (cc_FileID req) = [] \<or>
      normalizeHash E (cc_Hash req) = [] \<or> \<not> validHashFormat (normalizeHash E (cc_Hash req)) \<or>
      cc_ChunkIndex req <s 0 \<or> TrimSpace (cc_Signature req) = []) \<longleftrightarrow> \<not> confirm_request_ok E req"
    using valid_hash_nonempty not_sless_0 by (auto simp: confirm_request_ok_def)
  show ?thesis
    unfolding MemoryStore_ConfirmChunk_def Let_def g m
    by (simp add: confirm_final_def confirmed_entry_def QualityPointsValid_def QualityPointsInvalid_def
        split: option.split)
qed

lemma ConfirmChunk_effect:
  obtains (same) e where "MemoryStore_ConfirmChunk E req s = (Inl e, s)"
  | (scored) r i p where "confirm_request_ok E req"
      "peerByKey (peers s) (scan E 0) (TrimSpace (cc_RecipientID req)) = Some r"
      "verifyPeerSignature E r (cc_Signature req)
         (ConfirmedPayload (TrimSpace (cc_FileID req)) (cc_ChunkIndex req) (normalizeHash E (cc_Hash req))) = None"
      "first_index (confirm_match req) (chunks s) = Some i"
      "peerByKey (peers s) (scan E 1) (ce_SenderID (chunks s ! i)) = Some p"
      "MemoryStore_ConfirmChunk E req s = confirm_final E req s i p"
proof -
  let ?r = "peerByKey (peers s) (scan E 0) (TrimSpace (cc_RecipientID req))"
  let ?v = "verifyPeerSignature E (the ?r) (cc_Signature req)
    (ConfirmedPayload (TrimSpace (cc_FileID req)) (cc_ChunkIndex req) (normalizeHash E (cc_Hash req)))"
  let ?i = "first_index (confirm_match req) (chunks s)"
  let ?p = "peerByKey (peers s) (scan E 1) (ce_SenderID (chunks s ! the ?i))"
  show thesis
  proof (cases "confirm_request_ok E req \<and> ?r \<noteq> None \<and> ?v = None \<and> ?i \<noteq> None \<and> ?p \<noteq> None")
    case True
    then show thesis by (intro scored [of "the ?r" "the ?i" "the ?p"]) (auto simp: ConfirmChunk_unfold)
  next
    case False
    then have "\<exists>e. MemoryStore_ConfirmChunk E req s = (Inl e, s)"
      by (auto simp: ConfirmChunk_unfold split: option.splits)
    then show thesis using same by blast
  qed
qed

lemma mem_inv_scored_sender:
  assumes "mem_inv s" and "peerByKey (peers s) visits key = Some p"
  shows "peers s (ID p) = Some p" and "mem_inv (s\<lparr>peers := (peers s)(ID p \<mapsto> score_report v p)\<rparr>)"
proof -
  obtain i where i: "peers s i = Some p" using peerByKey_Some [OF assms(2)] by blast
  then have ok: "peer_ok i p" by (rule mem_invD(1) [OF assms(1)])
  then have "ID p = i" by (simp add: peer_ok_def)
  then show "peers s (ID p) = Some p" "mem_inv (s\<lparr>peers := (peers s)(ID p \<mapsto> score_report v p)\<rparr>)"
    using i mem_inv_peer_upd [OF assms(1) i peer_ok_score_report [OF ok]] by simp_all
qed

lemma chunk_ok_marks [simp]:
  "chunk_ok (e\<lparr>ce_Confirmed := b\<rparr>) = chunk_ok e" "chunk_ok (e\<lparr>ce_UpdatedAt := t\<rparr>) = chunk_ok e"
  "chunk_ok (e\<lparr>ce_Readed := b\<rparr>) = chunk_ok e"
  by (simp_all add: chunk_ok_def)

lemma ConfirmChunk_inv [inv_intros]:
  assumes "mem_inv s"
  shows "mem_inv (snd (MemoryStore_ConfirmChunk E req s))"
proof (cases rule: ConfirmChunk_effect [of E req s])
  case same
  then show ?thesis using assms by simp
next
  case (scored r i p)
  let ?e = "confirmed_entry E (normalizeHash E (cc_Hash req)) (chunks s ! i)"
  have ok: "\<forall>e \<in> set (chunks s). chunk_ok e" using mem_invD(3) [OF assms] by blast
  then have "chunk_ok ?e" using first_index_Some [OF scored(4)] by (simp add: confirmed_entry_def)
  then have "\<forall>x \<in> set ((chunks s)[i := ?e]). chunk_ok x"
    using ok set_update_subset_insert [of "chunks s" i ?e] by blast
  then have "mem_inv (s\<lparr>chunks := (chunks s)[i := ?e]\<rparr>)" by (intro mem_inv_chunks assms)
  from mem_inv_scored_sender(2) [OF this] scored(5,6) show ?thesis by (simp add: confirm_final_def)
qed

lemma ReadChunk_inv [inv_intros]:
  assumes "mem_inv s"
  shows "mem_inv (snd (MemoryStore_ReadChunk E req s))"
  using assms mem_invD(3) [OF assms]
  by (auto simp: MemoryStore_ReadChunk_def intro!: mem_inv_chunks split: option.splits)

text \<open>The in-place compaction of \<^verbatim>\<open>DeleteExpiredChunks\<close> keeps what a filter keeps.\<close>

lemma purge_loop_eq:
  assumes "n = length arr" and "i \<le> n" and "k \<le> i"
  shows "purge_loop now n i k d arr =
    (take k arr @ filter (\<lambda>e. \<not> chunk_expired now e) (drop i arr),
     d + of_nat (length (filter (chunk_expired now) (drop i arr))))"
  using assms
proof (induction now n i k d arr rule: purge_loop.induct)
  case (1 now n i k d arr)
  show ?case
  proof (cases "i < n")
    case False
    with 1 show ?thesis by (simp add: purge_loop.simps [of now "length arr" "length arr"])
  next
    case True
    have d: "drop i arr = arr ! i # drop (Suc i) arr" using True 1 by (simp add: Cons_nth_drop_Suc)
    show ?thesis
    proof (cases "chunk_expired now (arr ! i)")
      case True
      then show ?thesis using 1 \<open>i < n\<close> d by (simp add: purge_loop.simps [of now "length arr" i] add.assoc)
    next
      case False
      let ?arr = "arr[k := arr ! i]"
      have "drop (Suc i) ?arr = drop (Suc i) arr" "take (Suc k) ?arr = take k arr @ [arr ! i]"
        using 1 \<open>i < n\<close> by (simp_all add: take_Suc_conv_app_nth)
      then show ?thesis using 1 False \<open>i < n\<close> d by (simp add: purge_loop.simps [of now "length arr" i] add.assoc)
    qed
  qed
qed

lemma DeleteExpiredChunks_eq:
  "MemoryStore_DeleteExpiredChunks E s =
     (Inr (of_nat (length (filter (chunk_expired (time_Unix (clock E 0))) (chunks s)))),
      s\<lparr>chunks := filter (\<lambda>e. \<not> chunk_expired (time_Unix (clock E 0)) e) (chunks s)\<rparr>)"
  by (simp add: MemoryStore_DeleteExpiredChunks_def purge_loop_eq)

lemma DeleteExpiredChunks_inv [inv_intros]:
  assumes "mem_inv s"
  shows "mem_inv (snd (MemoryStore_DeleteExpiredChunks E s))"
  using assms mem_invD(3) [OF assms] by (auto simp: DeleteExpiredChunks_eq intro: mem_inv_chunks)

lemma SetSignal_inv [inv_intros]:
  assumes "mem_inv s"
  shows "mem_inv (snd (MemoryStore_SetSignal i sig s))"
  using assms by (auto simp: MemoryStore_SetSignal_def mem_inv_def at_upd signal_ok_def split: option.splits)

lemma PollSignals_inv [inv_intros]:
  assumes "mem_inv s"
  shows "mem_inv (snd (MemoryStore_PollSignals i s))"
  using assms by (auto simp: MemoryStore_PollSignals_def mem_inv_def at_del)

subsection \<open>Sequences of operations\<close>

text \<open>The calls of the \<^verbatim>\<open>Store\<close> interface that change the state. (\<^verbatim>\<open>SetPeerScore\<close> is exported for
  tests only and is no part of the interface.)\<close>

datatype mem_op =
    OpUpsert RegisterRequest
  | OpRefresh RefreshRequest
  | OpDelete string
  | OpHeartbeat string int64
  | OpSetChunkHash string int64 RegisterChunkRequest
  | OpReportChunk string ChunkReportRequest
  | OpConfirmChunk ConfirmChunkRequest
  | OpReadChunk ReadChunkRequest
  | OpSetSignal string Signal
  | OpPollSignals string
  | OpDeleteExpiredChunks

fun mem_apply :: "env \<Rightarrow> mem_op \<Rightarrow> MemoryStore \<Rightarrow> MemoryStore" where
  "mem_apply E (OpUpsert req) s = snd (MemoryStore_Upsert E req s)"
| "mem_apply E (OpRefresh req) s = snd (MemoryStore_Refresh E req s)"
| "mem_apply E (OpDelete i) s = snd (MemoryStore_Delete i s)"
| "mem_apply E (OpHeartbeat i ttl) s = snd (MemoryStore_Heartbeat E i ttl s)"
| "mem_apply E (OpSetChunkHash f n req) s = snd (MemoryStore_SetChunkHash E f n req s)"
| "mem_apply E (OpReportChunk i req) s = snd (MemoryStore_ReportChunk E i req s)"
| "mem_apply E (OpConfirmChunk req) s = snd (MemoryStore_ConfirmChunk E req s)"
| "mem_apply E (OpReadChunk req) s = snd (MemoryStore_ReadChunk E req s)"
| "mem_apply E (OpSetSignal i sig) s = snd (MemoryStore_SetSignal i sig s)"
| "mem_apply E (OpPollSignals i) s = snd (MemoryStore_PollSignals i s)"
| "mem_apply E OpDeleteExpiredChunks s = snd (MemoryStore_DeleteExpiredChunks E s)"

text \<open>
  \<open>mem_step allowed s s'\<close>: some allowed call, under some admissible outside, takes \<open>s\<close> to
  \<open>s'\<close>. \<open>mem_reach allowed\<close> are the states such calls reach from the empty store.
\<close>

inductive mem_step :: "(mem_op \<Rightarrow> bool) \<Rightarrow> MemoryStore \<Rightarrow> MemoryStore \<Rightarrow> bool" for allowed where
  step: "allowed c \<Longrightarrow> scan_ok E s \<Longrightarrow> mem_step allowed s (mem_apply E c s)"

inductive_cases mem_stepE: "mem_step allowed s s'"
inductive_simps mem_step_simps: "mem_step allowed s s'"

inductive mem_reach :: "(mem_op \<Rightarrow> bool) \<Rightarrow> MemoryStore \<Rightarrow> bool" for allowed where
  init: "mem_reach allowed NewMemory"
| more: "mem_reach allowed s \<Longrightarrow> mem_step allowed s s' \<Longrightarrow> mem_reach allowed s'"

lemma mem_apply_inv: "mem_inv s \<Longrightarrow> mem_inv (mem_apply E c s)"
  by (cases c) (simp_all add: inv_intros)

lemma mem_reach_inv: "mem_reach allowed s \<Longrightarrow> mem_inv s"
  by (induction rule: mem_reach.induct) (auto intro: mem_inv_NewMemory mem_apply_inv elim: mem_stepE)

end
