(* ===== verification/Memory_Examples.thy ===== *)
theory Memory_Examples
  imports Memory_Invariants
begin

text \<open>
  A small run of the in-memory store, shared by the witnesses: two peers register, the
  first registers a chunk for the second. The signature scheme of the run is a stand-in
  that accepts exactly sixty-four copies of the first key byte.
\<close>

definition ex_now :: time where "ex_now = 1700000000000000000"

definition ex_ed25519 :: "bytes \<Rightarrow> bytes \<Rightarrow> bytes \<Rightarrow> bool" where
  "ex_ed25519 pub message sig = (sig = replicate 64 (hd pub))"

definition ex_env :: "string list \<Rightarrow> env" where
  "ex_env ids =
     \<lparr>clock = (\<lambda>_. ex_now), scan = (\<lambda>_. map (\<lambda>i. (i, ex_now)) ids), fault = (\<lambda>_. None),
      ed25519 = ex_ed25519, unicode_lower = (\<lambda>s. s)\<rparr>"

definition ex_key :: "char \<Rightarrow> string" where
  "ex_key c = PublicKeyBase64 (replicate 32 c)"

definition ex_sig :: "char \<Rightarrow> string" where
  "ex_sig c = EncodeToString (replicate 64 c)"

definition ex_register :: "string \<Rightarrow> char \<Rightarrow> RegisterRequest" where
  "ex_register name c =
     \<lparr>reg_ID = name, reg_Login = name, reg_EncryptionKey = [], reg_SignatureKey = ex_key c,
      reg_TTLSeconds = 0, reg_PeerFlag = [], reg_Fake = None\<rparr>"

definition ex_peer :: "string \<Rightarrow> char \<Rightarrow> Peer" where
  "ex_peer name c =
     \<lparr>ID = name, Login = name, EncryptionKey = [], SignatureKey = ex_key c, LastSeen = ex_now,
      TTLSeconds = 300, QualityScore = 1000, Quality = \<lparr>ValidReports = 0, InvalidReports = 0\<rparr>,
      Flag = [], Fake = False\<rparr>"

definition ex_hash :: string where "ex_hash = ''deadbeef01234567''"

definition ex_chunk_request :: RegisterChunkRequest where
  "ex_chunk_request =
     \<lparr>rc_SenderID = Key (ex_peer ''ann'' (CHR ''a'')), rc_RecipientID = Key (ex_peer ''bob'' (CHR ''b'')),
      rc_Hash = ex_hash, rc_Signature = ex_sig (CHR ''a''), rc_PeerID = ''bob'', rc_Persist = False,
      rc_TTL = 60\<rparr>"

definition ex_chunk :: chunkRecordEntry where
  "ex_chunk =
     \<lparr>ce_key = chunkKey ''file'' 0, ce_Hash = ex_hash, ce_SenderID = Key (ex_peer ''ann'' (CHR ''a'')),
      ce_RecipientID = Key (ex_peer ''bob'' (CHR ''b'')), ce_PeerID = ''bob'', ce_Persist = False,
      ce_Confirmed = False, ce_Readed = False, ce_CreatedAt = 1700000000, ce_UpdatedAt = 1700000000,
      ce_TTL = 60\<rparr>"

definition ex_store1 :: MemoryStore where
  "ex_store1 = mem_apply (ex_env []) (OpUpsert (ex_register ''ann'' (CHR ''a''))) NewMemory"

definition ex_store2 :: MemoryStore where
  "ex_store2 = mem_apply (ex_env [''ann'']) (OpUpsert (ex_register ''bob'' (CHR ''b''))) ex_store1"

definition ex_store3 :: MemoryStore where
  "ex_store3 = mem_apply (ex_env [''ann'', ''bob'']) (OpSetChunkHash ''file'' 0 ex_chunk_request) ex_store2"

lemma ex_trim [simp]:
  "TrimSpace ''ann'' = ''ann''" "TrimSpace ''bob'' = ''bob''" "TrimSpace ''file'' = ''file''"
  "TrimSpace ''eve'' = ''eve''" "TrimSpace ''key'' = ''key''"
  by (rule TrimSpace_graphic, simp add: graphic_def)+

lemma ex_key_props [simp]:
  "TrimSpace (ex_key c) = ex_key c" "ex_key c \<noteq> []" "TrimSpace (ex_sig c) = ex_sig c" "ex_sig c \<noteq> []"
  by (simp_all add: ex_key_def ex_sig_def PublicKeyBase64_def)

lemma ex_key_graphic: "list_all graphic (ex_key c)"
  by (simp add: ex_key_def PublicKeyBase64_def list_all_graphic_EncodeToString)

lemma ex_key_inject [simp]: "ex_key c = ex_key d \<longleftrightarrow> c = d"
proof
  assume "ex_key c = ex_key d"
  then have "DecodeString (ex_key c) = DecodeString (ex_key d)" by simp
  then show "c = d" by (simp add: ex_key_def PublicKeyBase64_def)
qed simp

lemma ex_trim_Key [simp]:
  "TrimSpace (Key (ex_peer ''ann'' c)) = Key (ex_peer ''ann'' c)"
  "TrimSpace (Key (ex_peer ''bob'' c)) = Key (ex_peer ''bob'' c)"
  by (rule TrimSpace_graphic, simp add: Key_def ex_peer_def graphic_def ex_key_graphic)+

lemma ex_Key_neq [simp]:
  "Key (ex_peer ''ann'' c) \<noteq> Key (ex_peer ''bob'' d)" "Key (ex_peer ''bob'' d) \<noteq> Key (ex_peer ''ann'' c)"
  "Key p \<noteq> []"
  by (simp_all add: Key_def ex_peer_def)

lemma ex_verify [simp]:
  "verifyPeerSignature (ex_env ids) (ex_peer n c) (ex_sig d) m = (if c = d then None else Some ErrInvalidSignature)"
  by (simp add: verifyPeerSignature_def Verify_def decodePublicKey_def PublicKeySize_def SignatureSize_def
      ex_peer_def ex_key_def ex_sig_def PublicKeyBase64_def ex_env_def ex_ed25519_def)

lemma ex_authentic [simp]: "authentic (ex_env ids) (ex_peer n c) (ex_sig d) m \<longleftrightarrow> c = d"
  using ex_verify [of ids n c d m] by (simp add: verify_authentic split: if_splits)

lemma ex_not_expired [simp]: "\<not> isExpired (ex_peer n c) ex_now"
  by (simp add: isExpired_iff ex_peer_def ttl_of_def)

lemma ex_hash_ok [simp]: "validHashFormat ex_hash" "normalizeHash E ex_hash = ex_hash"
proof -
  show v: "validHashFormat ex_hash"
    by (simp add: ex_hash_def validHashFormat_def is_lower_hex_def)
  then show "normalizeHash E ex_hash = ex_hash" by (rule normalizeHash_valid)
qed

lemma ex_env_simps [simp]:
  "clock (ex_env ids) j = ex_now" "scan (ex_env ids) j = map (\<lambda>i. (i, ex_now)) ids"
  by (simp_all add: ex_env_def)

lemma ex_unix [simp]: "time_Unix ex_now = 1700000000"
  by (simp add: time_Unix_def ex_now_def)

lemma ex_store1_eq:
  "ex_store1 = \<lparr>peers = [''ann'' \<mapsto> ex_peer ''ann'' (CHR ''a'')],
     logins = [Key (ex_peer ''ann'' (CHR ''a'')) \<mapsto> [''ann'']], chunks = [], signals = Map.empty\<rparr>"
  by (simp add: ex_store1_def MemoryStore_Upsert_def ex_register_def NewMemory_def index_add_def at_def
      ex_peer_def defaultTTL_def InitialQualityScore_def word_sle_eq)

lemma ex_store2_eq:
  "ex_store2 = \<lparr>peers = [''ann'' \<mapsto> ex_peer ''ann'' (CHR ''a''), ''bob'' \<mapsto> ex_peer ''bob'' (CHR ''b'')],
     logins = [Key (ex_peer ''ann'' (CHR ''a'')) \<mapsto> [''ann''], Key (ex_peer ''bob'' (CHR ''b'')) \<mapsto> [''bob'']],
     chunks = [], signals = Map.empty\<rparr>"
  by (simp add: ex_store2_def ex_store1_eq MemoryStore_Upsert_def ex_register_def index_add_def at_def
      ex_peer_def defaultTTL_def InitialQualityScore_def word_sle_eq Key_def)

lemma ex_store3_eq: "ex_store3 = ex_store2\<lparr>chunks := [ex_chunk]\<rparr>"
  by (simp add: ex_store3_def ex_store2_eq SetChunkHash_unfold chunk_request_ok_def ex_chunk_request_def
      new_chunk_def ex_chunk_def word_sle_eq)

lemma ex_scan_ok:
  "scan_ok (ex_env []) NewMemory" "scan_ok (ex_env [''ann'']) ex_store1"
  "scan_ok (ex_env [''ann'', ''bob'']) ex_store2" "scan_ok (ex_env [''ann'', ''bob'']) ex_store3"
  by (auto simp: scan_ok_def NewMemory_def ex_store1_eq ex_store2_eq ex_store3_eq)

lemma ex_reach:
  assumes "\<And>r. allowed (OpUpsert r)" and "\<And>f i r. allowed (OpSetChunkHash f i r)"
  shows "mem_reach allowed ex_store1" "mem_reach allowed ex_store2" "mem_reach allowed ex_store3"
proof -
  show 1: "mem_reach allowed ex_store1"
    unfolding ex_store1_def by (intro mem_reach.more [OF mem_reach.init] mem_step.step assms ex_scan_ok)
  show 2: "mem_reach allowed ex_store2"
    unfolding ex_store2_def by (intro mem_reach.more [OF 1] mem_step.step assms ex_scan_ok)
  show "mem_reach allowed ex_store3"
    unfolding ex_store3_def by (intro mem_reach.more [OF 2] mem_step.step assms ex_scan_ok)
qed

end
