(* ===== verification/Memory_Queries.thy ===== *)
theory Memory_Queries
  imports Memory_Examples
begin

text \<open>
  What the look-ups of the in-memory store return: by id, by key, all, and the best by
  score. The key look-up is exact as long as no \<^verbatim>\<open>Refresh\<close> is called and complete in any
  case.
\<close>

subsection \<open>Collecting peers\<close>

lemma set_collect_peers:
  "set (collect_peers m P ids) = {p. \<exists>i \<in> set ids. m i = Some p \<and> P p}"
  by (induction m P ids rule: collect_peers.induct) (auto split: option.splits)

lemma distinct_collect_peers:
  assumes "distinct ids" and "\<And>i p. m i = Some p \<Longrightarrow> ID p = i"
  shows "distinct (collect_peers m P ids)"
  using assms
proof (induction m P ids rule: collect_peers.induct)
  case (2 m keep i ids)
  have "p \<notin> set (collect_peers m keep ids)" if "m i = Some p" for p
    using 2 that by (auto simp: set_collect_peers)
  with 2 show ?case by (auto split: option.splits)
qed simp

lemma ID_of_peer: "mem_inv s \<Longrightarrow> peers s i = Some p \<Longrightarrow> ID p = i"
  using mem_invD(1) by (auto simp: peer_ok_def)

lemma scan_okD:
  assumes "scan_ok E s"
  shows "distinct (map fst (scan E j))" "set (map fst (scan E j)) = dom (peers s)"
  using assms by (auto simp: scan_ok_def)

lemma collect_scan:
  assumes "mem_inv s" and "scan_ok E s"
  shows "distinct (collect_peers (peers s) P (map fst (scan E j)))"
    and "set (collect_peers (peers s) P (map fst (scan E j))) = {p. \<exists>i. peers s i = Some p \<and> P p}"
  using distinct_collect_peers [OF scan_okD(1) [OF assms(2)] ID_of_peer [OF assms(1)]]
    scan_okD(2) [OF assms(2)] by (auto simp: set_collect_peers dom_def)

subsection \<open>The best n\<close>

definition top_n :: "int64 \<Rightarrow> Peer set \<Rightarrow> Peer list \<Rightarrow> bool" where
  "top_n n A ps \<longleftrightarrow>
     set ps \<subseteq> A \<and> distinct ps \<and> length ps = min (nat (sint n)) (card A) \<and>
     sorted_wrt (\<lambda>p q. sint (EffectiveScore q) \<le> sint (EffectiveScore p)) ps \<and>
     (\<forall>p \<in> set ps. \<forall>q \<in> A - set ps. sint (EffectiveScore q) \<le> sint (EffectiveScore p))"

lemma first_n_take: "first_n n xs = take (nat (sint n)) xs"
  by (auto simp: first_n_def)

lemma sorted_sort_by_score:
  "sorted_wrt (\<lambda>p q. sint (EffectiveScore q) \<le> sint (EffectiveScore p)) (sort_by_score xs)"
  using sorted_sort_key [of "\<lambda>p. - sint (EffectiveScore p)" xs]
  by (simp add: sort_by_score_def sorted_map)

lemma top_n_sorted:
  assumes "distinct xs"
  shows "top_n n (set xs) (first_n n (sort_by_score xs))"
proof -
  let ?k = "nat (sint n)"
  let ?ys = "sort_by_score xs"
  have set: "set ?ys = set xs" and len: "length ?ys = card (set xs)" and d: "distinct ?ys"
    using assms by (simp_all add: sort_by_score_def distinct_card)
  have split: "take ?k ?ys @ drop ?k ?ys = ?ys" by simp
  then have "set xs - set (take ?k ?ys) \<subseteq> set (drop ?k ?ys)"
    using set by (metis Diff_subset_conv set_append subset_refl)
  moreover have "\<forall>p \<in> set (take ?k ?ys). \<forall>q \<in> set (drop ?k ?ys). sint (EffectiveScore q) \<le> sint (EffectiveScore p)"
    using sorted_sort_by_score [of xs] split by (metis sorted_wrt_append)
  ultimately show ?thesis
    using sorted_sort_by_score [of xs] d set len
    by (auto simp: top_n_def first_n_take sorted_wrt_take dest: in_set_takeD)
qed

lemma top_none: "n \<le>s 0 \<Longrightarrow> top_n n A []"
  by (simp add: top_n_def word_sle_eq)

lemma best_of_scan:
  assumes "mem_inv s" and "scan_ok E s"
  shows "top_n n {p. peers s (ID p) = Some p \<and> P p}
    (first_n n (sort_by_score (collect_peers (peers s) P (map fst (scan E j)))))"
proof -
  have "{p. peers s (ID p) = Some p \<and> P p} = set (collect_peers (peers s) P (map fst (scan E j)))"
    using collect_scan(2) [OF assms] ID_of_peer [OF assms(1)] by auto
  then show ?thesis using top_n_sorted [OF collect_scan(1) [OF assms]] by simp
qed

subsection \<open>The exact index\<close>

definition no_refresh :: "mem_op \<Rightarrow> bool" where
  "no_refresh c \<longleftrightarrow> (\<forall>r. c \<noteq> OpRefresh r)"

definition logins_exact :: "MemoryStore \<Rightarrow> bool" where
  "logins_exact s \<longleftrightarrow> index_exact (owner_key (peers s)) (at (logins s))"

lemma logins_exact_peer_upd:
  assumes "logins_exact s" and "peers s i = Some p" and "Key p' = Key p"
  shows "logins_exact (s\<lparr>peers := (peers s)(i \<mapsto> p')\<rparr>)"
  using assms by (simp add: logins_exact_def owner_key_same)

lemma logins_exact_frame [simp]:
  "logins_exact (s\<lparr>chunks := c\<rparr>) = logins_exact s" "logins_exact (s\<lparr>signals := q\<rparr>) = logins_exact s"
  by (simp_all add: logins_exact_def)

lemma owner_key_None: "m i = None \<Longrightarrow> owner_key m i = None"
  and owner_key_Some: "m i = Some p \<Longrightarrow> owner_key m i = Some (Key p)"
  by (simp_all add: owner_key_def)

lemma Upsert_exact: "logins_exact s \<Longrightarrow> logins_exact (snd (MemoryStore_Upsert E req s))"
  by (auto simp: MemoryStore_Upsert_def logins_exact_def owner_key_None owner_key_Some
      intro!: login_index.exact_rules split: option.split)

lemma Delete_exact: "logins_exact s \<Longrightarrow> logins_exact (snd (MemoryStore_Delete i s))"
  by (auto simp: MemoryStore_Delete_def logins_exact_def owner_key_Some
      intro!: login_index.exact_rules split: option.split)

lemma Heartbeat_exact: "logins_exact s \<Longrightarrow> logins_exact (snd (MemoryStore_Heartbeat E i ttl s))"
  by (auto simp: MemoryStore_Heartbeat_def intro: logins_exact_peer_upd split: option.split)

lemma ReportChunk_exact: "logins_exact s \<Longrightarrow> logins_exact (snd (MemoryStore_ReportChunk E src req s))"
  by (cases rule: ReportChunk_effect [of E src req s]) (auto intro: logins_exact_peer_upd)

lemma ConfirmChunk_exact:
  assumes "mem_inv s" and "logins_exact s"
  shows "logins_exact (snd (MemoryStore_ConfirmChunk E req s))"
proof (cases rule: ConfirmChunk_effect [of E req s])
  case same
  then show ?thesis using assms by simp
next
  case (scored r i p)
  let ?s = "s\<lparr>chunks := (chunks s)[i := confirmed_entry E (normalizeHash E (cc_Hash req)) (chunks s ! i)]\<rparr>"
  have "logins_exact ?s" "peers ?s (ID p) = Some p"
    using assms mem_inv_scored_sender(1) [OF assms(1) scored(5)] by simp_all
  from logins_exact_peer_upd [OF this] scored(6) show ?thesis by (simp add: confirm_final_def)
qed

lemma mem_apply_exact:
  assumes "mem_inv s" and "logins_exact s" and "no_refresh c"
  shows "logins_exact (mem_apply E c s)"
  using assms
  by (cases c)
    (auto simp: no_refresh_def Upsert_exact Delete_exact Heartbeat_exact ReportChunk_exact ConfirmChunk_exact
      SetChunkHash_unfold MemoryStore_ReadChunk_def DeleteExpiredChunks_eq MemoryStore_SetSignal_def
      MemoryStore_PollSignals_def split: option.split)

lemma mem_reach_exact: "mem_reach no_refresh s \<Longrightarrow> logins_exact s"
proof (induction rule: mem_reach.induct)
  case init
  show ?case by (simp add: logins_exact_def NewMemory_def index_exact_def owner_key_def at_def)
next
  case (more s s')
  then show ?case by (auto elim!: mem_stepE intro: mem_apply_exact mem_reach_inv)
qed

subsection \<open>Looking up by key\<close>

definition lookup_key :: "string \<Rightarrow> string \<Rightarrow> string" where
  "lookup_key login sig = TrimSpace login @ '':'' @ TrimSpace sig"

definition active_ids :: "env \<Rightarrow> MemoryStore \<Rightarrow> string list \<Rightarrow> Peer list" where
  "active_ids E s ids = collect_peers (peers s) (\<lambda>p. \<not> isExpired p (clock E 0)) ids"

lemma GetByKey_eq:
  "MemoryStore_GetByKey E login sig s =
     (if TrimSpace login = [] \<or> TrimSpace sig = [] then Inl ErrInvalidKey
      else if active_ids E s (at (logins s) (lookup_key login sig)) = [] then Inl ErrNotFound
      else Inr (active_ids E s (at (logins s) (lookup_key login sig))))"
  by (auto simp: MemoryStore_GetByKey_def active_ids_def lookup_key_def at_def split: option.split)

lemma set_active_ids:
  "set (active_ids E s ids) = {p. \<exists>i \<in> set ids. peers s i = Some p \<and> \<not> isExpired p (clock E 0)}"
  by (simp add: active_ids_def set_collect_peers)

lemma GetByKey_mem:
  assumes "MemoryStore_GetByKey E login sig s = Inr ps" and "p \<in> set ps"
  shows "\<exists>i \<in> set (at (logins s) (lookup_key login sig)). peers s i = Some p \<and> \<not> isExpired p (clock E 0)"
proof -
  have "ps = active_ids E s (at (logins s) (lookup_key login sig))"
    using assms(1) by (simp add: GetByKey_eq split: if_splits)
  then show ?thesis using assms(2) by (simp add: set_active_ids)
qed

end
