(* ===== verification/Memory_Effects.thy ===== *)
theory Memory_Effects
  imports Memory_Queries
begin

text \<open>
  What one operation of the in-memory store may do to a peer or to a chunk that is already
  there, and which operations fail: the frame facts that the safety properties rest on.
\<close>

subsection \<open>Peers\<close>

definition same_identity :: "Peer \<Rightarrow> Peer \<Rightarrow> bool" where
  "same_identity p q \<longleftrightarrow>
     ID q = ID p \<and> EncryptionKey q = EncryptionKey p \<and> SignatureKey q = SignatureKey p \<and> Fake q = Fake p"

definition same_score :: "Peer \<Rightarrow> Peer \<Rightarrow> bool" where
  "same_score p q \<longleftrightarrow> Quality q = Quality p \<and> QualityScore q = QualityScore p"

definition scoring :: "mem_op \<Rightarrow> bool" where
  "scoring c \<longleftrightarrow> (\<exists>i r. c = OpReportChunk i r) \<or> (\<exists>r. c = OpConfirmChunk r)"

lemma same_identity_refl [simp]: "same_identity p p" "same_score p p"
  by (simp_all add: same_identity_def same_score_def)

lemma same_identity_trans: "same_identity p q \<Longrightarrow> same_identity q r \<Longrightarrow> same_identity p r"
  by (simp add: same_identity_def)

lemma same_identity_score_report [simp]: "same_identity p (score_report v p)"
  by (simp add: same_identity_def)

text \<open>The peers that an operation leaves alone, re-registers or scores.\<close>

lemma quiet_peers:
  "peers (snd (MemoryStore_SetChunkHash E f n r s)) = peers s"
  "peers (snd (MemoryStore_ReadChunk E rd s)) = peers s"
  "peers (snd (MemoryStore_SetSignal i sig s)) = peers s"
  "peers (snd (MemoryStore_PollSignals i s)) = peers s"
  "peers (snd (MemoryStore_DeleteExpiredChunks E s)) = peers s"
  by (auto simp: SetChunkHash_unfold MemoryStore_ReadChunk_def MemoryStore_SetSignal_def
      MemoryStore_PollSignals_def DeleteExpiredChunks_eq split: option.split)

lemma Upsert_peer:
  assumes "mem_inv s" and "peers s i = Some p"
  shows "\<exists>q. peers (snd (MemoryStore_Upsert E r s)) i = Some q \<and> same_identity p q \<and> same_score p q"
  using assms(2) ID_of_peer [OF assms]
  by (auto simp: MemoryStore_Upsert_def same_identity_def same_score_def split: option.split)

lemma ConfirmChunk_peers:
  assumes "mem_inv s"
  obtains (same) "peers (snd (MemoryStore_ConfirmChunk E r s)) = peers s"
  | (scored) p v where "peers s (ID p) = Some p"
      "peers (snd (MemoryStore_ConfirmChunk E r s)) = (peers s)(ID p \<mapsto> score_report v p)"
proof (cases rule: ConfirmChunk_effect [of E r s])
  case same
  then show ?thesis using that(1) by simp
next
  case (scored r' i p)
  then show ?thesis
    using that(2) [of p] mem_inv_scored_sender(1) [OF assms scored(5)] by (simp add: confirm_final_def)
qed

lemma ReportChunk_peers:
  obtains (same) "peers (snd (MemoryStore_ReportChunk E src r s)) = peers s"
  | (scored) i p v where "peers s i = Some p"
      "peers (snd (MemoryStore_ReportChunk E src r s)) = (peers s)(i \<mapsto> score_report v p)"
  by (cases rule: ReportChunk_effect [of E src r s]) (use that in auto)

lemma unscored_peer:
  assumes "mem_inv s" and "peers s i = Some p" and "\<not> scoring c" and "c \<noteq> OpDelete i"
  shows "\<exists>q. peers (mem_apply E c s) i = Some q \<and> same_identity p q \<and> same_score p q"
proof (cases c)
  case (OpUpsert r)
  then show ?thesis using Upsert_peer [OF assms(1,2)] by simp
next
  case (OpDelete j)
  then show ?thesis using assms by (auto simp: MemoryStore_Delete_def split: option.split)
next
  case (OpRefresh r)
  then show ?thesis using assms
    by (auto simp: MemoryStore_Refresh_def same_identity_def same_score_def split: option.split)
next
  case (OpHeartbeat j t)
  then show ?thesis using assms
    by (auto simp: MemoryStore_Heartbeat_def same_identity_def same_score_def split: option.split)
qed (use assms in \<open>auto simp: quiet_peers scoring_def\<close>)

lemma scored_peers:
  assumes "mem_inv s" and "scoring c"
  obtains (same) "peers (mem_apply E c s) = peers s"
  | (scored) i p v where "peers s i = Some p" "peers (mem_apply E c s) = (peers s)(i \<mapsto> score_report v p)"
  using assms(2) unfolding scoring_def
proof (elim disjE exE)
  fix i r assume "c = OpReportChunk i r"
  then show thesis using that by (cases rule: ReportChunk_peers [of E i r s]) auto
next
  fix r assume "c = OpConfirmChunk r"
  then show thesis using that by (cases rule: ConfirmChunk_peers [OF assms(1), of E r]) auto
qed

lemma peer_step:
  assumes "mem_inv s" and "peers s i = Some p" and "c \<noteq> OpDelete i"
  shows "\<exists>q. peers (mem_apply E c s) i = Some q \<and> same_identity p q \<and>
    (same_score p q \<or> scoring c \<and> (\<exists>v. q = score_report v p))"
proof (cases "scoring c")
  case False
  then show ?thesis using unscored_peer [OF assms(1,2) False assms(3)] by blast
next
  case True
  show ?thesis
  proof (cases rule: scored_peers [OF assms(1) True, of E])
    case 1
    then show ?thesis using assms by auto
  next
    case (2 j q v)
    then show ?thesis using assms(2) True by (cases "j = i") auto
  qed
qed

subsection \<open>Chunks\<close>

text \<open>A registered chunk only ever gains marks; whatever the sender registered stays.\<close>

definition chunk_evolves :: "chunkRecordEntry \<Rightarrow> chunkRecordEntry \<Rightarrow> bool" where
  "chunk_evolves e e' \<longleftrightarrow>
     ce_key e' = ce_key e \<and> ce_Hash e' = ce_Hash e \<and> ce_SenderID e' = ce_SenderID e \<and>
     ce_RecipientID e' = ce_RecipientID e \<and> ce_PeerID e' = ce_PeerID e \<and> ce_Persist e' = ce_Persist e \<and>
     ce_CreatedAt e' = ce_CreatedAt e \<and> ce_TTL e' = ce_TTL e \<and>
     (ce_Confirmed e \<longrightarrow> ce_Confirmed e') \<and> (ce_Readed e \<longrightarrow> ce_Readed e')"

lemma chunk_evolves_refl [simp]: "chunk_evolves e e"
  by (simp add: chunk_evolves_def)

lemma chunk_evolves_trans: "chunk_evolves a b \<Longrightarrow> chunk_evolves b c \<Longrightarrow> chunk_evolves a c"
  by (simp add: chunk_evolves_def)

lemma chunk_evolves_confirmed [simp]: "chunk_evolves e (confirmed_entry E h e)"
  by (simp add: chunk_evolves_def confirmed_entry_def)

lemma quiet_chunks:
  "chunks (snd (MemoryStore_Upsert E r s)) = chunks s"
  "chunks (snd (MemoryStore_Refresh E rf s)) = chunks s"
  "chunks (snd (MemoryStore_Delete i s)) = chunks s"
  "chunks (snd (MemoryStore_Heartbeat E i t s)) = chunks s"
  "chunks (snd (MemoryStore_ReportChunk E i rep s)) = chunks s"
  "chunks (snd (MemoryStore_SetSignal i sig s)) = chunks s"
  "chunks (snd (MemoryStore_PollSignals i s)) = chunks s"
  by (auto simp: MemoryStore_Upsert_def MemoryStore_Refresh_def MemoryStore_Delete_def
      MemoryStore_Heartbeat_def MemoryStore_ReportChunk_def MemoryStore_SetSignal_def
      MemoryStore_PollSignals_def split: option.split)

lemma list_all2_evolves_refl [simp]: "list_all2 chunk_evolves xs xs"
  by (rule list_all2_refl) simp

lemma ConfirmChunk_chunks:
  "list_all2 chunk_evolves (chunks s) (chunks (snd (MemoryStore_ConfirmChunk E r s)))"
proof (cases rule: ConfirmChunk_effect [of E r s])
  case (scored r' i p)
  then show ?thesis by (simp add: confirm_final_def list_all2_update)
qed simp

lemma ReadChunk_chunks:
  "list_all2 chunk_evolves (chunks s) (chunks (snd (MemoryStore_ReadChunk E r s)))"
  by (auto simp: MemoryStore_ReadChunk_def chunk_evolves_def list_all2_conv_all_nth split: option.split)

lemma chunks_step:
  assumes "c \<noteq> OpDeleteExpiredChunks"
  shows "\<exists>old new. chunks (mem_apply E c s) = old @ new \<and> list_all2 chunk_evolves (chunks s) old"
proof (cases c)
  case (OpSetChunkHash f i r)
  then show ?thesis
    by (auto simp: SetChunkHash_unfold split: option.split intro: exI [of _ "chunks s"])
next
  case (OpConfirmChunk r)
  then show ?thesis using ConfirmChunk_chunks [of s E r]
    by (intro exI [of _ "chunks (mem_apply E c s)"] exI [of _ "[]"]) simp
next
  case (OpReadChunk r)
  then show ?thesis using ReadChunk_chunks [of s E r]
    by (intro exI [of _ "chunks (mem_apply E c s)"] exI [of _ "[]"]) simp
qed (use assms in \<open>auto simp: quiet_chunks intro: exI [of _ "chunks s"]\<close>)

lemma find_evolves:
  assumes "list_all2 chunk_evolves xs ys" and "List.find (\<lambda>e. ce_key e = k) xs = Some e"
  shows "\<exists>e'. List.find (\<lambda>e. ce_key e = k) (ys @ zs) = Some e' \<and> chunk_evolves e e'"
  using assms
proof (induction rule: list_all2_induct)
  case (Cons x xs y ys)
  then show ?case by (auto simp: chunk_evolves_def split: if_splits)
qed simp

text \<open>The hash a chunk is checked against is the first one registered under its key.\<close>

definition expected_chunk :: "MemoryStore \<Rightarrow> string \<Rightarrow> int64 \<Rightarrow> chunkRecordEntry option" where
  "expected_chunk s f i = List.find (\<lambda>e. ce_key e = chunkKey f i) (chunks s)"

lemma expected_chunk_step:
  assumes "c \<noteq> OpDeleteExpiredChunks" and "expected_chunk s f i = Some e"
  shows "\<exists>e'. expected_chunk (mem_apply E c s) f i = Some e' \<and> chunk_evolves e e'"
  using chunks_step [OF assms(1), of E s] assms(2) find_evolves by (auto simp: expected_chunk_def)

subsection \<open>Failures\<close>

fun error_of :: "'a result \<Rightarrow> error option" where
  "error_of (Inl e) = Some e"
| "error_of (Inr v) = None"

fun mem_fails :: "env \<Rightarrow> mem_op \<Rightarrow> MemoryStore \<Rightarrow> error option" where
  "mem_fails E (OpUpsert req) s = error_of (fst (MemoryStore_Upsert E req s))"
| "mem_fails E (OpRefresh req) s = error_of (fst (MemoryStore_Refresh E req s))"
| "mem_fails E (OpDelete i) s = error_of (fst (MemoryStore_Delete i s))"
| "mem_fails E (OpHeartbeat i ttl) s = error_of (fst (MemoryStore_Heartbeat E i ttl s))"
| "mem_fails E (OpSetChunkHash f n req) s = error_of (fst (MemoryStore_SetChunkHash E f n req s))"
| "mem_fails E (OpReportChunk i req) s = error_of (fst (MemoryStore_ReportChunk E i req s))"
| "mem_fails E (OpConfirmChunk req) s = error_of (fst (MemoryStore_ConfirmChunk E req s))"
| "mem_fails E (OpReadChunk req) s = error_of (fst (MemoryStore_ReadChunk E req s))"
| "mem_fails E (OpSetSignal i sig) s = error_of (fst (MemoryStore_SetSignal i sig s))"
| "mem_fails E (OpPollSignals i) s = error_of (fst (MemoryStore_PollSignals i s))"
| "mem_fails E OpDeleteExpiredChunks s = error_of (fst (MemoryStore_DeleteExpiredChunks E s))"

lemma error_of_Some: "error_of r = Some e \<longleftrightarrow> r = Inl e"
  by (cases r) auto

lemma ReadChunk_fails: "fst (MemoryStore_ReadChunk E r s) = Inl e \<Longrightarrow> snd (MemoryStore_ReadChunk E r s) = s"
proof -
  let ?R = "read_entry (TrimSpace (rd_RecipientID r)) (TrimSpace (rd_FileID r))"
  have "s\<lparr>chunks := map (\<lambda>e. if ?R e then g e else e) (chunks s)\<rparr> = s" if "\<not> list_ex ?R (chunks s)" for g
  proof -
    have "map (\<lambda>e. if ?R e then g e else e) (chunks s) = chunks s"
      using that by (intro map_idI) (auto simp: list_ex_iff)
    then show ?thesis by simp
  qed
  then show "fst (MemoryStore_ReadChunk E r s) = Inl e \<Longrightarrow> snd (MemoryStore_ReadChunk E r s) = s"
    by (auto simp: MemoryStore_ReadChunk_def split: option.splits if_splits)
qed

lemma ConfirmChunk_fails:
  "fst (MemoryStore_ConfirmChunk E r s) = Inl e \<Longrightarrow> snd (MemoryStore_ConfirmChunk E r s) = s"
  by (cases rule: ConfirmChunk_effect [of E r s]) (auto simp: confirm_final_def)

lemma mem_fails_same: "mem_fails E c s = Some e \<Longrightarrow> mem_apply E c s = s"
  by (cases c)
    (auto simp: error_of_Some ReadChunk_fails ConfirmChunk_fails MemoryStore_Upsert_def MemoryStore_Refresh_def
      MemoryStore_Delete_def MemoryStore_Heartbeat_def MemoryStore_ReportChunk_def SetChunkHash_unfold
      MemoryStore_SetSignal_def MemoryStore_PollSignals_def DeleteExpiredChunks_eq
      split: option.splits if_splits)

subsection \<open>Senders and recipients\<close>

text \<open>\<open>p\<close> is a registered peer with that key, not expired when iteration \<open>j\<close> visits it.\<close>

definition active_with_key :: "env \<Rightarrow> nat \<Rightarrow> MemoryStore \<Rightarrow> string \<Rightarrow> Peer \<Rightarrow> bool" where
  "active_with_key E j s key p \<longleftrightarrow>
     peers s (ID p) = Some p \<and> Key p = key \<and> (\<exists>now. (ID p, now) \<in> set (scan E j) \<and> \<not> isExpired p now)"

lemma peerByKey_active:
  assumes "mem_inv s" and "peerByKey (peers s) (scan E j) key = Some p"
  shows "active_with_key E j s key p"
  using peerByKey_Some [OF assms(2)] ID_of_peer [OF assms(1)] by (auto simp: active_with_key_def)

lemma peerByKey_found:
  "active_with_key E j s key p \<Longrightarrow> peerByKey (peers s) (scan E j) key \<noteq> None"
  unfolding peerByKey_None by (auto simp: active_with_key_def)

lemma peerByKey_not_found:
  assumes "mem_inv s"
  shows "peerByKey (peers s) (scan E j) key = None \<longleftrightarrow> (\<forall>p. \<not> active_with_key E j s key p)"
  using peerByKey_active [OF assms] peerByKey_found by (metis option.exhaust)

end
