(* ===== verification/Mailbox.thy ===== *)
theory Mailbox
  imports Memory_Effects
begin

text \<open>
  Signals wait in one queue per peer until the peer polls them. The interface is one law of
  conservation per call: what the call hands out, followed by what stays in the box, is what
  was in the box followed by what the call put in. Order, completeness and single delivery
  over any interleaving of calls follow from it.
\<close>

fun outputs :: "('c \<Rightarrow> 's \<Rightarrow> 's) \<Rightarrow> ('c \<Rightarrow> 's \<Rightarrow> 'v list) \<Rightarrow> 'c list \<Rightarrow> 's \<Rightarrow> 'v list" where
  "outputs step out [] s = []"
| "outputs step out (c # cs) s = out c s @ outputs step out cs (step c s)"

locale mailbox =
  fixes step :: "'c \<Rightarrow> 's \<Rightarrow> 's"
    and puts :: "'k \<Rightarrow> 'c \<Rightarrow> 's \<Rightarrow> 'v list"
    and takes :: "'k \<Rightarrow> 'c \<Rightarrow> 's \<Rightarrow> 'v list"
    and box :: "'s \<Rightarrow> 'k \<Rightarrow> 'v list"
  assumes conserve: "takes k c s @ box (step c s) k = box s k @ puts k c s"
begin

lemma fifo: "outputs step (takes k) cs s @ box (fold step cs s) k = box s k @ outputs step (puts k) cs s"
proof (induction cs arbitrary: s)
  case (Cons c cs)
  have "outputs step (takes k) (c # cs) s @ box (fold step (c # cs) s) k =
      takes k c s @ box (step c s) k @ outputs step (puts k) cs (step c s)"
    using Cons by simp
  also have "\<dots> = box s k @ outputs step (puts k) (c # cs) s" using conserve by (simp flip: append_assoc)
  finally show ?case .
qed simp

lemma delivered_in_order:
  assumes "box s k = []"
  shows "take (length (outputs step (takes k) cs s)) (outputs step (puts k) cs s) = outputs step (takes k) cs s"
  using fifo [of k cs s] assms by (metis append_Nil append_eq_conv_conj)

lemma all_delivered:
  assumes "box s k = []" and "box (fold step cs s) k = []"
  shows "outputs step (takes k) cs s = outputs step (puts k) cs s"
  using fifo [of k cs s] assms by simp

end

subsection \<open>The signals of the in-memory store\<close>

type_synonym mem_call = "env \<times> mem_op"

definition mem_call :: "mem_call \<Rightarrow> MemoryStore \<Rightarrow> MemoryStore" where
  "mem_call c s = mem_apply (fst c) (snd c) s"

text \<open>The signals a call stores for a peer, and the signals it hands out to a peer.\<close>

definition mem_puts :: "string \<Rightarrow> mem_call \<Rightarrow> MemoryStore \<Rightarrow> Signal list" where
  "mem_puts k c s =
     (case snd c of
        OpSetSignal i sig \<Rightarrow>
          if TrimSpace i = k \<and> fst (MemoryStore_SetSignal i sig s) = Inr () then [sig] else []
      | _ \<Rightarrow> [])"

definition mem_takes :: "string \<Rightarrow> mem_call \<Rightarrow> MemoryStore \<Rightarrow> Signal list" where
  "mem_takes k c s =
     (case snd c of
        OpPollSignals i \<Rightarrow>
          (case fst (MemoryStore_PollSignals i s) of
             Inl e \<Rightarrow> [] | Inr sigs \<Rightarrow> if TrimSpace i = k then sigs else [])
      | _ \<Rightarrow> [])"

lemma quiet_signals:
  "signals (snd (MemoryStore_Upsert E r s)) = signals s"
  "signals (snd (MemoryStore_Refresh E rf s)) = signals s"
  "signals (snd (MemoryStore_Delete i s)) = signals s"
  "signals (snd (MemoryStore_Heartbeat E i t s)) = signals s"
  "signals (snd (MemoryStore_SetChunkHash E f n rc s)) = signals s"
  "signals (snd (MemoryStore_ReportChunk E i rep s)) = signals s"
  "signals (snd (MemoryStore_ReadChunk E rd s)) = signals s"
  "signals (snd (MemoryStore_DeleteExpiredChunks E s)) = signals s"
  by (auto simp: MemoryStore_Upsert_def MemoryStore_Refresh_def MemoryStore_Delete_def
      MemoryStore_Heartbeat_def MemoryStore_ReportChunk_def SetChunkHash_unfold
      MemoryStore_ReadChunk_def DeleteExpiredChunks_eq split: option.split)

lemma ConfirmChunk_signals: "signals (snd (MemoryStore_ConfirmChunk E r s)) = signals s"
  by (cases rule: ConfirmChunk_effect [of E r s]) (auto simp: confirm_final_def)

interpretation mem_signals: mailbox mem_call mem_puts mem_takes "\<lambda>s. at (signals s)"
proof
  fix k c s
  show "mem_takes k c s @ at (signals (mem_call c s)) k = at (signals s) k @ mem_puts k c s"
    by (cases "snd c")
      (auto simp: mem_takes_def mem_call_def mem_puts_def quiet_signals ConfirmChunk_signals
        MemoryStore_SetSignal_def MemoryStore_PollSignals_def at_upd at_del split: option.split)
qed

end
