(* ===== verification/Server_Library.thy ===== *)
theory Server_Library
  imports Server Mailbox
begin

text \<open>
  What the HTTP layer needs from a store, and what it makes of it. \<open>query_store\<close> says that the
  queries of a \<^verbatim>\<open>Store\<close> change nothing; \<open>atomic_store\<close> adds that a call that returns an error
  changes nothing. The in-memory store is atomic, the SQL store only has the first property. The second half lifts the reachable states
  of the in-memory store to the whole server: handlers, cleaner and websocket relay.
\<close>

definition unchanged_on_error :: "('e, 's, 'a) call \<Rightarrow> bool" where
  "unchanged_on_error f \<longleftrightarrow> (\<forall>s s' e. f s = (Inl e, s') \<longrightarrow> s' = s)"

definition read_only :: "('e, 's, 'a) call \<Rightarrow> bool" where
  "read_only f \<longleftrightarrow> (\<forall>s. snd (f s) = s)"

fun is_error :: "response \<Rightarrow> bool" where
  "is_error (Response n c) = (400 \<le> n)"
| "is_error Aborted = True"

definition batch_endpoint :: "endpoint \<Rightarrow> bool" where
  "batch_endpoint e \<longleftrightarrow> e = ERegisterChunkBatch \<or> e = EConfirmChunkBatch"

definition query_endpoint :: "endpoint \<Rightarrow> bool" where
  "query_endpoint e \<longleftrightarrow> e \<in> {EHealth, EList, EGet, EGetByKey, EGetBestPeers, EGetBestThickPeers,
     EGetChunksByFileID, EGetChunksByRecipient}"

lemma is_error_simps [simp]:
  "is_error (writeError n m) = (400 \<le> n)" "is_error (writeJSON n v) = (400 \<le> n)" "\<not> is_error NoContent"
  by (simp_all add: writeError_def writeJSON_def NoContent_def)

lemma is_error_store_failure [simp]: "is_error (store_failure e)"
  by (simp add: store_failure_def writeStoreError_def split: error.split)

lemma read_only_atomic: "read_only f \<Longrightarrow> unchanged_on_error f"
  unfolding read_only_def unchanged_on_error_def by (metis snd_conv)

lemma reply_error:
  assumes "unchanged_on_error f" and "\<And>v. \<not> is_error (ok v)" and "is_error (fst (reply ok (f s)))"
  shows "snd (reply ok (f s)) = s"
  using assms by (cases "f s"; cases "fst (f s)") (auto simp: reply_def unchanged_on_error_def)

lemma snd_reply [simp]: "snd (reply ok r) = snd r"
  by (simp add: reply_def)

locale query_store =
  fixes st :: "'s Store"
  assumes queries:
      "read_only (Get st E i)" "read_only (GetByKey st E l g)" "read_only (List st E)"
      "read_only (GetBestPeers st E n)" "read_only (GetBestThickPeers st E n)"
      "read_only (GetChunksByRecipient st E i d)" "read_only (GetChunksByFileID st E i)"
begin

lemma query_unchanged:
  assumes "query_endpoint e"
  shows "snd (dispatch e st J E r s) = s"
  using assms queries
  by (auto simp: query_endpoint_def handler_defs read_only_def split: option.split)

end

locale atomic_store = query_store st for st :: "'s Store" +
  assumes peer_calls:
      "unchanged_on_error (Upsert st E reg)" "unchanged_on_error (Refresh st E ref)"
      "unchanged_on_error (Delete st E i)" "unchanged_on_error (Heartbeat st E i ttl)"
    and chunk_calls:
      "unchanged_on_error (SetChunkHash st E f n rc)" "unchanged_on_error (ReportChunk st E i rep)"
      "unchanged_on_error (ConfirmChunk st E cc)" "unchanged_on_error (ReadChunk st E rd)"
    and signal_calls:
      "unchanged_on_error (SetSignal st E i sig)" "unchanged_on_error (PollSignals st E i)"
begin

lemmas atomic_calls = peer_calls chunk_calls signal_calls queries [THEN read_only_atomic]

lemma error_unchanged:
  assumes "\<not> batch_endpoint e" and "is_error (fst (dispatch e st J E r s))"
  shows "snd (dispatch e st J E r s) = s"
proof (cases "query_endpoint e")
  case True
  then show ?thesis by (rule query_unchanged)
next
  case False
  then show ?thesis using assms
    by (cases e)
      (auto simp: query_endpoint_def batch_endpoint_def handler_defs case_prod_unfold simp del: snd_reply
        split: if_splits intro!: reply_error atomic_calls)
qed

end

subsection \<open>The in-memory store under the server\<close>

lemma memory_call_atomic:
  assumes "\<And>s. error_of (fst (f s)) = mem_fails E c s" and "\<And>s. snd (f s) = mem_apply E c s"
  shows "unchanged_on_error f"
  using assms mem_fails_same [of E c] unfolding unchanged_on_error_def by (metis error_of.simps(1) fst_conv snd_conv)

interpretation mem_http: atomic_store memory_store
  by unfold_locales
    (auto simp: memory_store_def read_only_def
      intro: memory_call_atomic [where c = "OpUpsert _"] memory_call_atomic [where c = "OpRefresh _"]
        memory_call_atomic [where c = "OpDelete _"] memory_call_atomic [where c = "OpHeartbeat _ _"]
        memory_call_atomic [where c = "OpSetChunkHash _ _ _"] memory_call_atomic [where c = "OpReportChunk _ _"]
        memory_call_atomic [where c = "OpConfirmChunk _"] memory_call_atomic [where c = "OpReadChunk _"]
        memory_call_atomic [where c = "OpSetSignal _ _"] memory_call_atomic [where c = "OpPollSignals _"])

abbreviation mem_steps :: "MemoryStore \<Rightarrow> MemoryStore \<Rightarrow> bool" where
  "mem_steps \<equiv> (mem_step (\<lambda>_. True))\<^sup>*\<^sup>*"

lemma mem_stepsI: "scan_ok E s \<Longrightarrow> mem_steps s (mem_apply E c s)"
  by (intro r_into_rtranclp mem_step.step) simp_all

lemma mem_steps_calls:
  assumes "scan_ok E s"
  shows "mem_steps s (snd (MemoryStore_Upsert E reg s))" "mem_steps s (snd (MemoryStore_Refresh E ref s))"
    "mem_steps s (snd (MemoryStore_Delete i s))" "mem_steps s (snd (MemoryStore_Heartbeat E i ttl s))"
    "mem_steps s (snd (MemoryStore_SetChunkHash E f n rc s))" "mem_steps s (snd (MemoryStore_ReportChunk E i rep s))"
    "mem_steps s (snd (MemoryStore_ConfirmChunk E cc s))" "mem_steps s (snd (MemoryStore_ReadChunk E rd s))"
    "mem_steps s (snd (MemoryStore_SetSignal i sig s))" "mem_steps s (snd (MemoryStore_PollSignals i s))"
    "mem_steps s (snd (MemoryStore_DeleteExpiredChunks E s))"
  using mem_stepsI [OF assms, of "OpUpsert reg"] mem_stepsI [OF assms, of "OpRefresh ref"]
    mem_stepsI [OF assms, of "OpDelete i"] mem_stepsI [OF assms, of "OpHeartbeat i ttl"]
    mem_stepsI [OF assms, of "OpSetChunkHash f n rc"] mem_stepsI [OF assms, of "OpReportChunk i rep"]
    mem_stepsI [OF assms, of "OpConfirmChunk cc"] mem_stepsI [OF assms, of "OpReadChunk rd"]
    mem_stepsI [OF assms, of "OpSetSignal i sig"] mem_stepsI [OF assms, of "OpPollSignals i"]
    mem_stepsI [OF assms, of OpDeleteExpiredChunks]
  by simp_all

text \<open>The calls of a batch neither add nor remove a peer, so an iteration that is right for the
  first call is right for all of them.\<close>

lemma dom_batch_calls:
  "dom (peers (snd (MemoryStore_SetChunkHash E f n rc s))) = dom (peers s)"
  "mem_inv s \<Longrightarrow> dom (peers (snd (MemoryStore_ConfirmChunk E cc s))) = dom (peers s)"
proof -
  show "dom (peers (snd (MemoryStore_SetChunkHash E f n rc s))) = dom (peers s)" by (simp add: quiet_peers)
  assume "mem_inv s"
  then show "dom (peers (snd (MemoryStore_ConfirmChunk E cc s))) = dom (peers s)"
    by (cases rule: ConfirmChunk_peers [of s E cc]) (auto simp: dom_def)
qed

lemma batch_steps:
  assumes "\<And>E e s. mem_inv s \<Longrightarrow> dom (peers (snd (f E e s))) = dom (peers s)"
    and "\<And>E e s. scan_ok E s \<Longrightarrow> mem_steps s (snd (f E e s))"
    and "\<And>E e s. mem_inv s \<Longrightarrow> mem_inv (snd (f E e s))"
    and "mem_inv s" and "\<forall>i. scan_ok (E i) s"
  shows "mem_steps s (snd (batch_loop f E i es s))"
  using assms(4,5)
proof (induction es arbitrary: i s)
  case (Cons e es)
  let ?s = "snd (f (E i) e s)"
  have s: "mem_steps s ?s" using assms(2) Cons.prems by blast
  have "\<forall>j. scan_ok (E j) ?s" using Cons.prems assms(1) by (simp add: scan_ok_def)
  then have "mem_steps ?s (snd (batch_loop f E (Suc i) es ?s))"
    using Cons.IH assms(3) Cons.prems by blast
  with s have "mem_steps s (snd (batch_loop f E (Suc i) es ?s))" by (rule rtranclp_trans)
  with s show ?case by (auto split: prod.split sum.split)
qed simp

lemma dispatch_steps:
  assumes "mem_inv s" and "\<forall>i. scan_ok (E i) s"
  shows "mem_steps s (snd (dispatch e memory_store J E r s))"
proof (cases "batch_endpoint e")
  case True
  have "mem_steps s (snd (batch_loop (\<lambda>E en. MemoryStore_SetChunkHash E f (rb_ChunkIndex en) (batch_chunk en)) E 0 es s))" for f es
    by (rule batch_steps) (simp_all add: assms dom_batch_calls mem_steps_calls inv_intros)
  moreover have "mem_steps s (snd (batch_loop (\<lambda>E en. MemoryStore_ConfirmChunk E (batch_confirm k en)) E 0 es s))" for k es
    by (rule batch_steps) (simp_all add: assms dom_batch_calls mem_steps_calls inv_intros)
  ultimately show ?thesis using True
    by (auto simp: batch_endpoint_def Phonebook_RegisterChunkBatch_def Phonebook_ConfirmChunkBatch_def
        batch_reply_def memory_store_def case_prod_unfold)
next
  case False
  have "scan_ok (E 0) s" using assms(2) by blast
  from mem_steps_calls [OF this] False show ?thesis
    by (cases e)
      (auto simp: batch_endpoint_def handler_defs memory_store_def case_prod_unfold split: option.split)
qed

end
