(* ===== verification/DB_Library.thy ===== *)
theory DB_Library
  imports DB_Store Server_Library
begin

text \<open>
  The invariant of the SQL store's tables, its preservation by every operation under any
  failures of statements, and the states any sequence of calls reaches.
\<close>

subsection \<open>Calls of any store\<close>

fun store_apply :: "'s Store \<Rightarrow> env \<Rightarrow> mem_op \<Rightarrow> 's \<Rightarrow> 's" where
  "store_apply st E (OpUpsert req) s = snd (Upsert st E req s)"
| "store_apply st E (OpRefresh req) s = snd (Refresh st E req s)"
| "store_apply st E (OpDelete i) s = snd (Delete st E i s)"
| "store_apply st E (OpHeartbeat i ttl) s = snd (Heartbeat st E i ttl s)"
| "store_apply st E (OpSetChunkHash f n req) s = snd (SetChunkHash st E f n req s)"
| "store_apply st E (OpReportChunk i req) s = snd (ReportChunk st E i req s)"
| "store_apply st E (OpConfirmChunk req) s = snd (ConfirmChunk st E req s)"
| "store_apply st E (OpReadChunk req) s = snd (ReadChunk st E req s)"
| "store_apply st E (OpSetSignal i sig) s = snd (SetSignal st E i sig s)"
| "store_apply st E (OpPollSignals i) s = snd (PollSignals st E i s)"
| "store_apply st E OpDeleteExpiredChunks s = snd (DeleteExpiredChunks st E s)"

lemma store_apply_memory: "store_apply memory_store E c s = mem_apply E c s"
  by (cases c) (simp_all add: memory_store_def)

subsection \<open>The invariant\<close>

definition row_ok :: "peer_row \<Rightarrow> bool" where
  "row_ok r \<longleftrightarrow>
     r_id r \<noteq> [] \<and> TrimSpace (r_id r) = r_id r \<and> r_key r = r_login r @ '':'' @ r_signature_key r \<and>
     (r_is_fake r = 0 \<or> r_is_fake r = 1) \<and> 0 <s r_ttl_seconds r \<and>
     r_quality_score r = InitialQualityScore + r_quality_valid r - r_quality_invalid r"

definition chunk_row_ok :: "chunk_row \<Rightarrow> bool" where
  "chunk_row_ok c \<longleftrightarrow>
     c_file_id c \<noteq> [] \<and> TrimSpace (c_file_id c) = c_file_id c \<and> 0 \<le>s c_chunk_index c \<and>
     validHashFormat (c_expected_hash c) \<and> 0 <s c_ttl c"

definition db_inv :: "dbStore \<Rightarrow> bool" where
  "db_inv s \<longleftrightarrow>
     distinct (map r_id (t_peers s)) \<and> list_all row_ok (t_peers s) \<and> list_all chunk_row_ok (t_chunks s) \<and>
     list_all (\<lambda>g. signal_ok (g_signal g)) (t_signals s)"

lemma db_invI:
  assumes "distinct (map r_id (t_peers s))" and "list_all row_ok (t_peers s)"
    and "list_all chunk_row_ok (t_chunks s)" and "list_all (\<lambda>g. signal_ok (g_signal g)) (t_signals s)"
  shows "db_inv s"
  using assms by (simp add: db_inv_def)

lemma list_all_update:
  "list_all Q xs \<Longrightarrow> (\<And>x. Q x \<Longrightarrow> P x \<Longrightarrow> Q (f x)) \<Longrightarrow> list_all Q (map (\<lambda>x. if P x then f x else x) xs)"
  by (auto simp: list_all_iff)

lemma list_all_filter: "list_all Q xs \<Longrightarrow> list_all Q (filter P xs)"
  by (auto simp: list_all_iff)

text \<open>An update of rows that keeps their ids keeps the key of the table.\<close>

lemma map_id_update:
  "(\<And>r. r_id (f r) = r_id r) \<Longrightarrow> map r_id (map (\<lambda>r. if P r then f r else r) rs) = map r_id rs"
  by (induction rs) auto

lemma update_peers_inv:
  assumes "db_inv s" and "\<And>r. r_id (f r) = r_id r" and "\<And>r. row_ok r \<Longrightarrow> row_ok (f r)"
  shows "db_inv (update_peers P f s)"
  using assms by (auto simp: db_inv_def update_peers_def map_id_update simp del: map_map intro!: list_all_update)

lemma update_chunks_inv:
  assumes "db_inv s" and "\<And>c. chunk_row_ok c \<Longrightarrow> chunk_row_ok (f c)"
  shows "db_inv (update_chunks P f s)"
  using assms by (auto simp: db_inv_def update_chunks_def intro!: list_all_update)

lemma row_ok_score: "row_ok r \<Longrightarrow> row_ok (score_row v r)"
  by (simp add: row_ok_def score_row_def QualityPointsValid_def QualityPointsInvalid_def)

lemma score_row_id [simp]:
  "r_id (score_row v r) = r_id r" "r_key (score_row v r) = r_key r" "r_login (score_row v r) = r_login r"
  "r_signature_key (score_row v r) = r_signature_key r" "r_last_seen (score_row v r) = r_last_seen r"
  "r_ttl_seconds (score_row v r) = r_ttl_seconds r" "r_peer_flag (score_row v r) = r_peer_flag r"
  "r_is_fake (score_row v r) = r_is_fake r" "r_encryption_key (score_row v r) = r_encryption_key r"
  by (simp_all add: score_row_def)

lemma driver_update [simp]:
  "driver (update_peers P f s) = driver s" "driver (update_chunks Q g s) = driver s"
  by (simp_all add: update_peers_def update_chunks_def)

lemma stmt_cases: "(\<exists>msg. stmt E name v = Inl (ErrDriver msg)) \<or> stmt E name v = Inr v"
  by (auto simp: stmt_def split: option.split)

lemma stmt_Inr: "stmt E name v = Inr w \<longleftrightarrow> fault E name = None \<and> w = v"
  by (auto simp: stmt_def split: option.split)

lemma positive_ttl: "0 <s (if n \<le>s 0 then defaultTTL else n)" "0 <s (if n \<le>s 0 then defaultChunkTTL else n)"
  by (auto simp: word_sless_alt word_sle_eq defaultTTL_def defaultChunkTTL_def)

subsection \<open>Preservation\<close>

text \<open>The table after a successful registration.\<close>

definition new_row :: "env \<Rightarrow> RegisterRequest \<Rightarrow> peer_row" where
  "new_row E req =
     \<lparr>r_id = TrimSpace (reg_ID req), r_key = TrimSpace (reg_Login req) @ '':'' @ TrimSpace (reg_SignatureKey req),
      r_encryption_key = TrimSpace (reg_EncryptionKey req), r_signature_key = TrimSpace (reg_SignatureKey req),
      r_last_seen = time_Unix (clock E 0),
      r_ttl_seconds = (if reg_TTLSeconds req \<le>s 0 then defaultTTL else reg_TTLSeconds req),
      r_quality_score = InitialQualityScore, r_quality_valid = 0, r_quality_invalid = 0,
      r_peer_flag = reg_PeerFlag req, r_is_fake = (if reg_Fake req = Some True then 1 else 0),
      r_login = TrimSpace (reg_Login req)\<rparr>"

definition touched_row :: "env \<Rightarrow> RegisterRequest \<Rightarrow> peer_row \<Rightarrow> peer_row" where
  "touched_row E req r =
     r\<lparr>r_last_seen := time_Unix (clock E 0),
       r_ttl_seconds := (if reg_TTLSeconds req \<le>s 0 then defaultTTL else reg_TTLSeconds req),
       r_peer_flag := (if reg_PeerFlag req = [] then r_peer_flag r else reg_PeerFlag req)\<rparr>"

definition upserted :: "env \<Rightarrow> RegisterRequest \<Rightarrow> dbStore \<Rightarrow> dbStore" where
  "upserted E req s =
     (case find (\<lambda>r. r_id r = TrimSpace (reg_ID req)) (t_peers s) of
        None \<Rightarrow> s\<lparr>t_peers := t_peers s @ [new_row E req]\<rparr>
      | Some _ \<Rightarrow> update_peers (\<lambda>r. r_id r = TrimSpace (reg_ID req)) (touched_row E req) s)"

lemma db_Upsert_unfold:
  "dbStore_Upsert E req s =
     (if TrimSpace (reg_ID req) = [] then (Inl ErrInvalidPeer, s)
      else case (fault E ''begin'', fault E ''select peer'', fault E ''upsert'', fault E ''commit'') of
        (Some m, _, _, _) \<Rightarrow> (Inl (ErrWrap ''begin tx'' (ErrDriver m)), s)
      | (_, Some m, _, _) \<Rightarrow> (Inl (ErrWrap ''select peer'' (ErrDriver m)), s)
      | (_, _, Some m, _) \<Rightarrow> (Inl (ErrWrap ''upsert peer'' (ErrDriver m)), s)
      | (_, _, _, Some m) \<Rightarrow> (Inl (ErrWrap ''commit'' (ErrDriver m)), s)
      | _ \<Rightarrow> (Inr (), upserted E req s))"
proof -
  have f: "(case reg_Fake req of None \<Rightarrow> 0 | Some b \<Rightarrow> if b then 1 else 0) = (if reg_Fake req = Some True then 1 else 0 :: int64)"
    by (auto split: option.split)
  show ?thesis
    unfolding dbStore_Upsert_def Let_def f upserted_def new_row_def touched_row_def stmt_def
    by (cases "find (\<lambda>r. r_id r = TrimSpace (reg_ID req)) (t_peers s)") (simp_all add: wrap_def split: option.split)
qed

lemma db_Upsert_cases:
  assumes "\<And>e. dbStore_Upsert E req s = (Inl e, s) \<Longrightarrow> P s"
    and "TrimSpace (reg_ID req) \<noteq> [] \<Longrightarrow> dbStore_Upsert E req s = (Inr (), upserted E req s) \<Longrightarrow> P (upserted E req s)"
  shows "P (snd (dbStore_Upsert E req s))"
  using assms unfolding db_Upsert_unfold by (simp split: option.splits if_splits)

lemma row_ok_new: "TrimSpace (reg_ID req) \<noteq> [] \<Longrightarrow> row_ok (new_row E req)"
  using positive_ttl(1) [of "reg_TTLSeconds req"] by (auto simp: row_ok_def new_row_def)

lemma row_ok_touched: "row_ok r \<Longrightarrow> row_ok (touched_row E req r)"
  using positive_ttl(1) [of "reg_TTLSeconds req"] by (auto simp: row_ok_def touched_row_def)

lemma db_Upsert_inv:
  assumes "db_inv s"
  shows "db_inv (snd (dbStore_Upsert E req s))"
proof (rule db_Upsert_cases)
  assume i: "TrimSpace (reg_ID req) \<noteq> []"
  show "db_inv (upserted E req s)"
  proof (cases "find (\<lambda>r. r_id r = TrimSpace (reg_ID req)) (t_peers s)")
    case None
    then have "TrimSpace (reg_ID req) \<notin> r_id ` set (t_peers s)" by (auto simp: find_None_set)
    then show ?thesis using assms None row_ok_new [OF i]
      by (auto simp: upserted_def db_inv_def) (simp_all add: new_row_def)
  next
    case (Some r)
    then show ?thesis
      by (simp add: upserted_def) (rule update_peers_inv [OF assms], simp_all add: row_ok_touched, simp add: touched_row_def)
  qed
qed (rule assms)

lemma db_Heartbeat_inv: "db_inv s \<Longrightarrow> db_inv (snd (dbStore_Heartbeat E i ttl s))"
  by (auto simp: dbStore_Heartbeat_def row_ok_def intro!: update_peers_inv split: sum.split)

lemma db_Delete_inv: "db_inv s \<Longrightarrow> db_inv (snd (dbStore_Delete E i s))"
  by (auto simp: dbStore_Delete_def db_inv_def list_all_filter distinct_map_filter split: sum.split)

lemma db_SetChunkHash_inv: "db_inv s \<Longrightarrow> db_inv (snd (dbStore_SetChunkHash E f i req s))"
  using positive_ttl(2) [of "rc_TTL req"]
  by (auto simp: dbStore_SetChunkHash_def db_inv_def chunk_row_ok_def not_sless_0 split: sum.split option.split)

lemma db_ReportChunk_effect:
  "snd (dbStore_ReportChunk E src req s) = s \<or>
   (\<exists>v. snd (dbStore_ReportChunk E src req s) = update_peers (\<lambda>r. r_id r = TrimSpace src) (score_row v) s)"
  by (auto simp: dbStore_ReportChunk_def split: sum.split option.split)

lemma db_ReportChunk_inv: "db_inv s \<Longrightarrow> db_inv (snd (dbStore_ReportChunk E src req s))"
  using db_ReportChunk_effect [of E src req s] by (auto simp: row_ok_score intro!: update_peers_inv)

text \<open>The tables after the two updates of a confirmation.\<close>

definition scored_by_key :: "chunk_row \<Rightarrow> bool \<Rightarrow> dbStore \<Rightarrow> dbStore" where
  "scored_by_key row v s = update_peers (\<lambda>r. r_key r = c_sender_id row) (score_row v) s"

definition marked_confirmed :: "env \<Rightarrow> ConfirmChunkRequest \<Rightarrow> dbStore \<Rightarrow> dbStore" where
  "marked_confirmed E req s =
     update_chunks (confirm_row req) (\<lambda>c. c\<lparr>c_confirmed := 1, c_updated_at := time_Unix (clock E 2)\<rparr>) s"

lemma by_driver_Inr: "by_driver E d n x t = Inr u \<Longrightarrow> u = x \<or> u = t"
  by (auto simp: by_driver_def stmt_Inr split: if_splits)

lemma confirm_update_cases:
  "snd (confirm_update E req row s) \<in>
     {s, scored_by_key row (normalizeHash E (cc_Hash req) = c_expected_hash row) s,
      marked_confirmed E req (scored_by_key row True s)}"
  unfolding confirm_update_def Let_def marked_confirmed_def [symmetric]
  by (auto simp: scored_by_key_def split: sum.split dest!: by_driver_Inr)

lemma db_ConfirmChunk_cases:
  assumes "P s" and "\<And>row v. P (scored_by_key row v s)" and "\<And>row v. P (marked_confirmed E req (scored_by_key row v s))"
  shows "P (snd (dbStore_ConfirmChunk E req s))"
proof -
  have "P (snd (confirm_update E req row s))" for row using confirm_update_cases [of E req row s] assms by auto
  then show ?thesis using assms(1) by (simp add: dbStore_ConfirmChunk_def split: sum.split option.split)
qed

lemma db_ConfirmChunk_inv:
  assumes "db_inv s"
  shows "db_inv (snd (dbStore_ConfirmChunk E req s))"
proof (rule db_ConfirmChunk_cases [where P = db_inv])
  show 1: "db_inv (scored_by_key row v s)" for row v
    unfolding scored_by_key_def by (rule update_peers_inv [OF assms]) (simp_all add: row_ok_score)
  show "db_inv (marked_confirmed E req (scored_by_key row v s))" for row v
    unfolding marked_confirmed_def by (rule update_chunks_inv [OF 1]) (simp add: chunk_row_ok_def)
qed (rule assms)

lemma db_ReadChunk_inv: "db_inv s \<Longrightarrow> db_inv (snd (dbStore_ReadChunk E req s))"
  by (auto simp: dbStore_ReadChunk_def by_driver_def stmt_def chunk_row_ok_def intro!: update_chunks_inv
      split: sum.split option.split)

lemma db_DeleteExpiredChunks_inv: "db_inv s \<Longrightarrow> db_inv (snd (dbStore_DeleteExpiredChunks E s))"
  by (auto simp: dbStore_DeleteExpiredChunks_def by_driver_def stmt_def db_inv_def list_all_filter
      split: sum.split option.split)

lemma db_SetSignal_inv: "db_inv s \<Longrightarrow> db_inv (snd (dbStore_SetSignal E i sig s))"
  by (auto simp: dbStore_SetSignal_def db_inv_def signal_ok_def split: sum.split)

lemma db_PollSignals_inv: "db_inv s \<Longrightarrow> db_inv (snd (dbStore_PollSignals E i s))"
  by (auto simp: dbStore_PollSignals_def db_inv_def list_all_filter split: sum.split)

lemma db_Refresh_same: "snd (dbStore_Refresh E req s) = s"
  by (simp add: dbStore_Refresh_def split: sum.split)

lemmas db_op_inv = db_Upsert_inv db_Heartbeat_inv db_Delete_inv db_SetChunkHash_inv db_ReportChunk_inv
  db_ConfirmChunk_inv db_ReadChunk_inv db_DeleteExpiredChunks_inv db_SetSignal_inv db_PollSignals_inv

lemma db_apply_inv: "db_inv s \<Longrightarrow> db_inv (store_apply db_store E c s)"
  by (cases c) (simp_all add: db_store_def db_op_inv db_Refresh_same)

subsection \<open>Reachable states\<close>

definition EmptyDB :: "string \<Rightarrow> dbStore" where
  "EmptyDB d = \<lparr>t_peers = [], t_chunks = [], t_signals = [], driver = d\<rparr>"

inductive db_reach :: "string \<Rightarrow> dbStore \<Rightarrow> bool" for d where
  init: "db_reach d (EmptyDB d)"
| more: "db_reach d s \<Longrightarrow> db_reach d (store_apply db_store E c s)"

lemma db_inv_EmptyDB: "db_inv (EmptyDB d)"
  by (simp add: db_inv_def EmptyDB_def)

lemma db_reach_inv: "db_reach d s \<Longrightarrow> db_inv s"
  by (induction rule: db_reach.induct) (simp_all add: db_inv_EmptyDB db_apply_inv)

interpretation db_http: query_store db_store
  by unfold_locales (simp_all add: db_store_def read_only_def)

end
