(* ===== verification/Migrations.thy ===== *)
theory Migrations
  imports DB_Library "HOL-Library.List_Lexorder" "HOL-Library.Char_ord"
begin

text \<open>
  \<^verbatim>\<open>internal/store/migration.go\<close> and \<^verbatim>\<open>NewDB\<close> of \<^verbatim>\<open>internal/store/db.go\<close>: loading the embedded
  migration files, running the pending ones, and opening the SQL store.

  The embedded file system, SHA-256 and the execution of a script by the database are arguments:
  \<open>ReadDir\<close> and \<open>ReadFile\<close> are the methods of \<^verbatim>\<open>embed.FS\<close>, \<open>Sum256\<close> is \<^verbatim>\<open>sha256.Sum256\<close>, and
  \<open>exec\<close> gives the error of a script, if it fails, and the contents of the database after it;
  a script that fails may have changed them. No migration touches the table of versions.
\<close>

record Migration =
  mg_ID :: string
  mg_Author :: string
  mg_Description :: string
  mg_SQLite :: string
  mg_Postgres :: string

subsection \<open>Loading\<close>

definition TrimSuffix :: "string \<Rightarrow> string \<Rightarrow> string" where
  "TrimSuffix s suffix = (case strip_prefix (rev suffix) (rev s) of Some r \<Rightarrow> rev r | None \<Rightarrow> s)"

definition ReplaceChar :: "string \<Rightarrow> char \<Rightarrow> char \<Rightarrow> string" where
  "ReplaceChar s old new = map (\<lambda>c. if c = old then new else c) s"

definition parseMigrationFile :: "string \<Rightarrow> string \<times> string" where
  "parseMigrationFile name0 =
     (let name = TrimSuffix name0 ''.sql'' in
      case SplitN2 name (CHR ''_'') of
        [i, rest] \<Rightarrow> (i, ReplaceChar rest (CHR ''_'') (CHR '' ''))
      | _ \<Rightarrow> ([], []))"

text \<open>The loop over the directory entries; an entry without an id is skipped, a missing file for
  PostgreSQL counts as empty.\<close>

fun load_loop :: "(string \<Rightarrow> string result) \<Rightarrow> string list \<Rightarrow> Migration list result" where
  "load_loop ReadFile [] = Inr []"
| "load_loop ReadFile (name # names) =
     (let (i, desc) = parseMigrationFile name in
      if i = [] then load_loop ReadFile names
      else case ReadFile (''migrations/sqlite/'' @ name) of
        Inl err \<Rightarrow> Inl (ErrWrap (''read sqlite/'' @ name) err)
      | Inr sqliteSQL \<Rightarrow>
          let postgresSQL = (case ReadFile (''migrations/postgres/'' @ name) of Inl err \<Rightarrow> [] | Inr x \<Rightarrow> x);
              m = \<lparr>mg_ID = i, mg_Author = ''muninn'', mg_Description = desc,
                   mg_SQLite = TrimSpace sqliteSQL, mg_Postgres = TrimSpace postgresSQL\<rparr>
          in case load_loop ReadFile names of
            Inl err \<Rightarrow> Inl err
          | Inr ms \<Rightarrow> Inr (m # ms))"

definition loadMigrations ::
  "(string \<Rightarrow> string list result) \<Rightarrow> (string \<Rightarrow> string result) \<Rightarrow> Migration list result" where
  "loadMigrations ReadDir ReadFile =
     (case ReadDir ''migrations/sqlite'' of
        Inl err \<Rightarrow> Inl (ErrWrap ''read sqlite migrations'' err)
      | Inr entries \<Rightarrow> load_loop ReadFile (sort entries))"

subsection \<open>Running\<close>

definition hex_digit :: "nat \<Rightarrow> char" where
  "hex_digit n = ''0123456789abcdef'' ! n"

definition Sprintf_x :: "bytes \<Rightarrow> string" where
  "Sprintf_x bs = concat (map (\<lambda>c. [hex_digit (of_char c div 16), hex_digit (of_char c mod 16)]) bs)"

definition checksum :: "(bytes \<Rightarrow> bytes) \<Rightarrow> Migration \<Rightarrow> string" where
  "checksum Sum256 m = Sprintf_x (take 8 (Sum256 (mg_SQLite m @ ''|'' @ mg_Postgres m)))"

text \<open>\<^verbatim>\<open>schemaVersionTable\<close>: the statement that creates the table of versions, by its table and
  columns, or none for an unknown driver.\<close>

datatype ddl = CreateTableIfNotExists string "(string \<times> string) list" | NoStatement

definition schemaVersionTable :: "string \<Rightarrow> ddl" where
  "schemaVersionTable drv =
     (if drv = ''sqlite'' then
        CreateTableIfNotExists ''schema_version''
          [(''id'', ''TEXT PRIMARY KEY''), (''author'', ''TEXT NOT NULL''),
           (''description'', ''TEXT NOT NULL DEFAULT '' @ [CHR 39, CHR 39]), (''applied_at'', ''INTEGER NOT NULL''),
           (''checksum'', ''TEXT NOT NULL DEFAULT '' @ [CHR 39, CHR 39])]
      else if drv = ''pgx'' then
        CreateTableIfNotExists ''schema_version''
          [(''id'', ''TEXT PRIMARY KEY''), (''author'', ''TEXT NOT NULL''),
           (''description'', ''TEXT NOT NULL DEFAULT '' @ [CHR 39, CHR 39]), (''applied_at'', ''BIGINT NOT NULL''),
           (''checksum'', ''TEXT NOT NULL DEFAULT '' @ [CHR 39, CHR 39])]
      else NoStatement)"

record version_row =
  v_id :: string
  v_author :: string
  v_description :: string
  v_applied_at :: int64
  v_checksum :: string

text \<open>A database: the table of versions, if it exists, and everything else.\<close>

record 'd database =
  versions :: "version_row list option"
  contents :: 'd

text \<open>\<^verbatim>\<open>SELECT id FROM schema_version\<close> and the insertion, whose id is the primary key.\<close>

definition no_table :: error where
  "no_table = ErrDriver ''no such table: schema_version''"

definition select_versions :: "env \<Rightarrow> string \<Rightarrow> 'd database \<Rightarrow> string list result" where
  "select_versions E name db =
     (case versions db of
        None \<Rightarrow> Inl no_table
      | Some rows \<Rightarrow> stmt E name (map v_id rows))"

definition insert_version :: "env \<Rightarrow> version_row \<Rightarrow> 'd database \<Rightarrow> 'd database result" where
  "insert_version E row db =
     (case versions db of
        None \<Rightarrow> Inl no_table
      | Some rows \<Rightarrow>
          if v_id row \<in> v_id ` set rows then Inl (ErrDriver ''UNIQUE constraint failed: schema_version.id'')
          else stmt E (''record '' @ v_id row) (db\<lparr>versions := Some (rows @ [row])\<rparr>))"

text \<open>The first part of \<^verbatim>\<open>runMigrations\<close>: read the ids, create the table when that fails, read
  again. An error of the second reading is dropped and no migration counts as applied.\<close>

definition read_applied :: "env \<Rightarrow> 'd database \<Rightarrow> string list result \<times> 'd database" where
  "read_applied E db =
     (case select_versions E ''versions'' db of
        Inr ids \<Rightarrow> (Inr ids, db)
      | Inl err \<Rightarrow>
          (case stmt E ''create versions'' () of
             Inl err2 \<Rightarrow> (Inl (ErrWrap ''create schema_version'' err2), db)
           | Inr _ \<Rightarrow>
               let db' = db\<lparr>versions := Some (case versions db of None \<Rightarrow> [] | Some rows \<Rightarrow> rows)\<rparr> in
               (case select_versions E ''versions again'' db' of
                  Inl err3 \<Rightarrow> (Inr [], db')
                | Inr ids \<Rightarrow> (Inr ids, db'))))"

definition script :: "string \<Rightarrow> Migration \<Rightarrow> string" where
  "script drv m = (if drv = ''sqlite'' then mg_SQLite m else if drv = ''pgx'' then mg_Postgres m else [])"

definition version_of :: "(bytes \<Rightarrow> bytes) \<Rightarrow> int64 \<Rightarrow> Migration \<Rightarrow> version_row" where
  "version_of Sum256 now m =
     \<lparr>v_id = mg_ID m, v_author = mg_Author m, v_description = mg_Description m, v_applied_at = now,
      v_checksum = checksum Sum256 m\<rparr>"

text \<open>The loop over the migrations: the error of the run, if any, and the database.\<close>

fun migrate_loop ::
  "env \<Rightarrow> (bytes \<Rightarrow> bytes) \<Rightarrow> (string \<Rightarrow> 'd \<Rightarrow> error option \<times> 'd) \<Rightarrow> string \<Rightarrow> string list \<Rightarrow> nat \<Rightarrow> Migration list \<Rightarrow>
     'd database \<Rightarrow> error option \<times> 'd database" where
  "migrate_loop E Sum256 exec drv applied k [] db = (None, db)"
| "migrate_loop E Sum256 exec drv applied k (m # ms) db =
     (if mg_ID m \<in> set applied then migrate_loop E Sum256 exec drv applied k ms db
      else if script drv m = [] then migrate_loop E Sum256 exec drv applied k ms db
      else
        let (err, d) = exec (script drv m) (contents db);
            db1 = db\<lparr>contents := d\<rparr>
        in case err of
          Some e \<Rightarrow> (Some (ErrWrap (''migration '' @ mg_ID m) e), db1)
        | None \<Rightarrow>
            (case insert_version E (version_of Sum256 (time_Unix (clock E k)) m) db1 of
               Inl e \<Rightarrow> (Some (ErrWrap (''record migration '' @ mg_ID m) e), db1)
             | Inr db2 \<Rightarrow> migrate_loop E Sum256 exec drv applied (Suc k) ms db2))"

definition runMigrations ::
  "env \<Rightarrow> (bytes \<Rightarrow> bytes) \<Rightarrow> (string \<Rightarrow> 'd \<Rightarrow> error option \<times> 'd) \<Rightarrow> Migration list \<Rightarrow> string \<Rightarrow>
     'd database \<Rightarrow> error option \<times> 'd database" where
  "runMigrations E Sum256 exec migrations drv db =
     (case schemaVersionTable drv of
        NoStatement \<Rightarrow> (Some (ErrDriver (''unsupported driver for migration: '' @ drv)), db)
      | CreateTableIfNotExists tbl columns \<Rightarrow>
          (case read_applied E db of
             (Inl err, db') \<Rightarrow> (Some err, db')
           | (Inr applied, db') \<Rightarrow> migrate_loop E Sum256 exec drv applied 0 migrations db'))"

subsection \<open>Opening the store\<close>

definition driverSQLite :: string where "driverSQLite = ''sqlite''"

definition driverPostgres :: string where "driverPostgres = ''postgres''"

definition driverMap :: "string \<rightharpoonup> string" where
  "driverMap = [driverSQLite \<mapsto> ''sqlite'', driverPostgres \<mapsto> ''pgx'']"

definition defaultDSN :: "string \<Rightarrow> string" where
  "defaultDSN d =
     (if d = driverSQLite then ''file:muninn.db?cache=shared&_journal_mode=WAL''
      else if d = driverPostgres then ''postgres://localhost:5432/muninn?sslmode=disable'' else [])"

text \<open>\<open>Open\<close> is \<^verbatim>\<open>sql.Open\<close>: the database behind a data source name. A store that cannot be opened
  may still have run some migrations.\<close>

definition NewDB ::
  "env \<Rightarrow> (bytes \<Rightarrow> bytes) \<Rightarrow> (string \<Rightarrow> dbStore \<Rightarrow> error option \<times> dbStore) \<Rightarrow> Migration list \<Rightarrow>
     (string \<Rightarrow> string \<Rightarrow> dbStore database result) \<Rightarrow> string \<Rightarrow> string \<Rightarrow> dbStore result" where
  "NewDB E Sum256 exec migrations Open d dsn0 =
     (case driverMap d of
        None \<Rightarrow> Inl (ErrDriver (''unsupported driver: '' @ d))
      | Some sqlDriver \<Rightarrow>
          let dsn = (if dsn0 = [] then defaultDSN d else dsn0) in
          (case Open sqlDriver dsn of
             Inl err \<Rightarrow> Inl (ErrWrap (''open '' @ d) err)
           | Inr db \<Rightarrow>
               (case stmt E ''ping'' () of
                  Inl err \<Rightarrow> Inl (ErrWrap (''ping '' @ d) err)
                | Inr _ \<Rightarrow>
                    (case runMigrations E Sum256 exec migrations sqlDriver db of
                       (Some err, db') \<Rightarrow> Inl (ErrWrap (''migrations '' @ d) err)
                     | (None, db') \<Rightarrow> Inr ((contents db')\<lparr>driver := d\<rparr>)))))"

end
