(* ===== verification/Migration_Library.thy ===== *)
theory Migration_Library
  imports Migrations
begin

text \<open>
  The run of the migrations as a function of the pending ones, and the lexicographic order of
  the file names.
\<close>

subsection \<open>Pending migrations\<close>

definition pending :: "string \<Rightarrow> string list \<Rightarrow> Migration list \<Rightarrow> Migration list" where
  "pending drv applied ms = filter (\<lambda>m. mg_ID m \<notin> set applied \<and> script drv m \<noteq> []) ms"

definition supported :: "string \<Rightarrow> bool" where
  "supported drv \<longleftrightarrow> drv = ''sqlite'' \<or> drv = ''pgx''"

abbreviation recorded :: "'d database \<Rightarrow> version_row list" where
  "recorded db \<equiv> (case versions db of None \<Rightarrow> [] | Some rows \<Rightarrow> rows)"

lemma loop_pending:
  "migrate_loop E S exec drv applied k ms db = migrate_loop E S exec drv applied k (pending drv applied ms) db"
  by (induction ms arbitrary: k db) (simp_all add: pending_def split: prod.split option.split sum.split)

text \<open>The rows that a run adds: one for each migration it has run, in order, with the checksum.\<close>

fun new_versions :: "env \<Rightarrow> (bytes \<Rightarrow> bytes) \<Rightarrow> nat \<Rightarrow> Migration list \<Rightarrow> version_row list" where
  "new_versions E S k [] = []"
| "new_versions E S k (m # ms) = version_of S (time_Unix (clock E k)) m # new_versions E S (Suc k) ms"

lemma new_versions_ids [simp]: "map v_id (new_versions E S k ms) = map mg_ID ms"
  by (induction ms arbitrary: k) (simp_all add: version_of_def)

lemma new_versions_set [simp]: "v_id ` set (new_versions E S k ms) = mg_ID ` set ms"
  by (metis new_versions_ids set_map)

abbreviation scripts :: "(string \<Rightarrow> 'd \<Rightarrow> error option \<times> 'd) \<Rightarrow> string \<Rightarrow> Migration list \<Rightarrow> 'd \<Rightarrow> 'd" where
  "scripts exec drv ms d \<equiv> fold (\<lambda>m d. snd (exec (script drv m) d)) ms d"

lemma insert_version_Inr:
  "insert_version E row db = Inr db2 \<longleftrightarrow>
     (\<exists>rows. versions db = Some rows \<and> v_id row \<notin> v_id ` set rows \<and> fault E (''record '' @ v_id row) = None \<and>
        db2 = db\<lparr>versions := Some (rows @ [row])\<rparr>)"
  by (auto simp: insert_version_def stmt_Inr split: option.splits)

text \<open>A run over pending migrations: it runs and records a part of them from the front, all of
  them when it succeeds; otherwise the next one failed, in its script or in its record.\<close>

lemma loop_prefix:
  assumes "migrate_loop E S exec drv applied k ms db = (r, db')" and "versions db = Some rows"
    and "pending drv applied ms = ms"
  obtains dn rest where "ms = dn @ rest" and "versions db' = Some (rows @ new_versions E S k dn)"
    and "distinct (map mg_ID dn)" and "mg_ID ` set dn \<inter> v_id ` set rows = {}"
    and "r = None \<Longrightarrow> rest = [] \<and> contents db' = scripts exec drv dn (contents db)"
    and "\<And>e. r = Some e \<Longrightarrow> \<exists>m later e'. rest = m # later \<and>
        contents db' = scripts exec drv (dn @ [m]) (contents db) \<and>
        (e = ErrWrap (''migration '' @ mg_ID m) e' \<or> e = ErrWrap (''record migration '' @ mg_ID m) e')"
  using assms
proof (induction ms arbitrary: k db rows thesis)
  case Nil
  show ?case by (rule Nil(1) [of "[]" "[]"]) (use Nil(2,3) in auto)
next
  case (Cons m ms)
  obtain err d where ex: "exec (script drv m) (contents db) = (err, d)" by (rule prod.exhaust)
  let ?row = "version_of S (time_Unix (clock E k)) m"
  let ?db1 = "db\<lparr>contents := d\<rparr>"
  have p: "mg_ID m \<notin> set applied" "script drv m \<noteq> []" "pending drv applied ms = ms"
    using Cons.prems(4) unfolding pending_def by (auto simp: filter_eq_Cons_iff split: if_splits)
  have row: "v_id ?row = mg_ID m" by (simp add: version_of_def)
  show ?case
  proof (cases "err = None \<and> (\<exists>db2. insert_version E ?row ?db1 = Inr db2)")
    case True
    then obtain db2 where db2: "insert_version E ?row ?db1 = Inr db2" by blast
    then have ins: "db2 = ?db1\<lparr>versions := Some (rows @ [?row])\<rparr>" "mg_ID m \<notin> v_id ` set rows"
      using Cons.prems(3) by (auto simp: insert_version_Inr row)
    have run: "migrate_loop E S exec drv applied (Suc k) ms db2 = (r, db')"
      using Cons.prems(2) p(1,2) ex True db2 by simp
    have v: "versions db2 = Some (rows @ [?row])" and c: "contents db2 = d" using ins(1) by simp_all
    show ?thesis
    proof (rule Cons.IH [OF _ run v p(3)])
      fix dn rest
      assume IH: "ms = dn @ rest" "versions db' = Some ((rows @ [?row]) @ new_versions E S (Suc k) dn)"
        "distinct (map mg_ID dn)" "mg_ID ` set dn \<inter> v_id ` set (rows @ [?row]) = {}"
        "r = None \<Longrightarrow> rest = [] \<and> contents db' = scripts exec drv dn (contents db2)"
        "\<And>e. r = Some e \<Longrightarrow> \<exists>m later e'. rest = m # later \<and>
          contents db' = scripts exec drv (dn @ [m]) (contents db2) \<and>
          (e = ErrWrap (''migration '' @ mg_ID m) e' \<or> e = ErrWrap (''record migration '' @ mg_ID m) e')"
      show thesis
        by (rule Cons.prems(1) [of "m # dn" rest]) (use IH ins(2) row c ex in auto)
    qed
  next
    case False
    have "\<exists>e'. contents db' = d \<and> versions db' = Some rows \<and>
        (r = Some (ErrWrap (''migration '' @ mg_ID m) e') \<or> r = Some (ErrWrap (''record migration '' @ mg_ID m) e'))"
      using False Cons.prems(2,3) p(1,2) ex by (auto split: option.splits sum.splits)
    then show ?thesis using ex by (intro Cons.prems(1) [of "[]" "m # ms"]) auto
  qed
qed

subsection \<open>Whole runs\<close>

lemma supported_table: "supported drv \<longleftrightarrow> schemaVersionTable drv \<noteq> NoStatement"
  by (auto simp: supported_def schemaVersionTable_def)

lemma run_supported:
  "supported drv \<Longrightarrow> runMigrations E S exec ms drv db =
     (case read_applied E db of
        (Inl err, db') \<Rightarrow> (Some err, db')
      | (Inr applied, db') \<Rightarrow> migrate_loop E S exec drv applied 0 (pending drv applied ms) db')"
  unfolding supported_table runMigrations_def
  by (cases "schemaVersionTable drv") (auto simp flip: loop_pending split: prod.split sum.split)

lemma pending_pending [simp]: "pending drv applied (pending drv applied ms) = pending drv applied ms"
  by (simp add: pending_def)

lemma read_applied_Inr:
  assumes "read_applied E db = (Inr applied, db')"
  shows "versions db' = Some (recorded db)" and "contents db' = contents db"
    and "set applied \<subseteq> v_id ` set (recorded db)"
  using assms
  by (auto simp: read_applied_def select_versions_def stmt_Inr Let_def split: option.splits sum.splits)

text \<open>The statements on the table of versions work.\<close>

definition versions_readable :: "env \<Rightarrow> bool" where
  "versions_readable E \<longleftrightarrow>
     fault E ''versions'' = None \<and> fault E ''create versions'' = None \<and> fault E ''versions again'' = None"

lemma read_applied_readable:
  "versions_readable E \<Longrightarrow> \<exists>db'. read_applied E db = (Inr (map v_id (recorded db)), db')"
  by (simp add: versions_readable_def read_applied_def select_versions_def stmt_def Let_def split: option.split)

text \<open>A successful run, whatever it took for applied.\<close>

lemma run_success:
  assumes "runMigrations E S exec ms drv db = (None, db')"
  obtains applied where "set applied \<subseteq> v_id ` set (recorded db)"
    and "versions db' = Some (recorded db @ new_versions E S 0 (pending drv applied ms))" and "supported drv"
proof -
  have sup: "supported drv" using assms by (auto simp: supported_table runMigrations_def)
  obtain r db1 where ra: "read_applied E db = (r, db1)" by (rule prod.exhaust)
  with assms obtain applied where r: "r = Inr applied"
    unfolding run_supported [OF sup] by (cases r) auto
  then have run: "migrate_loop E S exec drv applied 0 (pending drv applied ms) db1 = (None, db')"
    using assms ra unfolding run_supported [OF sup] by simp
  note rd = read_applied_Inr [OF ra [unfolded r]]
  from run rd(1) pending_pending show ?thesis
    by (rule loop_prefix) (use that [OF rd(3) _ sup] in auto)
qed

lemma pending_none:
  assumes "set applied \<subseteq> v_id ` set rows"
  shows "pending drv (map v_id (rows @ new_versions E S k (pending drv applied ms))) ms = []"
  using assms by (auto simp: pending_def filter_empty_conv)

lemma pending_rest:
  assumes "pending drv ids ms = dn @ rest" and "distinct (map mg_ID ms)"
  shows "pending drv (ids @ map mg_ID dn) ms = rest"
proof -
  have d: "distinct (map mg_ID (dn @ rest))"
    unfolding assms(1) [symmetric] pending_def by (rule distinct_map_filter [OF assms(2)])
  have "pending drv (ids @ map mg_ID dn) ms = filter (\<lambda>m. mg_ID m \<notin> mg_ID ` set dn) (pending drv ids ms)"
    by (auto simp: pending_def intro!: filter_cong)
  also have "\<dots> = rest"
    using d unfolding assms(1) by (auto simp: filter_empty_conv filter_id_conv)
  finally show ?thesis .
qed

subsection \<open>File names\<close>

lemma TrimSuffix_prefix: "\<exists>t. s = TrimSuffix s suf @ t"
proof (cases "strip_prefix (rev suf) (rev s)")
  case (Some r)
  then have "s = rev r @ suf" by (metis rev_append rev_rev_ident strip_prefix_Some)
  with Some show ?thesis by (auto simp: TrimSuffix_def)
qed (simp add: TrimSuffix_def)

lemma TrimSuffix_append [simp]: "TrimSuffix (s @ suf) suf = s"
proof -
  have "strip_prefix (rev suf) (rev (s @ suf)) = Some (rev s)" by (simp add: strip_prefix_Some)
  then show ?thesis unfolding TrimSuffix_def by simp
qed

lemma parse_prefix: "\<exists>t. name = fst (parseMigrationFile name) @ t"
proof -
  obtain t where "name = TrimSuffix name ''.sql'' @ t" using TrimSuffix_prefix by blast
  moreover have "\<exists>u. TrimSuffix name ''.sql'' = takeWhile (\<lambda>c. c \<noteq> CHR ''_'') (TrimSuffix name ''.sql'') @ u"
    by (metis takeWhile_dropWhile_id)
  ultimately have "\<exists>u. name = takeWhile (\<lambda>c. c \<noteq> CHR ''_'') (TrimSuffix name ''.sql'') @ u" by (metis append_assoc)
  then show ?thesis by (auto simp: parseMigrationFile_def SplitN2_def Let_def split: list.split)
qed

lemma lex_prefix:
  fixes a b :: string
  assumes "length a = length b" and "a @ u \<le> b @ v"
  shows "a \<le> b"
  using assms by (induction a b rule: list_induct2) auto

lemma load_ids:
  "load_loop RF names = Inr ms \<Longrightarrow> map mg_ID ms = filter (\<lambda>i. i \<noteq> []) (map (\<lambda>n. fst (parseMigrationFile n)) names)"
  by (induction names arbitrary: ms) (auto simp: Let_def case_prod_unfold split: if_splits sum.splits)

lemma sorted_ids:
  assumes "sorted names" and "\<And>n. n \<in> set names \<Longrightarrow> f n \<noteq> [] \<Longrightarrow> length (f n) = k"
    and "\<And>n. \<exists>t. (n :: string) = f n @ t"
  shows "sorted (filter (\<lambda>i. i \<noteq> []) (map f names))"
  using assms(1,2)
proof (induction names)
  case (Cons n names)
  have "f n \<le> f x" if "x \<in> set names" "f n \<noteq> []" "f x \<noteq> []" for x
  proof -
    obtain t u where "n = f n @ t" "x = f x @ u" using assms(3) by blast
    moreover have "n \<le> x" "length (f n) = length (f x)" using Cons.prems that by auto
    ultimately show ?thesis using lex_prefix by metis
  qed
  moreover have "sorted (filter (\<lambda>i. i \<noteq> []) (map f names))" using Cons by simp
  ultimately show ?case by auto
qed simp

end
