(* ===== verification/DB_Refinement.thy ===== *)
theory DB_Refinement
  imports DB_Library
begin

text \<open>
  The in-memory store as the specification of the SQL store: the relation between tables and
  maps, the conditions under which a call of the SQL store does what the same call of the
  in-memory store does, and one simulation lemma per call.
\<close>

subsection \<open>The relation\<close>

definition abs_peer :: "peer_row \<Rightarrow> Peer" where
  "abs_peer r =
     \<lparr>ID = r_id r, Login = r_login r, EncryptionKey = r_encryption_key r, SignatureKey = r_signature_key r,
      LastSeen = unix_time (r_last_seen r), TTLSeconds = r_ttl_seconds r, QualityScore = r_quality_score r,
      Quality = \<lparr>ValidReports = r_quality_valid r, InvalidReports = r_quality_invalid r\<rparr>,
      Flag = r_peer_flag r, Fake = (r_is_fake r = 1)\<rparr>"

definition abs_chunk :: "chunk_row \<Rightarrow> chunkRecordEntry" where
  "abs_chunk c =
     \<lparr>ce_key = chunkKey (c_file_id c) (c_chunk_index c), ce_Hash = c_expected_hash c,
      ce_SenderID = c_sender_id c, ce_RecipientID = c_recipient_id c, ce_PeerID = c_holder_peer_id c,
      ce_Persist = (c_persist c \<noteq> 0), ce_Confirmed = (c_confirmed c \<noteq> 0), ce_Readed = (c_readed c \<noteq> 0),
      ce_CreatedAt = c_created_at c, ce_UpdatedAt = c_updated_at c, ce_TTL = c_ttl c\<rparr>"

definition db_lookup :: "dbStore \<Rightarrow> string \<Rightarrow> peer_row option" where
  "db_lookup s i = find (\<lambda>r. r_id r = i) (t_peers s)"

definition db_box :: "dbStore \<Rightarrow> string \<Rightarrow> Signal list" where
  "db_box s i = map g_signal (filter (\<lambda>g. g_peer_id g = i) (t_signals s))"

definition db_mem :: "dbStore \<Rightarrow> MemoryStore \<Rightarrow> bool" where
  "db_mem s m \<longleftrightarrow>
     (\<forall>i. map_option abs_peer (db_lookup s i) = peers m i) \<and> map abs_chunk (t_chunks s) = chunks m \<and>
     (\<forall>i. db_box s i = at (signals m) i)"

text \<open>A calm call: no statement fails and the clock stands at one whole second.\<close>

definition calm :: "env \<Rightarrow> bool" where
  "calm E \<longleftrightarrow>
     (\<forall>name. fault E name = None) \<and> (\<forall>k. clock E k = clock E 0) \<and>
     clock E 0 = unix_time (time_Unix (clock E 0)) \<and> (\<forall>j. \<forall>v \<in> set (scan E j). snd v = clock E 0)"

definition colon_free :: "dbStore \<Rightarrow> bool" where
  "colon_free s \<longleftrightarrow> list_all (\<lambda>r. CHR '':'' \<notin> set (r_login r)) (t_peers s)"

definition row_active :: "env \<Rightarrow> peer_row \<Rightarrow> bool" where
  "row_active E r \<longleftrightarrow> \<not> isExpired (abs_peer r) (clock E 0)"

text \<open>
  When a calm call of the SQL store does the same as the in-memory store. Where it does not:
  the SQL store keeps the login of a known peer, trims the ids of \<^verbatim>\<open>Delete\<close> and \<^verbatim>\<open>Heartbeat\<close>,
  cannot refresh, does not ask for a recipient, splits keys at the first colon, refuses expired
  reporters and signal targets, finds files with a number sign, scores and marks all rows a
  confirmation matches, scores an expired sender, and updates nothing under the name
  \<^verbatim>\<open>postgres\<close>.
\<close>

fun agree :: "env \<Rightarrow> mem_op \<Rightarrow> dbStore \<Rightarrow> bool" where
  "agree E (OpUpsert req) s =
     (\<forall>r. db_lookup s (TrimSpace (reg_ID req)) = Some r \<longrightarrow> r_login r = TrimSpace (reg_Login req))"
| "agree E (OpRefresh req) s = (db_lookup s (TrimSpace (ref_ID req)) = None)"
| "agree E (OpDelete i) s = (TrimSpace i = i)"
| "agree E (OpHeartbeat i ttl) s = (TrimSpace i = i)"
| "agree E (OpSetChunkHash f n req) s = (TrimSpace (rc_RecipientID req) \<noteq> [] \<and> colon_free s)"
| "agree E (OpReportChunk i req) s =
     (\<forall>r. db_lookup s (TrimSpace (rep_ReporterID req)) = Some r \<longrightarrow> row_active E r)"
| "agree E (OpConfirmChunk req) s =
     (TrimSpace (cc_RecipientID req) \<noteq> [] \<and> colon_free s \<and> driver s = ''sqlite'' \<and>
      length (filter (confirm_row req) (t_chunks s)) \<le> 1 \<and>
      (\<forall>c \<in> set (t_chunks s). confirm_row req c \<longrightarrow>
        (\<exists>r. filter (\<lambda>r. r_key r = c_sender_id c) (t_peers s) = [r] \<and> row_active E r)))"
| "agree E (OpReadChunk req) s =
     (CHR ''#'' \<notin> set (rd_FileID req) \<and> list_all (\<lambda>c. CHR ''#'' \<notin> set (c_file_id c)) (t_chunks s) \<and>
      colon_free s \<and> driver s = ''sqlite'')"
| "agree E (OpSetSignal i sig) s = (\<forall>r. db_lookup s (TrimSpace i) = Some r \<longrightarrow> row_active E r)"
| "agree E (OpPollSignals i) s = True"
| "agree E OpDeleteExpiredChunks s =
     (driver s = ''sqlite'' \<and>
      list_all (\<lambda>c. 0 \<le> sint (c_created_at c) \<and> sint (c_created_at c) + sint (c_ttl c) < 2 ^ 63) (t_chunks s))"

subsection \<open>Tables and maps\<close>

lemma db_memD:
  assumes "db_mem s m"
  shows "map_option abs_peer (db_lookup s i) = peers m i" "map abs_chunk (t_chunks s) = chunks m"
    "db_box s i = at (signals m) i"
  using assms by (auto simp: db_mem_def)

lemma find_update:
  "(\<And>r. r_id (f r) = r_id r) \<Longrightarrow>
     find (\<lambda>r. r_id r = j) (map (\<lambda>r. if P r then f r else r) rs) =
     map_option (\<lambda>r. if P r then f r else r) (find (\<lambda>r. r_id r = j) rs)"
  by (induction rs) auto

lemma db_lookup_update:
  assumes "\<And>r. r_id (f r) = r_id r"
  shows "db_lookup (update_peers P f s) j = map_option (\<lambda>r. if P r then f r else r) (db_lookup s j)"
  using assms by (simp add: db_lookup_def update_peers_def find_update)

lemma db_lookup_Some: "db_lookup s i = Some r \<Longrightarrow> r \<in> set (t_peers s) \<and> r_id r = i"
  using find_Some_iff_mem by (fastforce simp: db_lookup_def)

lemma db_lookup_mem:
  assumes "db_inv s" and "r \<in> set (t_peers s)"
  shows "db_lookup s (r_id r) = Some r"
proof -
  obtain q where q: "db_lookup s (r_id r) = Some q"
    using assms(2) by (cases "db_lookup s (r_id r)") (auto simp: db_lookup_def find_None_set)
  then have "q \<in> set (t_peers s)" "r_id q = r_id r" using db_lookup_Some by blast+
  then have "q = r" using assms by (auto simp: db_inv_def distinct_map dest: inj_onD)
  with q show ?thesis by simp
qed

lemma db_lookup_frame [simp]:
  "db_lookup (s\<lparr>t_chunks := c\<rparr>) i = db_lookup s i" "db_lookup (s\<lparr>t_signals := g\<rparr>) i = db_lookup s i"
  "db_lookup (update_chunks P2 f2 s) i = db_lookup s i"
  by (simp_all add: db_lookup_def update_chunks_def)

lemma db_frame [simp]:
  "t_chunks (update_peers P f s) = t_chunks s" "db_box (update_peers P f s) i = db_box s i"
  "db_box (update_chunks P2 f2 s) i = db_box s i" "t_peers (update_chunks P2 f2 s) = t_peers s"
  "db_box (s\<lparr>t_chunks := c\<rparr>) i = db_box s i" "db_box (s\<lparr>t_peers := p\<rparr>) i = db_box s i"
  by (simp_all add: update_peers_def update_chunks_def db_box_def)

lemma scan_peer_eq:
  assumes "row_ok r"
  shows "scan_peer r = Inr ((abs_peer r)\<lparr>Login := r_key r\<rparr>)"
  using assms by (auto simp: scan_peer_def row_ok_def abs_peer_def)

lemma dbStore_isExpired_eq: "dbStore_isExpired p now = isExpired p now"
  by (simp add: dbStore_isExpired_def isExpired_def)

lemma isExpired_Login [simp]: "isExpired (p\<lparr>Login := l\<rparr>) now = isExpired p now"
  by (simp add: isExpired_def)

lemma row_ok_mem: "db_inv s \<Longrightarrow> r \<in> set (t_peers s) \<Longrightarrow> row_ok r"
  by (auto simp: db_inv_def list_all_iff)

lemma calmD:
  assumes "calm E"
  shows "fault E name = None" "clock E k = clock E 0" "clock E 0 = unix_time (time_Unix (clock E 0))"
    "(i, now) \<in> set (scan E j) \<Longrightarrow> now = clock E 0"
  using assms unfolding calm_def by (auto, metis snd_conv)

lemma calm_stmt [simp]: "calm E \<Longrightarrow> stmt E name v = Inr v"
  by (simp add: stmt_def calmD(1))

lemma getPeerByID_calm:
  assumes "calm E" and "db_inv s" and "pid \<noteq> []"
  shows "getPeerByID E tag (clock E k) pid s =
    (case db_lookup s pid of
       None \<Rightarrow> Inl ErrNotFound
     | Some r \<Rightarrow> if row_active E r then Inr ((abs_peer r)\<lparr>Login := r_key r\<rparr>) else Inl ErrNotFound)"
  using assms row_ok_mem [OF assms(2)] calmD(2) [OF assms(1), of k]
  by (auto simp: getPeerByID_def db_lookup_def [symmetric] scan_peer_eq dbStore_isExpired_eq row_active_def
      split: option.split dest!: db_lookup_Some)

lemma scan_active_calm:
  assumes "calm E" and "list_all row_ok rs"
  shows "scan_active E k rs = Inr (map (\<lambda>r. (abs_peer r)\<lparr>Login := r_key r\<rparr>) (filter (row_active E) rs))"
  using assms(2)
proof (induction rs arbitrary: k)
  case (Cons r rs)
  then show ?case using calmD(2) [OF assms(1), of k]
    by (simp add: scan_peer_eq dbStore_isExpired_eq row_active_def)
qed simp

lemma split_key:
  assumes "row_ok r" and "CHR '':'' \<notin> set (r_login r)" and "CHR '':'' \<notin> set login"
  shows "r_login r = login \<and> r_signature_key r = sig \<longleftrightarrow> r_key r = login @ CHR '':'' # sig"
  using assms sep_join_inject [of "r_login r" "CHR '':''" "r_signature_key r" login sig]
  by (auto simp: row_ok_def)

definition key_rows :: "env \<Rightarrow> string \<Rightarrow> dbStore \<Rightarrow> peer_row list" where
  "key_rows E key s = filter (\<lambda>r. r_key r = key \<and> row_active E r) (t_peers s)"

lemma key_rows_colon: "db_inv s \<Longrightarrow> CHR '':'' \<notin> set key \<Longrightarrow> key_rows E key s = []"
  by (auto simp: key_rows_def filter_empty_conv row_ok_def dest!: row_ok_mem)

lemma getPeerByKey_calm:
  assumes "calm E" and "db_inv s" and "colon_free s" and "TrimSpace key = key" and "key \<noteq> []"
  shows "(\<exists>e. getPeerByKey E tag k key s = Inl e) \<and> key_rows E key s = [] \<or>
    getPeerByKey E tag k key s = Inr (map (\<lambda>r. (abs_peer r)\<lparr>Login := r_key r\<rparr>) (key_rows E key s)) \<and>
    key_rows E key s \<noteq> []"
proof (cases "CHR '':'' \<in> set key")
  case False
  then show ?thesis
    using assms key_rows_colon [OF assms(2) False, of E] by (simp add: getPeerByKey_def SplitN2_def)
next
  case True
  then obtain login sig where key: "key = login @ CHR '':'' # sig" and l: "CHR '':'' \<notin> set login"
    by (metis split_list_first)
  let ?rs = "filter (\<lambda>r. r_login r = login \<and> r_signature_key r = sig) (t_peers s)"
  have "?rs = filter (\<lambda>r. r_key r = key) (t_peers s)"
    using split_key [OF row_ok_mem [OF assms(2)] _ l] assms(3) key
    by (intro filter_cong) (auto simp: colon_free_def list_all_iff)
  then have "filter (row_active E) ?rs = key_rows E key s" by (simp add: key_rows_def conj_commute)
  moreover have "list_all row_ok ?rs" using assms(2) by (simp add: db_inv_def list_all_filter)
  ultimately have "peers_of_key E tag k msg login sig s =
      (if key_rows E key s = [] then Inl ErrNotFound
       else Inr (map (\<lambda>r. (abs_peer r)\<lparr>Login := r_key r\<rparr>) (key_rows E key s)))" for msg
    using assms(1) by (simp add: peers_of_key_def scan_active_calm)
  moreover have "SplitN2 key (CHR '':'') = [login, sig]" using SplitN2_append [OF l] key by simp
  ultimately show ?thesis using assms(4,5) by (simp add: getPeerByKey_def)
qed

lemma Key_abs_peer: "row_ok r \<Longrightarrow> Key (abs_peer r) = r_key r"
  by (simp add: Key_def abs_peer_def row_ok_def)

lemma active_key_rows:
  assumes "calm E" and "db_inv s" and "db_mem s m" and "scan_ok E m"
  shows "active_with_key E j m key p \<longleftrightarrow> (\<exists>r \<in> set (key_rows E key s). p = abs_peer r)"
proof
  assume a: "active_with_key E j m key p"
  then obtain now where "(ID p, now) \<in> set (scan E j)" "\<not> isExpired p now" "peers m (ID p) = Some p" "Key p = key"
    by (auto simp: active_with_key_def)
  moreover obtain r where "db_lookup s (ID p) = Some r" "p = abs_peer r"
    using db_memD(1) [OF assms(3), of "ID p"] \<open>peers m (ID p) = Some p\<close> by auto
  ultimately show "\<exists>r \<in> set (key_rows E key s). p = abs_peer r"
    using db_lookup_Some row_ok_mem [OF assms(2)] calmD(4) [OF assms(1)]
    by (auto simp: key_rows_def row_active_def Key_abs_peer intro!: bexI [of _ r])
next
  assume "\<exists>r \<in> set (key_rows E key s). p = abs_peer r"
  then obtain r where r: "r \<in> set (t_peers s)" "r_key r = key" "row_active E r" "p = abs_peer r"
    by (auto simp: key_rows_def)
  then have p: "peers m (ID p) = Some p"
    using db_memD(1) [OF assms(3), of "ID p"] db_lookup_mem [OF assms(2) r(1)] by (simp add: abs_peer_def)
  then have "ID p \<in> set (map fst (scan E j))" using scan_okD(2) [OF assms(4)] by blast
  then obtain now where "(ID p, now) \<in> set (scan E j)" by auto
  with p r show "active_with_key E j m key p"
    using calmD(4) [OF assms(1)] row_ok_mem [OF assms(2) r(1)]
    by (auto simp: active_with_key_def Key_abs_peer row_active_def)
qed

text \<open>The sender or recipient the two stores pick for a key: both find one or neither does, and
  the one they check signatures against has the same signature key.\<close>

lemma same_signer:
  assumes "calm E" and "db_inv s" and "colon_free s" and "db_mem s m" and "mem_inv m" and "scan_ok E m"
    and "TrimSpace key = key" and "key \<noteq> []"
  shows "(\<exists>e. getPeerByKey E tag k key s = Inl e) \<and> peerByKey (peers m) (scan E j) key = None \<or>
    (\<exists>ps p. getPeerByKey E tag k key s = Inr ps \<and> peerByKey (peers m) (scan E j) key = Some p \<and>
      SignatureKey (hd ps) = SignatureKey p)"
proof (cases "key_rows E key s = []")
  case True
  then have "peerByKey (peers m) (scan E j) key = None"
    using peerByKey_not_found [OF assms(5)] active_key_rows [OF assms(1,2,4,6)] by auto
  then show ?thesis using getPeerByKey_calm [OF assms(1-3,7,8), of tag k] True by auto
next
  case False
  then obtain r rs where rs: "key_rows E key s = r # rs" by (cases "key_rows E key s") auto
  then have "active_with_key E j m key (abs_peer r)" using active_key_rows [OF assms(1,2,4,6)] by auto
  then obtain p where p: "peerByKey (peers m) (scan E j) key = Some p" using peerByKey_found by blast
  then obtain q where q: "q \<in> set (key_rows E key s)" "p = abs_peer q"
    using peerByKey_active [OF assms(5)] active_key_rows [OF assms(1,2,4,6)] by blast
  have "r \<in> set (key_rows E key s)" using rs by simp
  with q have "Key (abs_peer r) = Key (abs_peer q)" "CHR '':'' \<notin> set (Login (abs_peer r))"
    "CHR '':'' \<notin> set (Login (abs_peer q))"
    using assms(3) row_ok_mem [OF assms(2)]
    by (auto simp: key_rows_def Key_abs_peer colon_free_def list_all_iff) (auto simp: abs_peer_def)
  then have "SignatureKey (abs_peer r) = SignatureKey p" using Key_inject_login q(2) by blast
  then show ?thesis using getPeerByKey_calm [OF assms(1-3,7,8), of tag k] rs p by auto
qed

lemma verify_cong:
  "SignatureKey p = SignatureKey q \<Longrightarrow> verifyPeerSignature E p sg msg = verifyPeerSignature E q sg msg"
  by (simp add: verifyPeerSignature_def)

subsection \<open>Simulation, call by call\<close>

lemma db_memI:
  assumes "\<And>i. map_option abs_peer (db_lookup s i) = peers m i" and "map abs_chunk (t_chunks s) = chunks m"
    and "\<And>i. db_box s i = at (signals m) i"
  shows "db_mem s m"
  using assms by (simp add: db_mem_def)

text \<open>Updating the row of one id is updating the map at that id.\<close>

lemma db_mem_peer_upd:
  assumes "db_mem s m" and "db_lookup s i = Some r" and "\<And>r. r_id (f r) = r_id r" and "abs_peer (f r) = p"
    and "peers m' = (peers m)(i \<mapsto> p)" and "chunks m' = chunks m" and "signals m' = signals m"
  shows "db_mem (update_peers (\<lambda>r. r_id r = i) f s) m'"
proof (rule db_memI)
  fix j
  have "map_option abs_peer (db_lookup (update_peers (\<lambda>r. r_id r = i) f s) j) = (if j = i then Some p else peers m j)"
    using db_memD(1) [OF assms(1), of j] assms(2,4) db_lookup_Some [of s j]
    by (cases "db_lookup s j") (auto simp: db_lookup_update [OF assms(3)])
  then show "map_option abs_peer (db_lookup (update_peers (\<lambda>r. r_id r = i) f s) j) = peers m' j"
    using assms(5) by simp
qed (use assms db_memD in auto)

lemma db_lookup_append:
  "db_lookup (s\<lparr>t_peers := t_peers s @ [r]\<rparr>) j =
     (case db_lookup s j of None \<Rightarrow> if r_id r = j then Some r else None | Some q \<Rightarrow> Some q)"
  by (simp add: db_lookup_def find_append split: option.split)

lemma db_mem_peer_new:
  assumes "db_mem s m" and "db_lookup s (r_id r) = None"
    and "peers m' = (peers m)(r_id r \<mapsto> abs_peer r)" and "chunks m' = chunks m" and "signals m' = signals m"
  shows "db_mem (s\<lparr>t_peers := t_peers s @ [r]\<rparr>) m'"
proof (rule db_memI)
  fix j
  show "map_option abs_peer (db_lookup (s\<lparr>t_peers := t_peers s @ [r]\<rparr>) j) = peers m' j"
    using db_memD(1) [OF assms(1), of j] assms(2,3) by (cases "db_lookup s j") (auto simp: db_lookup_append)
qed (use assms db_memD in auto)

lemma update_none:
  assumes "db_lookup s i = None"
  shows "update_peers (\<lambda>r. r_id r = i) f s = s"
proof -
  have "map (\<lambda>r. if r_id r = i then f r else r) (t_peers s) = t_peers s"
    using assms by (intro map_idI) (auto simp: db_lookup_def find_None_set)
  then show ?thesis by (simp add: update_peers_def)
qed

lemma affected_lookup:
  assumes "db_inv s"
  shows "affected (\<lambda>r. r_id r = i) (t_peers s) = 0 \<longleftrightarrow> db_lookup s i = None"
proof (cases "db_lookup s i")
  case None
  then have "filter (\<lambda>r. r_id r = i) (t_peers s) = []"
    by (simp add: db_lookup_def find_None_set filter_empty_conv)
  then show ?thesis using None by (simp add: affected_def)
next
  case (Some r)
  have "length (filter (\<lambda>r. r_id r = i) (t_peers s)) \<le> 1"
    using assms by (simp only: db_inv_def length_filter_key)
  moreover have "filter (\<lambda>r. r_id r = i) (t_peers s) \<noteq> []"
    using db_lookup_Some [OF Some] by (auto simp: filter_empty_conv)
  ultimately have "length (filter (\<lambda>r. r_id r = i) (t_peers s)) = 1" by (simp add: le_Suc_eq)
  then show ?thesis using Some by (simp add: affected_def)
qed

lemma sim_Upsert:
  assumes "calm E" and "db_inv s" and "mem_inv m" and "db_mem s m" and "agree E (OpUpsert req) s"
  shows "db_mem (snd (dbStore_Upsert E req s)) (snd (MemoryStore_Upsert E req m)) \<and>
    fst (dbStore_Upsert E req s) = fst (MemoryStore_Upsert E req m)"
proof (cases "TrimSpace (reg_ID req) = []")
  case True
  then show ?thesis using assms by (simp add: db_Upsert_unfold MemoryStore_Upsert_def)
next
  case False
  let ?i = "TrimSpace (reg_ID req)"
  have up: "dbStore_Upsert E req s = (Inr (), upserted E req s)"
    using False calmD(1) [OF assms(1)] by (simp add: db_Upsert_unfold)
  have t: "clock E 0 = unix_time (time_Unix (clock E 0))" by (rule calmD(3) [OF assms(1)])
  show ?thesis
  proof (cases "db_lookup s ?i")
    case None
    then have m: "peers m ?i = None" using db_memD(1) [OF assms(4), of ?i] by simp
    have i: "r_id (new_row E req) = ?i" by (simp add: new_row_def)
    have "db_mem (s\<lparr>t_peers := t_peers s @ [new_row E req]\<rparr>) (snd (MemoryStore_Upsert E req m))"
      by (rule db_mem_peer_new [OF assms(4)])
        (use None m False t [symmetric] i in
          \<open>auto simp: MemoryStore_Upsert_def abs_peer_def new_row_def split: option.split\<close>)
    then have "db_mem (upserted E req s) (snd (MemoryStore_Upsert E req m))"
      using None by (simp add: upserted_def db_lookup_def)
    then show ?thesis using up m False by (simp add: MemoryStore_Upsert_def)
  next
    case (Some r)
    then have m: "peers m ?i = Some (abs_peer r)" using db_memD(1) [OF assms(4), of ?i] by simp
    have login: "r_login r = TrimSpace (reg_Login req)" using assms(5) Some by simp
    have "db_mem (update_peers (\<lambda>r. r_id r = ?i) (touched_row E req) s) (snd (MemoryStore_Upsert E req m))"
      by (rule db_mem_peer_upd [OF assms(4) Some])
        (use m False t [symmetric] login db_lookup_Some [OF Some] in
          \<open>simp_all add: touched_row_def MemoryStore_Upsert_def abs_peer_def\<close>)
    then show ?thesis using up m False Some by (simp add: upserted_def db_lookup_def MemoryStore_Upsert_def)
  qed
qed

lemma sim_Delete:
  assumes "calm E" and "db_inv s" and "mem_inv m" and "db_mem s m" and "TrimSpace i = i" and "i \<noteq> []"
  shows "db_mem (snd (dbStore_Delete E i s)) (snd (MemoryStore_Delete i m)) \<and>
    fst (dbStore_Delete E i s) = fst (MemoryStore_Delete i m)"
proof (cases "db_lookup s i")
  case None
  then have "peers m i = None" using db_memD(1) [OF assms(4), of i] by simp
  then show ?thesis using assms None affected_lookup [OF assms(2), of i]
    by (simp add: dbStore_Delete_def MemoryStore_Delete_def)
next
  case (Some r)
  then have m: "peers m i = Some (abs_peer r)" using db_memD(1) [OF assms(4), of i] by simp
  have f: "find (\<lambda>r. r_id r = j) (filter (\<lambda>r. r_id r \<noteq> i) rs) = (if j = i then None else find (\<lambda>r. r_id r = j) rs)" for j rs
    by (induction rs) auto
  show ?thesis using assms Some m affected_lookup [OF assms(2), of i]
    by (auto simp: dbStore_Delete_def MemoryStore_Delete_def db_mem_def db_lookup_def f)
qed

lemma sim_Heartbeat:
  assumes "calm E" and "db_inv s" and "mem_inv m" and "db_mem s m" and "TrimSpace i = i" and "i \<noteq> []"
  shows "db_mem (snd (dbStore_Heartbeat E i ttl s)) (snd (MemoryStore_Heartbeat E i ttl m))"
proof (cases "db_lookup s i")
  case None
  then have "peers m i = None" using db_memD(1) [OF assms(4), of i] by simp
  then show ?thesis using assms None affected_lookup [OF assms(2), of i]
    by (simp add: dbStore_Heartbeat_def MemoryStore_Heartbeat_def update_none)
next
  case (Some r)
  let ?f = "\<lambda>r. r\<lparr>r_last_seen := time_Unix (clock E 0), r_ttl_seconds := (if 0 <s ttl then ttl else r_ttl_seconds r)\<rparr>"
  have m: "peers m i = Some (abs_peer r)" using db_memD(1) [OF assms(4), of i] Some by simp
  have t: "clock E 0 = unix_time (time_Unix (clock E 0))" by (rule calmD(3) [OF assms(1)])
  have "db_mem (update_peers (\<lambda>r. r_id r = i) ?f s) (snd (MemoryStore_Heartbeat E i ttl m))"
    by (rule db_mem_peer_upd [OF assms(4) Some])
      (use m t [symmetric] in \<open>simp_all add: MemoryStore_Heartbeat_def abs_peer_def\<close>)
  then show ?thesis using assms Some affected_lookup [OF assms(2), of i] by (simp add: dbStore_Heartbeat_def)
qed

text \<open>Chunks: the row of a registration stands for its entry, and searches agree.\<close>

definition chunk_row_of :: "env \<Rightarrow> string \<Rightarrow> int64 \<Rightarrow> RegisterChunkRequest \<Rightarrow> chunk_row" where
  "chunk_row_of E f i req =
     \<lparr>c_file_id = TrimSpace f, c_chunk_index = i, c_expected_hash = normalizeHash E (rc_Hash req),
      c_sender_id = TrimSpace (rc_SenderID req), c_recipient_id = TrimSpace (rc_RecipientID req),
      c_holder_peer_id = TrimSpace (rc_PeerID req), c_persist = sql_bool (rc_Persist req), c_confirmed = 0,
      c_readed = 0, c_created_at = time_Unix (clock E 0), c_updated_at = time_Unix (clock E 0),
      c_ttl = (if rc_TTL req \<le>s 0 then defaultChunkTTL else rc_TTL req)\<rparr>"

lemma abs_chunk_row_of: "abs_chunk (chunk_row_of E f i req) = new_chunk E f i req"
  by (simp add: abs_chunk_def chunk_row_of_def new_chunk_def sql_bool_def)

lemma db_SetChunkHash_unfold:
  assumes "TrimSpace (rc_RecipientID req) \<noteq> []"
  shows "dbStore_SetChunkHash E f i req s =
    (if \<not> chunk_request_ok E f i req then (Inl ErrInvalidChunk, s)
     else case getPeerByKey E ''sender'' 1 (TrimSpace (rc_SenderID req)) s of
       Inl e \<Rightarrow> (Inl (as_not_found e), s)
     | Inr ps \<Rightarrow>
         (case verifyPeerSignature E (hd ps) (rc_Signature req)
                 (ExpectedPayload (TrimSpace f) i (normalizeHash E (rc_Hash req))) of
            Some err \<Rightarrow> (Inl err, s)
          | None \<Rightarrow>
              (case stmt E ''insert chunk'' () of
                 Inl e \<Rightarrow> (Inl (wrap ''set chunk hash'' e), s)
               | Inr _ \<Rightarrow> (Inr (), s\<lparr>t_chunks := t_chunks s @ [chunk_row_of E f i req]\<rparr>))))"
proof -
  have g: "(TrimSpace f = [] \<or> TrimSpace (rc_SenderID req) = [] \<or> TrimSpace (rc_PeerID req) = [] \<or>
      normalizeHash E (rc_Hash req) = [] \<or> \<not> validHashFormat (normalizeHash E (rc_Hash req)) \<or>
      i <s 0 \<or> TrimSpace (rc_Signature req) = []) \<longleftrightarrow> \<not> chunk_request_ok E f i req"
    using assms valid_hash_nonempty not_sless_0 by (auto simp: chunk_request_ok_def)
  show ?thesis unfolding dbStore_SetChunkHash_def Let_def g chunk_row_of_def ..
qed

lemma sim_SetChunkHash:
  assumes "calm E" and "db_inv s" and "mem_inv m" and "db_mem s m" and "scan_ok E m"
    and "agree E (OpSetChunkHash f i req) s"
  shows "db_mem (snd (dbStore_SetChunkHash E f i req s)) (snd (MemoryStore_SetChunkHash E f i req m))"
proof -
  have rec: "TrimSpace (rc_RecipientID req) \<noteq> []" and colon: "colon_free s" using assms(6) by auto
  have app: "db_mem (s\<lparr>t_chunks := t_chunks s @ [chunk_row_of E f i req]\<rparr>)
      (m\<lparr>chunks := chunks m @ [new_chunk E f i req]\<rparr>)"
    using assms(4) by (simp add: db_mem_def abs_chunk_row_of)
  show ?thesis
  proof (cases "chunk_request_ok E f i req")
    case False
    then show ?thesis using assms(4) rec by (simp add: db_SetChunkHash_unfold SetChunkHash_unfold)
  next
    case True
    then have ne: "TrimSpace (rc_SenderID req) \<noteq> []" by (simp add: chunk_request_ok_def)
    from same_signer [OF assms(1,2) colon assms(4,3,5) TrimSpace_idem ne, of "''sender''" 1 0] show ?thesis
    proof (elim disjE conjE exE)
      fix e
      assume "getPeerByKey E ''sender'' 1 (TrimSpace (rc_SenderID req)) s = Inl e"
        "peerByKey (peers m) (scan E 0) (TrimSpace (rc_SenderID req)) = None"
      then show ?thesis using True assms(4) by (simp add: db_SetChunkHash_unfold [OF rec] SetChunkHash_unfold)
    next
      fix ps p
      assume "getPeerByKey E ''sender'' 1 (TrimSpace (rc_SenderID req)) s = Inr ps"
        "peerByKey (peers m) (scan E 0) (TrimSpace (rc_SenderID req)) = Some p" "SignatureKey (hd ps) = SignatureKey p"
      then show ?thesis using True assms(1,4) app verify_cong [of "hd ps" p E]
        by (simp add: db_SetChunkHash_unfold [OF rec] SetChunkHash_unfold split: option.split)
    qed
  qed
qed

lemma find_abs_chunk:
  "List.find (\<lambda>e. ce_key e = chunkKey f i) (map abs_chunk cs) =
     map_option abs_chunk (find (\<lambda>c. c_file_id c = f \<and> c_chunk_index c = i) cs)"
  by (induction cs) (auto simp: abs_chunk_def chunkKey_inject)

lemma abs_score_row: "abs_peer (score_row v r) = score_report v (abs_peer r)"
  by (simp add: abs_peer_def score_row_def score_report_def)

lemma sim_ReportChunk:
  assumes "calm E" and "db_inv s" and "mem_inv m" and "db_mem s m" and "agree E (OpReportChunk src req) s"
  shows "db_mem (snd (dbStore_ReportChunk E src req s)) (snd (MemoryStore_ReportChunk E src req m))"
proof -
  let ?rep = "TrimSpace (rep_ReporterID req)"
  let ?src = "TrimSpace src"
  let ?h = "normalizeHash E (rep_Hash req)"
  let ?c = "find (\<lambda>c. c_file_id c = TrimSpace (rep_FileID req) \<and> c_chunk_index c = rep_ChunkIndex req) (t_chunks s)"
  have peers: "peers m j = map_option abs_peer (db_lookup s j)" for j using db_memD(1) [OF assms(4)] by simp
  have chunk: "List.find (\<lambda>e. ce_key e = chunkKey (TrimSpace (rep_FileID req)) (rep_ChunkIndex req)) (chunks m) =
      map_option abs_chunk ?c"
    using find_abs_chunk db_memD(2) [OF assms(4)] by metis
  have hash: "c_expected_hash c \<noteq> []" if "?c = Some c" for c
    using that find_Some_iff_mem [OF that] assms(2) valid_hash_nonempty
    by (auto simp: db_inv_def list_all_iff chunk_row_ok_def)
  have upd: "db_mem (update_peers (\<lambda>r. r_id r = ?src) (score_row v) s)
      (m\<lparr>peers := (peers m)(?src \<mapsto> score_report v (abs_peer r))\<rparr>)" if "db_lookup s ?src = Some r" for r v
    by (rule db_mem_peer_upd [OF assms(4) that]) (simp_all add: abs_score_row)
  show ?thesis
  proof (cases "db_lookup s ?rep")
    case None
    then show ?thesis using assms(1,2,4)
      by (auto simp: dbStore_ReportChunk_def MemoryStore_ReportChunk_def getPeerByID_calm peers)
  next
    case (Some r)
    then have act: "row_active E r" using assms(5) by simp
    have ver: "verifyPeerSignature E ((abs_peer r)\<lparr>Login := r_key r\<rparr>) sg msg = verifyPeerSignature E (abs_peer r) sg msg" for sg msg
      by (rule verify_cong) simp
    show ?thesis
    proof (cases "db_lookup s ?src")
      case None
      then show ?thesis using assms(1,2,4) Some act ver
        by (auto simp: dbStore_ReportChunk_def MemoryStore_ReportChunk_def getPeerByID_calm peers chunk update_none
            split: option.split sum.split)
    next
      case src: (Some q)
      then show ?thesis using assms(1,2,4) Some act ver upd [OF src] hash
        by (auto simp: dbStore_ReportChunk_def MemoryStore_ReportChunk_def getPeerByID_calm peers chunk abs_chunk_def
            split: option.split sum.split)
    qed
  qed
qed

lemma confirm_match_abs: "confirm_match req (abs_chunk c) = confirm_row req c"
  by (auto simp: confirm_match_def confirm_row_def abs_chunk_def chunkKey_inject)

lemma first_index_map: "first_index P (map g xs) = first_index (\<lambda>x. P (g x)) xs"
  by (induction xs) auto

lemma find_first_index: "find P xs = map_option (\<lambda>i. xs ! i) (first_index P xs)"
  by (induction xs) (auto simp: option.map_comp comp_def)

lemma update_by_key:
  assumes "db_inv s" and "filter (\<lambda>r. r_key r = k) (t_peers s) = [r]"
  shows "update_peers (\<lambda>r. r_key r = k) f s = update_peers (\<lambda>x. r_id x = r_id r) f s"
proof -
  have r: "r \<in> set (t_peers s)" "r_key r = k" using assms(2) by (auto dest!: filter_eq_ConsD)
  have "r_key x = k \<longleftrightarrow> r_id x = r_id r" if x: "x \<in> set (t_peers s)" for x
  proof
    assume "r_key x = k"
    then have "x \<in> set (filter (\<lambda>r. r_key r = k) (t_peers s))" using x by simp
    then show "r_id x = r_id r" using assms(2) by simp
  next
    assume "r_id x = r_id r"
    then show "r_key x = k" using x r assms(1) by (auto simp: db_inv_def distinct_map dest: inj_onD)
  qed
  then have "map (\<lambda>x. if r_key x = k then f x else x) (t_peers s) = map (\<lambda>x. if r_id x = r_id r then f x else x) (t_peers s)"
    by simp
  then show ?thesis by (simp add: update_peers_def)
qed

text \<open>The effect of a confirmation on the tables, once the chunk is found.\<close>

lemma confirm_update_calm:
  assumes "calm E" and "driver s = ''sqlite''"
  shows "snd (confirm_update E req row s) =
    (if normalizeHash E (cc_Hash req) = c_expected_hash row then marked_confirmed E req (scored_by_key row True s)
     else scored_by_key row False s)"
  using assms
  by (simp add: confirm_update_def by_driver_def marked_confirmed_def scored_by_key_def split: sum.split)

lemma db_mem_chunks:
  assumes "db_mem t m" and "\<And>i. db_lookup t' i = db_lookup t i" and "\<And>i. db_box t' i = db_box t i"
    and "map abs_chunk (t_chunks t') = chunks m'" and "peers m' = peers m" and "signals m' = signals m"
  shows "db_mem t' m'"
  using assms by (simp add: db_mem_def)

lemma sim_confirm_update:
  assumes "calm E" and "db_inv s" and "mem_inv m" and "db_mem s m" and "driver s = ''sqlite''"
    and "length (filter (confirm_row req) (t_chunks s)) \<le> 1"
    and "first_index (confirm_row req) (t_chunks s) = Some i"
    and "filter (\<lambda>r. r_key r = c_sender_id (t_chunks s ! i)) (t_peers s) = [r]"
  shows "db_mem (snd (confirm_update E req (t_chunks s ! i) s)) (snd (confirm_final E req m i (abs_peer r)))"
proof -
  let ?row = "t_chunks s ! i"
  let ?v = "normalizeHash E (cc_Hash req) = c_expected_hash ?row"
  have i: "i < length (t_chunks s)" "confirm_row req ?row" using first_index_Some [OF assms(7)] by auto
  then have ci: "chunks m ! i = abs_chunk ?row" using db_memD(2) [OF assms(4)] by (metis nth_map)
  have r: "r \<in> set (t_peers s)" using assms(8) by (auto dest!: filter_eq_ConsD)
  have "db_mem (scored_by_key ?row ?v s) (m\<lparr>peers := (peers m)(r_id r \<mapsto> score_report ?v (abs_peer r))\<rparr>)"
    unfolding scored_by_key_def update_by_key [OF assms(2,8)]
    by (rule db_mem_peer_upd [OF assms(4) db_lookup_mem [OF assms(2) r]]) (simp_all add: abs_score_row)
  moreover have "map abs_chunk (t_chunks (marked_confirmed E req t)) =
      (chunks m)[i := confirmed_entry E (normalizeHash E (cc_Hash req)) (chunks m ! i)]"
    if "t_chunks t = t_chunks s" and "?v" for t
    using that ci i update_unique [OF assms(6) i] db_memD(2) [OF assms(4)] calmD(2) [OF assms(1), of 2]
    by (simp add: marked_confirmed_def update_chunks_def map_update confirmed_entry_def abs_chunk_def)
  moreover have "t_chunks (scored_by_key ?row True s) = t_chunks s" by (simp add: scored_by_key_def)
  moreover have "c_expected_hash ?row = ce_Hash (chunks m ! i)" "r_id r = ID (abs_peer r)"
    using ci by (simp_all add: abs_chunk_def abs_peer_def)
  moreover from this(1) have "(chunks m)[i := confirmed_entry E (normalizeHash E (cc_Hash req)) (chunks m ! i)] = chunks m"
    if "\<not> ?v" using that by (simp add: confirmed_entry_def)
  ultimately show ?thesis
    unfolding confirm_update_calm [OF assms(1,5)]
    by (cases ?v; elim db_mem_chunks) (simp_all add: confirm_final_def db_memD(2) [OF assms(4)] marked_confirmed_def scored_by_key_def)
qed

lemma db_ConfirmChunk_unfold:
  assumes "TrimSpace (cc_RecipientID req) \<noteq> []" and "calm E"
  shows "dbStore_ConfirmChunk E req s =
    (if \<not> confirm_request_ok E req then (Inl ErrInvalidChunk, s)
     else case getPeerByKey E ''recipient'' 3 (TrimSpace (cc_RecipientID req)) s of
       Inl e \<Rightarrow> (Inl (as_not_found e), s)
     | Inr ps \<Rightarrow>
         (case verifyPeerSignature E (hd ps) (cc_Signature req)
                 (ConfirmedPayload (TrimSpace (cc_FileID req)) (cc_ChunkIndex req) (normalizeHash E (cc_Hash req))) of
            Some err \<Rightarrow> (Inl err, s)
          | None \<Rightarrow>
              (case first_index (confirm_row req) (t_chunks s) of
                 None \<Rightarrow> (Inl ErrChunkNotFound, s)
               | Some i \<Rightarrow> confirm_update E req (t_chunks s ! i) s)))"
proof -
  have g: "(TrimSpace (cc_FileID req) = [] \<or> normalizeHash E (cc_Hash req) = [] \<or>
      \<not> validHashFormat (normalizeHash E (cc_Hash req)) \<or> cc_ChunkIndex req <s 0 \<or>
      TrimSpace (cc_Signature req) = []) \<longleftrightarrow> \<not> confirm_request_ok E req"
    using assms(1) valid_hash_nonempty not_sless_0 by (auto simp: confirm_request_ok_def)
  show ?thesis
    unfolding dbStore_ConfirmChunk_def Let_def g find_first_index calm_stmt [OF assms(2)]
    by (cases "first_index (confirm_row req) (t_chunks s)") (simp_all split: sum.split option.split)
qed

lemma sim_ConfirmChunk:
  assumes "calm E" and "db_inv s" and "mem_inv m" and "db_mem s m" and "scan_ok E m"
    and "agree E (OpConfirmChunk req) s"
  shows "db_mem (snd (dbStore_ConfirmChunk E req s)) (snd (MemoryStore_ConfirmChunk E req m))"
proof -
  have ag: "TrimSpace (cc_RecipientID req) \<noteq> []" "colon_free s" "driver s = ''sqlite''"
    "length (filter (confirm_row req) (t_chunks s)) \<le> 1" using assms(6) by auto
  have fi: "first_index (confirm_match req) (chunks m) = first_index (confirm_row req) (t_chunks s)"
    using db_memD(2) [OF assms(4)] first_index_map [of "confirm_match req" abs_chunk "t_chunks s"]
    by (simp add: confirm_match_abs)
  from same_signer [OF assms(1,2) ag(2) assms(4,3,5) TrimSpace_idem ag(1), of "''recipient''" 3 0] show ?thesis
  proof (elim disjE conjE exE)
    fix e
    assume "getPeerByKey E ''recipient'' 3 (TrimSpace (cc_RecipientID req)) s = Inl e"
      "peerByKey (peers m) (scan E 0) (TrimSpace (cc_RecipientID req)) = None"
    then show ?thesis using assms(4) by (simp add: db_ConfirmChunk_unfold [OF ag(1) assms(1)] ConfirmChunk_unfold)
  next
    fix ps p
    assume signer: "getPeerByKey E ''recipient'' 3 (TrimSpace (cc_RecipientID req)) s = Inr ps"
      "peerByKey (peers m) (scan E 0) (TrimSpace (cc_RecipientID req)) = Some p" "SignatureKey (hd ps) = SignatureKey p"
    show ?thesis
    proof (cases "first_index (confirm_row req) (t_chunks s)")
      case None
      then show ?thesis using assms(4) signer fi verify_cong [OF signer(3), of E]
        by (simp add: db_ConfirmChunk_unfold [OF ag(1) assms(1)] ConfirmChunk_unfold split: option.split)
    next
      case (Some i)
      let ?c = "t_chunks s ! i"
      have c: "?c \<in> set (t_chunks s)" "confirm_row req ?c" "i < length (t_chunks s)"
        using first_index_Some [OF Some] by auto
      then obtain r where r: "filter (\<lambda>r. r_key r = c_sender_id ?c) (t_peers s) = [r]" "row_active E r"
        using assms(6) by auto
      then have rows: "key_rows E (c_sender_id ?c) s = [r]"
        using filter_filter [of "row_active E" "\<lambda>r. r_key r = c_sender_id ?c" "t_peers s"]
        by (simp add: key_rows_def)
      have "ce_SenderID (chunks m ! i) = c_sender_id ?c"
        using db_memD(2) [OF assms(4)] c(3) by (metis abs_chunk_def chunkRecordEntry.select_convs(3) nth_map)
      moreover have "peerByKey (peers m) (scan E 1) (c_sender_id ?c) = Some (abs_peer r)"
        using active_key_rows [OF assms(1,2,4,5), of 1 "c_sender_id ?c"] rows
          peerByKey_not_found [OF assms(3), of E 1] peerByKey_active [OF assms(3), of E 1]
        by (metis list.set_intros(1) not_None_eq set_ConsD empty_iff list.set(1))
      ultimately show ?thesis
        using sim_confirm_update [OF assms(1-4) ag(3,4) Some r(1)] assms(4) signer fi Some verify_cong [OF signer(3), of E]
        by (simp add: db_ConfirmChunk_unfold [OF ag(1) assms(1)] ConfirmChunk_unfold split: option.split)
    qed
  qed
qed

lemma sim_ReadChunk:
  assumes "calm E" and "db_inv s" and "mem_inv m" and "db_mem s m" and "scan_ok E m"
    and "agree E (OpReadChunk req) s"
  shows "db_mem (snd (dbStore_ReadChunk E req s)) (snd (MemoryStore_ReadChunk E req m))"
proof -
  let ?f = "TrimSpace (rd_FileID req)"
  let ?k = "TrimSpace (rd_RecipientID req)"
  have ag: "CHR ''#'' \<notin> set ?f" "list_all (\<lambda>c. CHR ''#'' \<notin> set (c_file_id c)) (t_chunks s)" "colon_free s"
    "driver s = ''sqlite''" using assms(6) set_TrimSpace by auto
  have re: "read_entry ?k ?f (abs_chunk c) \<longleftrightarrow> c_file_id c = ?f \<and> c_recipient_id c = ?k" if "c \<in> set (t_chunks s)" for c
    using ag(2) that by (auto simp: read_entry_def abs_chunk_def list_all_iff parseChunkKey_chunkKey)
  let ?s = "update_chunks (\<lambda>c. c_file_id c = ?f \<and> c_recipient_id c = ?k)
      (\<lambda>c. c\<lparr>c_readed := 1, c_updated_at := time_Unix (clock E 2)\<rparr>) s"
  let ?m = "m\<lparr>chunks := map (\<lambda>e. if read_entry ?k ?f e
      then e\<lparr>ce_Readed := True, ce_UpdatedAt := time_Unix (clock E 0)\<rparr> else e) (chunks m)\<rparr>"
  have upd: "db_mem ?s ?m"
    using re calmD(2) [OF assms(1), of 2] unfolding db_memD(2) [OF assms(4), symmetric]
    by (intro db_mem_chunks [OF assms(4)]) (auto simp: update_chunks_def abs_chunk_def)
  show ?thesis
  proof (cases "?k = []")
    case True
    have "peerByKey (peers m) (scan E 0) [] = None"
      unfolding peerByKey_not_found [OF assms(3)] by (auto simp: active_with_key_def Key_def)
    then show ?thesis using True assms(1,4) by (simp add: dbStore_ReadChunk_def MemoryStore_ReadChunk_def getPeerByKey_def)
  next
    case False
    from same_signer [OF assms(1,2) ag(3) assms(4,3,5) TrimSpace_idem False, of "''recipient''" 3 0] show ?thesis
    proof (elim disjE conjE exE)
      fix e
      assume "getPeerByKey E ''recipient'' 3 ?k s = Inl e" "peerByKey (peers m) (scan E 0) ?k = None"
      then show ?thesis using assms(4) by (simp add: dbStore_ReadChunk_def MemoryStore_ReadChunk_def)
    next
      fix ps p
      assume "getPeerByKey E ''recipient'' 3 ?k s = Inr ps" "peerByKey (peers m) (scan E 0) ?k = Some p"
        "SignatureKey (hd ps) = SignatureKey p"
      then show ?thesis using assms(1,4) upd ag(4) verify_cong [of "hd ps" p E]
        by (simp add: dbStore_ReadChunk_def MemoryStore_ReadChunk_def by_driver_def split: option.split)
    qed
  qed
qed

lemma sim_SetSignal:
  assumes "calm E" and "db_inv s" and "db_mem s m" and "agree E (OpSetSignal i sig) s"
  shows "db_mem (snd (dbStore_SetSignal E i sig s)) (snd (MemoryStore_SetSignal i sig m))"
proof -
  have peers: "peers m j = map_option abs_peer (db_lookup s j)" for j using db_memD(1) [OF assms(3)] by simp
  show ?thesis
    using assms
    by (cases "db_lookup s (TrimSpace i)")
      (auto simp: dbStore_SetSignal_def MemoryStore_SetSignal_def getPeerByID_calm peers db_mem_def at_upd,
       auto simp: db_box_def)
qed

lemma sim_PollSignals:
  assumes "calm E" and "db_mem s m"
  shows "db_mem (snd (dbStore_PollSignals E i s)) (snd (MemoryStore_PollSignals i m)) \<and>
    fst (dbStore_PollSignals E i s) = fst (MemoryStore_PollSignals i m)"
proof -
  have "map g_signal (filter (\<lambda>g. g_peer_id g \<noteq> k \<and> g_peer_id g = j) (t_signals s)) = (if j = k then [] else db_box s j)" for j k
    by (auto simp: db_box_def filter_empty_conv intro!: arg_cong [where f = "map g_signal"] filter_cong)
  then show ?thesis
    using assms db_memD(3) [OF assms(2), of "TrimSpace i"]
    by (auto simp: dbStore_PollSignals_def MemoryStore_PollSignals_def db_mem_def at_del) (auto simp: db_box_def)
qed

lemma sim_DeleteExpiredChunks:
  assumes "calm E" and "db_inv s" and "db_mem s m" and "agree E OpDeleteExpiredChunks s"
  shows "db_mem (snd (dbStore_DeleteExpiredChunks E s)) (snd (MemoryStore_DeleteExpiredChunks E m)) \<and>
    fst (dbStore_DeleteExpiredChunks E s) = fst (MemoryStore_DeleteExpiredChunks E m)"
proof -
  let ?now = "time_Unix (clock E 0)"
  have ex: "chunk_expired ?now (abs_chunk c) \<longleftrightarrow> row_expired ?now c" if "c \<in> set (t_chunks s)" for c
  proof -
    have "0 \<le> sint (c_created_at c)" "sint (c_created_at c) + sint (c_ttl c) < 2 ^ 63" "0 <s c_ttl c"
      using assms(2,4) that by (auto simp: list_all_iff db_inv_def chunk_row_ok_def)
    then show ?thesis
      using sint64_add [of "c_created_at c" "c_ttl c"]
      by (simp add: chunk_expired_def row_expired_def abs_chunk_def word_sless_alt)
  qed
  then have f: "filter (chunk_expired ?now) (map abs_chunk (t_chunks s)) = map abs_chunk (filter (row_expired ?now) (t_chunks s))"
    "filter (\<lambda>e. \<not> chunk_expired ?now e) (map abs_chunk (t_chunks s)) = map abs_chunk (filter (\<lambda>c. \<not> row_expired ?now c) (t_chunks s))"
    by (auto simp: filter_map comp_def intro!: arg_cong [where f = "map abs_chunk"] filter_cong)
  have "driver s = ''sqlite''" using assms(4) by simp
  then show ?thesis
    using assms(1,3) calmD(2) [OF assms(1), of 2] f db_memD(2) [OF assms(3), symmetric]
    by (simp add: dbStore_DeleteExpiredChunks_def DeleteExpiredChunks_eq by_driver_def affected_def db_mem_def)
qed

lemma simulation:
  assumes "calm E" and "db_inv s" and "mem_inv m" and "db_mem s m" and "scan_ok E m" and "agree E c s"
  shows "db_mem (store_apply db_store E c s) (mem_apply E c m)"
proof (cases c)
  case (OpRefresh req)
  then show ?thesis using assms db_memD(1) [OF assms(4), of "TrimSpace (ref_ID req)"]
    by (simp add: db_store_def db_Refresh_same MemoryStore_Refresh_def)
next
  case (OpDelete i)
  have "peers m [] = None" using mem_invD(1) [OF assms(3), of "[]"] by (cases "peers m []") (auto simp: peer_ok_def)
  then show ?thesis using OpDelete assms sim_Delete [OF assms(1-4), of i]
    by (cases "i = []") (auto simp: db_store_def dbStore_Delete_def MemoryStore_Delete_def)
next
  case (OpHeartbeat i ttl)
  have "peers m [] = None" using mem_invD(1) [OF assms(3), of "[]"] by (cases "peers m []") (auto simp: peer_ok_def)
  then show ?thesis using OpHeartbeat assms sim_Heartbeat [OF assms(1-4), of i]
    by (cases "i = []") (auto simp: db_store_def dbStore_Heartbeat_def MemoryStore_Heartbeat_def)
qed (use assms sim_Upsert sim_SetChunkHash sim_ReportChunk sim_ConfirmChunk sim_ReadChunk sim_SetSignal
  sim_PollSignals sim_DeleteExpiredChunks in \<open>simp_all add: db_store_def\<close>)

end
