(* ===== verification/Peer_Properties.thy ===== *)
theory Peer_Properties
  imports Memory_Effects
begin

text \<open>
  Properties of the peers of the in-memory store: the invariant over every sequence of
  calls, registration, the pinned identity, look-ups, rankings and the score account.
\<close>

text \<open>C1. Every sequence of calls of the store, under any clock, any map iteration order and
  any signature scheme, keeps the store well formed: peers stored under their own trimmed
  id with a positive lifetime, scores that are the initial score plus valid minus invalid
  reports, every peer listed under its login key, and only well-formed chunks and signals.\<close>

theorem reachable_well_formed:
  assumes "mem_reach allowed s"
  shows "mem_inv s"
  using assms by (rule mem_reach_inv)

theorem reachable_well_formed_witness: "mem_inv ex_store3"
  by (rule reachable_well_formed [of "\<lambda>_. True"]) (rule ex_reach, simp_all)

subsection \<open>Registration\<close>

text \<open>Registering an id for the first time stores the trimmed request with the initial
  score; registering it again refreshes login, lifetime and clock but keeps both keys, the
  score, the counters and the fake mark; no other peer, chunk or signal is touched.\<close>

theorem upsert_registers:
  assumes "mem_reach allowed s" and "TrimSpace (reg_ID req) = i" and "i \<noteq> []"
    and "MemoryStore_Upsert E req s = (r, s')"
  shows "r = Inr () \<and> chunks s' = chunks s \<and> signals s' = signals s \<and> (\<forall>j. j \<noteq> i \<longrightarrow> peers s' j = peers s j) \<and>
    (\<exists>p. peers s' i = Some p \<and> ID p = i \<and> Login p = TrimSpace (reg_Login req) \<and> LastSeen p = clock E 0 \<and>
      sint (TTLSeconds p) = (if sint (reg_TTLSeconds req) \<le> 0 then 300 else sint (reg_TTLSeconds req)) \<and>
      (case peers s i of
         None \<Rightarrow>
           EncryptionKey p = TrimSpace (reg_EncryptionKey req) \<and> SignatureKey p = TrimSpace (reg_SignatureKey req) \<and>
           QualityScore p = 1000 \<and> Flag p = reg_PeerFlag req \<and> Fake p = (reg_Fake req = Some True)
       | Some q \<Rightarrow>
           same_identity q p \<and> same_score q p \<and>
           Flag p = (if reg_PeerFlag req = [] then Flag q else reg_PeerFlag req)))"
  using assms(2-4) ID_of_peer [OF mem_reach_inv [OF assms(1)]]
  by (auto simp: MemoryStore_Upsert_def same_identity_def same_score_def defaultTTL_def InitialQualityScore_def
      word_sle_eq split: option.splits)

theorem upsert_registers_witness:
  "\<exists>p. peers (snd (MemoryStore_Upsert (ex_env [''ann'', ''bob'']) (ex_register ''ann'' (CHR ''x'')) ex_store2)) ''ann'' =
     Some p \<and> LastSeen p = ex_now"
proof -
  have 1: "mem_reach (\<lambda>_. True) ex_store2" by (rule ex_reach) simp_all
  show ?thesis
    using upsert_registers [OF 1 _ _ surjective_pairing, of "ex_register ''ann'' (CHR ''x'')" "''ann''"
        "ex_env [''ann'', ''bob'']"]
    by (auto simp: ex_register_def)
qed

text \<open>C5. A registered peer stays registered with the same id, signature key, encryption key
  and fake mark through every sequence of calls that does not delete it: re-registering
  under a known id never replaces its keys.\<close>

theorem identity_pinned:
  assumes "mem_reach allowed s" and "peers s i = Some p" and "(mem_step (\<lambda>c. c \<noteq> OpDelete i))\<^sup>*\<^sup>* s s'"
  shows "\<exists>q. peers s' i = Some q \<and> SignatureKey q = SignatureKey p \<and> EncryptionKey q = EncryptionKey p \<and>
    ID q = i \<and> Fake q = Fake p"
proof -
  from assms(3) have "mem_inv s' \<and> (\<exists>q. peers s' i = Some q \<and> same_identity p q)"
  proof (induction rule: rtranclp_induct)
    case base
    then show ?case using assms mem_reach_inv by auto
  next
    case (step t u)
    then show ?case using peer_step same_identity_trans
      by (elim conjE exE mem_stepE) (metis mem_apply_inv)
  qed
  then show ?thesis using ID_of_peer by (auto simp: same_identity_def)
qed

theorem identity_pinned_witness:
  "\<exists>q. peers (mem_apply (ex_env [''ann'', ''bob'']) (OpUpsert (ex_register ''ann'' (CHR ''x''))) ex_store2) ''ann'' = Some q \<and>
     SignatureKey q = ex_key (CHR ''a'')"
proof -
  let ?c = "OpUpsert (ex_register ''ann'' (CHR ''x''))"
  let ?s = "mem_apply (ex_env [''ann'', ''bob'']) ?c ex_store2"
  have 1: "mem_reach (\<lambda>_. True) ex_store2" by (rule ex_reach) simp_all
  have 2: "peers ex_store2 ''ann'' = Some (ex_peer ''ann'' (CHR ''a''))" by (simp add: ex_store2_eq)
  have "mem_step (\<lambda>c. c \<noteq> OpDelete ''ann'') ex_store2 ?s"
    by (intro mem_step.step ex_scan_ok) simp
  then have 3: "(mem_step (\<lambda>c. c \<noteq> OpDelete ''ann''))\<^sup>*\<^sup>* ex_store2 ?s" by blast
  show ?thesis using identity_pinned [OF 1 2 3] by (auto simp: ex_peer_def)
qed

text \<open>A deleted peer is gone from the look-up by id and from every look-up by key, whatever
  keys its id was listed under, and the other peers stay as they were; deleting an unknown
  id fails and changes nothing.\<close>

theorem delete_removes:
  assumes "mem_reach allowed s" and "MemoryStore_Delete i s = (r, s')"
  shows "(r = Inl ErrNotFound \<and> peers s i = None \<and> s' = s \<or> r = Inr () \<and> peers s i \<noteq> None) \<and>
    MemoryStore_Get E i s' = Inl ErrNotFound \<and>
    (\<forall>j. j \<noteq> i \<longrightarrow> MemoryStore_Get E j s' = MemoryStore_Get E j s) \<and>
    (\<forall>login sig ps p. MemoryStore_GetByKey E login sig s' = Inr ps \<and> p \<in> set ps \<longrightarrow> ID p \<noteq> i)"
proof -
  have "mem_inv s'" using Delete_inv [OF mem_reach_inv [OF assms(1)], of i] assms(2) by simp
  moreover have "peers s' = (peers s)(i := None)"
    using assms(2) by (auto simp: MemoryStore_Delete_def split: option.splits)
  ultimately have "ID p \<noteq> i" if "MemoryStore_GetByKey E login sig s' = Inr ps" "p \<in> set ps" for login sig ps p
    using GetByKey_mem [OF that] ID_of_peer by fastforce
  then have gone: "\<forall>login sig ps p. MemoryStore_GetByKey E login sig s' = Inr ps \<and> p \<in> set ps \<longrightarrow> ID p \<noteq> i"
    by blast
  show ?thesis
    by (intro conjI gone)
      (use assms(2) in \<open>auto simp: MemoryStore_Delete_def MemoryStore_Get_def split: option.splits if_splits\<close>)
qed

theorem delete_removes_witness:
  "MemoryStore_Get (ex_env []) ''ann'' (snd (MemoryStore_Delete ''ann'' ex_store2)) = Inl ErrNotFound"
proof -
  have 1: "mem_reach (\<lambda>_. True) ex_store2" by (rule ex_reach) simp_all
  show ?thesis using delete_removes [OF 1 surjective_pairing, of "''ann''" "ex_env []"] by simp
qed

text \<open>A heartbeat revives a registered peer, expired or not: the next look-up at the same
  instant finds it with the clock of the heartbeat and, when a positive lifetime is given,
  that lifetime.\<close>

theorem heartbeat_revives:
  assumes "mem_reach allowed s" and "peers s i = Some p" and "sint (TTLSeconds p) \<le> 9223372036"
    and "sint ttl \<le> 9223372036" and "clock E' 0 = clock E 0"
  shows "\<exists>q. MemoryStore_Heartbeat E i ttl s = (Inr q, s\<lparr>peers := (peers s)(i \<mapsto> q)\<rparr>) \<and>
    MemoryStore_Get E' i (snd (MemoryStore_Heartbeat E i ttl s)) = Inr q \<and> LastSeen q = clock E 0 \<and>
    TTLSeconds q = (if 0 < sint ttl then ttl else TTLSeconds p) \<and> same_identity p q \<and> same_score p q"
proof -
  let ?q = "(if 0 <s ttl then p\<lparr>TTLSeconds := ttl\<rparr> else p)\<lparr>LastSeen := clock E 0\<rparr>"
  have "\<not> isExpired ?q (clock E 0)"
    using assms by (subst isExpired_iff) (auto simp: ttl_of_def)
  then show ?thesis
    using assms by (intro exI [of _ ?q])
      (auto simp: MemoryStore_Heartbeat_def MemoryStore_Get_def word_sless_alt same_identity_def same_score_def)
qed

theorem heartbeat_revives_witness:
  "\<exists>q. MemoryStore_Get (ex_env []) ''ann'' (snd (MemoryStore_Heartbeat (ex_env []) ''ann'' 60 ex_store2)) = Inr q \<and>
     TTLSeconds q = 60"
proof -
  have 1: "mem_reach (\<lambda>_. True) ex_store2" by (rule ex_reach) simp_all
  have 2: "peers ex_store2 ''ann'' = Some (ex_peer ''ann'' (CHR ''a''))" by (simp add: ex_store2_eq)
  show ?thesis
    using heartbeat_revives [OF 1 2, of 60 "ex_env []" "ex_env []"] by (auto simp: ex_peer_def)
qed

subsection \<open>Look-ups\<close>

text \<open>Looking up the login and signature key of an active peer finds it, in every reachable
  state; whatever a look-up returns is registered and not expired.\<close>

theorem get_by_key_complete:
  assumes "mem_reach allowed s" and "peers s i = Some p" and "\<not> isExpired p (clock E 0)"
    and "Login p \<noteq> []" and "SignatureKey p \<noteq> []"
  shows "\<exists>ps. MemoryStore_GetByKey E (Login p) (SignatureKey p) s = Inr ps \<and> p \<in> set ps \<and>
    (\<forall>q \<in> set ps. peers s (ID q) = Some q \<and> \<not> isExpired q (clock E 0))"
proof -
  have inv: "mem_inv s" by (rule mem_reach_inv [OF assms(1)])
  have ok: "peer_ok i p" by (rule mem_invD(1) [OF inv assms(2)])
  then have trim: "TrimSpace (Login p) = Login p" "TrimSpace (SignatureKey p) = SignatureKey p"
    by (simp_all add: peer_ok_def)
  then have "lookup_key (Login p) (SignatureKey p) = Key p" by (simp add: lookup_key_def Key_def)
  moreover have "i \<in> set (at (logins s) (Key p))"
    using mem_invD(2) [OF inv] assms(2) by (simp add: index_complete_def owner_key_def)
  ultimately have mem: "p \<in> set (active_ids E s (at (logins s) (lookup_key (Login p) (SignatureKey p))))"
    using assms(2,3) by (auto simp: set_active_ids)
  moreover from mem have "active_ids E s (at (logins s) (lookup_key (Login p) (SignatureKey p))) \<noteq> []" by auto
  ultimately show ?thesis
    using assms(4,5) trim ID_of_peer [OF inv] by (auto simp: GetByKey_eq set_active_ids)
qed

theorem get_by_key_complete_witness:
  "\<exists>ps. MemoryStore_GetByKey (ex_env [''ann'', ''bob'']) ''ann'' (ex_key (CHR ''a'')) ex_store2 = Inr ps \<and>
     ex_peer ''ann'' (CHR ''a'') \<in> set ps"
proof -
  have 1: "mem_reach (\<lambda>_. True) ex_store2" by (rule ex_reach) simp_all
  have 2: "peers ex_store2 ''ann'' = Some (ex_peer ''ann'' (CHR ''a''))" by (simp add: ex_store2_eq)
  show ?thesis
    using get_by_key_complete [OF 1 2, of "ex_env [''ann'', ''bob'']"]
    by (auto simp: ex_not_expired) (auto simp: ex_peer_def)
qed

text \<open>C13. In a store on which \<^verbatim>\<open>Refresh\<close> was never called, a look-up by key returns exactly the
  active peers with that key, each once.\<close>

theorem get_by_key_exact:
  assumes "mem_reach no_refresh s" and "TrimSpace login \<noteq> []" and "TrimSpace sig \<noteq> []"
  shows "\<exists>ps. MemoryStore_GetByKey E login sig s = (if ps = [] then Inl ErrNotFound else Inr ps) \<and> distinct ps \<and>
    set ps = {p. peers s (ID p) = Some p \<and> Key p = TrimSpace login @ '':'' @ TrimSpace sig \<and>
                 \<not> isExpired p (clock E 0)}"
proof -
  let ?ids = "at (logins s) (lookup_key login sig)"
  have inv: "mem_inv s" by (rule mem_reach_inv [OF assms(1)])
  have ex: "distinct ?ids" "set ?ids = {i. owner_key (peers s) i = Some (lookup_key login sig)}"
    using mem_reach_exact [OF assms(1)] by (simp_all add: logins_exact_def index_exact_def)
  have "set (active_ids E s ?ids) = {p. peers s (ID p) = Some p \<and> Key p = lookup_key login sig \<and> \<not> isExpired p (clock E 0)}"
    using ID_of_peer [OF inv] by (auto simp: set_active_ids ex(2) owner_key_def)
  moreover have "distinct (active_ids E s ?ids)"
    unfolding active_ids_def by (rule distinct_collect_peers [OF ex(1) ID_of_peer [OF inv]])
  ultimately show ?thesis
    using assms(2,3) by (intro exI [of _ "active_ids E s ?ids"]) (simp add: GetByKey_eq lookup_key_def)
qed

theorem get_by_key_exact_witness:
  "MemoryStore_GetByKey (ex_env [''ann'', ''bob'']) ''ann'' (ex_key (CHR ''b'')) ex_store2 = Inl ErrNotFound"
proof -
  have 1: "mem_reach no_refresh ex_store2" by (rule ex_reach) (simp_all add: no_refresh_def)
  have none: "peers ex_store2 (ID p) = Some p \<Longrightarrow> Key p \<noteq> ''ann'' @ '':'' @ ex_key (CHR ''b'')" for p
    by (auto simp: ex_store2_eq ex_peer_def Key_def split: if_splits)
  obtain ps where ps: "MemoryStore_GetByKey (ex_env [''ann'', ''bob'']) ''ann'' (ex_key (CHR ''b'')) ex_store2 =
      (if ps = [] then Inl ErrNotFound else Inr ps)"
    and set: "set ps = {p. peers ex_store2 (ID p) = Some p \<and>
      Key p = TrimSpace ''ann'' @ '':'' @ TrimSpace (ex_key (CHR ''b'')) \<and>
      \<not> isExpired p (clock (ex_env [''ann'', ''bob'']) 0)}"
    using get_by_key_exact [OF 1, of "''ann''" "ex_key (CHR ''b'')" "ex_env [''ann'', ''bob'']"] by auto
  have "set ps = {}" using none unfolding set by auto
  then show ?thesis using ps by simp
qed

text \<open>\<^verbatim>\<open>Refresh\<close> lists a registered peer under whatever login and signature key the caller
  names, without a signature: the peer is then found under a key that is not its own.\<close>

theorem refresh_lists_under_any_key:
  assumes "mem_reach allowed s" and "peers s i = Some p" and "sint (TTLSeconds p) \<le> 9223372036"
    and "TrimSpace login = login" and "TrimSpace sig = sig" and "login \<noteq> []" and "sig \<noteq> []"
  shows "\<exists>ps q. MemoryStore_GetByKey E login sig
      (snd (MemoryStore_Refresh E \<lparr>ref_ID = i, ref_Login = login, ref_SignatureKey = sig\<rparr> s)) = Inr ps \<and>
    q \<in> set ps \<and> same_identity p q"
proof -
  let ?s = "snd (MemoryStore_Refresh E \<lparr>ref_ID = i, ref_Login = login, ref_SignatureKey = sig\<rparr> s)"
  let ?q = "p\<lparr>LastSeen := clock E 0\<rparr>"
  have i: "TrimSpace i = i" "i \<noteq> []"
    using mem_invD(1) [OF mem_reach_inv [OF assms(1)] assms(2)] by (simp_all add: peer_ok_def)
  have "\<not> isExpired ?q (clock E 0)" using assms(3) by (subst isExpired_iff) (auto simp: ttl_of_def)
  moreover have "peers ?s i = Some ?q" "i \<in> set (at (logins ?s) (lookup_key login sig))"
    using assms(2,4,5) i by (simp_all add: MemoryStore_Refresh_def lookup_key_def login_index.ids_add)
  ultimately have mem: "?q \<in> set (active_ids E ?s (at (logins ?s) (lookup_key login sig)))"
    by (auto simp: set_active_ids)
  then have "active_ids E ?s (at (logins ?s) (lookup_key login sig)) \<noteq> []" by auto
  with mem assms(4-) show ?thesis
    by (intro exI [of _ "active_ids E ?s (at (logins ?s) (lookup_key login sig))"] exI [of _ ?q])
      (simp add: GetByKey_eq same_identity_def)
qed

theorem refresh_lists_under_any_key_witness:
  "\<exists>ps q. MemoryStore_GetByKey (ex_env []) ''eve'' ''key''
      (snd (MemoryStore_Refresh (ex_env [])
        \<lparr>ref_ID = ''ann'', ref_Login = ''eve'', ref_SignatureKey = ''key''\<rparr> ex_store2)) = Inr ps \<and>
    q \<in> set ps \<and> SignatureKey q = ex_key (CHR ''a'')"
proof -
  have 1: "mem_reach (\<lambda>_. True) ex_store2" by (rule ex_reach) simp_all
  have 2: "peers ex_store2 ''ann'' = Some (ex_peer ''ann'' (CHR ''a''))" by (simp add: ex_store2_eq)
  show ?thesis
    using refresh_lists_under_any_key [OF 1 2, of "''eve''" "''key''" "ex_env []"]
    by (auto simp: ex_peer_def same_identity_def)
qed

text \<open>The list holds exactly the active peers that are not fake, each once, in whatever order
  the map is visited.\<close>

theorem list_exact:
  assumes "mem_reach allowed s" and "scan_ok E s"
  shows "\<exists>ps. MemoryStore_List E s = Inr ps \<and> distinct ps \<and>
    set ps = {p. peers s (ID p) = Some p \<and> \<not> isExpired p (clock E 0) \<and> \<not> Fake p}"
  using collect_scan [OF mem_reach_inv [OF assms(1)] assms(2),
      of "\<lambda>p. \<not> isExpired p (clock E 0) \<and> \<not> Fake p" 0] ID_of_peer [OF mem_reach_inv [OF assms(1)]]
  by (auto simp: MemoryStore_List_def)

theorem list_exact_witness:
  "\<exists>ps. MemoryStore_List (ex_env [''ann'', ''bob'']) ex_store2 = Inr ps \<and> distinct ps"
  using list_exact [OF ex_reach(2) [of "\<lambda>_. True"] ex_scan_ok(3)] by auto

text \<open>C14. The best-peer queries return the n active, non-fake peers (for the second query, the
  thick and very thick ones) with the highest effective scores, best first, or all of them when
  there are fewer; an n of zero or less returns none.\<close>

theorem best_peers_ranked:
  assumes "mem_reach allowed s" and "scan_ok E s"
  shows "(\<exists>ps. MemoryStore_GetBestPeers E n s = Inr ps \<and>
      top_n n {p. peers s (ID p) = Some p \<and> \<not> isExpired p (clock E 0) \<and> \<not> Fake p} ps) \<and>
    (\<exists>ps. MemoryStore_GetBestThickPeers E n s = Inr ps \<and>
      top_n n {p. peers s (ID p) = Some p \<and> \<not> isExpired p (clock E 0) \<and> \<not> Fake p \<and>
        (Flag p = PeerFlagThick \<or> Flag p = PeerFlagVeryThick)} ps)"
  using best_of_scan [OF mem_reach_inv [OF assms(1)] assms(2),
      of n "\<lambda>p. \<not> isExpired p (clock E 0) \<and> \<not> Fake p"]
    best_of_scan [OF mem_reach_inv [OF assms(1)] assms(2),
      of n "\<lambda>p. \<not> (isExpired p (clock E 0) \<or> Fake p) \<and> (Flag p = PeerFlagThick \<or> Flag p = PeerFlagVeryThick)"]
  by (simp add: MemoryStore_GetBestPeers_def MemoryStore_GetBestThickPeers_def top_none)

theorem best_peers_ranked_witness:
  "\<exists>ps. MemoryStore_GetBestPeers (ex_env [''ann'', ''bob'']) 1 ex_store2 = Inr ps \<and> distinct ps"
  using best_peers_ranked [OF ex_reach(2) [of "\<lambda>_. True"] ex_scan_ok(3), of 1] by (auto simp: top_n_def)

end
