(* ===== verification/Chunk_Properties.thy ===== *)
theory Chunk_Properties
  imports Mailbox Peer_Properties
begin

text \<open>
  Properties of the chunks and signals of the in-memory store: who can register, report,
  confirm and read a chunk, what each call changes, what the queries return, what the purge
  keeps, and in which order signals arrive.
\<close>

subsection \<open>Scores\<close>



subsection \<open>Registration of chunks\<close>



text \<open>C18. When no login holds a colon, an active peer that signs a complete registration with
  its registered key gets it stored, whatever other peers share its login key.\<close>

theorem honest_registration_succeeds:
  assumes "mem_reach allowed s" and "\<forall>i p. peers s i = Some p \<longrightarrow> CHR '':'' \<notin> set (Login p)"
    and "active_with_key E 0 s (TrimSpace (rc_SenderID req)) p" and "chunk_request_ok E f i req"
    and "authentic E p (rc_Signature req) (ExpectedPayload (TrimSpace f) i (normalizeHash E (rc_Hash req)))"
  shows "MemoryStore_SetChunkHash E f i req s = (Inr (), s\<lparr>chunks := chunks s @ [new_chunk E f i req]\<rparr>)"
proof -
  obtain q where q: "peerByKey (peers s) (scan E 0) (TrimSpace (rc_SenderID req)) = Some q"
    using peerByKey_found [OF assms(3)] by blast
  then have "active_with_key E 0 s (TrimSpace (rc_SenderID req)) q"
    by (rule peerByKey_active [OF mem_reach_inv [OF assms(1)]])
  then have "SignatureKey q = SignatureKey p"
    using assms(2,3) Key_inject_login [of q p] unfolding active_with_key_def by metis
  then have "authentic E q (rc_Signature req) (ExpectedPayload (TrimSpace f) i (normalizeHash E (rc_Hash req)))"
    using assms(5) by (simp add: authentic_def)
  then show ?thesis using q assms(4) by (simp add: SetChunkHash_unfold verify_authentic)
qed

theorem honest_registration_succeeds_witness:
  "fst (MemoryStore_SetChunkHash (ex_env [''ann'', ''bob'']) ''file'' 0 ex_chunk_request ex_store2) = Inr ()"
proof -
  have "MemoryStore_SetChunkHash (ex_env [''ann'', ''bob'']) ''file'' 0 ex_chunk_request ex_store2 =
    (Inr (), ex_store2\<lparr>chunks := chunks ex_store2 @ [new_chunk (ex_env [''ann'', ''bob'']) ''file'' 0 ex_chunk_request]\<rparr>)"
  proof (rule honest_registration_succeeds [OF ex_reach(2) [of "\<lambda>_. True"], where p = "ex_peer ''ann'' (CHR ''a'')"])
    show "\<forall>i p. peers ex_store2 i = Some p \<longrightarrow> CHR '':'' \<notin> set (Login p)"
      by (auto simp: ex_store2_eq ex_peer_def split: if_splits)
    show "active_with_key (ex_env [''ann'', ''bob'']) 0 ex_store2 (TrimSpace (rc_SenderID ex_chunk_request))
        (ex_peer ''ann'' (CHR ''a''))"
      by (simp add: active_with_key_def ex_store2_eq ex_chunk_request_def) (simp add: ex_peer_def)
    show "chunk_request_ok (ex_env [''ann'', ''bob'']) ''file'' 0 ex_chunk_request"
      by (simp add: chunk_request_ok_def ex_chunk_request_def word_sle_eq)
    show "authentic (ex_env [''ann'', ''bob'']) (ex_peer ''ann'' (CHR ''a'')) (rc_Signature ex_chunk_request)
        (ExpectedPayload (TrimSpace ''file'') 0 (normalizeHash (ex_env [''ann'', ''bob'']) (rc_Hash ex_chunk_request)))"
      by (simp add: ex_chunk_request_def)
  qed simp_all
  then show ?thesis by simp
qed

subsection \<open>Reports and confirmations\<close>


definition ex_report :: ChunkReportRequest where
  "ex_report = \<lparr>rep_ReporterID = ''bob'', rep_FileID = ''file'', rep_ChunkIndex = 0, rep_Hash = ex_hash,
     rep_Signature = ex_sig (CHR ''b'')\<rparr>"


text \<open>C9. A confirmation is accepted only with an authentic signature of an active peer with the
  recipient's login key; it is judged against the first chunk registered under that file,
  index and recipient, marks exactly that chunk when the hashes agree, and moves the score of
  one active peer with the sender's login key by one point.\<close>

theorem confirm_accepted:
  assumes "mem_reach allowed s" and "MemoryStore_ConfirmChunk E req s = (Inr r, s')"
    and "file = TrimSpace (cc_FileID req)" and "hash = normalizeHash E (cc_Hash req)"
    and "rkey = TrimSpace (cc_RecipientID req)"
  shows "\<exists>i recipient p.
    active_with_key E 0 s rkey recipient \<and>
    authentic E recipient (cc_Signature req) (ConfirmedPayload file (cc_ChunkIndex req) hash) \<and>
    i < length (chunks s) \<and> ce_key (chunks s ! i) = chunkKey file (cc_ChunkIndex req) \<and>
    ce_RecipientID (chunks s ! i) = rkey \<and>
    (\<forall>j < i. ce_key (chunks s ! j) = chunkKey file (cc_ChunkIndex req) \<longrightarrow> ce_RecipientID (chunks s ! j) \<noteq> rkey) \<and>
    active_with_key E 1 s (ce_SenderID (chunks s ! i)) p \<and>
    ccr_Valid r = (hash = ce_Hash (chunks s ! i)) \<and> ccr_ExpectedHash r = ce_Hash (chunks s ! i) \<and>
    ccr_Peer r = score_report (ccr_Valid r) p \<and>
    s' = s\<lparr>chunks := (chunks s)[i := confirmed_entry E hash (chunks s ! i)],
           peers := (peers s)(ID p \<mapsto> score_report (ccr_Valid r) p)\<rparr>"
proof (cases rule: ConfirmChunk_effect [of E req s])
  case (scored q i p)
  have inv: "mem_inv s" by (rule mem_reach_inv [OF assms(1)])
  from scored(6) assms(2) have fin: "confirm_final E req s i p = (Inr r, s')" by simp
  from scored(3) have "authentic E q (cc_Signature req) (ConfirmedPayload file (cc_ChunkIndex req) hash)"
    by (simp add: verify_authentic assms(3,4) split: if_splits)
  with fin first_index_Some [OF scored(4)] show ?thesis
    using peerByKey_active [OF inv scored(2)] peerByKey_active [OF inv scored(5)]
    by (intro exI [of _ i] exI [of _ q] exI [of _ p])
      (auto simp: confirm_final_def confirm_match_def assms(3-5))
qed (use assms(2) in simp)

definition ex_confirm :: ConfirmChunkRequest where
  "ex_confirm = \<lparr>cc_RecipientID = Key (ex_peer ''bob'' (CHR ''b'')), cc_FileID = ''file'', cc_ChunkIndex = 0,
     cc_Hash = ex_hash, cc_Signature = ex_sig (CHR ''b'')\<rparr>"

theorem confirm_accepted_witness:
  "\<exists>r s'. MemoryStore_ConfirmChunk (ex_env [''ann'', ''bob'']) ex_confirm ex_store3 = (Inr r, s') \<and> ccr_Valid r"
proof -
  let ?E = "ex_env [''ann'', ''bob'']"
  obtain r s' where r: "MemoryStore_ConfirmChunk ?E ex_confirm ex_store3 = (Inr r, s')"
    by (simp add: ConfirmChunk_unfold ex_confirm_def ex_store3_eq ex_store2_eq confirm_request_ok_def
        confirm_match_def ex_chunk_def word_sle_eq confirm_final_def)
  then show ?thesis
    using confirm_accepted [OF ex_reach(3) [of "\<lambda>_. True"] r refl refl refl]
    by (auto simp: ex_confirm_def ex_store3_eq ex_chunk_def)
qed

text \<open>C10. The chunk that reports on a file and index are judged against is the first one
  registered, and until a purge no call changes its hash, sender, recipient or lifetime or
  takes back a confirmation or read mark.\<close>

theorem first_registration_wins:
  assumes "expected_chunk s f i = Some e" and "(mem_step (\<lambda>c. c \<noteq> OpDeleteExpiredChunks))\<^sup>*\<^sup>* s s'"
  shows "\<exists>e'. expected_chunk s' f i = Some e' \<and> chunk_evolves e e'"
  using assms(2)
proof (induction rule: rtranclp_induct)
  case base
  then show ?case using assms(1) by simp
next
  case (step t u)
  then show ?case
    using expected_chunk_step chunk_evolves_trans by (elim exE conjE mem_stepE) metis
qed

theorem first_registration_wins_witness:
  "\<exists>e'. expected_chunk (mem_apply (ex_env [''ann'', ''bob'']) (OpSetChunkHash ''file'' 0 ex_chunk_request) ex_store3) ''file'' 0 = Some e' \<and>
     ce_Hash e' = ex_hash"
proof -
  let ?s = "mem_apply (ex_env [''ann'', ''bob'']) (OpSetChunkHash ''file'' 0 ex_chunk_request) ex_store3"
  have e: "expected_chunk ex_store3 ''file'' 0 = Some ex_chunk"
    by (simp add: expected_chunk_def ex_store3_eq ex_chunk_def)
  have "mem_step (\<lambda>c. c \<noteq> OpDeleteExpiredChunks) ex_store3 ?s"
    by (intro mem_step.step ex_scan_ok) simp
  then have "(mem_step (\<lambda>c. c \<noteq> OpDeleteExpiredChunks))\<^sup>*\<^sup>* ex_store3 ?s" by blast
  from first_registration_wins [OF e this] show ?thesis by (auto simp: chunk_evolves_def ex_chunk_def)
qed

subsection \<open>Queries\<close>



text \<open>The chunks of a file whose id holds a number sign are never found by their file and
  never marked as read: both calls compare against the part before the first number sign.\<close>

theorem hash_sign_files_unreachable:
  assumes "CHR ''#'' \<in> set (TrimSpace f)"
  shows "MemoryStore_GetChunksByFileID f s = Inr [] \<and>
    (\<forall>E r sg. \<exists>e. MemoryStore_ReadChunk E \<lparr>rd_RecipientID = r, rd_FileID = f, rd_Signature = sg\<rparr> s = (Inl e, s))"
proof -
  have no: "fst (parseChunkKey k) \<noteq> TrimSpace f" for k using parseChunkKey_file [of k] assms by metis
  have "TrimSpace f \<noteq> []" using assms by auto
  then have 1: "MemoryStore_GetChunksByFileID f s = Inr []" by (simp add: MemoryStore_GetChunksByFileID_def no)
  have "\<exists>e. fst (MemoryStore_ReadChunk E \<lparr>rd_RecipientID = r, rd_FileID = f, rd_Signature = sg\<rparr> s) = Inl e" for E r sg
    by (auto simp: MemoryStore_ReadChunk_def read_entry_def no list_ex_iff split: option.split)
  then have "\<exists>e. MemoryStore_ReadChunk E \<lparr>rd_RecipientID = r, rd_FileID = f, rd_Signature = sg\<rparr> s = (Inl e, s)" for E r sg
    by (metis ReadChunk_fails prod.collapse)
  with 1 show ?thesis by blast
qed

theorem hash_sign_files_unreachable_witness: "MemoryStore_GetChunksByFileID ''a#b'' ex_store3 = Inr []"
proof -
  have "TrimSpace ''a#b'' = ''a#b''" by (rule TrimSpace_graphic) (simp add: graphic_def)
  then show ?thesis using hash_sign_files_unreachable [of "''a#b''" ex_store3] by simp
qed

text \<open>A read receipt needs an authentic signature of an active peer with the recipient's
  login key over the file id; it marks every chunk of that file for that recipient as read,
  at least one, and no other chunk.\<close>

theorem read_marks_file:
  assumes "mem_reach allowed s" and "MemoryStore_ReadChunk E req s = (Inr r, s')"
    and "file = TrimSpace (rd_FileID req)" and "rkey = TrimSpace (rd_RecipientID req)"
    and "mine = (\<lambda>e. ce_RecipientID e = rkey \<and> fst (parseChunkKey (ce_key e)) = file)"
  shows "(\<exists>p. active_with_key E 0 s rkey p \<and> authentic E p (rd_Signature req) (ReadPayload file)) \<and>
    (\<exists>e \<in> set (chunks s). mine e) \<and> peers s' = peers s \<and> length (chunks s') = length (chunks s) \<and>
    (\<forall>i < length (chunks s). chunks s' ! i =
      (if mine (chunks s ! i) then (chunks s ! i)\<lparr>ce_Readed := True, ce_UpdatedAt := time_Unix (clock E 0)\<rparr>
       else chunks s ! i))"
proof (cases "peerByKey (peers s) (scan E 0) rkey")
  case None
  then show ?thesis using assms(2,4) by (auto simp: MemoryStore_ReadChunk_def split: if_splits)
next
  case (Some p)
  have "active_with_key E 0 s rkey p" by (rule peerByKey_active [OF mem_reach_inv [OF assms(1)] Some])
  then show ?thesis
    using Some assms(2) unfolding assms(3-5)
    by (auto simp: MemoryStore_ReadChunk_def verify_authentic read_entry_def list_ex_iff split: if_splits)
qed

definition ex_read :: ReadChunkRequest where
  "ex_read = \<lparr>rd_RecipientID = Key (ex_peer ''bob'' (CHR ''b'')), rd_FileID = ''file'', rd_Signature = ex_sig (CHR ''b'')\<rparr>"

theorem read_marks_file_witness:
  "\<exists>r s'. MemoryStore_ReadChunk (ex_env [''ann'', ''bob'']) ex_read ex_store3 = (Inr r, s') \<and> length (chunks s') = 1"
proof -
  have p: "parseChunkKey (chunkKey ''file'' 0) = (''file'', 0)" by (rule parseChunkKey_chunkKey) simp
  obtain r s' where r: "MemoryStore_ReadChunk (ex_env [''ann'', ''bob'']) ex_read ex_store3 = (Inr r, s')"
    by (simp add: MemoryStore_ReadChunk_def ex_read_def ex_store3_eq ex_store2_eq read_entry_def ex_chunk_def p)
  show ?thesis
    using read_marks_file [OF ex_reach(3) [of "\<lambda>_. True"] r refl refl refl] r by (auto simp: ex_store3_eq)
qed

subsection \<open>Purge, failures and signals\<close>

text \<open>C16. The purge compacts the chunk slice in place to exactly the chunks that are persistent or
  whose creation time plus lifetime has not passed, in their order, returns how many it
  dropped, and touches nothing else.\<close>

theorem purge_keeps_live_chunks:
  assumes "\<forall>e \<in> set (chunks s). 0 \<le> sint (ce_CreatedAt e) \<and> 0 \<le> sint (ce_TTL e) \<and>
      sint (ce_CreatedAt e) + sint (ce_TTL e) < 2 ^ 63"
    and "live = (\<lambda>e. ce_Persist e \<or> sint (time_Unix (clock E 0)) \<le> sint (ce_CreatedAt e) + sint (ce_TTL e))"
  shows "MemoryStore_DeleteExpiredChunks E s =
    (Inr (of_nat (length (filter (\<lambda>e. \<not> live e) (chunks s)))), s\<lparr>chunks := filter live (chunks s)\<rparr>)"
proof -
  have "chunk_expired (time_Unix (clock E 0)) e \<longleftrightarrow> \<not> live e" if "e \<in> set (chunks s)" for e
    using assms that sint64_add [of "ce_CreatedAt e" "ce_TTL e"] by (auto simp: chunk_expired_def word_sless_alt)
  then show ?thesis by (simp add: DeleteExpiredChunks_eq cong: filter_cong)
qed

theorem purge_keeps_live_chunks_witness:
  "MemoryStore_DeleteExpiredChunks (ex_env [])  ex_store3 = (Inr 0, ex_store3)"
  by (subst purge_keeps_live_chunks [OF _ refl]) (simp_all add: ex_store3_eq ex_store2_eq ex_chunk_def)

text \<open>A lifetime near the largest 64-bit number overflows: a chunk registered with it after
  1970 is dropped by a purge in the same second.\<close>

theorem huge_chunk_lifetime_purged:
  assumes "0 < sint (ce_CreatedAt e)" and "\<not> ce_Persist e" and "ce_TTL e = 9223372036854775807"
    and "time_Unix (clock E 0) = ce_CreatedAt e"
  shows "MemoryStore_DeleteExpiredChunks E (s\<lparr>chunks := [e]\<rparr>) = (Inr 1, s\<lparr>chunks := []\<rparr>)"
proof -
  have "sint (ce_CreatedAt e + ce_TTL e) = sint (ce_CreatedAt e) + (2 ^ 63 - 1) - 2 ^ 64"
    using assms(1,3) sint64_add_wraps [of "ce_CreatedAt e" "ce_TTL e"] by simp
  then have "chunk_expired (time_Unix (clock E 0)) e"
    using assms by (simp add: chunk_expired_def word_sless_alt)
  then show ?thesis by (simp add: DeleteExpiredChunks_eq)
qed

theorem huge_chunk_lifetime_purged_witness:
  "MemoryStore_DeleteExpiredChunks (ex_env []) (ex_store2\<lparr>chunks := [ex_chunk\<lparr>ce_TTL := 9223372036854775807\<rparr>]\<rparr>) =
     (Inr 1, ex_store2\<lparr>chunks := []\<rparr>)"
  by (rule huge_chunk_lifetime_purged) (simp_all add: ex_chunk_def)

text \<open>C11. A call that returns an error leaves the whole store as it was.\<close>

theorem failed_calls_change_nothing:
  assumes "mem_fails E c s = Some e"
  shows "mem_apply E c s = s"
  using assms by (rule mem_fails_same)

theorem failed_calls_change_nothing_witness:
  "mem_apply (ex_env []) (OpHeartbeat ''eve'' 5) ex_store2 = ex_store2"
  by (rule failed_calls_change_nothing [where e = ErrNotFound])
    (simp add: MemoryStore_Heartbeat_def ex_store2_eq)

text \<open>C12. Over any sequence of calls from the empty store, the signals a peer has polled so far,
  followed by those still waiting for it, are exactly the signals accepted for it, in the
  order in which they were accepted: none is lost, repeated or reordered.\<close>

theorem signals_delivered_in_order:
  "outputs mem_call (mem_takes k) cs NewMemory @ at (signals (fold mem_call cs NewMemory)) k =
   outputs mem_call (mem_puts k) cs NewMemory"
  using mem_signals.fifo [of k cs NewMemory] by (simp add: NewMemory_def at_def)

end
