(* ===== verification/Signaling_Properties.thy ===== *)
theory Signaling_Properties
  imports Signaling Chunk_Properties
begin

text \<open>
  Properties of the websocket relay. What it relies on in the store is the interface
  \<open>signal_store\<close>: a stored signal is appended to the box of its peer, a poll empties it, a
  failed call changes nothing. The relay's lemmas are proved once from these laws; the
  in-memory store provides them.
\<close>

definition signal_message :: "Signal \<Rightarrow> ws_message" where
  "signal_message sig = MNotification \<lparr>nt_Method = rpcNotifyIncomingSignal,
     nt_Params = \<lparr>in_From = sig_From sig, in_Type = sig_Type sig, in_Data = sig_Data sig\<rparr>\<rparr>"

definition result_message :: "string \<Rightarrow> ws_message" where
  "result_message reqID = MResponse \<lparr>rs_ID = reqID, rs_Result = ''{}'', rs_Error = []\<rparr>"

definition error_message :: "string \<Rightarrow> string \<Rightarrow> ws_message" where
  "error_message reqID msg = MResponse \<lparr>rs_ID = reqID, rs_Result = [], rs_Error = msg\<rparr>"

text \<open>What an answer to a peer adds to the written messages.\<close>

definition answer :: "bool \<Rightarrow> string \<Rightarrow> ws_message \<Rightarrow> 's Handler \<Rightarrow> (nat \<times> ws_message) list" where
  "answer ok peerID msg h = (case wsConns h peerID of Some c \<Rightarrow> if ok then [(c, msg)] else [] | None \<Rightarrow> [])"

lemma sendResult_eq: "sendResult ok p i h = h\<lparr>written := written h @ answer ok p (result_message i) h\<rparr>"
  by (auto simp: sendResult_def answer_def WriteMessage_def result_message_def split: option.split)

lemma sendError_eq: "sendError ok p i m h = h\<lparr>written := written h @ answer ok p (error_message i m) h\<rparr>"
  by (auto simp: sendError_def answer_def WriteMessage_def error_message_def split: option.split)

lemma write_signals_eq:
  "write_signals w k c sigs h =
     h\<lparr>written := written h @ map (\<lambda>(j, sig). (c, signal_message sig))
        (filter (\<lambda>(j, sig). w j) (enumerate k sigs))\<rparr>"
  by (induction sigs arbitrary: k h)
    (auto simp: WriteMessage_def signal_message_def rpcNotifyIncomingSignal_def)

lemma answer_frame [simp]:
  "answer ok p m (h\<lparr>hstore := s\<rparr>) = answer ok p m h" "answer ok p m (h\<lparr>written := x\<rparr>) = answer ok p m h"
  by (simp_all add: answer_def)

locale signal_store =
  fixes st :: "'s Store"
    and box :: "'s \<Rightarrow> string \<Rightarrow> Signal list"
  assumes set_ok: "SetSignal st E k sig s = (Inr u, s') \<Longrightarrow>
      box s' k' = (if TrimSpace k' = TrimSpace k then box s k' @ [sig] else box s k')"
    and set_fail: "SetSignal st E k sig s = (Inl e, s') \<Longrightarrow> s' = s"
    and poll_ok: "PollSignals st E k s = (Inr sigs, s') \<Longrightarrow>
      sigs = box s k \<and> box s' k' = (if TrimSpace k' = TrimSpace k then [] else box s k')"
    and poll_fail: "PollSignals st E k s = (Inl e, s') \<Longrightarrow> s' = s"
begin

lemma deliver_live:
  assumes "wsConns h t = Some c" and "w 0"
  shows "deliver st E w p i t sig h =
    h\<lparr>written := written h @ (c, signal_message sig) # answer (w 1) p (result_message i) h\<rparr>"
  using assms by (simp add: deliver_def sendNotification_def WriteMessage_def sendResult_eq signal_message_def)

lemma deliver_stored:
  assumes "wsConns h t = None \<or> \<not> w 0" and "SetSignal st E t sig (hstore h) = (Inr u, s')"
  shows "deliver st E w p i t sig h =
    h\<lparr>hstore := s', written := written h @ answer (w 1) p (result_message i) h\<rparr>"
  using assms
  by (cases "wsConns h t")
    (auto simp: deliver_def sendNotification_def WriteMessage_def store_signal_def sendResult_eq)

lemma deliver_refused:
  assumes "wsConns h t = None \<or> \<not> w 0" and "SetSignal st E t sig (hstore h) = (Inl e, s')"
  shows "deliver st E w p i t sig h =
    h\<lparr>written := written h @ answer (w 1) p (error_message i (''store signal: '' @ error_text e)) h\<rparr>"
  using assms set_fail [OF assms(2)]
  by (cases "wsConns h t")
    (auto simp: deliver_def sendNotification_def WriteMessage_def store_signal_def sendError_eq)

lemma deliver_outcome:
  assumes "h' = deliver st E w p i t sig h"
  shows "wsConns h' = wsConns h \<and>
    ((\<exists>c. wsConns h t = Some c \<and> w 0 \<and> hstore h' = hstore h \<and>
        written h' = written h @ (c, signal_message sig) # answer (w 1) p (result_message i) h) \<or>
     (wsConns h t = None \<or> \<not> w 0) \<and>
        (\<forall>k. box (hstore h') k = box (hstore h) k @ (if TrimSpace k = TrimSpace t then [sig] else [])) \<and>
        written h' = written h @ answer (w 1) p (result_message i) h \<or>
     (wsConns h t = None \<or> \<not> w 0) \<and> hstore h' = hstore h \<and>
        (\<exists>msg. written h' = written h @ answer (w 1) p (error_message i msg) h))"
proof (cases "wsConns h t = None \<or> \<not> w 0")
  case False
  then show ?thesis using assms deliver_live [of h t _ w E p i sig] by auto
next
  case True
  show ?thesis
  proof (cases "SetSignal st E t sig (hstore h)")
    case (Pair r s')
    show ?thesis
    proof (cases r)
      case (Inl e)
      then show ?thesis using True assms Pair deliver_refused [of h t w E sig e s' p i] by auto
    next
      case (Inr u)
      then show ?thesis using True assms Pair deliver_stored [of h t w E sig u s' p i] set_ok [of E t sig "hstore h"]
        by auto
    qed
  qed
qed

lemma flush_eq:
  assumes "PollSignals st E p (hstore h) = (Inr sigs, s')"
  shows "written (ws_flush st E w p c h) =
      written h @ map (\<lambda>(j, sig). (c, signal_message sig)) (filter (\<lambda>(j, sig). w j) (enumerate 0 (box (hstore h) p)))"
    and "box (hstore (ws_flush st E w p c h)) p = []"
  using assms poll_ok [OF assms] by (simp_all add: ws_flush_def write_signals_eq)

end

definition waiting :: "MemoryStore \<Rightarrow> string \<Rightarrow> Signal list" where
  "waiting s k = at (signals s) (TrimSpace k)"

interpretation mem_relay: signal_store memory_store waiting
  by unfold_locales
    (auto simp: memory_store_def waiting_def MemoryStore_SetSignal_def MemoryStore_PollSignals_def at_upd at_del
      split: option.splits if_splits)

subsection \<open>Properties\<close>

text \<open>C19. A relayed signal is written to the target's connection, or, when there is none or the
  write fails, appended to the signals waiting for the target, or refused; the caller is
  answered with a result in the first two cases and with an error in the third, in which
  neither the store nor the target sees anything.\<close>

theorem relay_outcome:
  assumes "h' = deliver memory_store E w p i t sig h"
  shows "wsConns h' = wsConns h \<and>
    ((\<exists>c. wsConns h t = Some c \<and> w 0 \<and> hstore h' = hstore h \<and>
        written h' = written h @ (c, signal_message sig) # answer (w 1) p (result_message i) h) \<or>
     (wsConns h t = None \<or> \<not> w 0) \<and>
        (\<forall>k. waiting (hstore h') k = waiting (hstore h) k @ (if TrimSpace k = TrimSpace t then [sig] else [])) \<and>
        written h' = written h @ answer (w 1) p (result_message i) h \<or>
     (wsConns h t = None \<or> \<not> w 0) \<and> hstore h' = hstore h \<and>
        (\<exists>msg. written h' = written h @ answer (w 1) p (error_message i msg) h))"
  using assms by (rule mem_relay.deliver_outcome)

definition ex_signal :: Signal where
  "ex_signal = \<lparr>sig_From = ''ann'', sig_Type = ''offer'', sig_Data = ''sdp''\<rparr>"

theorem relay_outcome_witness:
  "wsConns (deliver memory_store (ex_env []) (\<lambda>_. True) ''ann'' ''1'' ''bob'' ex_signal (ws_register ''bob'' 7 (NewHandler ex_store2))) =
     [''bob'' \<mapsto> 7]"
  using relay_outcome [OF refl, of "ex_env []" "\<lambda>_. True" "''ann''" "''1''" "''bob''" ex_signal
      "ws_register ''bob'' 7 (NewHandler ex_store2)"]
  by (simp add: ws_register_def NewHandler_def)

text \<open>C20. A peer that connects gets all signals waiting for it, in their order, and none waits any
  longer, as long as the writes succeed.\<close>

theorem connect_flushes_waiting:
  assumes "TrimSpace p \<noteq> []" and "h' = ws_flush memory_store E (\<lambda>_. True) p c (ws_register p c h)"
  shows "written h' = written h @ map (\<lambda>sig. (c, signal_message sig)) (waiting (hstore h) p) \<and>
    waiting (hstore h') p = [] \<and> wsConns h' p = Some c"
proof -
  obtain sigs s' where poll: "PollSignals memory_store E p (hstore (ws_register p c h)) = (Inr sigs, s')"
    using assms(1) by (simp add: memory_store_def MemoryStore_PollSignals_def)
  have "map (\<lambda>(j, sig). (c, signal_message sig)) (enumerate 0 xs) = map (\<lambda>sig. (c, signal_message sig)) xs" for xs
    by (rule nth_equalityI) (simp_all add: nth_enumerate_eq)
  then show ?thesis
    using mem_relay.flush_eq [OF poll, of "\<lambda>_. True" c] assms(2) poll
    by (simp add: ws_register_def case_prod_unfold ws_flush_def write_signals_eq)
qed

theorem connect_flushes_waiting_witness:
  "waiting (hstore (ws_flush memory_store (ex_env []) (\<lambda>_. True) ''bob'' 7
     (ws_register ''bob'' 7 (NewHandler ex_store2)))) ''bob'' = []"
  using connect_flushes_waiting [of "''bob''", OF _ refl] by simp

text \<open>When the writes to a new connection fail, the waiting signals are gone: they were taken
  out of the store before they were written.\<close>

theorem failed_flush_loses_signals:
  assumes "TrimSpace p \<noteq> []" and "h' = ws_flush memory_store E (\<lambda>_. False) p c h"
  shows "written h' = written h \<and> waiting (hstore h') p = []"
proof -
  obtain sigs s' where poll: "PollSignals memory_store E p (hstore h) = (Inr sigs, s')"
    using assms(1) by (simp add: memory_store_def MemoryStore_PollSignals_def)
  show ?thesis using mem_relay.flush_eq [OF poll, of "\<lambda>_. False" c] assms(2) by (simp add: case_prod_unfold)
qed

theorem failed_flush_loses_signals_witness:
  "waiting (snd (MemoryStore_SetSignal ''bob'' ex_signal ex_store2)) ''bob'' = [ex_signal] \<and>
   waiting (hstore (ws_flush memory_store (ex_env []) (\<lambda>_. False) ''bob'' 7
     (NewHandler (snd (MemoryStore_SetSignal ''bob'' ex_signal ex_store2))))) ''bob'' = []"
  using failed_flush_loses_signals [of "''bob''", OF _ refl, of "ex_env []" 7
      "NewHandler (snd (MemoryStore_SetSignal ''bob'' ex_signal ex_store2))"]
  by (simp add: MemoryStore_SetSignal_def ex_signal_def waiting_def ex_store2_eq at_def)

text \<open>When a peer reconnects and its old connection then closes, the close deletes the entry of
  the new connection: no later signal is written to the new connection, although it is open.\<close>

theorem stale_close_disconnects:
  assumes "h' = ws_close p (ws_register p new (ws_register p old h))"
    and "h'' = deliver memory_store E w q i p sig h'" and "wsConns h' q \<noteq> Some new"
  shows "wsConns h' p = None \<and> (\<forall>m. (new, m) \<in> set (written h'') \<longrightarrow> (new, m) \<in> set (written h))"
proof -
  have none: "wsConns h' p = None" and wr: "written h' = written h"
    using assms(1) by (simp_all add: ws_close_def ws_register_def)
  then obtain msg where "written h'' = written h' @ answer (w 1) q msg h'"
    using mem_relay.deliver_outcome [OF assms(2)] by fastforce
  then show ?thesis using none wr assms(3) by (auto simp: answer_def split: option.splits if_splits)
qed

theorem stale_close_disconnects_witness:
  "wsConns (ws_close ''bob'' (ws_register ''bob'' 2 (ws_register ''bob'' 1 (NewHandler ex_store2)))) ''bob'' = None"
  using stale_close_disconnects [OF refl refl, of "''bob''" 2 1 "NewHandler ex_store2" "''ann''"]
  by (simp add: ws_close_def ws_register_def NewHandler_def)

text \<open>A relay that found its target offline and is overtaken by the target's connecting stores
  the signal after the target has polled: the target is connected, is not told, and the
  signal stays waiting.\<close>

theorem overtaken_relay_is_not_delivered:
  assumes "peers (hstore h) t \<noteq> None" and "TrimSpace t = t" and "t \<noteq> []"
    and "sig_From sig \<noteq> []" and "sig_Type sig \<noteq> []" and "wsConns h t = None" and "q \<noteq> t" and "wsConns h q \<noteq> Some c"
    and "sendNotification True t rpcNotifyIncomingSignal params h = (sent, h1)"
    and "h2 = ws_flush memory_store E (\<lambda>_. True) t c (ws_register t c h1)"
    and "h3 = store_signal memory_store E ok q i t sig h2"
  shows "\<not> sent \<and> wsConns h3 t = Some c \<and> waiting (hstore h3) t = [sig] \<and>
    (\<forall>m. (c, m) \<in> set (written h3) \<longrightarrow> (c, m) \<in> set (written h2))"
proof -
  have 1: "\<not> sent" "h1 = h" using assms(6,9) by (auto simp: sendNotification_def)
  have 2: "waiting (hstore h2) t = []" "wsConns h2 = (wsConns h)(t \<mapsto> c)" "peers (hstore h2) = peers (hstore h)"
    using assms(2,3,10) 1
    by (simp_all add: ws_flush_def ws_register_def memory_store_def MemoryStore_PollSignals_def write_signals_eq
        waiting_def at_del)
  obtain s' where set: "SetSignal memory_store E t sig (hstore h2) = (Inr (), s')"
    using assms(1-5) 2 by (auto simp: memory_store_def MemoryStore_SetSignal_def)
  then have "h3 = h2\<lparr>hstore := s', written := written h2 @ answer ok q (result_message i) h2\<rparr>"
    using assms(11) by (simp add: store_signal_def sendResult_eq)
  then show ?thesis
    using mem_relay.set_ok [OF set, of t] 1 2 assms(7,8)
    by (auto simp: answer_def split: option.splits if_splits)
qed

theorem overtaken_relay_is_not_delivered_witness:
  "waiting (hstore (store_signal memory_store (ex_env []) True ''ann'' ''1'' ''bob'' ex_signal
     (ws_flush memory_store (ex_env []) (\<lambda>_. True) ''bob'' 7 (ws_register ''bob'' 7 (NewHandler ex_store2))))) ''bob'' = [ex_signal]"
proof -
  have "sendNotification True ''bob'' rpcNotifyIncomingSignal params (NewHandler ex_store2) = (False, NewHandler ex_store2)"
    for params by (simp add: sendNotification_def NewHandler_def)
  from overtaken_relay_is_not_delivered [OF _ _ _ _ _ _ _ _ this refl refl, of ex_signal "''ann''" 7 "ex_env []" True "''1''"]
  show ?thesis by (simp add: ex_signal_def NewHandler_def ex_store2_eq)
qed

end
