(* ===== verification/Server_Properties.thy ===== *)
theory Server_Properties
  imports Server_Library Signaling_Properties
begin

text \<open>
  Properties of the HTTP layer and of the whole server over the in-memory store: which states
  it reaches, what an error response means, how a batch fails, which status an error gets and
  how requests are routed.
\<close>

subsection \<open>The server as a transition system\<close>

text \<open>
  The steps of a running server over the in-memory store: a request, a tick of the cleaner,
  and the steps of the websocket connections, in any order and with any outside.
\<close>

inductive server_step :: "MemoryStore Handler \<Rightarrow> MemoryStore Handler \<Rightarrow> bool" where
  http: "\<forall>i. scan_ok (E i) (hstore h) \<Longrightarrow> serve memory_store J E m path q b (hstore h) = (resp, s') \<Longrightarrow>
    server_step h (h\<lparr>hstore := s'\<rparr>)"
| tick: "scan_ok E (hstore h) \<Longrightarrow> cleaner_runs interval \<Longrightarrow>
    server_step h (h\<lparr>hstore := cleaner_tick memory_store E (hstore h)\<rparr>)"
| ws_open: "server_step h (ws_register p c h)"
| ws_poll: "scan_ok E (hstore h) \<Longrightarrow> server_step h (ws_flush memory_store E w p c h)"
| ws_message: "scan_ok E (hstore h) \<Longrightarrow> server_step h (handleMessage memory_store JR E w p data h)"
| ws_end: "server_step h (ws_close p h)"
| shutdown: "server_step h (CloseAll h)"

inductive server_reach :: "MemoryStore Handler \<Rightarrow> bool" where
  init: "server_reach (NewHandler NewMemory)"
| more: "server_reach h \<Longrightarrow> server_step h h' \<Longrightarrow> server_reach h'"

lemma serve_steps:
  assumes "mem_inv s" and "\<forall>i. scan_ok (E i) s"
  shows "mem_steps s (snd (serve memory_store J E m path q b s))"
  using dispatch_steps [OF assms] by (auto simp: serve_def split: routed.split)

lemma hstore_deliver:
  assumes "scan_ok E (hstore h)"
  shows "mem_steps (hstore h) (hstore (deliver memory_store E w p i t sig h))"
proof (cases "wsConns h t = None \<or> \<not> w 0")
  case False
  then show ?thesis by (auto simp: mem_relay.deliver_live)
next
  case True
  obtain r s' where set: "SetSignal memory_store E t sig (hstore h) = (r, s')" by (rule prod.exhaust)
  then have "mem_steps (hstore h) s'"
    using mem_steps_calls(9) [OF assms, of t sig] by (simp add: memory_store_def)
  then show ?thesis using set True mem_relay.deliver_stored mem_relay.deliver_refused by (cases r) auto
qed

lemma hstore_handleMessage:
  assumes "scan_ok E (hstore h)"
  shows "mem_steps (hstore h) (hstore (handleMessage memory_store J E w p data h))"
  using hstore_deliver [OF assms]
  by (auto simp: handleMessage_def handleSignalRelay_def handleConnectToPeer_def sendError_eq case_prod_unfold)

lemma hstore_flush:
  assumes "scan_ok E (hstore h)"
  shows "mem_steps (hstore h) (hstore (ws_flush memory_store E w p c h))"
  using mem_steps_calls(10) [OF assms, of p]
  by (auto simp: ws_flush_def write_signals_eq memory_store_def case_prod_unfold split: sum.split)

lemma server_step_steps:
  assumes "mem_inv (hstore h)" and "server_step h h'"
  shows "mem_steps (hstore h) (hstore h')"
  using assms(2)
proof cases
  case (http E J m path q b resp s')
  then show ?thesis using serve_steps [OF assms(1) http(2), of J m path q b] by simp
next
  case (tick E interval)
  then show ?thesis using mem_steps_calls(11) by (simp add: cleaner_tick_def memory_store_def)
qed (auto simp: ws_register_def ws_close_def CloseAll_def intro: hstore_flush hstore_handleMessage)

lemma mem_reach_steps: "mem_steps s s' \<Longrightarrow> mem_reach (\<lambda>_. True) s \<Longrightarrow> mem_reach (\<lambda>_. True) s'"
  by (induction rule: rtranclp_induct) (auto intro: mem_reach.more)

subsection \<open>Properties\<close>




definition ex_batch_entry :: RegisterChunkBatchEntry where
  "ex_batch_entry =
     \<lparr>rb_ChunkIndex = 0, rb_SenderID = rc_SenderID ex_chunk_request, rb_RecipientID = rc_RecipientID ex_chunk_request,
      rb_Hash = ex_hash, rb_Signature = ex_sig (CHR ''a''), rb_PeerID = ''bob'', rb_Persist = False, rb_TTL = 60\<rparr>"

definition ex_codec :: codec where
  "ex_codec =
     \<lparr>dec_register = (\<lambda>_. (ex_register ''ann'' (CHR ''a''), True)),
      dec_refresh = (\<lambda>_. (\<lparr>ref_ID = ''ann'', ref_Login = ''ann'', ref_SignatureKey = ''key''\<rparr>, True)),
      dec_ttl = (\<lambda>_. (0, True)), dec_chunk = (\<lambda>_. (ex_chunk_request, True)),
      dec_chunk_batch = (\<lambda>_. (\<lparr>rb_Chunks = [ex_batch_entry, ex_batch_entry\<lparr>rb_ChunkIndex := -1\<rparr>]\<rparr>, True)),
      dec_report = (\<lambda>_. (ex_report, True)), dec_confirm = (\<lambda>_. (ex_confirm, True)),
      dec_confirm_batch = (\<lambda>_. (\<lparr>cb_RecipientID = ''bob'', cb_Chunks = []\<rparr>, True)),
      dec_read = (\<lambda>_. (ex_read, True)), dec_signal = (\<lambda>_. (ex_signal, True))\<rparr>"

lemmas route_eval = route_def find_route_def candidates_def routes_def List.map_filter_simps lit_step_def wild_step_def


lemma batch_loop_prefix:
  assumes "\<And>E e. unchanged_on_error (f E e)" and "batch_loop f E i es s = (Some err, s')"
  shows "\<exists>k < length es. batch_loop f E i (take k es) s = (None, s') \<and> fst (f (E (i + k)) (es ! k) s') = Inl err"
  using assms(2)
proof (induction es arbitrary: i s)
  case (Cons e es)
  obtain r t where f: "f (E i) e s = (r, t)" by (rule prod.exhaust)
  show ?case
  proof (cases r)
    case (Inl e')
    then have "t = s" using assms(1) f unfolding unchanged_on_error_def by blast
    then show ?thesis using Cons.prems f Inl by (intro exI [of _ 0]) auto
  next
    case (Inr v)
    then have "batch_loop f E (Suc i) es t = (Some err, s')" using Cons.prems f by simp
    from Cons.IH [OF this] obtain k where "k < length es"
      "batch_loop f E (Suc i) (take k es) t = (None, s')" "fst (f (E (Suc i + k)) (es ! k) s') = Inl err" by blast
    then show ?thesis using f Inr by (intro exI [of _ "Suc k"]) simp
  qed
qed simp

lemma batch_reply_cases:
  "batch_reply r = (NoContent, s') \<longleftrightarrow> r = (None, s')"
  "batch_reply r = (resp, s') \<Longrightarrow> resp \<noteq> NoContent \<Longrightarrow> \<exists>err. r = (Some err, s') \<and> resp = store_failure err"
proof -
  have "store_failure e \<noteq> NoContent" for e using is_error_store_failure is_error_simps(3) by metis
  then show "batch_reply r = (NoContent, s') \<longleftrightarrow> r = (None, s')"
    "batch_reply r = (resp, s') \<Longrightarrow> resp \<noteq> NoContent \<Longrightarrow> \<exists>err. r = (Some err, s') \<and> resp = store_failure err"
    by (cases r; auto simp: batch_reply_def split: option.splits)+
qed



lemma batch_registers:
  "batch_loop (\<lambda>e entry. MemoryStore_SetChunkHash e f (rb_ChunkIndex entry) (batch_chunk entry)) E i es s = (None, s') \<Longrightarrow>
     chunks s' = chunks s @ map (\<lambda>(j, entry). new_chunk (E j) f (rb_ChunkIndex entry) (batch_chunk entry)) (enumerate i es)"
proof (induction es arbitrary: i s)
  case (Cons entry es)
  then show ?case by (auto simp: SetChunkHash_unfold split: if_splits option.splits)
qed simp

text \<open>The lifetime in a batch entry is ignored: every chunk a batch registers lives one day,
  whatever lifetime its entry asks for.\<close>

theorem batch_ignores_lifetime:
  assumes "dec_chunk_batch J (body r) = (req, True)"
    and "Phonebook_RegisterChunkBatch memory_store J E r s = (NoContent, s')"
  shows "\<exists>new. chunks s' = chunks s @ new \<and> length new = length (rb_Chunks req) \<and> (\<forall>e \<in> set new. ce_TTL e = 86400)"
proof -
  have "batch_loop (\<lambda>e entry. MemoryStore_SetChunkHash e (path_value r ''file_id'') (rb_ChunkIndex entry) (batch_chunk entry))
      E 0 (rb_Chunks req) s = (None, s')"
    using assms by (simp add: Phonebook_RegisterChunkBatch_def memory_store_def batch_reply_cases(1))
  from batch_registers [OF this] show ?thesis
    by (auto simp: new_chunk_def batch_chunk_def defaultChunkTTL_def)
qed

theorem batch_ignores_lifetime_witness:
  "\<exists>new. chunks (snd (Phonebook_RegisterChunkBatch memory_store
       (ex_codec\<lparr>dec_chunk_batch := (\<lambda>_. (\<lparr>rb_Chunks = [ex_batch_entry]\<rparr>, True))\<rparr>) (\<lambda>_. ex_env [''ann'', ''bob''])
       \<lparr>path_value = (\<lambda>_. ''file''), query = (\<lambda>_. []), body = []\<rparr> ex_store2)) = new \<and>
     length new = 1 \<and> rb_TTL ex_batch_entry = 60 \<and> (\<forall>e \<in> set new. ce_TTL e = 86400)"
proof -
  let ?J = "ex_codec\<lparr>dec_chunk_batch := (\<lambda>_. (\<lparr>rb_Chunks = [ex_batch_entry]\<rparr>, True))\<rparr>"
  let ?r = "\<lparr>path_value = (\<lambda>_. ''file''), query = (\<lambda>_. []), body = []\<rparr>"
  let ?res = "Phonebook_RegisterChunkBatch memory_store ?J (\<lambda>_. ex_env [''ann'', ''bob'']) ?r ex_store2"
  have "fst ?res = NoContent"
    by (simp add: Phonebook_RegisterChunkBatch_def memory_store_def SetChunkHash_unfold chunk_request_ok_def
        batch_chunk_def ex_batch_entry_def ex_chunk_request_def ex_store2_eq word_sle_eq batch_reply_def)
  then have n: "?res = (NoContent, snd ?res)" by (metis prod.collapse)
  have d: "dec_chunk_batch ?J (body ?r) = (\<lparr>rb_Chunks = [ex_batch_entry]\<rparr>, True)" by simp
  show ?thesis using batch_ignores_lifetime [OF d n] by (auto simp: ex_store2_eq ex_batch_entry_def)
qed

subsection \<open>Status codes\<close>

fun root_error :: "error \<Rightarrow> error" where
  "root_error (ErrWrap msg e) = root_error e"
| "root_error e = e"

definition status_of :: "error \<Rightarrow> nat" where
  "status_of e =
     (if e \<in> {ErrNotFound, ErrChunkNotFound} then 404
      else if e \<in> {ErrInvalidPeer, ErrInvalidKey, ErrKeyTaken, ErrInvalidChunk, ErrNoSigningKey} then 400
      else if e = ErrInvalidSignature then 401 else 500)"

lemma errors_Is_root:
  assumes "\<And>msg e'. target \<noteq> ErrWrap msg e'"
  shows "errors_Is e target \<longleftrightarrow> root_error e = target"
  using assms by (induction e) auto

text \<open>The status of an error response is that of the innermost error, however deeply it is
  wrapped, and the text of an error that is not one of the store's own is never sent.\<close>

theorem error_status:
  "writeStoreError e =
     Response (status_of (root_error e))
       (Some (PError (if status_of (root_error e) = 500 then ''internal error'' else error_text e)))"
  by (simp add: writeStoreError_def errors_Is_root status_of_def writeError_def writeJSON_def)

subsection \<open>Routing\<close>

lemma lit_step_bindings: "(p, b, e) \<in> set (lit_step x cs) \<Longrightarrow> \<exists>p'. (p', b, e) \<in> set cs"
  by (induction cs) (auto simp: lit_step_def List.map_filter_simps split: list.splits segment.splits if_splits option.splits)

lemma wild_step_bindings:
  "(p, b, e) \<in> set (wild_step x cs) \<Longrightarrow> \<exists>p' n b'. (p', b', e) \<in> set cs \<and> b = b' @ [(n, x)]"
  by (induction cs) (fastforce simp: wild_step_def List.map_filter_simps split: list.splits segment.splits option.splits)+

lemma match_path_values:
  assumes "match_path cs xs = Some (e, b)" and "\<And>p b e n v. (p, b, e) \<in> set cs \<Longrightarrow> (n, v) \<in> set b \<Longrightarrow> v \<noteq> []"
    and "(n, v) \<in> set b"
  shows "v \<noteq> []"
  using assms
proof (induction cs xs arbitrary: e b n v rule: match_path.induct)
  case (1 cs)
  then obtain p rest where "filter (\<lambda>(p, b, e). p = []) cs = (p, b, e) # rest" by (auto split: list.splits)
  then have "(p, b, e) \<in> set cs" by (metis filter_is_subset list.set_intros(1) subsetD)
  then show ?case using 1 by blast
next
  case (2 cs x xs)
  show ?case
  proof (cases "match_path (lit_step x cs) xs")
    case None
    then have w: "x \<noteq> []" "match_path (wild_step x cs) xs = Some (e, b)"
      using "2.prems"(1) by (simp_all split: if_splits)
    have "v' \<noteq> []" if in_wild: "(p, b', e') \<in> set (wild_step x cs)" "(n', v') \<in> set b'" for p b' e' n' v'
    proof -
      obtain p' m b'' where c: "(p', b'', e') \<in> set cs" "b' = b'' @ [(m, x)]"
        using wild_step_bindings [OF in_wild(1)] by blast
      then have "(n', v') \<in> set b'' \<or> v' = x" using in_wild(2) by auto
      then show ?thesis using c(1) "2.prems"(2) w(1) by blast
    qed
    then show ?thesis using "2.IH"(2) [OF None w] "2.prems"(3) by blast
  next
    case (Some r)
    then have "match_path (lit_step x cs) xs = Some (e, b)" using "2.prems"(1) by simp
    moreover have "v' \<noteq> []" if in_lit: "(p, b', e') \<in> set (lit_step x cs)" "(n', v') \<in> set b'" for p b' e' n' v'
      using lit_step_bindings [OF in_lit(1)] in_lit(2) "2.prems"(2) by blast
    ultimately show ?thesis using "2.IH"(1) "2.prems"(3) by blast
  qed
qed

lemma candidates_bindings: "(p, b, e) \<in> set (candidates m) \<Longrightarrow> b = []"
  by (auto simp: candidates_def List.map_filter_def split: if_splits)

text \<open>Every path value a handler gets through the router is a non-empty string, so the
  handlers' checks for an empty id, login or file id never fire on routed requests.\<close>

theorem routed_values_nonempty:
  assumes "route m path = Handled e b" and "(n, v) \<in> set b"
  shows "v \<noteq> []"
proof -
  have "\<exists>m'. match_path (candidates m') path = Some (e, b)"
    using assms(1) by (auto simp: route_def find_route_def split: option.splits if_splits)
  then show ?thesis using match_path_values assms(2) candidates_bindings by (metis empty_iff empty_set)
qed

theorem routed_values_nonempty_witness: "''ann'' \<noteq> ([] :: string)"
  by (rule routed_values_nonempty [of "''GET''" "[''api'', ''v1'', ''peers'', ''ann'']" EGet "[(''id'', ''ann'')]" "''id''"])
    (simp_all add: route_eval)

text \<open>A request for one peer reaches the handler of that peer with its id, except for the id
  best: that path belongs to the ranking, so a peer with this id cannot be fetched.\<close>

theorem peer_route:
  assumes "i \<noteq> []"
  shows "route ''GET'' [''api'', ''v1'', ''peers'', i] =
      (if i = ''best'' then Handled EGetBestPeers [] else Handled EGet [(''id'', i)]) \<and>
    route ''DELETE'' [''api'', ''v1'', ''peers'', i] = Handled EDelete [(''id'', i)] \<and>
    route ''POST'' [''api'', ''v1'', ''peers'', i, ''heartbeat''] = Handled EHeartbeat [(''id'', i)]"
  using assms by (simp add: route_eval)

theorem peer_route_witness: "route ''GET'' [''api'', ''v1'', ''peers'', ''best''] = Handled EGetBestPeers []"
  using peer_route [of "''best''"] by simp

subsection \<open>Start-up\<close>

text \<open>The in-memory store is used exactly when the driver variable is the word internal; every
  other value than postgres, the empty one included, opens an SQLite database.\<close>

theorem store_choice_iff:
  "main_store getenv =
     (if getenv ''MUNINN_STORE_DRIVER'' = ''internal'' then UseMemory
      else if getenv ''MUNINN_STORE_DRIVER'' = ''postgres'' then UseDB ''postgres'' (getenv ''MUNINN_STORE_DSN'')
      else UseDB ''sqlite'' (getenv ''MUNINN_STORE_DSN''))"
  by (simp add: main_store_def)

end
