(* ===== verification/DB_Server.thy ===== *)
theory DB_Server
  imports DB_Refinement Server_Properties
begin

text \<open>
  The server over any store: what every call of a store keeps, every request, cleaner tick and
  websocket step keeps. The contract is the locale \<open>invariant_store\<close>; it is interpreted on the
  in-memory store with its invariant, and on the SQL store with the invariant of its tables and
  with what holds under the driver name \<^verbatim>\<open>postgres\<close>.
\<close>

subsection \<open>The running server\<close>

inductive serving :: "'s Store \<Rightarrow> 's Handler \<Rightarrow> 's Handler \<Rightarrow> bool" for st where
  http: "serving st h (h\<lparr>hstore := snd (serve st J E m path q b (hstore h))\<rparr>)"
| tick: "cleaner_runs interval \<Longrightarrow> serving st h (h\<lparr>hstore := cleaner_tick st E (hstore h)\<rparr>)"
| ws_open: "serving st h (ws_register p c h)"
| ws_poll: "serving st h (ws_flush st E w p c h)"
| ws_message: "serving st h (handleMessage st JR E w p data h)"
| ws_end: "serving st h (ws_close p h)"
| shutdown: "serving st h (CloseAll h)"

inductive_cases servingE: "serving st h h'"

lemma hstore_WriteMessage [simp]: "hstore (WriteMessage w c msg h) = hstore h"
  by (simp add: WriteMessage_def)

lemma hstore_sends [simp]:
  "hstore (snd (sendNotification w p m v h)) = hstore h" "hstore (sendResult w p i h) = hstore h"
  "hstore (sendError w p i m h) = hstore h"
  by (auto simp: sendNotification_def sendResult_def sendError_def split: option.split)

lemma hstore_write_signals [simp]: "hstore (write_signals w k c sigs h) = hstore h"
  by (induction sigs arbitrary: k h) (simp_all add: Let_def)

locale invariant_store = query_store st for st :: "'s Store" +
  fixes I :: "'s \<Rightarrow> bool"
  assumes keeps: "I s \<Longrightarrow> I (store_apply st E c s)"
begin

lemma keeps_calls:
  assumes "I s"
  shows "I (snd (Upsert st E reg s))" "I (snd (Refresh st E ref s))" "I (snd (Delete st E i s))"
    "I (snd (Heartbeat st E i ttl s))" "I (snd (SetChunkHash st E f n rc s))" "I (snd (ReportChunk st E i rep s))"
    "I (snd (ConfirmChunk st E cc s))" "I (snd (ReadChunk st E rd s))" "I (snd (SetSignal st E i sig s))"
    "I (snd (PollSignals st E i s))" "I (snd (DeleteExpiredChunks st E s))"
  using keeps [OF assms, of E "OpUpsert reg"] keeps [OF assms, of E "OpRefresh ref"]
    keeps [OF assms, of E "OpDelete i"] keeps [OF assms, of E "OpHeartbeat i ttl"]
    keeps [OF assms, of E "OpSetChunkHash f n rc"] keeps [OF assms, of E "OpReportChunk i rep"]
    keeps [OF assms, of E "OpConfirmChunk cc"] keeps [OF assms, of E "OpReadChunk rd"]
    keeps [OF assms, of E "OpSetSignal i sig"] keeps [OF assms, of E "OpPollSignals i"]
    keeps [OF assms, of E OpDeleteExpiredChunks]
  by simp_all

lemma batch_keeps:
  assumes "\<And>E e s. I s \<Longrightarrow> I (snd (f E e s))" and "I s"
  shows "I (snd (batch_loop f E i es s))"
  using assms(2)
proof (induction es arbitrary: i s)
  case (Cons e es)
  have "I (snd (f (E i) e s))" using assms(1) Cons.prems by blast
  with Cons.IH show ?case by (auto split: prod.split sum.split)
qed simp

lemma dispatch_keeps:
  assumes "I s"
  shows "I (snd (dispatch e st J E r s))"
proof (cases "query_endpoint e")
  case True
  then show ?thesis using assms by (simp add: query_unchanged)
next
  case False
  note calls = keeps_calls [OF assms]
  have "I (snd (batch_loop (\<lambda>E en. SetChunkHash st E f (rb_ChunkIndex en) (batch_chunk en)) E 0 es s))" for f es
    by (rule batch_keeps [OF _ assms]) (rule keeps_calls)
  moreover have "I (snd (batch_loop (\<lambda>E en. ConfirmChunk st E (batch_confirm k en)) E 0 es s))" for k es
    by (rule batch_keeps [OF _ assms]) (rule keeps_calls)
  ultimately show ?thesis using False assms calls
    by (cases e)
      (simp_all add: query_endpoint_def handler_defs Phonebook_RegisterChunkBatch_def
        Phonebook_ConfirmChunkBatch_def batch_reply_def case_prod_unfold split: option.split)
qed

lemma deliver_keeps: "I (hstore h) \<Longrightarrow> I (hstore (deliver st E w p i t sig h))"
  using keeps_calls(9) [of "hstore h" E t sig]
  by (auto simp: deliver_def store_signal_def case_prod_unfold split: option.split sum.split)

lemma handleMessage_keeps: "I (hstore h) \<Longrightarrow> I (hstore (handleMessage st JR E w p data h))"
  using deliver_keeps [of h E]
  by (auto simp: handleMessage_def handleSignalRelay_def handleConnectToPeer_def case_prod_unfold)

lemma ws_flush_keeps: "I (hstore h) \<Longrightarrow> I (hstore (ws_flush st E w p c h))"
  using keeps_calls(10) [of "hstore h" E p]
  by (auto simp: ws_flush_def case_prod_unfold split: sum.split)

lemma serving_keeps:
  assumes "serving st h h'" and "I (hstore h)"
  shows "I (hstore h')"
  using assms
  by (cases rule: servingE)
    (auto simp: serve_def cleaner_tick_def ws_register_def ws_close_def CloseAll_def dispatch_keeps
      keeps_calls deliver_keeps handleMessage_keeps ws_flush_keeps split: routed.split)

lemma run_keeps: "(serving st)\<^sup>*\<^sup>* h h' \<Longrightarrow> I (hstore h) \<Longrightarrow> I (hstore h')"
  by (induction rule: rtranclp_induct) (auto intro: serving_keeps)

end

interpretation mem_server: invariant_store memory_store mem_inv
  by unfold_locales (simp add: store_apply_memory mem_apply_inv)

interpretation db_server: invariant_store db_store db_inv
  by unfold_locales (rule db_apply_inv)

subsection \<open>The driver name of a PostgreSQL store\<close>

text \<open>The store keeps the name it was opened with, \<^verbatim>\<open>postgres\<close>, while its statements are chosen
  for the names \<^verbatim>\<open>sqlite\<close> and \<^verbatim>\<open>pgx\<close>.\<close>

definition unmarked :: "dbStore \<Rightarrow> bool" where
  "unmarked s \<longleftrightarrow> driver s = ''postgres'' \<and> list_all (\<lambda>c. c_confirmed c = 0 \<and> c_readed c = 0) (t_chunks s)"

lemma unmarked_frame:
  "unmarked s \<Longrightarrow> driver t = driver s \<Longrightarrow> t_chunks t = t_chunks s \<Longrightarrow> unmarked t"
  by (simp add: unmarked_def)

lemma by_driver_postgres:
  "by_driver E ''postgres'' name v t = stmt E (''empty '' @ name) t"
  by (simp add: by_driver_def)

lemma confirm_postgres:
  assumes "unmarked s"
  shows "unmarked (snd (dbStore_ConfirmChunk E req s))"
proof -
  have u: "unmarked (update_peers P f s)" for P f
    by (rule unmarked_frame [OF assms]) (simp_all add: update_peers_def)
  have "unmarked (snd (confirm_update E req row s))" for row
    using assms u stmt_Inr
    by (auto simp: confirm_update_def unmarked_def [of s] by_driver_postgres split: sum.split dest!: stmt_Inr [THEN iffD1])
  then show ?thesis using assms by (simp add: dbStore_ConfirmChunk_def split: sum.split option.split)
qed

lemma unmarked_calls:
  assumes "unmarked s"
  shows "unmarked (snd (dbStore_Upsert E reg s))" "unmarked (snd (dbStore_Delete E i s))"
    "unmarked (snd (dbStore_Heartbeat E i ttl s))" "unmarked (snd (dbStore_SetChunkHash E f n rc s))"
    "unmarked (snd (dbStore_ReportChunk E i rep s))" "snd (dbStore_ReadChunk E rd s) = s"
    "unmarked (snd (dbStore_SetSignal E i sig s))" "unmarked (snd (dbStore_PollSignals E i s))"
    "snd (dbStore_DeleteExpiredChunks E s) = s"
proof -
  have d: "driver s = ''postgres''" using assms by (simp add: unmarked_def)
  have u: "unmarked (update_peers P f s)" for P f
    by (rule unmarked_frame [OF assms]) (simp_all add: update_peers_def)
  show "unmarked (snd (dbStore_Upsert E reg s))"
    by (rule db_Upsert_cases) (use assms u in \<open>auto simp: upserted_def unmarked_def split: option.split\<close>)
  show "unmarked (snd (dbStore_Delete E i s))"
    using assms by (auto simp: dbStore_Delete_def unmarked_def split: sum.split)
  show "unmarked (snd (dbStore_Heartbeat E i ttl s))"
    using assms u by (auto simp: dbStore_Heartbeat_def split: sum.split)
  show "unmarked (snd (dbStore_SetChunkHash E f n rc s))"
    using assms by (auto simp: dbStore_SetChunkHash_def unmarked_def split: sum.split option.split)
  show "unmarked (snd (dbStore_ReportChunk E i rep s))"
    using assms u db_ReportChunk_effect [of E i rep s] by auto
  show "snd (dbStore_ReadChunk E rd s) = s"
    by (auto simp: dbStore_ReadChunk_def d by_driver_postgres stmt_def split: sum.split option.split)
  show "unmarked (snd (dbStore_SetSignal E i sig s))"
    using assms by (auto simp: dbStore_SetSignal_def unmarked_def split: sum.split)
  show "unmarked (snd (dbStore_PollSignals E i s))"
    using assms by (auto simp: dbStore_PollSignals_def unmarked_def split: sum.split)
  show "snd (dbStore_DeleteExpiredChunks E s) = s"
    by (auto simp: dbStore_DeleteExpiredChunks_def d by_driver_postgres stmt_def split: sum.split option.split)
qed

lemma unmarked_apply: "unmarked s \<Longrightarrow> unmarked (store_apply db_store E c s)"
  by (cases c) (simp_all add: db_store_def unmarked_calls confirm_postgres db_Refresh_same)

interpretation postgres_server: invariant_store db_store unmarked
  by unfold_locales (rule unmarked_apply)

end
