(* ===== verification/DB_Examples.thy ===== *)
theory DB_Examples
  imports DB_Server
begin

text \<open>
  The run of \<open>Memory_Examples\<close> on the SQL store, shared by the witnesses: the same two peers and
  the same chunk, under any driver name.
\<close>

definition ex_row :: "string \<Rightarrow> char \<Rightarrow> peer_row" where
  "ex_row name c =
     \<lparr>r_id = name, r_key = Key (ex_peer name c), r_encryption_key = [], r_signature_key = ex_key c,
      r_last_seen = 1700000000, r_ttl_seconds = 300, r_quality_score = 1000, r_quality_valid = 0,
      r_quality_invalid = 0, r_peer_flag = [], r_is_fake = 0, r_login = name\<rparr>"

definition ex_chunk_row :: chunk_row where
  "ex_chunk_row =
     \<lparr>c_file_id = ''file'', c_chunk_index = 0, c_expected_hash = ex_hash,
      c_sender_id = Key (ex_peer ''ann'' (CHR ''a'')), c_recipient_id = Key (ex_peer ''bob'' (CHR ''b'')),
      c_holder_peer_id = ''bob'', c_persist = 0, c_confirmed = 0, c_readed = 0, c_created_at = 1700000000,
      c_updated_at = 1700000000, c_ttl = 60\<rparr>"

definition ex_db :: "string \<Rightarrow> dbStore" where
  "ex_db d =
     \<lparr>t_peers = [ex_row ''ann'' (CHR ''a''), ex_row ''bob'' (CHR ''b'')], t_chunks = [ex_chunk_row],
      t_signals = [], driver = d\<rparr>"

definition ex_db2 :: "string \<Rightarrow> dbStore" where
  "ex_db2 d = ex_db d\<lparr>t_chunks := []\<rparr>"

lemma ex_new_row [simp]:
  "new_row (ex_env ids) (ex_register ''ann'' c) = ex_row ''ann'' c"
  "new_row (ex_env ids) (ex_register ''bob'' c) = ex_row ''bob'' c"
  by (simp_all add: new_row_def ex_register_def ex_row_def Key_def ex_peer_def defaultTTL_def
      InitialQualityScore_def word_sle_eq)

lemma ex_row_id [simp]: "r_id (ex_row n c) = n" "r_login (ex_row n c) = n" "r_signature_key (ex_row n c) = ex_key c"
  "r_key (ex_row n c) = Key (ex_peer n c)" "r_is_fake (ex_row n c) = 0"
  by (simp_all add: ex_row_def)

lemma ex_no_fault [simp]: "stmt (ex_env ids) name v = Inr v" "fault (ex_env ids) name = None"
  by (simp_all add: stmt_def ex_env_def)

lemma ex_calm: "calm (ex_env ids)"
  by (auto simp: calm_def unix_time_def ex_now_def time_Unix_def)

lemma ex_db_upsert:
  "store_apply db_store (ex_env i) (OpUpsert (ex_register ''ann'' (CHR ''a''))) (EmptyDB d) =
     EmptyDB d\<lparr>t_peers := [ex_row ''ann'' (CHR ''a'')]\<rparr>"
  "store_apply db_store (ex_env i) (OpUpsert (ex_register ''bob'' (CHR ''b'')))
     (EmptyDB d\<lparr>t_peers := [ex_row ''ann'' (CHR ''a'')]\<rparr>) = ex_db2 d"
proof -
  have r: "reg_ID (ex_register n c) = n" for n c by (simp add: ex_register_def)
  show "store_apply db_store (ex_env i) (OpUpsert (ex_register ''ann'' (CHR ''a''))) (EmptyDB d) =
     EmptyDB d\<lparr>t_peers := [ex_row ''ann'' (CHR ''a'')]\<rparr>"
    by (simp add: db_store_def db_Upsert_unfold r upserted_def EmptyDB_def)
  show "store_apply db_store (ex_env i) (OpUpsert (ex_register ''bob'' (CHR ''b'')))
     (EmptyDB d\<lparr>t_peers := [ex_row ''ann'' (CHR ''a'')]\<rparr>) = ex_db2 d"
    by (simp add: db_store_def db_Upsert_unfold r upserted_def EmptyDB_def ex_db2_def ex_db_def)
qed

lemma ex_abs [simp]: "abs_peer (ex_row n c) = ex_peer n c"
  by (simp add: abs_peer_def ex_row_def ex_peer_def unix_time_def ex_now_def)

lemma ex_db2_inv: "db_inv (ex_db2 d)"
  by (auto simp: ex_db2_def ex_db_def db_inv_def row_ok_def ex_row_def Key_def ex_peer_def
      InitialQualityScore_def word_sless_alt)

lemma ex_split [simp]:
  "SplitN2 (Key (ex_peer ''ann'' c)) CHR '':'' = [''ann'', ex_key c]"
  "SplitN2 (Key (ex_peer ''bob'' c)) CHR '':'' = [''bob'', ex_key c]"
  using SplitN2_append [of "CHR '':''" "''ann''" "ex_key c"] SplitN2_append [of "CHR '':''" "''bob''" "ex_key c"]
  by (simp_all add: Key_def ex_peer_def)

lemma ex_scan_peer [simp]: "scan_peer (ex_row n c) = Inr ((ex_peer n c)\<lparr>Login := Key (ex_peer n c)\<rparr>)"
  by (simp add: scan_peer_def ex_row_def ex_peer_def unix_time_def ex_now_def Key_def)

lemma ex_by_key:
  assumes "t_peers s = [ex_row ''ann'' (CHR ''a''), ex_row ''bob'' (CHR ''b'')]"
  shows "getPeerByKey (ex_env ids) tag k (Key (ex_peer ''ann'' (CHR ''a''))) s =
      Inr [(ex_peer ''ann'' (CHR ''a''))\<lparr>Login := Key (ex_peer ''ann'' (CHR ''a''))\<rparr>]"
    "getPeerByKey (ex_env ids) tag k (Key (ex_peer ''bob'' (CHR ''b''))) s =
      Inr [(ex_peer ''bob'' (CHR ''b''))\<lparr>Login := Key (ex_peer ''bob'' (CHR ''b''))\<rparr>]"
  using assms by (simp_all add: getPeerByKey_def peers_of_key_def dbStore_isExpired_eq)

lemma ex_verify_Login [simp]:
  "verifyPeerSignature (ex_env ids) ((ex_peer n c)\<lparr>Login := l\<rparr>) sig msg = verifyPeerSignature (ex_env ids) (ex_peer n c) sig msg"
  by (rule verify_cong) simp

lemma ex_db_chunk:
  "dbStore_SetChunkHash (ex_env ids) ''file'' 0 ex_chunk_request (ex_db2 d) = (Inr (), ex_db d)"
  by (simp add: dbStore_SetChunkHash_def ex_chunk_request_def ex_by_key ex_db2_def ex_db_def ex_chunk_row_def
      sql_bool_def word_sle_eq word_sless_alt valid_hash_nonempty [OF ex_hash_ok(1)])

lemma ex_db_reach: "db_reach d (ex_db d)"
proof -
  have "db_reach d (store_apply db_store (ex_env []) (OpSetChunkHash ''file'' 0 ex_chunk_request)
      (store_apply db_store (ex_env []) (OpUpsert (ex_register ''bob'' (CHR ''b'')))
        (store_apply db_store (ex_env []) (OpUpsert (ex_register ''ann'' (CHR ''a''))) (EmptyDB d))))"
    by (intro db_reach.intros)
  then show ?thesis unfolding ex_db_upsert by (simp add: db_store_def ex_db_chunk)
qed

end
