(* ===== verification/DB_Properties.thy ===== *)
theory DB_Properties
  imports DB_Examples
begin

text \<open>
  Properties of the SQL store: the invariant of its tables under the running server, the
  simulation by the in-memory store, what each call guarantees whatever statements fail, and
  where the SQL store does not do what it means to.
\<close>

subsection \<open>The tables\<close>

text \<open>C4. Whatever requests, websocket steps and cleaner ticks a server over the SQL store goes
  through, with any clock and any failing statements, its tables stay well-formed: peer ids are
  distinct, non-empty and trimmed, the key column is login and signature key joined by a colon,
  lifetimes are positive, the score is the initial score plus valid minus invalid reports, and
  chunks and signals are complete.\<close>

theorem sql_server_well_formed:
  assumes "(serving db_store)\<^sup>*\<^sup>* (NewHandler (EmptyDB d)) h"
  shows "db_inv (hstore h)"
  using assms by (rule db_server.run_keeps) (simp add: NewHandler_def db_inv_EmptyDB)

theorem sql_server_well_formed_witness:
  "db_inv (hstore (ws_register ''ann'' 1 (NewHandler (EmptyDB ''sqlite''))))"
  by (rule sql_server_well_formed) (rule r_into_rtranclp, rule serving.ws_open)

text \<open>Runs of both stores side by side, on the same calls with the same outside.\<close>

inductive paired :: "string \<Rightarrow> dbStore \<Rightarrow> MemoryStore \<Rightarrow> bool" for d where
  init: "paired d (EmptyDB d) NewMemory"
| call: "paired d s m \<Longrightarrow> calm E \<Longrightarrow> scan_ok E m \<Longrightarrow> agree E c s \<Longrightarrow>
    paired d (store_apply db_store E c s) (mem_apply E c m)"

lemma paired_sim:
  assumes "paired d s m"
  shows "db_inv s \<and> mem_inv m \<and> db_mem s m"
  using assms
proof induction
  case init
  show ?case by (simp add: db_inv_EmptyDB mem_inv_NewMemory)
      (simp add: db_mem_def EmptyDB_def NewMemory_def db_lookup_def db_box_def at_def)
next
  case (call s m E c)
  then show ?case using simulation db_apply_inv mem_apply_inv by blast
qed

lemma ex_paired: "paired d (ex_db2 d) ex_store2"
proof -
  have l: "db_lookup (EmptyDB d) i = None" "i \<noteq> ''ann'' \<Longrightarrow> db_lookup (EmptyDB d\<lparr>t_peers := [ex_row ''ann'' c]\<rparr>) i = None"
    for i c by (auto simp: db_lookup_def EmptyDB_def)
  have r: "reg_ID (ex_register n c) = n" for n c by (simp add: ex_register_def)
  have "paired d (EmptyDB d\<lparr>t_peers := [ex_row ''ann'' (CHR ''a'')]\<rparr>) ex_store1"
    unfolding ex_store1_def ex_db_upsert(1) [of "[]", symmetric]
    by (rule paired.call [OF paired.init]) (simp_all add: ex_calm ex_scan_ok l r)
  then show ?thesis
    unfolding ex_store2_def ex_db_upsert(2) [of "[''ann'']", symmetric]
    by (rule paired.call) (simp_all add: ex_calm ex_scan_ok l r)
qed

text \<open>C3. While no statement fails, the clock stands at a whole second during each call and the
  calls avoid the listed differences (condition \<open>agree\<close>), the SQL store and the in-memory store
  hold the same peers, the same chunks in the same order, and the same waiting signals after
  every sequence of calls.\<close>

theorem sql_refines_memory:
  assumes "paired d s m"
  shows "db_mem s m"
  using paired_sim [OF assms] by blast

theorem sql_refines_memory_witness: "db_mem (ex_db2 ''sqlite'') ex_store2"
  by (rule sql_refines_memory) (rule ex_paired)

lemma chunk_record_abs:
  assumes "CHR ''#'' \<notin> set (c_file_id c)"
  shows "chunk_record (fst (parseChunkKey (ce_key (abs_chunk c)))) (snd (parseChunkKey (ce_key (abs_chunk c)))) (abs_chunk c) = row_record c"
  using assms by (simp add: chunk_record_def abs_chunk_def row_record_def parseChunkKey_chunkKey)

lemma not_sless_sle: "\<not> (a :: int64) <s b \<longleftrightarrow> b \<le>s a"
  by (simp add: word_sless_alt word_sle_eq not_less)

lemma Get_agrees:
  assumes "db_inv s" and "db_mem s m" and "calm E" and "i \<noteq> []" and "TrimSpace i = i"
  shows "dbStore_Get E i s = map_sum id (\<lambda>p. p\<lparr>Login := Key p\<rparr>) (MemoryStore_Get E i m)"
proof (cases "db_lookup s i")
  case None
  then have "peers m i = None" using db_memD(1) [OF assms(2), of i] by simp
  then show ?thesis using assms(3-5) None
    by (simp add: dbStore_Get_def getPeerByID_def db_lookup_def [symmetric] MemoryStore_Get_def)
next
  case (Some r)
  then have "peers m i = Some (abs_peer r)" "row_ok r"
    using db_memD(1) [OF assms(2), of i] db_lookup_Some [OF Some] row_ok_mem [OF assms(1)] by auto
  then show ?thesis using assms(3-5) Some
    by (simp add: dbStore_Get_def getPeerByID_def db_lookup_def [symmetric] MemoryStore_Get_def scan_peer_eq
        dbStore_isExpired_eq Key_abs_peer)
qed

lemma chunk_queries_agree:
  assumes "db_mem s m" and "calm E" and "list_all (\<lambda>c. CHR ''#'' \<notin> set (c_file_id c)) (t_chunks s)"
  shows "dbStore_GetChunksByRecipient E r t s = MemoryStore_GetChunksByRecipient r t m"
    and "dbStore_GetChunksByFileID E f s = MemoryStore_GetChunksByFileID f m"
proof -
  have ch: "chunks m = map abs_chunk (t_chunks s)" using db_memD(2) [OF assms(1)] by simp
  have fil: "fst (parseChunkKey (ce_key (abs_chunk c))) = c_file_id c" if "c \<in> set (t_chunks s)" for c
    using assms(3) that by (auto simp: list_all_iff abs_chunk_def parseChunkKey_chunkKey)
  have rec: "chunk_record (c_file_id c) (snd (parseChunkKey (ce_key (abs_chunk c)))) (abs_chunk c) = row_record c"
    if "c \<in> set (t_chunks s)" for c
    using assms(3) that chunk_record_abs [of c] fil [OF that] by (auto simp: list_all_iff)
  have "filter (\<lambda>e. \<not> (ce_RecipientID e \<noteq> k \<or> ce_UpdatedAt e <s t)) (chunks m) =
      map abs_chunk (filter (\<lambda>c. c_recipient_id c = k \<and> t \<le>s c_updated_at c) (t_chunks s))" for k
    unfolding ch filter_map by (simp add: comp_def abs_chunk_def not_sless_sle)
  then show "dbStore_GetChunksByRecipient E r t s = MemoryStore_GetChunksByRecipient r t m" using assms(2) fil rec
    by (simp add: dbStore_GetChunksByRecipient_def MemoryStore_GetChunksByRecipient_def Let_def comp_def)
  have "filter (\<lambda>e. fst (parseChunkKey (ce_key e)) = k) (chunks m) =
      map abs_chunk (filter (\<lambda>c. c_file_id c = k) (t_chunks s))" for k
    unfolding ch filter_map using fil by (auto simp: comp_def intro!: arg_cong [where f = "map abs_chunk"] filter_cong)
  moreover have "chunk_record (TrimSpace f) (snd (parseChunkKey (ce_key (abs_chunk c)))) (abs_chunk c) = row_record c"
    if "c \<in> set (t_chunks s)" "c_file_id c = TrimSpace f" for c
    using rec [OF that(1)] that(2) by simp
  ultimately show "dbStore_GetChunksByFileID E f s = MemoryStore_GetChunksByFileID f m" using assms(2)
    by (auto simp: dbStore_GetChunksByFileID_def MemoryStore_GetChunksByFileID_def Let_def)
qed



subsection \<open>What calls guarantee whatever fails\<close>

definition same_row :: "peer_row \<Rightarrow> peer_row \<Rightarrow> bool" where
  "same_row r r' \<longleftrightarrow>
     r_id r' = r_id r \<and> r_key r' = r_key r \<and> r_login r' = r_login r \<and> r_signature_key r' = r_signature_key r \<and>
     r_encryption_key r' = r_encryption_key r \<and> r_is_fake r' = r_is_fake r"

definition kept :: "peer_row \<Rightarrow> dbStore \<Rightarrow> bool" where
  "kept r s \<longleftrightarrow> (\<exists>r' \<in> set (t_peers s). same_row r r')"

lemma kept_update:
  assumes "kept r s" and "\<And>q. same_row q (f q)"
  shows "kept r (update_peers P f s)"
proof -
  obtain q where q: "q \<in> set (t_peers s)" "same_row r q" using assms(1) by (auto simp: kept_def)
  then have "same_row r (if P q then f q else q)" using assms(2) [of q] by (auto simp: same_row_def)
  then show ?thesis using q(1) by (cases "P q") (auto simp: kept_def update_peers_def)
qed

lemma kept_frame [simp]:
  "kept r (s\<lparr>t_chunks := c\<rparr>) = kept r s" "kept r (s\<lparr>t_signals := g\<rparr>) = kept r s"
  "kept r (update_chunks P f s) = kept r s"
  by (simp_all add: kept_def update_chunks_def)

lemma same_row_changes [simp]: "same_row q (touched_row E req q)" "same_row q (score_row v q)"
  by (simp_all add: same_row_def touched_row_def)

lemma kept_Upsert:
  assumes "kept r s"
  shows "kept r (snd (dbStore_Upsert E reg s))"
proof (rule db_Upsert_cases)
  show "kept r (upserted E reg s)"
    using assms kept_update [OF assms] by (auto simp: upserted_def kept_def split: option.split)
qed (rule assms)

lemma kept_Confirm: "kept r s \<Longrightarrow> kept r (snd (dbStore_ConfirmChunk E cc s))"
  by (rule db_ConfirmChunk_cases [where P = "kept r"])
    (simp_all add: scored_by_key_def marked_confirmed_def kept_update)

lemma kept_calls:
  assumes "kept r s"
  shows "kept r (snd (dbStore_Heartbeat E i ttl s))" "kept r (snd (dbStore_SetChunkHash E f n rc s))"
    "kept r (snd (dbStore_ReportChunk E i rep s))" "kept r (snd (dbStore_ReadChunk E rd s))"
    "kept r (snd (dbStore_SetSignal E i sig s))" "kept r (snd (dbStore_PollSignals E i s))"
    "kept r (snd (dbStore_DeleteExpiredChunks E s))"
proof -
  show "kept r (snd (dbStore_Heartbeat E i ttl s))"
    using assms by (auto simp: dbStore_Heartbeat_def same_row_def intro!: kept_update split: sum.split)
  show "kept r (snd (dbStore_SetChunkHash E f n rc s))"
    using assms by (simp add: dbStore_SetChunkHash_def Let_def split: sum.split option.split)
  show "kept r (snd (dbStore_ReportChunk E i rep s))"
    using assms kept_update [OF assms] db_ReportChunk_effect [of E i rep s] by auto
  show "kept r (snd (dbStore_ReadChunk E rd s))"
    using assms by (auto simp: dbStore_ReadChunk_def Let_def split: sum.split option.split dest!: by_driver_Inr)
  show "kept r (snd (dbStore_SetSignal E i sig s))"
    using assms by (simp add: dbStore_SetSignal_def Let_def split: sum.split)
  show "kept r (snd (dbStore_PollSignals E i s))"
    using assms by (simp add: dbStore_PollSignals_def Let_def split: sum.split)
  show "kept r (snd (dbStore_DeleteExpiredChunks E s))"
    using assms by (auto simp: dbStore_DeleteExpiredChunks_def Let_def split: sum.split dest!: by_driver_Inr)
qed

lemma kept_Delete:
  assumes "kept r s" and "TrimSpace i \<noteq> r_id r"
  shows "kept r (snd (dbStore_Delete E i s))"
proof -
  obtain q where "q \<in> set (t_peers s)" "same_row r q" using assms(1) by (auto simp: kept_def)
  then have "kept r (s\<lparr>t_peers := filter (\<lambda>p. r_id p \<noteq> TrimSpace i) (t_peers s)\<rparr>)"
    using assms(2) by (auto simp: kept_def same_row_def)
  then show ?thesis using assms(1) by (simp add: dbStore_Delete_def Let_def split: sum.split)
qed

lemma kept_apply:
  assumes "kept r s" and "\<And>i. c = OpDelete i \<Longrightarrow> TrimSpace i \<noteq> r_id r"
  shows "kept r (store_apply db_store E c s)"
  using assms by (cases c) (simp_all add: db_store_def kept_Upsert kept_Confirm kept_calls kept_Delete db_Refresh_same)

text \<open>C25. A peer of the SQL store keeps its id, login, key, encryption key and fake mark through
  every sequence of calls that does not delete it, whatever statements fail on the way: a
  registration with other keys under the same id does not take it over.\<close>

theorem sql_identity_pinned:
  assumes "r \<in> set (t_peers s)"
    and "\<forall>(E, c) \<in> set cs. \<forall>i. c = OpDelete i \<longrightarrow> TrimSpace i \<noteq> r_id r"
  shows "\<exists>r' \<in> set (t_peers (fold (\<lambda>(E, c). store_apply db_store E c) cs s)). same_row r r'"
proof -
  have "kept r s \<Longrightarrow> kept r (fold (\<lambda>(E, c). store_apply db_store E c) cs s)"
    using assms(2) by (induction cs arbitrary: s) (auto simp: kept_apply)
  then show ?thesis using assms(1) by (auto simp: kept_def same_row_def)
qed

theorem sql_identity_pinned_witness:
  "\<exists>r' \<in> set (t_peers (fold (\<lambda>(E, c). store_apply db_store E c)
       [(ex_env [], OpUpsert (ex_register ''ann'' (CHR ''e''))), (ex_env [], OpDelete ''bob'')] (ex_db ''sqlite''))).
     same_row (ex_row ''ann'' (CHR ''a'')) r'"
  by (rule sql_identity_pinned) (simp_all add: ex_db_def)

lemma scan_active_mem:
  assumes "scan_active E k rows = Inr ps" and "p \<in> set ps"
  shows "\<exists>r \<in> set rows. scan_peer r = Inr p \<and> (\<exists>j. \<not> dbStore_isExpired p (clock E j))"
  using assms
proof (induction rows arbitrary: k ps)
  case (Cons r rows)
  then obtain q qs where q: "scan_peer r = Inr q" "scan_active E (Suc k) rows = Inr qs"
      "ps = (if dbStore_isExpired q (clock E k) then qs else q # qs)"
    by (auto split: sum.splits)
  show ?case using Cons.IH [OF q(2)] q Cons.prems(2) by (auto split: if_splits)
qed simp

text \<open>The signature was made with the signature key of an active row under the login and key named.\<close>

definition signed_by_row :: "env \<Rightarrow> string \<Rightarrow> string \<Rightarrow> bytes \<Rightarrow> dbStore \<Rightarrow> bool" where
  "signed_by_row E key sig message s \<longleftrightarrow>
     (\<exists>r \<in> set (t_peers s). \<exists>p j. SplitN2 (TrimSpace key) (CHR '':'') = [r_login r, r_signature_key r] \<and>
        scan_peer r = Inr p \<and> \<not> dbStore_isExpired p (clock E j) \<and> authentic E p sig message)"

lemma signed_by_rowI:
  assumes "getPeerByKey E tag k key s = Inr ps" and "verifyPeerSignature E (hd ps) sig message = None"
  shows "signed_by_row E key sig message s"
proof -
  obtain login g where sp: "SplitN2 (TrimSpace key) (CHR '':'') = [login, g]"
      "peers_of_key E tag k ''query peers by key'' login g s = Inr ps"
    using assms(1) by (auto simp: getPeerByKey_def Let_def split: if_splits list.splits)
  then have "scan_active E k (filter (\<lambda>r. r_login r = login \<and> r_signature_key r = g) (t_peers s)) = Inr ps" "ps \<noteq> []"
    by (auto simp: peers_of_key_def stmt_Inr split: sum.splits if_splits)
  from scan_active_mem [OF this(1) hd_in_set [OF this(2)]] sp(1) assms(2) show ?thesis
    by (auto simp: signed_by_row_def verify_authentic split: if_splits)
qed

lemma db_SetChunkHash_ok:
  assumes "dbStore_SetChunkHash E f i req s = (Inr (), s')"
  shows "signed_by_row E (TrimSpace (rc_SenderID req)) (rc_Signature req)
       (ExpectedPayload (TrimSpace f) i (normalizeHash E (rc_Hash req))) s \<and>
     s' = s\<lparr>t_chunks := t_chunks s @ [chunk_row_of E f i req]\<rparr>"
  using assms
  by (auto simp: dbStore_SetChunkHash_def Let_def chunk_row_of_def sql_bool_def intro!: signed_by_rowI
      split: if_splits sum.splits option.splits)

text \<open>C26. The SQL store registers a chunk only with a signature of the file, index and hash made
  with the key of an active peer under the sender's login and key. It then appends exactly
  that chunk and changes nothing else.\<close>

theorem sql_chunk_registration:
  assumes "dbStore_SetChunkHash E f i req s = (Inr (), s')"
  shows "signed_by_row E (rc_SenderID req) (rc_Signature req)
       (ExpectedPayload (TrimSpace f) i (normalizeHash E (rc_Hash req))) s \<and>
     s' = s\<lparr>t_chunks := t_chunks s @ [chunk_row_of E f i req]\<rparr>"
  using db_SetChunkHash_ok [OF assms] by (simp add: signed_by_row_def)

theorem sql_chunk_registration_witness:
  "signed_by_row (ex_env []) (rc_SenderID ex_chunk_request) (rc_Signature ex_chunk_request)
     (ExpectedPayload ''file'' 0 ex_hash) (ex_db2 ''sqlite'')"
  using sql_chunk_registration [OF ex_db_chunk [of "[]" "''sqlite''"]] by (simp add: ex_chunk_request_def)

end
