(* ===== verification/DB_Failures.thy ===== *)
theory DB_Failures
  imports DB_Properties
begin

text \<open>
  Confirmations, signals and errors of the SQL store: what an accepted confirmation does, how
  signals are delivered when statements fail, which failing calls leave the tables alone, and
  the calls that cannot succeed.
\<close>

subsection \<open>Confirmations\<close>

lemma confirm_update_ok:
  assumes "confirm_update E req row s = (Inr res, s')" and "driver s = ''sqlite''"
  shows "ccr_Valid res = (normalizeHash E (cc_Hash req) = c_expected_hash row) \<and>
    ccr_ExpectedHash res = c_expected_hash row \<and>
    s' = (if ccr_Valid res then marked_confirmed E req (scored_by_key row True s) else scored_by_key row False s)"
  using assms
  by (auto simp: confirm_update_def by_driver_def stmt_Inr marked_confirmed_def scored_by_key_def
      split: sum.splits if_splits)


lemma ex_alive:
  assumes "LastSeen p = ex_now" and "TTLSeconds p = 300"
  shows "\<not> dbStore_isExpired p ex_now"
proof -
  have "dbStore_isExpired p ex_now = dbStore_isExpired (ex_peer [] (CHR ''a'')) ex_now"
    using assms by (simp add: dbStore_isExpired_def ex_peer_def)
  then show ?thesis by (simp add: dbStore_isExpired_eq)
qed

lemma ex_unix_time: "unix_time 1700000000 = ex_now"
  by (simp add: unix_time_def ex_now_def)

lemma ex_scored: "r_last_seen (ex_row n c) = 1700000000" "r_ttl_seconds (ex_row n c) = 300"
  by (simp_all add: ex_row_def)

lemma ex_confirm_ok: "\<exists>res s'. dbStore_ConfirmChunk (ex_env []) ex_confirm (ex_db ''sqlite'') = (Inr res, s')"
proof -
  have row: "confirm_row ex_confirm ex_chunk_row"
    by (simp add: confirm_row_def ex_confirm_def ex_chunk_row_def)
  have "\<exists>res s'. confirm_update (ex_env []) ex_confirm ex_chunk_row (ex_db ''sqlite'') = (Inr res, s')"
    by (simp add: confirm_update_def by_driver_def ex_db_def ex_chunk_row_def ex_confirm_def Let_def
        getPeerByKey_def peers_of_key_def update_peers_def update_chunks_def scan_peer_def ex_unix_time ex_alive ex_scored)
  then show ?thesis using row ex_by_key(2) [of "ex_db ''sqlite''" "[]" "''recipient''" 3]
    by (simp add: dbStore_ConfirmChunk_def ex_confirm_def ex_db_def valid_hash_nonempty [OF ex_hash_ok(1)])
qed


subsection \<open>Signals\<close>

definition db_call :: "mem_call \<Rightarrow> dbStore \<Rightarrow> dbStore" where
  "db_call c s = store_apply db_store (fst c) (snd c) s"

definition db_puts :: "string \<Rightarrow> mem_call \<Rightarrow> dbStore \<Rightarrow> Signal list" where
  "db_puts k c s =
     (case snd c of
        OpSetSignal i sig \<Rightarrow>
          if TrimSpace i = k \<and> fst (dbStore_SetSignal (fst c) i sig s) = Inr () then [sig] else []
      | _ \<Rightarrow> [])"

text \<open>The signals a poll hands out for good: its \<^verbatim>\<open>DELETE\<close> did not fail.\<close>

definition db_takes :: "string \<Rightarrow> mem_call \<Rightarrow> dbStore \<Rightarrow> Signal list" where
  "db_takes k c s =
     (case snd c of
        OpPollSignals i \<Rightarrow>
          (case fst (dbStore_PollSignals (fst c) i s) of
             Inl e \<Rightarrow> []
           | Inr sigs \<Rightarrow> if TrimSpace i = k \<and> fault (fst c) ''delete signals'' = None then sigs else [])
      | _ \<Rightarrow> [])"

lemma quiet_boxes:
  "t_signals (snd (dbStore_Upsert E reg s)) = t_signals s" "t_signals (snd (dbStore_Delete E i s)) = t_signals s"
  "t_signals (snd (dbStore_Heartbeat E i ttl s)) = t_signals s"
  "t_signals (snd (dbStore_SetChunkHash E f n rc s)) = t_signals s"
  "t_signals (snd (dbStore_ReportChunk E i rep s)) = t_signals s"
  "t_signals (snd (dbStore_ConfirmChunk E cc s)) = t_signals s"
  "t_signals (snd (dbStore_ReadChunk E rd s)) = t_signals s"
  "t_signals (snd (dbStore_DeleteExpiredChunks E s)) = t_signals s"
proof -
  show "t_signals (snd (dbStore_Upsert E reg s)) = t_signals s"
    by (rule db_Upsert_cases) (simp_all add: upserted_def update_peers_def split: option.split)
  show "t_signals (snd (dbStore_ReportChunk E i rep s)) = t_signals s"
    using db_ReportChunk_effect [of E i rep s] by (auto simp: update_peers_def)
  show "t_signals (snd (dbStore_ConfirmChunk E cc s)) = t_signals s"
    by (rule db_ConfirmChunk_cases [where P = "\<lambda>t. t_signals t = t_signals s"])
      (simp_all add: scored_by_key_def marked_confirmed_def update_peers_def update_chunks_def)
  show "t_signals (snd (dbStore_DeleteExpiredChunks E s)) = t_signals s"
    by (auto simp: dbStore_DeleteExpiredChunks_def Let_def split: sum.split dest!: by_driver_Inr)
  show "t_signals (snd (dbStore_ReadChunk E rd s)) = t_signals s"
    by (auto simp: dbStore_ReadChunk_def Let_def update_chunks_def split: sum.split option.split dest!: by_driver_Inr)
qed (simp_all add: dbStore_Delete_def dbStore_Heartbeat_def dbStore_SetChunkHash_def Let_def update_peers_def
      split: sum.split option.split)

lemma box_delete:
  "db_box (s\<lparr>t_signals := filter (\<lambda>g. g_peer_id g \<noteq> i) (t_signals s)\<rparr>) k = (if k = i then [] else db_box s k)"
  by (auto simp: db_box_def intro!: arg_cong [where f = "map g_signal"] filter_cong)

lemma box_insert:
  "db_box (s\<lparr>t_signals := t_signals s @ [\<lparr>g_peer_id = i, g_signal = x, g_created_at = t\<rparr>]\<rparr>) k =
     db_box s k @ (if k = i then [x] else [])"
  by (simp add: db_box_def)

lemma db_SetSignal_effect:
  "(\<exists>t. dbStore_SetSignal E i sig s =
      (Inr (), s\<lparr>t_signals := t_signals s @ [\<lparr>g_peer_id = TrimSpace i, g_signal = sig, g_created_at = t\<rparr>]\<rparr>)) \<or>
   (\<exists>e. dbStore_SetSignal E i sig s = (Inl e, s))"
  by (auto simp: dbStore_SetSignal_def Let_def split: sum.split)

lemma db_PollSignals_effect:
  "dbStore_PollSignals E i s =
     (Inr (db_box s (TrimSpace i)),
      if fault E ''delete signals'' = None then s\<lparr>t_signals := filter (\<lambda>g. g_peer_id g \<noteq> TrimSpace i) (t_signals s)\<rparr> else s) \<or>
   (\<exists>e. dbStore_PollSignals E i s = (Inl e, s))"
  by (simp add: dbStore_PollSignals_def Let_def stmt_def db_box_def split: option.split)

lemma db_conserve: "db_takes k c s @ db_box (db_call c s) k = db_box s k @ db_puts k c s"
proof (cases "snd c")
  case (OpSetSignal i sig)
  then show ?thesis using db_SetSignal_effect [of "fst c" i sig s]
    by (auto simp: db_takes_def db_call_def db_puts_def db_store_def box_insert)
next
  case (OpPollSignals i)
  then show ?thesis using db_PollSignals_effect [of "fst c" i s]
    by (auto simp: db_takes_def db_call_def db_puts_def db_store_def box_delete)
qed (simp_all add: db_takes_def db_call_def db_puts_def db_store_def db_box_def quiet_boxes db_Refresh_same)

interpretation db_signals: mailbox db_call db_puts db_takes db_box
  by unfold_locales (rule db_conserve)


subsection \<open>Errors\<close>

text \<open>C29. A registration, refresh, deletion, chunk registration, read receipt, signal, poll or purge
  of the SQL store that returns an error leaves the tables as they were, whichever statement or
  check failed, the commit of a transaction included.\<close>

theorem sql_failed_calls_change_nothing:
  "unchanged_on_error (dbStore_Upsert E reg) \<and> unchanged_on_error (dbStore_Refresh E ref) \<and>
   unchanged_on_error (dbStore_Delete E i) \<and> unchanged_on_error (dbStore_SetChunkHash E f n rc) \<and>
   unchanged_on_error (dbStore_ReadChunk E rd) \<and> unchanged_on_error (dbStore_SetSignal E i sig) \<and>
   unchanged_on_error (dbStore_PollSignals E i) \<and> unchanged_on_error (dbStore_DeleteExpiredChunks E)"
proof (intro conjI)
  show "unchanged_on_error (dbStore_Upsert E reg)"
    by (auto simp: unchanged_on_error_def db_Upsert_unfold split: if_splits option.splits)
  show "unchanged_on_error (dbStore_Refresh E ref)"
    by (auto simp: unchanged_on_error_def dbStore_Refresh_def split: if_splits sum.splits)
  show "unchanged_on_error (dbStore_Delete E i)"
    by (auto simp: unchanged_on_error_def dbStore_Delete_def Let_def split: if_splits sum.splits)
  show "unchanged_on_error (dbStore_SetChunkHash E f n rc)"
    by (auto simp: unchanged_on_error_def dbStore_SetChunkHash_def Let_def split: if_splits sum.splits option.splits)
  show "unchanged_on_error (dbStore_ReadChunk E rd)"
    by (auto simp: unchanged_on_error_def dbStore_ReadChunk_def Let_def split: if_splits sum.splits option.splits)
  show "unchanged_on_error (dbStore_SetSignal E i sig)"
    unfolding unchanged_on_error_def using db_SetSignal_effect [of E i sig] by (metis Inl_Inr_False Pair_inject)
  show "unchanged_on_error (dbStore_PollSignals E i)"
    unfolding unchanged_on_error_def using db_PollSignals_effect [of E i] by (metis Inl_Inr_False Pair_inject)
  show "unchanged_on_error (dbStore_DeleteExpiredChunks E)"
    by (auto simp: unchanged_on_error_def dbStore_DeleteExpiredChunks_def Let_def split: sum.splits)
qed


text \<open>Bob is active, Ann has expired, and Bob reports a chunk of Ann.\<close>

definition ex_late :: env where
  "ex_late = (ex_env [])\<lparr>clock := (\<lambda>_. 1700000400000000000)\<rparr>"

definition ex_late_db :: dbStore where
  "ex_late_db = (ex_db ''sqlite'')\<lparr>t_peers := [ex_row ''ann'' (CHR ''a''), (ex_row ''bob'' (CHR ''b''))\<lparr>r_last_seen := 1700000400\<rparr>]\<rparr>"

lemma ex_late_simps [simp]:
  "clock ex_late k = 1700000400000000000" "stmt ex_late name v = Inr v" "normalizeHash ex_late ex_hash = ex_hash"
  by (simp_all add: ex_late_def ex_env_def stmt_def)

lemma ex_late_heartbeat: "store_apply db_store ex_late (OpHeartbeat ''bob'' 0) (ex_db ''sqlite'') = ex_late_db"
  by (simp add: db_store_def dbStore_Heartbeat_def update_peers_def ex_db_def ex_late_db_def affected_def
      time_Unix_def Let_def ex_row_def)

lemma ex_late_reporter:
  "getPeerByID ex_late ''reporter '' 1700000400000000000 ''bob'' ex_late_db =
     Inr ((ex_peer ''bob'' (CHR ''b''))\<lparr>Login := Key (ex_peer ''bob'' (CHR ''b'')), LastSeen := 1700000400000000000\<rparr>)"
  by (simp add: getPeerByID_def ex_late_db_def scan_peer_def ex_row_def ex_peer_def unix_time_def
      dbStore_isExpired_eq isExpired_iff ttl_of_def)

lemma ex_late_report:
  "dbStore_ReportChunk ex_late ''ann'' ex_report ex_late_db =
     (Inl (ErrWrap ''get updated peer'' ErrNotFound), update_peers (\<lambda>r. r_id r = ''ann'') (score_row True) ex_late_db)"
proof -
  have v: "verifyPeerSignature ex_late ((ex_peer ''bob'' c)\<lparr>Login := l, LastSeen := t\<rparr>) (ex_sig c) m = None" for c l t m
    using ex_verify [of "[]" "''bob''" c c m]
    by (simp add: verifyPeerSignature_def ex_late_def split: if_splits)
  have "getPeerByID ex_late ''source '' 1700000400000000000 ''ann''
      (update_peers (\<lambda>r. r_id r = ''ann'') (score_row True) ex_late_db) = Inl ErrNotFound"
    by (simp add: getPeerByID_def ex_late_db_def update_peers_def scan_peer_def ex_scored ex_unix_time
        dbStore_isExpired_eq isExpired_iff ttl_of_def ex_now_def)
  then show ?thesis
    by (simp add: dbStore_ReportChunk_def ex_report_def ex_late_reporter v valid_hash_nonempty [OF ex_hash_ok(1)]
        Let_def) (simp add: ex_late_db_def ex_db_def ex_chunk_row_def wrap_def)
qed

text \<open>A report that reaches the SQL store in good order but names an expired peer is answered with
  an error although it has been counted.\<close>

theorem sql_report_refused_but_counted:
  "\<exists>s e s'. db_reach ''sqlite'' s \<and> dbStore_ReportChunk ex_late ''ann'' ex_report s = (Inl e, s') \<and> s' \<noteq> s"
proof (intro exI conjI)
  show "db_reach ''sqlite'' ex_late_db" unfolding ex_late_heartbeat [symmetric] by (rule db_reach.more [OF ex_db_reach])
  show "update_peers (\<lambda>r. r_id r = ''ann'') (score_row True) ex_late_db \<noteq> ex_late_db"
    by (simp add: update_peers_def ex_late_db_def ex_db_def ex_row_def score_row_def QualityPointsValid_def)
qed (rule ex_late_report)


subsection \<open>Calls that cannot succeed\<close>

text \<open>Over the SQL store every \<^verbatim>\<open>PUT\<close> of a peer is answered with an error and changes nothing.\<close>

theorem sql_refresh_fails:
  "is_error (fst (dispatch ERefresh db_store J E r s)) \<and> snd (dispatch ERefresh db_store J E r s) = s"
  by (auto simp: Phonebook_Refresh_def db_store_def dbStore_Refresh_def reply_def case_prod_unfold split: sum.split)

text \<open>C32. A confirmation whose recipient is named without a colon, complete otherwise, makes a handler
  over the SQL store panic: the connection is dropped without a response. The in-memory store
  answers such a request.\<close>

theorem sql_key_without_colon:
  assumes "dec_confirm J (body r) = (req, True)" and "confirm_request_ok (E 0) req"
    and "CHR '':'' \<notin> set (cc_RecipientID req)"
  shows "dispatch EConfirmChunk db_store J E r s = (Aborted, s)"
proof -
  have "length (SplitN2 (TrimSpace (cc_RecipientID req)) CHR '':'') = 1"
    using assms(3) set_TrimSpace by (auto simp: SplitN2_length)
  then obtain x where "SplitN2 (TrimSpace (cc_RecipientID req)) CHR '':'' = [x]" by (auto simp: length_Suc_conv)
  then have "getPeerByKey (E 0) ''recipient'' 3 (TrimSpace (cc_RecipientID req)) s =
      Inl (Panic ''index out of range [1] with length 1'')"
    using assms(2) by (simp add: getPeerByKey_def confirm_request_ok_def)
  then have "dbStore_ConfirmChunk (E 0) req s = (Inl (Panic ''index out of range [1] with length 1''), s)"
    using assms(2) valid_hash_nonempty by (auto simp: dbStore_ConfirmChunk_def confirm_request_ok_def not_sless_0 as_not_found_def Let_def)
  then show ?thesis using assms(1)
    by (simp add: Phonebook_ConfirmChunk_def db_store_def reply_def store_failure_def)
qed

theorem sql_key_without_colon_witness:
  "dispatch EConfirmChunk db_store (ex_codec\<lparr>dec_confirm := (\<lambda>_. (ex_confirm\<lparr>cc_RecipientID := ''bob''\<rparr>, True))\<rparr>)
     (\<lambda>_. ex_env []) \<lparr>path_value = (\<lambda>_. []), query = (\<lambda>_. []), body = []\<rparr> (ex_db ''sqlite'') = (Aborted, ex_db ''sqlite'')"
  by (rule sql_key_without_colon [OF _ _ , of _ _ "ex_confirm\<lparr>cc_RecipientID := ''bob''\<rparr>"])
    (simp_all add: confirm_request_ok_def ex_confirm_def)

text \<open>A server over a store opened as \<^verbatim>\<open>postgres\<close> never marks a chunk as confirmed or read,
  whatever it is asked, and its cleaner never removes a chunk.\<close>

theorem postgres_never_marks:
  assumes "(serving db_store)\<^sup>*\<^sup>* (NewHandler (EmptyDB ''postgres'')) h"
  shows "list_all (\<lambda>c. c_confirmed c = 0 \<and> c_readed c = 0) (t_chunks (hstore h)) \<and>
    cleaner_tick db_store E (hstore h) = hstore h"
proof -
  have "unmarked (hstore h)"
    using assms by (rule postgres_server.run_keeps) (simp add: NewHandler_def EmptyDB_def unmarked_def)
  then show ?thesis using unmarked_calls(9) by (simp add: unmarked_def cleaner_tick_def db_store_def)
qed

theorem postgres_never_marks_witness:
  "cleaner_tick db_store (ex_env []) (hstore (ws_register ''ann'' 1 (NewHandler (EmptyDB ''postgres'')))) =
     hstore (ws_register ''ann'' 1 (NewHandler (EmptyDB ''postgres'')))"
proof -
  have "(serving db_store)\<^sup>*\<^sup>* (NewHandler (EmptyDB ''postgres'')) (ws_register ''ann'' 1 (NewHandler (EmptyDB ''postgres'')))"
    by (rule r_into_rtranclp, rule serving.ws_open)
  from postgres_never_marks [OF this] show ?thesis by blast
qed

end
