(* ===== verification/Migration_Properties.thy ===== *)
theory Migration_Properties
  imports Migration_Library DB_Failures
begin

text \<open>
  Properties of the migrations: what a run does and records, that a second run does nothing,
  that a failed run resumes, in which order the files run, and when migrations run twice.
\<close>

subsection \<open>Example files\<close>

definition ex_files :: "string list" where
  "ex_files = [''003_add_persist.sql'', ''001_initial_schema.sql'', ''notes.sql'']"

definition ex_migration :: "string \<Rightarrow> Migration" where
  "ex_migration i = \<lparr>mg_ID = i, mg_Author = ''muninn'', mg_Description = ''text'', mg_SQLite = i, mg_Postgres = []\<rparr>"

definition ex_migrations :: "Migration list" where
  "ex_migrations = [ex_migration ''001'', ex_migration ''003'']"

text \<open>A database whose contents are the scripts that ran; the script \<^verbatim>\<open>bad\<close> fails.\<close>

definition ex_exec :: "string \<Rightarrow> string list \<Rightarrow> error option \<times> string list" where
  "ex_exec sql d = (if sql = ''bad'' then Some (ErrDriver ''syntax error'') else None, d @ [sql])"

definition ex_database :: "string list database" where
  "ex_database = \<lparr>versions = None, contents = []\<rparr>"

lemmas migration_eval = runMigrations_def schemaVersionTable_def read_applied_def select_versions_def
  insert_version_def version_of_def script_def

lemma ex_run:
  "\<exists>db'. runMigrations (ex_env []) (\<lambda>b. b) ex_exec ex_migrations ''sqlite'' ex_database = (None, db')"
  by (simp add: migration_eval ex_migrations_def ex_migration_def ex_exec_def ex_database_def no_table_def)

lemma ex_readable: "versions_readable (ex_env ids)"
  by (simp add: versions_readable_def)

subsection \<open>Properties\<close>

text \<open>C33. A successful run of the migrations with a readable table of versions has run the scripts of
  exactly the pending migrations (not recorded before and with a script for the driver), each once
  and in the order of the list, and has added one row for each to the table, in that order and with
  distinct ids; the rows of earlier runs stay.\<close>

theorem migrations_run_pending:
  assumes "runMigrations E S exec ms drv db = (None, db')" and "versions_readable E"
    and "pending drv (map v_id (recorded db)) ms = todo"
  shows "versions db' = Some (recorded db @ new_versions E S 0 todo) \<and>
    contents db' = scripts exec drv todo (contents db) \<and>
    distinct (map mg_ID todo) \<and> mg_ID ` set todo \<inter> v_id ` set (recorded db) = {}"
proof -
  have sup: "supported drv" using assms(1) by (rule run_success)
  obtain db1 where ra: "read_applied E db = (Inr (map v_id (recorded db)), db1)"
    using read_applied_readable [OF assms(2)] by blast
  note rd = read_applied_Inr [OF ra]
  have run: "migrate_loop E S exec drv (map v_id (recorded db)) 0 todo db1 = (None, db')"
    using assms(1,3) ra unfolding run_supported [OF sup] by simp
  have todo: "pending drv (map v_id (recorded db)) todo = todo" using assms(3) by (metis pending_pending)
  from run rd(1) todo show ?thesis by (rule loop_prefix) (use rd(2) in auto)
qed

theorem migrations_run_pending_witness:
  "\<exists>db'. runMigrations (ex_env []) (\<lambda>b. b) ex_exec ex_migrations ''sqlite'' ex_database = (None, db') \<and>
     contents db' = [''001'', ''003'']"
proof -
  obtain db' where db': "runMigrations (ex_env []) (\<lambda>b. b) ex_exec ex_migrations ''sqlite'' ex_database = (None, db')"
    using ex_run by blast
  from migrations_run_pending [OF db' ex_readable refl] have "contents db' = [''001'', ''003'']"
    by (simp add: ex_database_def ex_migrations_def pending_def script_def ex_migration_def ex_exec_def)
  with db' show ?thesis by blast
qed

text \<open>C34. After a successful run, opening the store again runs nothing and changes nothing, while the
  table of versions can be read.\<close>

theorem migrations_idempotent:
  assumes "runMigrations E S exec ms drv db = (None, db')" and "fault E' ''versions'' = None"
  shows "runMigrations E' S' exec' ms drv db' = (None, db')"
proof -
  from assms(1) obtain applied where ap: "set applied \<subseteq> v_id ` set (recorded db)"
      "versions db' = Some (recorded db @ new_versions E S 0 (pending drv applied ms))" "supported drv"
    by (rule run_success)
  let ?ids = "map v_id (recorded db @ new_versions E S 0 (pending drv applied ms))"
  have "read_applied E' db' = (Inr ?ids, db')"
    using assms(2) ap(2) by (simp add: read_applied_def select_versions_def stmt_def)
  then show ?thesis unfolding run_supported [OF ap(3)] using pending_none [OF ap(1)] by simp
qed

theorem migrations_idempotent_witness:
  "\<exists>db'. runMigrations (ex_env []) (\<lambda>b. b) ex_exec ex_migrations ''sqlite'' ex_database = (None, db') \<and>
     runMigrations (ex_env []) (\<lambda>b. b) ex_exec ex_migrations ''sqlite'' db' = (None, db')"
proof -
  obtain db' where "runMigrations (ex_env []) (\<lambda>b. b) ex_exec ex_migrations ''sqlite'' ex_database = (None, db')"
    using ex_run by blast
  moreover from this have "runMigrations (ex_env []) (\<lambda>b. b) ex_exec ex_migrations ''sqlite'' db' = (None, db')"
    by (rule migrations_idempotent) simp
  ultimately show ?thesis by blast
qed

text \<open>C35. A run that fails while the table of versions is readable has recorded exactly the pending
  migrations before the one that failed, whose id its error names; the contents of the database are
  those after the scripts up to that one. What is pending afterwards starts with that migration: the
  next run resumes there and repeats none of the recorded ones.\<close>

theorem failed_run_resumes:
  assumes "runMigrations E S exec ms drv db = (Some e, db')" and "versions_readable E" and "supported drv"
    and "distinct (map mg_ID ms)"
  shows "\<exists>dn m later e'. pending drv (map v_id (recorded db)) ms = dn @ m # later \<and>
    versions db' = Some (recorded db @ new_versions E S 0 dn) \<and>
    contents db' = scripts exec drv (dn @ [m]) (contents db) \<and>
    (e = ErrWrap (''migration '' @ mg_ID m) e' \<or> e = ErrWrap (''record migration '' @ mg_ID m) e') \<and>
    pending drv (map v_id (recorded db')) ms = m # later"
proof -
  let ?ids = "map v_id (recorded db)"
  obtain db1 where ra: "read_applied E db = (Inr ?ids, db1)" using read_applied_readable [OF assms(2)] by blast
  note rd = read_applied_Inr [OF ra]
  have run: "migrate_loop E S exec drv ?ids 0 (pending drv ?ids ms) db1 = (Some e, db')"
    using assms(1) ra unfolding run_supported [OF assms(3)] by simp
  from run rd(1) pending_pending show ?thesis
  proof (rule loop_prefix)
    fix dn rest
    assume parts: "pending drv ?ids ms = dn @ rest" "versions db' = Some (recorded db @ new_versions E S 0 dn)"
      and "\<And>e'. Some e = Some e' \<Longrightarrow> \<exists>m later e''. rest = m # later \<and>
        contents db' = scripts exec drv (dn @ [m]) (contents db1) \<and>
        (e' = ErrWrap (''migration '' @ mg_ID m) e'' \<or> e' = ErrWrap (''record migration '' @ mg_ID m) e'')"
    then obtain m later e' where m: "rest = m # later" "contents db' = scripts exec drv (dn @ [m]) (contents db)"
        "e = ErrWrap (''migration '' @ mg_ID m) e' \<or> e = ErrWrap (''record migration '' @ mg_ID m) e'"
      using rd(2) by auto
    moreover have "pending drv (map v_id (recorded db')) ms = m # later"
      using pending_rest [OF parts(1) assms(4)] parts(2) m(1) by simp
    ultimately show ?thesis using parts by blast
  qed
qed

definition ex_bad :: "Migration list" where
  "ex_bad = [ex_migration ''001'', ex_migration ''bad'', ex_migration ''003'']"

theorem failed_run_resumes_witness:
  "\<exists>e db'. runMigrations (ex_env []) (\<lambda>b. b) ex_exec ex_bad ''sqlite'' ex_database = (Some e, db') \<and>
     (\<exists>m later. pending ''sqlite'' (map v_id (recorded db')) ex_bad = m # later)"
proof -
  obtain e db' where r: "runMigrations (ex_env []) (\<lambda>b. b) ex_exec ex_bad ''sqlite'' ex_database = (Some e, db')"
    by (simp add: migration_eval ex_bad_def ex_migration_def ex_exec_def ex_database_def no_table_def)
  have "distinct (map mg_ID ex_bad)" by (simp add: ex_bad_def ex_migration_def)
  from failed_run_resumes [OF r ex_readable _ this] r show ?thesis by (auto simp: supported_def)
qed

text \<open>C37. The migrations are loaded in the byte order of the file names of the SQLite directory, one
  for each name with an id, and files without one are skipped. When all ids have the same number of
  characters, as the numbers of the repository do, that is the order of the ids.\<close>

theorem migrations_in_order:
  assumes "loadMigrations ReadDir ReadFile = Inr ms" and "ReadDir ''migrations/sqlite'' = Inr entries"
    and "\<forall>n \<in> set entries. fst (parseMigrationFile n) \<noteq> [] \<longrightarrow> length (fst (parseMigrationFile n)) = k"
  shows "map mg_ID ms = filter (\<lambda>i. i \<noteq> []) (map (\<lambda>n. fst (parseMigrationFile n)) (sort entries)) \<and>
    sorted (map mg_ID ms)"
proof -
  have ids: "map mg_ID ms = filter (\<lambda>i. i \<noteq> []) (map (\<lambda>n. fst (parseMigrationFile n)) (sort entries))"
    using assms(1,2) by (simp add: loadMigrations_def load_ids)
  moreover have "sorted (filter (\<lambda>i. i \<noteq> []) (map (\<lambda>n. fst (parseMigrationFile n)) (sort entries)))"
    by (rule sorted_ids [where k = k]) (use assms(3) parse_prefix in auto)
  ultimately show ?thesis by simp
qed

lemma ex_parse:
  "parseMigrationFile ''003_add_persist.sql'' = (''003'', ''add persist'')"
  "parseMigrationFile ''001_initial_schema.sql'' = (''001'', ''initial schema'')"
  "parseMigrationFile ''notes.sql'' = ([], [])"
  by (code_simp, code_simp, code_simp)

theorem migrations_in_order_witness:
  "\<exists>ms. loadMigrations (\<lambda>_. Inr ex_files) (\<lambda>_. Inr ''x'') = Inr ms \<and> sorted (map mg_ID ms)"
proof -
  have "\<exists>ms. load_loop (\<lambda>_. Inr x) ns = Inr ms" for x ns
    by (induction ns) (auto simp: Let_def case_prod_unfold)
  then obtain ms where ms: "loadMigrations (\<lambda>_. Inr ex_files) (\<lambda>_. Inr ''x'') = Inr ms"
    unfolding loadMigrations_def by auto
  from migrations_in_order [OF this refl, of 3] have "sorted (map mg_ID ms)" by (simp add: ex_files_def ex_parse)
  with ms show ?thesis by blast
qed

text \<open>A migration file named by an id without underscore, an underscore and a description is read
  back: its id, and its description with blanks for underscores.\<close>

theorem migration_name_roundtrip:
  assumes "CHR ''_'' \<notin> set i"
  shows "parseMigrationFile (i @ ''_'' @ desc @ ''.sql'') = (i, ReplaceChar desc (CHR ''_'') (CHR '' ''))"
proof -
  have "TrimSuffix (i @ ''_'' @ desc @ ''.sql'') ''.sql'' = i @ CHR ''_'' # desc"
    using TrimSuffix_append [of "i @ CHR ''_'' # desc" "''.sql''"] by simp
  then show ?thesis using SplitN2_append [OF assms] by (simp add: parseMigrationFile_def)
qed

theorem migration_name_roundtrip_witness: "parseMigrationFile ''006_add_readed.sql'' = (''006'', ''add readed'')"
  using migration_name_roundtrip [of "''006''" "''add_readed''"] by (simp add: ReplaceChar_def)

text \<open>When the table of versions cannot be read twice in a row but can be created, as with a
  passing failure, the run takes no migration for applied: it runs the first script again although
  it is recorded, and then fails to record it.\<close>

theorem unreadable_versions_rerun:
  assumes "fault E ''versions'' = Some msg" and "fault E ''create versions'' = None"
    and "fault E ''versions again'' = Some msg'" and "supported drv" and "versions db = Some rows"
    and "pending drv [] ms = m # later" and "mg_ID m \<in> v_id ` set rows"
    and "exec (script drv m) (contents db) = (None, d)"
  shows "\<exists>e. runMigrations E S exec ms drv db = (Some (ErrWrap (''record migration '' @ mg_ID m) e), db\<lparr>contents := d\<rparr>)"
proof -
  have ra: "read_applied E db = (Inr [], db)"
    using assms(1,2,3,5) by (simp add: read_applied_def select_versions_def stmt_def)
  have "mg_ID m \<notin> set []" "script drv m \<noteq> []" using assms(6) by (auto simp: pending_def filter_eq_Cons_iff)
  then show ?thesis unfolding run_supported [OF assms(4)] ra
    using assms(5-8) by (simp add: insert_version_def version_of_def)
qed

definition ex_unreadable :: env where
  "ex_unreadable = (ex_env [])\<lparr>fault := (\<lambda>n. if n = ''versions'' \<or> n = ''versions again'' then Some ''timeout'' else None)\<rparr>"

theorem unreadable_versions_rerun_witness:
  "\<exists>e. runMigrations ex_unreadable (\<lambda>b. b) ex_exec ex_migrations ''sqlite''
      \<lparr>versions = Some [version_of (\<lambda>b. b) 0 (ex_migration ''001'')], contents = [''001'']\<rparr> =
    (Some (ErrWrap (''record migration '' @ mg_ID (ex_migration ''001'')) e),
     \<lparr>versions = Some [version_of (\<lambda>b. b) 0 (ex_migration ''001'')], contents = [''001'']\<rparr>\<lparr>contents := [''001'', ''001'']\<rparr>)"
  by (rule unreadable_versions_rerun [where msg = "''timeout''" and msg' = "''timeout''"
        and rows = "[version_of (\<lambda>b. b) 0 (ex_migration ''001'')]" and later = "[ex_migration ''003'']"])
    (simp_all add: ex_unreadable_def supported_def pending_def ex_migrations_def script_def ex_migration_def
      version_of_def ex_exec_def)



end
