(* ===== verification/Startup.thy ===== *)
theory Startup
  imports Migration_Properties
begin

text \<open>
  \<^verbatim>\<open>NewServer\<close> of \<^verbatim>\<open>internal/api/server.go\<close> and \<^verbatim>\<open>main.go\<close> as a whole: the configuration, the opening
  of the chosen store, the server over it, and the shutdown. Sockets, signals of the operating
  system and log lines are outside.
\<close>

text \<open>The parts of \<^verbatim>\<open>http.Server\<close> that are set, the relay, which holds the store, the configuration,
  and the interval of the cleaner, if one was started.\<close>

record 's ServerState =
  srv_Addr :: string
  srv_ReadTimeout :: duration
  srv_WriteTimeout :: duration
  RTC :: "'s Handler"
  cfg :: Config
  cleaner :: "duration option"

definition startChunkCleaner :: "duration \<Rightarrow> 's ServerState \<Rightarrow> 's ServerState" where
  "startChunkCleaner interval srv = (if cleaner_runs interval then srv\<lparr>cleaner := Some interval\<rparr> else srv)"

definition NewServer :: "Config \<Rightarrow> 's \<Rightarrow> 's ServerState" where
  "NewServer c st =
     startChunkCleaner (PurgeInterval c)
       \<lparr>srv_Addr = Addr c, srv_ReadTimeout = ReadTimeout c, srv_WriteTimeout = WriteTimeout c,
        RTC = NewHandler st, cfg = c, cleaner = None\<rparr>"

text \<open>The process after start-up: ended by \<^verbatim>\<open>log.Fatalf\<close>, or serving over one of the stores.\<close>

datatype process = Fatal string | ServingDB "dbStore ServerState" | ServingMemory "MemoryStore ServerState"

definition main_start ::
  "env \<Rightarrow> (bytes \<Rightarrow> bytes) \<Rightarrow> (string \<Rightarrow> dbStore \<Rightarrow> error option \<times> dbStore) \<Rightarrow> Migration list \<Rightarrow>
     (string \<Rightarrow> string \<Rightarrow> dbStore database result) \<Rightarrow> (string \<Rightarrow> duration option) \<Rightarrow> (string \<Rightarrow> string) \<Rightarrow> process" where
  "main_start E Sum256 exec migrations Open ParseDuration getenv =
     (let c = main_config ParseDuration getenv in
      case main_store getenv of
        UseDB d dsn \<Rightarrow>
          (case NewDB E Sum256 exec migrations Open d dsn of
             Inl err \<Rightarrow> Fatal (''open '' @ d @ '' store: '' @ error_text err)
           | Inr st \<Rightarrow> ServingDB (NewServer c st))
      | UseMemory \<Rightarrow> ServingMemory (NewServer c NewMemory))"

text \<open>The end of \<^verbatim>\<open>main\<close>: close the websocket connections, then shut the HTTP server down.\<close>

definition main_shutdown :: "'s ServerState \<Rightarrow> 's ServerState" where
  "main_shutdown srv = srv\<lparr>RTC := CloseAll (RTC srv)\<rparr>"

subsection \<open>Opening\<close>

lemma NewDB_Inr:
  assumes "NewDB E S exec ms Open d dsn = Inr s"
  obtains sqlDriver db db' where "driverMap d = Some sqlDriver"
    and "Open sqlDriver (if dsn = [] then defaultDSN d else dsn) = Inr db"
    and "runMigrations E S exec ms sqlDriver db = (None, db')" and "s = (contents db')\<lparr>driver := d\<rparr>"
  using assms by (auto simp: NewDB_def Let_def split: option.splits sum.splits prod.splits)

lemma driverMap_Some: "driverMap d = Some x \<longleftrightarrow> (d = ''sqlite'' \<and> x = ''sqlite'') \<or> (d = ''postgres'' \<and> x = ''pgx'')"
  by (auto simp: driverMap_def driverSQLite_def driverPostgres_def)

lemma main_store_cases:
  "main_store getenv = (if getenv ''MUNINN_STORE_DRIVER'' = ''internal'' then UseMemory
     else UseDB (if getenv ''MUNINN_STORE_DRIVER'' = ''postgres'' then ''postgres'' else ''sqlite'') (getenv ''MUNINN_STORE_DSN''))"
  by (auto simp: main_store_def Let_def)

lemma RTC_NewServer [simp]: "RTC (NewServer c st) = NewHandler st"
  by (simp add: NewServer_def startChunkCleaner_def)

subsection \<open>Properties\<close>


text \<open>C39. A process started with the driver \<^verbatim>\<open>postgres\<close> on a database without chunks never marks a
  chunk as confirmed or read, whatever it is asked, and its cleaner never removes a chunk.\<close>

theorem postgres_deployment_never_marks:
  assumes "main_start E S exec ms Open PD getenv = ServingDB srv"
    and "getenv ''MUNINN_STORE_DRIVER'' = ''postgres''" and "t_chunks (hstore (RTC srv)) = []"
    and "(serving db_store)\<^sup>*\<^sup>* (RTC srv) h"
  shows "list_all (\<lambda>c. c_confirmed c = 0 \<and> c_readed c = 0) (t_chunks (hstore h)) \<and>
    cleaner_tick db_store E' (hstore h) = hstore h"
proof -
  from assms(1,2) obtain s where s: "NewDB E S exec ms Open ''postgres'' (getenv ''MUNINN_STORE_DSN'') = Inr s"
      "srv = NewServer (main_config PD getenv) s"
    by (auto simp: main_start_def main_store_cases Let_def split: sum.splits)
  from s(1) have "driver s = ''postgres''" by (rule NewDB_Inr) simp
  then have "unmarked (hstore (RTC srv))" using assms(3) s(2) by (simp add: unmarked_def NewHandler_def)
  with assms(4) have "unmarked (hstore h)" by (rule postgres_server.run_keeps)
  then show ?thesis using unmarked_calls(9) by (simp add: unmarked_def cleaner_tick_def db_store_def)
qed

definition ex_getenv :: "string \<Rightarrow> string" where
  "ex_getenv n = (if n = ''MUNINN_STORE_DRIVER'' then ''postgres'' else [])"

theorem postgres_deployment_never_marks_witness:
  "cleaner_tick db_store (ex_env []) (EmptyDB ''postgres'') = EmptyDB ''postgres''"
proof -
  let ?Open = "\<lambda>d dsn. Inr \<lparr>versions = None, contents = EmptyDB []\<rparr>"
  let ?srv = "NewServer (main_config (\<lambda>_. None) ex_getenv) (EmptyDB ''postgres'')"
  have "main_start (ex_env []) (\<lambda>b. b) (\<lambda>sql d. (None, d)) [] ?Open (\<lambda>_. None) ex_getenv = ServingDB ?srv"
    by (simp add: main_start_def main_store_cases NewDB_def driverMap_def driverSQLite_def driverPostgres_def
        migration_eval no_table_def ex_getenv_def Let_def) (simp add: EmptyDB_def)
  from postgres_deployment_never_marks [OF this _ _ rtranclp.rtrancl_refl] show ?thesis
    by (simp add: ex_getenv_def NewHandler_def EmptyDB_def)
qed

end
