(* ===== verification/DB_Queries.thy ===== *)
theory DB_Queries
  imports DB_Examples
begin

text \<open>
  The queries of the SQL store over many peers: the list, the look-up by login and key, and the
  rankings, while no statement fails and the clock stands still during the call.
\<close>

definition shown :: "peer_row \<Rightarrow> Peer" where
  "shown r = (abs_peer r)\<lparr>Login := r_key r\<rparr>"

lemma shown_simps [simp]: "ID (shown r) = r_id r" "(shown r)\<lparr>Flag := r_peer_flag r\<rparr> = shown r"
  by (simp_all add: shown_def abs_peer_def)

lemma fetch_row:
  assumes "calm E" and "db_inv s" and "r \<in> set (t_peers s)"
  shows "getPeerByID E tag (clock E k) (r_id r) s = (if row_active E r then Inr (shown r) else Inl ErrNotFound)"
  using getPeerByID_calm [OF assms(1,2), of "r_id r" tag k] db_lookup_mem [OF assms(2,3)] row_ok_mem [OF assms(2,3)]
  by (simp add: row_ok_def shown_def)

lemma shown_active [simp]: "dbStore_isExpired (shown r) (clock E 0) = (\<not> row_active E r)"
  by (simp add: dbStore_isExpired_eq row_active_def shown_def)

lemma fetch_active_calm:
  assumes "calm E" and "db_inv s" and "set rows \<subseteq> set (t_peers s)"
  shows "fetch_active E k rows s = map shown (filter (row_active E) rows)"
  using assms(3) fetch_row [OF assms(1,2)] by (induction rows arbitrary: k) auto

lemma fetch_scored_calm:
  assumes "calm E" and "db_inv s" and "set rows \<subseteq> set (t_peers s)"
  shows "fetch_scored E k rows s = map (\<lambda>p. (p, EffectiveScore p)) (map shown (filter (row_active E) rows))"
  using assms(3) fetch_row [OF assms(1,2)] by (induction rows arbitrary: k) auto

lemma first_n_map: "first_n n (map g xs) = map g (first_n n xs)"
  by (simp add: first_n_take take_map)

lemma ranked_rows:
  assumes "db_inv s"
  shows "top_n n (shown ` {r \<in> set (t_peers s). P r}) (first_n n (sort_by_score (map shown (filter P (t_peers s)))))"
proof -
  have "distinct (map r_id (filter P (t_peers s)))" using assms by (simp add: db_inv_def distinct_map_filter)
  then have "distinct (map shown (filter P (t_peers s)))"
    by (metis (mono_tags, lifting) comp_apply distinct_map map_cong map_map shown_simps(1))
  from top_n_sorted [OF this, of n] show ?thesis by simp
qed

lemma rankings_calm:
  assumes "calm E" and "\<not> n \<le>s 0" and "db_inv s"
  shows "dbStore_GetBestPeers E n s =
      Inr (first_n n (sort_by_score (map shown (filter (\<lambda>r. r_is_fake r = 0 \<and> row_active E r) (t_peers s)))))"
    and "dbStore_GetBestThickPeers E n s =
      Inr (first_n n (sort_by_score (map shown
        (filter (\<lambda>r. r_peer_flag r \<in> {''thick'', ''very_thick''} \<and> r_is_fake r = 0 \<and> row_active E r) (t_peers s)))))"
proof -
  have f: "set (filter P (t_peers s)) \<subseteq> set (t_peers s)" for P by auto
  show "dbStore_GetBestPeers E n s =
      Inr (first_n n (sort_by_score (map shown (filter (\<lambda>r. r_is_fake r = 0 \<and> row_active E r) (t_peers s)))))"
    using assms(2) by (simp add: dbStore_GetBestPeers_def calm_stmt [OF assms(1)] fetch_scored_calm [OF assms(1,3) f]
        sort_key_map first_n_map sort_by_score_def comp_def)
  show "dbStore_GetBestThickPeers E n s =
      Inr (first_n n (sort_by_score (map shown
        (filter (\<lambda>r. r_peer_flag r \<in> {''thick'', ''very_thick''} \<and> r_is_fake r = 0 \<and> row_active E r) (t_peers s)))))"
    using assms(2)
    by (simp add: dbStore_GetBestThickPeers_def calm_stmt [OF assms(1)] fetch_active_calm [OF assms(1,3) f])
qed



end
