(* ===== verification/Response_Types.thy ===== *)
theory Response_Types
  imports Server_Library
begin

text \<open>
  The shape of the responses: which JSON value and which status an endpoint answers with, over
  any store.
\<close>

datatype kind =
  KNone | KString | KError | KStatus | KPeer | KPeers | KReport | KConfirm | KRead | KChunks | KSignals

fun kind_of :: "payload option \<Rightarrow> kind" where
  "kind_of None = KNone"
| "kind_of (Some (PString t)) = KString"
| "kind_of (Some (PError msg)) = KError"
| "kind_of (Some (PStatus t)) = KStatus"
| "kind_of (Some (PPeer p)) = KPeer"
| "kind_of (Some (PPeers ps)) = KPeers"
| "kind_of (Some (PReport v)) = KReport"
| "kind_of (Some (PConfirm v)) = KConfirm"
| "kind_of (Some (PRead v)) = KRead"
| "kind_of (Some (PChunks cs)) = KChunks"
| "kind_of (Some (PSignals sigs)) = KSignals"

fun answer_kind :: "endpoint \<Rightarrow> kind" where
  "answer_kind EHealth = KStatus"
| "answer_kind ERegister = KString"
| "answer_kind ERefresh = KString"
| "answer_kind EGet = KPeer"
| "answer_kind EHeartbeat = KPeer"
| "answer_kind EList = KPeers"
| "answer_kind EGetByKey = KPeers"
| "answer_kind EGetBestPeers = KPeers"
| "answer_kind EGetBestThickPeers = KPeers"
| "answer_kind EReportChunk = KReport"
| "answer_kind EConfirmChunk = KConfirm"
| "answer_kind EReadChunk = KRead"
| "answer_kind EGetChunksByRecipient = KChunks"
| "answer_kind EGetChunksByFileID = KChunks"
| "answer_kind EPollSignals = KSignals"
| "answer_kind EDelete = KNone"
| "answer_kind ERegisterChunk = KNone"
| "answer_kind ERegisterChunkBatch = KNone"
| "answer_kind EConfirmChunkBatch = KNone"
| "answer_kind ESetSignal = KNone"
| "answer_kind EWebSocket = KNone"

definition error_answer :: "nat \<Rightarrow> payload option \<Rightarrow> bool" where
  "error_answer n c \<longleftrightarrow> (n = 400 \<or> n = 401 \<or> n = 404 \<or> n = 500) \<and> kind_of c = KError"

fun well_typed :: "endpoint \<Rightarrow> response \<Rightarrow> bool" where
  "well_typed e Aborted = True"
| "well_typed e (Response n c) =
     (error_answer n c \<or> kind_of c = answer_kind e \<and> n = (if kind_of c = KNone then 204 else 200))"

lemma well_typed_error [simp]:
  "n = 400 \<or> n = 401 \<or> n = 404 \<or> n = 500 \<Longrightarrow> well_typed e (writeError n msg)"
  by (auto simp: writeError_def writeJSON_def error_answer_def)

lemma well_typed_failure [simp]: "well_typed e (store_failure err)"
  by (simp add: store_failure_def writeStoreError_def split: error.split)

lemma well_typed_reply: "(\<And>v. well_typed e (ok v)) \<Longrightarrow> well_typed e (fst (reply ok r))"
  by (simp add: reply_def split: sum.split)

lemma well_typed_batch: "well_typed e NoContent \<Longrightarrow> well_typed e (fst (batch_reply r))"
  by (simp add: batch_reply_def split: option.split)


end
