(* ===== verification/Base_Properties.thy ===== *)
theory Base_Properties
  imports Store_Base
begin

text \<open>
  Properties of the quality arithmetic, the signed messages, the hashes and chunk keys and
  the expiry test, which both stores rely on.
\<close>

subsection \<open>Scores\<close>

text \<open>C15. While the power of a peer's quality score stays inside the 64-bit range,
  EffectiveScore is the signed power its comment describes: magnitude to the exponent of the
  peer flag, sign of the score.\<close>

theorem effective_score_exact:
  assumes "\<bar>sint (QualityScore p)\<bar> ^ unat (peerFlagExponent (Flag p)) < 2 ^ 63"
  shows "sint (EffectiveScore p) =
    sgn (sint (QualityScore p)) * \<bar>sint (QualityScore p)\<bar> ^ unat (peerFlagExponent (Flag p))"
  using EffectiveScore_eq [OF assms] by (simp add: signed_power_def)

theorem effective_score_exact_witness:
  "sint (EffectiveScore \<lparr>ID = ''p'', Login = [], EncryptionKey = [], SignatureKey = [], LastSeen = 0,
     TTLSeconds = 0, QualityScore = -1000, Quality = \<lparr>ValidReports = 0, InvalidReports = 0\<rparr>,
     Flag = PeerFlagThick, Fake = False\<rparr>) = -1000000"
  by (subst effective_score_exact)
    (simp_all add: peerFlagExponent_def PeerFlagThick_def PeerFlagThin_def)

text \<open>Between two peers with the same flag, both inside the range, the one with the
  higher quality score has the higher effective score.\<close>

theorem effective_score_order:
  assumes "Flag p = Flag q"
    and "\<bar>sint (QualityScore p)\<bar> ^ unat (peerFlagExponent (Flag p)) < 2 ^ 63"
    and "\<bar>sint (QualityScore q)\<bar> ^ unat (peerFlagExponent (Flag q)) < 2 ^ 63"
  shows "sint (EffectiveScore p) < sint (EffectiveScore q) \<longleftrightarrow> sint (QualityScore p) < sint (QualityScore q)"
proof -
  let ?e = "unat (peerFlagExponent (Flag p))"
  have "0 < ?e" by (rule peerFlagExponent_cases [of "Flag p"]) simp_all
  then have mono: "s < t \<Longrightarrow> signed_power s ?e < signed_power t ?e" for s t
    by (rule signed_power_strict_mono)
  have "sint (EffectiveScore p) = signed_power (sint (QualityScore p)) ?e"
    "sint (EffectiveScore q) = signed_power (sint (QualityScore q)) ?e"
    using EffectiveScore_eq [OF assms(2)] EffectiveScore_eq [OF assms(3)] assms(1) by simp_all
  then show ?thesis
    using mono [of "sint (QualityScore p)"] mono [of "sint (QualityScore q)" "sint (QualityScore p)"]
    by (metis less_irrefl linorder_neqE not_less_iff_gr_or_eq)
qed

definition score_peer :: "PeerFlag \<Rightarrow> int64 \<Rightarrow> Peer" where
  "score_peer fl n =
     \<lparr>ID = ''p'', Login = [], EncryptionKey = [], SignatureKey = [], LastSeen = 0, TTLSeconds = 0,
      QualityScore = n, Quality = \<lparr>ValidReports = 0, InvalidReports = 0\<rparr>, Flag = fl, Fake = False\<rparr>"

theorem effective_score_order_witness:
  "sint (EffectiveScore (score_peer PeerFlagThick (-5))) < sint (EffectiveScore (score_peer PeerFlagThick 3))"
  by (subst effective_score_order)
    (simp_all add: score_peer_def peerFlagExponent_def PeerFlagThick_def PeerFlagThin_def)

text \<open>Past the range the product wraps around: a very thick peer with the quality score
  2097152 = 2^21 gets the lowest effective score there is.\<close>

theorem effective_score_wraps:
  "sint (EffectiveScore (p\<lparr>Flag := PeerFlagVeryThick, QualityScore := 2097152\<rparr>)) = - (2 ^ 63)"
  by (simp add: EffectiveScore_def peerFlagExponent_def pow_loop_small PeerFlagVeryThick_def
      PeerFlagThick_def PeerFlagThin_def)

subsection \<open>Signed messages\<close>

text \<open>The messages of a chunk registration and of a confirmation determine the file, the
  chunk index and the hash they vouch for, even when file ids hold newlines.\<close>

theorem payload_determines_chunk:
  assumes "validHashFormat h" and "validHashFormat h'"
  shows "(ExpectedPayload f i h = ExpectedPayload f' i' h') = (f = f' \<and> i = i' \<and> h = h') \<and>
    (ConfirmedPayload f i h = ConfirmedPayload f' i' h') = (f = f' \<and> i = i' \<and> h = h')"
  using payload_tail_inject [of f i h f' i' h'] assms validHashFormat_no_newline
  by (auto simp: ExpectedPayload_def ConfirmedPayload_def)

theorem payload_determines_chunk_witness:
  "ExpectedPayload ''a'' 1 ''deadbeef01234567'' \<noteq> ExpectedPayload ''a'' 2 ''deadbeef01234567''"
  using payload_determines_chunk [of "''deadbeef01234567''" "''deadbeef01234567''" "''a''" 1 "''a''" 2]
  by (simp add: validHashFormat_def is_lower_hex_def)

text \<open>No message signed for one purpose is a message of another purpose: registrations,
  reports, confirmations and read receipts never coincide.\<close>

theorem payload_domains_disjoint:
  "ExpectedPayload f i h \<noteq> ReportedPayload f' i' h' p' \<and> ExpectedPayload f i h \<noteq> ConfirmedPayload f' i' h' \<and>
   ExpectedPayload f i h \<noteq> ReadPayload f' \<and> ReportedPayload f i h p \<noteq> ConfirmedPayload f' i' h' \<and>
   ReportedPayload f i h p \<noteq> ReadPayload f' \<and> ConfirmedPayload f i h \<noteq> ReadPayload f'"
  by (simp_all add: ExpectedPayload_def ReportedPayload_def ConfirmedPayload_def ReadPayload_def)

text \<open>The message of a report does not determine its fields: a newline in the source peer
  id shifts them, so one signature covers reports on different files and peers.\<close>

theorem reported_payload_ambiguous:
  "ReportedPayload f i h (s @ newline # Itoa j @ newline # g @ newline # t) =
   ReportedPayload (f @ newline # Itoa i @ newline # h @ newline # s) j g t"
  by (simp add: ReportedPayload_def)

text \<open>A signature made with the private half of a key verifies under the Base64 of its
  public half, for every scheme with Ed25519's sizes that accepts its own signatures.\<close>

theorem sign_verify_roundtrip:
  assumes "length (public_of k) = 32" and "length (ed25519_Sign k m) = 64"
    and "ed25519_Verify (public_of k) m (ed25519_Sign k m)"
  shows "Verify ed25519_Verify (PublicKeyBase64 (public_of k)) (Sign ed25519_Sign k m) m = Inr ()"
  using assms by (rule verify_signed)

theorem sign_verify_roundtrip_witness:
  "Verify (\<lambda>pub m sig. sig = pub @ pub) (PublicKeyBase64 (replicate 32 (CHR ''k'')))
     (Sign (\<lambda>k m. replicate 32 k @ replicate 32 k) (CHR ''k'') ''hello'') ''hello'' = Inr ()"
  by (rule sign_verify_roundtrip [where public_of = "\<lambda>k. replicate 32 k"]) simp_all

subsection \<open>Hashes and chunk keys\<close>

definition is_hex :: "char \<Rightarrow> bool" where
  "is_hex c \<longleftrightarrow> is_lower_hex c \<or> 65 \<le> (of_char c :: nat) \<and> (of_char c :: nat) \<le> 70"

lemma is_lower_hex_lower: "(of_char c :: nat) < 128 \<Longrightarrow> is_lower_hex (ascii_lower c) = is_hex c"
  by (auto simp: is_lower_hex_def ascii_lower_def is_hex_def)

text \<open>Among ASCII hashes, exactly sixteen hexadecimal digits of either case, with blanks
  around them, pass the format check, and normalising twice is normalising once.\<close>

theorem hash_accepted_iff:
  assumes "isASCII (TrimSpace h)"
  shows "(validHashFormat (normalizeHash E h) \<longleftrightarrow>
      length (TrimSpace h) = 16 \<and> list_all is_hex (TrimSpace h)) \<and>
    (validHashFormat (normalizeHash E h) \<longrightarrow> normalizeHash E (normalizeHash E h) = normalizeHash E h)"
proof (intro conjI impI)
  show "validHashFormat (normalizeHash E h) \<longleftrightarrow> length (TrimSpace h) = 16 \<and> list_all is_hex (TrimSpace h)"
    using assms is_lower_hex_lower
    by (auto simp: validHashFormat_def normalizeHash_def ToLower_def isASCII_def list_all_iff)
qed (rule normalizeHash_valid)

theorem hash_accepted_iff_witness:
  "validHashFormat (normalizeHash \<lparr>clock = (\<lambda>_. 0), scan = (\<lambda>_. []), fault = (\<lambda>_. None),
     ed25519 = (\<lambda>_ _ _. False), unicode_lower = (\<lambda>s. s)\<rparr> ''DEADbeef01234567'')"
proof -
  have t: "TrimSpace ''DEADbeef01234567'' = ''DEADbeef01234567''"
    by (rule TrimSpace_graphic) (simp add: graphic_def)
  show ?thesis
    by (subst hash_accepted_iff [THEN conjunct1]) (simp_all add: t isASCII_def is_hex_def is_lower_hex_def)
qed

text \<open>Chunk keys never collide: a key determines the file id and the index.\<close>

theorem chunk_key_injective: "chunkKey f i = chunkKey g j \<longleftrightarrow> f = g \<and> i = j"
  by (rule chunkKey_inject)

text \<open>Reading a chunk key back gives the file id and the index it was made from, when the
  file id holds no number sign.\<close>

theorem chunk_key_roundtrip:
  assumes "CHR ''#'' \<notin> set f"
  shows "parseChunkKey (chunkKey f i) = (f, i)"
  using assms by (rule parseChunkKey_chunkKey)

theorem chunk_key_roundtrip_witness: "parseChunkKey (chunkKey ''file'' 7) = (''file'', 7)"
  by (rule chunk_key_roundtrip) simp

text \<open>With a number sign in the file id the key is read back as a different file.\<close>

theorem chunk_key_misread: "fst (parseChunkKey (chunkKey (a @ CHR ''#'' # b) i)) \<noteq> a @ CHR ''#'' # b"
  using parseChunkKey_file [of "chunkKey (a @ CHR ''#'' # b) i"] by auto

subsection \<open>Expiry\<close>

text \<open>C23. A peer is expired exactly when more than its lifetime (300 seconds if it asked for
  none) has passed since it was last seen, for lifetimes up to 9223372036 seconds.\<close>

theorem expired_iff:
  assumes "sint (TTLSeconds p) \<le> 9223372036"
  shows "isExpired p now \<longleftrightarrow>
    LastSeen p + (if sint (TTLSeconds p) \<le> 0 then 300 else sint (TTLSeconds p)) * 1000000000 < now"
  using isExpired_iff [OF assms] by (simp add: ttl_of_def)

theorem expired_iff_witness:
  "\<not> isExpired (score_peer [] 0) 300000000000 \<and> isExpired (score_peer [] 0) 300000000001"
  by (subst expired_iff expired_iff, simp add: score_peer_def)+ (simp add: score_peer_def)

text \<open>A lifetime of ten billion seconds overflows the duration: the peer is expired in
  the moment it registers.\<close>

theorem long_lifetime_expires_at_once:
  "isExpired (p\<lparr>TTLSeconds := 10000000000\<rparr>) (LastSeen p)"
  by (simp add: isExpired_def word_sle_eq word_sless_alt time_Second_def time_Sub_def)

end
