(* ===== verification/Spec2Isabelle.thy ===== *)
theory Spec2Isabelle
  imports Startup DB_Queries Response_Types Base_Properties Peer_Properties Chunk_Properties Signaling_Properties Server_Properties
begin

text \<open>
  Muninn is a phone book for peer-to-peer nodes: a Go server where peers register under an id
  with a login and an Ed25519 key, announce the hashes of file chunks they send to each other,
  report and confirm what they received (which moves the quality score of the sender), and
  exchange WebRTC signals.

  \<^bold>\<open>Parts of the program and the theories that model them.\<close>

  \<^item> \<^verbatim>\<open>internal/model\<close>: structs and the key of a peer. Theory \<open>Model\<close>: one record per struct.
  \<^item> \<^verbatim>\<open>internal/sign\<close>: payloads, Base64 keys, signature check. Theory \<open>Sign\<close>; the Base64 and
    string functions of the Go library it needs are in \<open>Go_Base64\<close> and \<open>Go_Strings\<close>, byte by
    byte. Ed25519 itself is a parameter.
  \<^item> \<^verbatim>\<open>internal/store/store.go\<close>, \<^verbatim>\<open>hash.go\<close>, and the helpers both stores share: theory
    \<open>Store_Base\<close> (errors, effective scores, hashes, chunk keys, expiry). The interface
    \<^verbatim>\<open>Store\<close> is the record \<open>Store\<close> of theory \<open>Phonebook\<close>.
  \<^item> \<^verbatim>\<open>internal/store/memory.go\<close>: theory \<open>Memory_Store\<close>, every operation as a function of the
    state record \<open>MemoryStore\<close>.
  \<^item> \<^verbatim>\<open>internal/store/peer_store.go\<close> and \<^verbatim>\<open>db.go\<close>: theory \<open>DB_Store\<close>, the SQL store. The tables
    are lists of rows (\<open>peer_row\<close>, \<open>chunk_row\<close>, \<open>signal_row\<close>), every method is a function of the
    state record \<open>dbStore\<close>, and any statement may fail.
  \<^item> \<^verbatim>\<open>internal/store/migration.go\<close> and \<^verbatim>\<open>NewDB\<close>: theory \<open>Migrations\<close>. The embedded files, SHA-256
    and what a script does to the database are parameters.
  \<^item> \<^verbatim>\<open>internal/handler/phonebook.go\<close>: theory \<open>Phonebook\<close>, every handler over any store.
  \<^item> \<^verbatim>\<open>internal/webrtc/handler.go\<close>: theory \<open>Signaling\<close>, the websocket relay, split at the
    points where other connections can run.
  \<^item> \<^verbatim>\<open>internal/api/server.go\<close> and \<^verbatim>\<open>main.go\<close>: theory \<open>Server\<close>, routes, dispatch, cleaner,
    configuration and choice of store; theory \<open>Startup\<close>, the server object, the opening of the
    store and the outcome of start-up.

  \<^bold>\<open>How a call is modelled.\<close> A store call is a function from the state to an error or a value
  and the new state. What it reads from outside is its first argument, a record \<open>env\<close>: the
  clock, the order in which Go visits a map (with the clock at each visit), the signature check,
  Unicode lower-casing, and which database statements fail. Go's \<^verbatim>\<open>int\<close> and \<^verbatim>\<open>int64\<close> are 64-bit words that wrap around, times
  are integers in nanoseconds with the saturating subtraction of package \<^verbatim>\<open>time\<close>. Loops are
  recursive functions with their termination proofs; none needs fuel.

  \<^bold>\<open>What is shown.\<close>

  \<^item> \<open>Memory_Index\<close>, \<open>Memory_Invariants\<close>: the login index as an interface (locale
    \<open>id_index\<close>), the invariant of the store, its preservation by every operation, and the
    reachable states of all sequences of calls.
  \<^item> \<open>Memory_Queries\<close>, \<open>Memory_Effects\<close>, \<open>Mailbox\<close>: what look-ups collect, what one call may
    change of a peer or a chunk, that failed calls change nothing, and the queue of signals
    (locale \<open>mailbox\<close>). \<open>Memory_Examples\<close> holds a small run for the witnesses.
  \<^item> \<open>Base_Properties\<close>: scores, payloads, signatures, hashes, chunk keys and expiry,
    with the places where 64-bit overflow or ambiguous separators break them.
  \<^item> \<open>Peer_Properties\<close>, \<open>Chunk_Properties\<close>: registration, pinned keys, look-ups and rankings;
    who can register, report, confirm and read a chunk and with which effect; immutability of
    registered chunks; purge; order of signals.
  \<^item> \<open>Signaling_Properties\<close>: what a relayed signal becomes (locale \<open>signal_store\<close>), and three
    schedules in which the relay drops or delays signals.
  \<^item> \<open>Server_Library\<close>, \<open>Server_Properties\<close>: error responses leave the store unchanged (locale
    \<open>atomic_store\<close>), batches stop at the first bad entry and keep the ones before it, status
    codes, routing, and that all states of the running server are states of the store's own
    transition system.

  \<^item> \<open>Response_Types\<close>: which status and which JSON value an endpoint answers with.
  \<^item> \<open>DB_Library\<close>, \<open>DB_Refinement\<close>: the invariant of the tables under any failures, and the
    simulation of the SQL store by the in-memory store, one lemma per call, with the condition
    \<open>agree\<close> that lists where the two differ.
  \<^item> \<open>DB_Server\<close>: the server over any store (locale \<open>invariant_store\<close>): what every call keeps, every
    request, cleaner tick and websocket step keeps.
  \<^item> \<open>DB_Queries\<close>: what lists, look-ups by key and rankings of the SQL store return.
  \<^item> \<open>DB_Properties\<close>, \<open>DB_Failures\<close> (with the run of \<open>DB_Examples\<close>): pinned identities, authentic
    registrations and confirmations, signals in order, which failing calls leave the tables alone,
    and the calls that cannot succeed.
  \<^item> \<open>Migration_Library\<close>, \<open>Migration_Properties\<close>: a run executes and records the pending
    migrations, a second run does nothing, a failed run resumes, the order of the files.
  \<^item> \<open>Startup\<close>: no silent fallback to an empty store, and what a PostgreSQL deployment never does.

  \<^bold>\<open>Not modelled.\<close> JSON decoding is a parameter of the handlers. The SQL text of the migrations
  and its execution by a database are parameters: the columns of the tables are taken from them,
  their effect is not. Statements of different SQL calls do not interleave in the model, and a
  result set does not break off. Logging, sockets, time-outs and signals of the operating system
  are input and output only. \<^verbatim>\<open>dbStore.Close\<close> closes the connection pool, and \<^verbatim>\<open>jsonString\<close> is not
  called. Data races (\<^verbatim>\<open>Refresh\<close> of the in-memory store and three methods of the websocket
  handler take the wrong lock or none) are outside a model in which every critical section is
  one step.
\<close>

end
